(* ===== verification/Prelude.thy ===== *)
theory Prelude
  imports Main "HOL-Library.Word" "HOL-Library.AList"
begin

text \<open>
  Shared vocabulary of the development.

  \<^item> Rust's fixed width integers: \<open>u64\<close> and \<open>u32\<close> are machine words, \<open>i64\<close> is an
    integer whose two's complement casts to and from \<open>u64\<close> are written out, \<open>usize\<close> counts
    lengths and is a natural number.
  \<^item> Outcomes of Rust code: \<open>Ok\<close>, \<open>Err\<close> and \<open>Panic\<close> (an \<open>unwrap\<close>, \<open>expect\<close>,
    \<open>todo!\<close> or \<open>panic!\<close> that fires), and state transformers that keep the state reached
    before an error, since nothing in the code rolls back.
  \<^item> \<open>HashMap\<close> as an association list with distinct keys. The list order stands for the
    iteration order of the map, which Rust leaves unspecified; the interface every client uses is
    the locale \<open>keyed_map\<close>, and \<open>hm\<close> is its interpretation.
  \<^item> Stable sorting by a descending key and the generic lemmas about folds the components share.
\<close>

section \<open>Collections of facts\<close>

named_theorems outcome_simps \<open>evaluation of outcomes and state transformers\<close>
named_theorems bit_facts \<open>what single bits of permission words are\<close>
named_theorems table_simps \<open>unfolding of the tables of the reference database\<close>
named_theorems invariant_intros \<open>operations that keep a component's invariant\<close>

section \<open>Integers\<close>

type_synonym u64 = "64 word"
type_synonym u32 = "32 word"
type_synonym i64 = int
type_synonym usize = nat

text \<open>\<open>x as u64\<close> for an \<open>i64\<close> and \<open>w as i64\<close> for a \<open>u64\<close>: the same 64 bits, read
  with and without a sign.\<close>

definition i64_as_u64 :: "i64 \<Rightarrow> u64" where
  "i64_as_u64 x = word_of_int x"

definition u64_as_i64 :: "u64 \<Rightarrow> i64" where
  "u64_as_i64 w = sint w"

definition usize_as_i64 :: "usize \<Rightarrow> i64" where
  "usize_as_i64 n = u64_as_i64 (word_of_nat n)"

definition i64_range :: "i64 \<Rightarrow> bool" where
  "i64_range x \<longleftrightarrow> - (2 ^ 63) \<le> x \<and> x < 2 ^ 63"

definition i64_max :: i64 where
  "i64_max = 2 ^ 63 - 1"

lemma u64_as_i64_as_u64 [simp]: "i64_as_u64 (u64_as_i64 w) = w"
  by (simp add: i64_as_u64_def u64_as_i64_def)

lemma i64_as_u64_as_i64: "i64_range x \<Longrightarrow> u64_as_i64 (i64_as_u64 x) = x"
  by (simp add: i64_as_u64_def u64_as_i64_def i64_range_def signed_of_int
      signed_take_bit_int_eq_self)

lemma u64_as_i64_range: "i64_range (u64_as_i64 w)"
  using sint_greater_eq [of w] sint_less [of w]
  by (simp add: u64_as_i64_def i64_range_def)

lemma usize_as_i64_small:
  assumes "n < 2 ^ 63"
  shows "usize_as_i64 n = int n"
proof -
  have "int n < 2 ^ 63" using assms by (metis of_nat_less_iff of_nat_numeral of_nat_power)
  moreover have "- (2 ^ 63) \<le> int n" by (rule order_trans [of _ 0]) simp_all
  ultimately have "i64_range (int n)" by (simp only: i64_range_def)
  then have "u64_as_i64 (i64_as_u64 (int n)) = int n" by (rule i64_as_u64_as_i64)
  then show ?thesis by (simp only: usize_as_i64_def i64_as_u64_def of_int_of_nat_eq)
qed

section \<open>Outcomes and state transformers\<close>

datatype ('e, 'a) res = Ok 'a | Err 'e | Panic

fun res_bind :: "('e, 'a) res \<Rightarrow> ('a \<Rightarrow> ('e, 'b) res) \<Rightarrow> ('e, 'b) res" where
  "res_bind (Ok x) k = k x"
| "res_bind (Err e) k = Err e"
| "res_bind Panic k = Panic"

fun is_ok :: "('e, 'a) res \<Rightarrow> bool" where
  "is_ok (Ok x) = True"
| "is_ok (Err e) = False"
| "is_ok Panic = False"

text \<open>\<open>collect::<Result<Vec<_>>>()\<close>: the values, or the first failure.\<close>

fun collect_res :: "('e, 'a) res list \<Rightarrow> ('e, 'a list) res" where
  "collect_res [] = Ok []"
| "collect_res (r # rs) = res_bind r (\<lambda>x. res_bind (collect_res rs) (\<lambda>xs. Ok (x # xs)))"

definition ok_or :: "'a option \<Rightarrow> 'e \<Rightarrow> ('e, 'a) res" where
  "ok_or x e = (case x of None \<Rightarrow> Err e | Some v \<Rightarrow> Ok v)"

lemma res_bind_Ok: "res_bind r k = Ok y \<longleftrightarrow> (\<exists>x. r = Ok x \<and> k x = Ok y)"
  by (cases r) auto

text \<open>Byte-wise comparison of strings.\<close>

fun str_less :: "string \<Rightarrow> string \<Rightarrow> bool" where
  "str_less xs [] = False"
| "str_less [] (y # ys) = True"
| "str_less (x # xs) (y # ys) =
     ((of_char x :: nat) < of_char y \<or> (x = y \<and> str_less xs ys))"

text \<open>A fallible step on a state \<open>'s\<close>. Effects made before an error stay.\<close>

type_synonym ('s, 'e, 'a) io = "'s \<Rightarrow> ('e, 'a) res \<times> 's"

definition io_return :: "'a \<Rightarrow> ('s, 'e, 'a) io" where
  "io_return x = (\<lambda>s. (Ok x, s))"

definition io_fail :: "'e \<Rightarrow> ('s, 'e, 'a) io" where
  "io_fail e = (\<lambda>s. (Err e, s))"

definition io_panic :: "('s, 'e, 'a) io" where
  "io_panic = (\<lambda>s. (Panic, s))"

definition io_bind :: "('s, 'e, 'a) io \<Rightarrow> ('a \<Rightarrow> ('s, 'e, 'b) io) \<Rightarrow> ('s, 'e, 'b) io" where
  "io_bind m k = (\<lambda>s. case m s of (Ok x, s') \<Rightarrow> k x s' | (Err e, s') \<Rightarrow> (Err e, s') | (Panic, s') \<Rightarrow> (Panic, s'))"

text \<open>\<open>m; k\<close> where the result of \<open>m\<close> is not used, and a result that is discarded with
  \<open>.ok()\<close> or \<open>let _ =\<close>: an error is dropped, a panic is not.\<close>

definition io_then :: "('s, 'e, 'a) io \<Rightarrow> ('s, 'e, 'b) io \<Rightarrow> ('s, 'e, 'b) io" where
  "io_then m k = io_bind m (\<lambda>_. k)"

definition io_discard :: "('s, 'e, 'a) io \<Rightarrow> ('s, 'e, unit) io" where
  "io_discard m = (\<lambda>s. case m s of (Ok x, s') \<Rightarrow> (Ok (), s') | (Err e, s') \<Rightarrow> (Ok (), s') | (Panic, s') \<Rightarrow> (Panic, s'))"

text \<open>Reading the state, and updating it with a step that cannot fail.\<close>

definition io_read :: "('s \<Rightarrow> ('e, 'a) res) \<Rightarrow> ('s, 'e, 'a) io" where
  "io_read f = (\<lambda>s. (f s, s))"

definition io_modify :: "('s \<Rightarrow> 's) \<Rightarrow> ('s, 'e, unit) io" where
  "io_modify f = (\<lambda>s. (Ok (), f s))"

lemmas [outcome_simps] = ok_or_def io_return_def io_fail_def io_panic_def io_bind_def io_then_def
  io_discard_def io_read_def io_modify_def

lemma ok_or_Ok [simp]: "ok_or x e = Ok v \<longleftrightarrow> x = Some v"
  by (auto simp: ok_or_def split: option.splits)

lemma is_ok_iff: "is_ok r \<longleftrightarrow> (\<exists>x. r = Ok x)"
  by (cases r) auto

lemma io_bind_Ok_iff:
  "io_bind m k s = (Ok y, s'') \<longleftrightarrow> (\<exists>x s'. m s = (Ok x, s') \<and> k x s' = (Ok y, s''))"
  by (auto simp: io_bind_def split: prod.splits res.splits)

lemma io_bind_returns [simp]: "io_bind (io_return x) k = k x"
  by (simp add: io_bind_def io_return_def)

lemma io_bind_fails [simp]: "io_bind (io_fail e) k = io_fail e"
  by (simp add: io_bind_def io_fail_def)

section \<open>Hash maps\<close>

type_synonym ('k, 'v) hash_map = "('k \<times> 'v) list"

text \<open>\<open>contains_key\<close>, \<open>values\<close>, \<open>retain\<close> and the in place update of \<open>get_mut\<close>.\<close>

definition hm_contains :: "('k, 'v) hash_map \<Rightarrow> 'k \<Rightarrow> bool" where
  "hm_contains m k \<longleftrightarrow> map_of m k \<noteq> None"

definition hm_values :: "('k, 'v) hash_map \<Rightarrow> 'v list" where
  "hm_values m = map snd m"

definition hm_retain :: "('k \<Rightarrow> 'v \<Rightarrow> bool) \<Rightarrow> ('k, 'v) hash_map \<Rightarrow> ('k, 'v) hash_map" where
  "hm_retain P m = filter (\<lambda>(k, v). P k v) m"

definition hm_adjust :: "'k \<Rightarrow> ('v \<Rightarrow> 'v) \<Rightarrow> ('k, 'v) hash_map \<Rightarrow> ('k, 'v) hash_map" where
  "hm_adjust k f m = map (\<lambda>(k', v). (k', if k' = k then f v else v)) m"

definition hm_wf :: "('k, 'v) hash_map \<Rightarrow> bool" where
  "hm_wf m \<longleftrightarrow> distinct (map fst m)"

lemma map_of_hm_adjust:
  "map_of (hm_adjust k f m) k' = (if k' = k then map_option f (map_of m k) else map_of m k')"
  by (induction m) (auto simp: hm_adjust_def)

lemma map_fst_hm_adjust [simp]: "map fst (hm_adjust k f m) = map fst m"
  by (induction m) (auto simp: hm_adjust_def)

lemma length_hm_adjust [simp]: "length (hm_adjust k f m) = length m"
  by (simp add: hm_adjust_def)

lemma map_of_hm_retain:
  assumes "hm_wf m"
  shows "map_of (hm_retain P m) k = (case map_of m k of None \<Rightarrow> None | Some v \<Rightarrow> if P k v then Some v else None)"
  using assms
proof (induction m)
  case Nil
  then show ?case by (simp add: hm_retain_def)
next
  case (Cons kv m)
  then show ?case
    by (cases kv) (auto simp: hm_retain_def hm_wf_def map_of_eq_None_iff split: option.splits)
qed

lemma hm_wf_filter: "hm_wf m \<Longrightarrow> hm_wf (filter Q m)"
  by (induction m) (auto simp: hm_wf_def)

lemma length_hm_update: "length (AList.update k v m) = (if hm_contains m k then length m else Suc (length m))"
  by (induction m) (auto simp: hm_contains_def)

text \<open>The contract of a map: what a lookup returns after each update, and that every operation
  keeps the keys distinct.\<close>

locale keyed_map =
  fixes empty :: "'m"
    and get :: "'m \<Rightarrow> 'k \<Rightarrow> 'v option"
    and insert :: "'k \<Rightarrow> 'v \<Rightarrow> 'm \<Rightarrow> 'm"
    and remove :: "'k \<Rightarrow> 'm \<Rightarrow> 'm"
    and retain :: "('k \<Rightarrow> 'v \<Rightarrow> bool) \<Rightarrow> 'm \<Rightarrow> 'm"
    and adjust :: "'k \<Rightarrow> ('v \<Rightarrow> 'v) \<Rightarrow> 'm \<Rightarrow> 'm"
    and wf :: "'m \<Rightarrow> bool"
  assumes get_empty: "get empty k = None"
    and get_insert: "get (insert k v m) k' = (if k' = k then Some v else get m k')"
    and get_remove: "get (remove k m) k' = (if k' = k then None else get m k')"
    and get_retain: "wf m \<Longrightarrow> get (retain P m) k =
      (case get m k of None \<Rightarrow> None | Some v \<Rightarrow> if P k v then Some v else None)"
    and get_adjust: "get (adjust k f m) k' = (if k' = k then map_option f (get m k) else get m k')"
    and wf_empty: "wf empty"
    and wf_insert: "wf m \<Longrightarrow> wf (insert k v m)"
    and wf_remove: "wf m \<Longrightarrow> wf (remove k m)"
    and wf_retain: "wf m \<Longrightarrow> wf (retain P m)"
    and wf_adjust: "wf m \<Longrightarrow> wf (adjust k f m)"
begin

lemma get_insert_same: "get (insert k v m) k = Some v"
  by (simp add: get_insert)

lemma get_remove_same: "get (remove k m) k = None"
  by (simp add: get_remove)

lemma remove_insert_other: "k' \<noteq> k \<Longrightarrow> get (remove k (insert k v m)) k' = get m k'"
  by (simp add: get_insert get_remove)

lemma get_retain_Some: "wf m \<Longrightarrow> get (retain P m) k = Some v \<longleftrightarrow> get m k = Some v \<and> P k v"
  by (auto simp: get_retain split: option.splits)

lemmas get_simps = get_empty get_insert get_remove get_adjust
lemmas wf_intros = wf_empty wf_insert wf_remove wf_retain wf_adjust

end

interpretation hm: keyed_map "[]" map_of AList.update AList.delete hm_retain hm_adjust hm_wf
proof unfold_locales
  show "map_of (AList.update k v m) k' = (if k' = k then Some v else map_of m k')" for k v m k'
    by (simp add: update_conv')
  show "map_of (AList.delete k m) k' = (if k' = k then None else map_of m k')" for k m k'
    by (simp add: delete_conv')
  show "hm_wf (AList.update k v m)" if "hm_wf m" for k v m
    using that by (simp add: hm_wf_def distinct_update)
  show "hm_wf (AList.delete k m)" if "hm_wf m" for k m
    using that by (simp add: AList.delete_eq hm_wf_filter)
  show "hm_wf (hm_retain P m)" if "hm_wf m" for P m
    using that by (simp add: hm_retain_def hm_wf_filter)
qed (auto simp: map_of_hm_retain map_of_hm_adjust hm_wf_def)

lemmas [invariant_intros] = hm.wf_intros

section \<open>Sorting and folding\<close>

text \<open>\<open>sort_by(|a, b| b.0.cmp(&a.0))\<close>: stable, highest key first.\<close>

definition sort_desc :: "('a \<Rightarrow> int) \<Rightarrow> 'a list \<Rightarrow> 'a list" where
  "sort_desc f xs = sort_key (\<lambda>x. - f x) xs"

lemma set_sort_desc [simp]: "set (sort_desc f xs) = set xs"
  by (simp add: sort_desc_def)

lemma sort_desc_Nil [simp]: "sort_desc f [] = []"
  by (simp add: sort_desc_def)

lemma sorted_sort_desc: "sorted (map (\<lambda>x. - f x) (sort_desc f xs))"
  by (simp add: sort_desc_def)

end
