(* ===== verification/Result_Errors.thy ===== *)
theory Result_Errors
  imports Prelude
begin

text \<open>
  The error type every fallible operation of the platform returns (\<open>crates/core/result\<close>) and
  its two HTTP renderings, one for the axum services and one for the Rocket API.

  \<open>error_type\<close> has the constructors of \<open>ErrorType\<close> in \<open>lib.rs\<close>; the \<open>location\<close> an
  \<open>Error\<close> carries is diagnostic text and is left out. \<open>axum_status\<close> and \<open>rocket_status\<close>
  are the two \<open>match\<close> expressions, arm by arm.
\<close>

section \<open>Error types\<close>

datatype (plugins only: ) error_type =
    LabelMe
  | AlreadyOnboarded
  | UsernameTaken
  | InvalidUsername
  | DiscriminatorChangeRatelimited
  | UnknownUser
  | AlreadyFriends
  | AlreadySentRequest
  | Blocked
  | BlockedByOther
  | NotFriends
  | TooManyPendingFriendRequests usize
  | UnknownChannel
  | UnknownAttachment
  | UnknownMessage
  | CannotEditMessage
  | CannotJoinCall
  | TooManyAttachments usize
  | TooManyEmbeds usize
  | TooManyReplies usize
  | TooManyChannels usize
  | EmptyMessage
  | PayloadTooLarge
  | CannotRemoveYourself
  | GroupTooLarge usize
  | AlreadyInGroup
  | NotInGroup
  | AlreadyPinned
  | NotPinned
  | UnknownServer
  | InvalidRole
  | Banned
  | TooManyServers usize string
  | TooManyEmoji usize
  | TooManyRoles usize
  | AlreadyInServer
  | CannotTimeoutYourself
  | ReachedMaximumBots
  | IsBot
  | IsNotBot
  | BotIsPrivate
  | TooManyBotCommands
  | DuplicateCommandName
  | UnknownInteraction
  | AICompanionBotExists
  | AICompanionServerLimit string
  | LicenseVerificationFailed string
  | BotMissingEncryptionKey
  | InvalidPublicKey string
  | EncryptionKeyNotFound
  | InvitationExpired
  | EncryptionError string
  | CannotReportYourself
  | MissingPermission string
  | MissingUserPermission string
  | NotElevated
  | NotPrivileged
  | CannotGiveMissingPermissions
  | NotOwner
  | IsElevated
  | DatabaseError string string
  | InternalError
  | InvalidOperation
  | InvalidCredentials
  | InvalidProperty
  | InvalidSession
  | InvalidFlagValue
  | NotAuthenticated
  | DuplicateNonce
  | NotFound
  | NoEffect
  | FailedValidation string
  | LiveKitUnavailable
  | NotAVoiceChannel
  | AlreadyConnected
  | NotConnected
  | UnknownNode
  | ProxyError
  | FileTooSmall
  | FileTooLarge usize
  | FileTypeNotAllowed
  | ImageProcessingFailed
  | NoEmbedData
  | VosoUnavailable
  | FeatureDisabled string
  | InsufficientTier string string
  | ServerMemberLimitReached usize string
  | ViewerLimitReached usize string
  | ClipDailyLimitReached usize string
  | ClipStorageLimitReached usize string
  | ClipDurationNotAllowed
  | ClippingNotEnabled
  | BitrateExceedsTier u32 string
  | StripeError string
  | AlreadySubscribed
  | NoActiveSubscription

type_synonym 'a result = "(error_type, 'a) res"

section \<open>HTTP statuses\<close>

datatype status_code =
    OK
  | BAD_REQUEST
  | UNAUTHORIZED
  | FORBIDDEN
  | NOT_FOUND
  | CONFLICT
  | GONE
  | UNPROCESSABLE_ENTITY
  | TOO_MANY_REQUESTS
  | INTERNAL_SERVER_ERROR
  | BAD_GATEWAY

primrec status_value :: "status_code \<Rightarrow> nat" where
  "status_value OK = 200"
| "status_value BAD_REQUEST = 400"
| "status_value UNAUTHORIZED = 401"
| "status_value FORBIDDEN = 403"
| "status_value NOT_FOUND = 404"
| "status_value CONFLICT = 409"
| "status_value GONE = 410"
| "status_value UNPROCESSABLE_ENTITY = 422"
| "status_value TOO_MANY_REQUESTS = 429"
| "status_value INTERNAL_SERVER_ERROR = 500"
| "status_value BAD_GATEWAY = 502"

text \<open>\<open>IntoResponse for Error\<close> in \<open>axum.rs\<close>.\<close>

primrec axum_status :: "error_type \<Rightarrow> status_code" where
  "axum_status LabelMe = INTERNAL_SERVER_ERROR"
| "axum_status AlreadyOnboarded = FORBIDDEN"
| "axum_status UsernameTaken = CONFLICT"
| "axum_status InvalidUsername = BAD_REQUEST"
| "axum_status DiscriminatorChangeRatelimited = TOO_MANY_REQUESTS"
| "axum_status UnknownUser = NOT_FOUND"
| "axum_status AlreadyFriends = CONFLICT"
| "axum_status AlreadySentRequest = CONFLICT"
| "axum_status Blocked = CONFLICT"
| "axum_status BlockedByOther = FORBIDDEN"
| "axum_status NotFriends = FORBIDDEN"
| "axum_status (TooManyPendingFriendRequests limit) = BAD_REQUEST"
| "axum_status UnknownChannel = NOT_FOUND"
| "axum_status UnknownAttachment = BAD_REQUEST"
| "axum_status UnknownMessage = NOT_FOUND"
| "axum_status CannotEditMessage = FORBIDDEN"
| "axum_status CannotJoinCall = BAD_REQUEST"
| "axum_status (TooManyAttachments limit) = BAD_REQUEST"
| "axum_status (TooManyEmbeds limit) = BAD_REQUEST"
| "axum_status (TooManyReplies limit) = BAD_REQUEST"
| "axum_status (TooManyChannels limit) = BAD_REQUEST"
| "axum_status EmptyMessage = UNPROCESSABLE_ENTITY"
| "axum_status PayloadTooLarge = UNPROCESSABLE_ENTITY"
| "axum_status CannotRemoveYourself = BAD_REQUEST"
| "axum_status (GroupTooLarge limit) = FORBIDDEN"
| "axum_status AlreadyInGroup = CONFLICT"
| "axum_status NotInGroup = NOT_FOUND"
| "axum_status AlreadyPinned = BAD_REQUEST"
| "axum_status NotPinned = BAD_REQUEST"
| "axum_status UnknownServer = NOT_FOUND"
| "axum_status InvalidRole = NOT_FOUND"
| "axum_status Banned = FORBIDDEN"
| "axum_status (TooManyServers limit message) = BAD_REQUEST"
| "axum_status (TooManyEmoji limit) = BAD_REQUEST"
| "axum_status (TooManyRoles limit) = BAD_REQUEST"
| "axum_status AlreadyInServer = CONFLICT"
| "axum_status CannotTimeoutYourself = BAD_REQUEST"
| "axum_status ReachedMaximumBots = BAD_REQUEST"
| "axum_status IsBot = BAD_REQUEST"
| "axum_status IsNotBot = BAD_REQUEST"
| "axum_status BotIsPrivate = FORBIDDEN"
| "axum_status TooManyBotCommands = BAD_REQUEST"
| "axum_status DuplicateCommandName = CONFLICT"
| "axum_status UnknownInteraction = NOT_FOUND"
| "axum_status AICompanionBotExists = CONFLICT"
| "axum_status (AICompanionServerLimit message) = FORBIDDEN"
| "axum_status (LicenseVerificationFailed message) = FORBIDDEN"
| "axum_status BotMissingEncryptionKey = BAD_REQUEST"
| "axum_status (InvalidPublicKey message) = BAD_REQUEST"
| "axum_status EncryptionKeyNotFound = NOT_FOUND"
| "axum_status InvitationExpired = GONE"
| "axum_status (EncryptionError message) = INTERNAL_SERVER_ERROR"
| "axum_status CannotReportYourself = BAD_REQUEST"
| "axum_status (MissingPermission permission) = FORBIDDEN"
| "axum_status (MissingUserPermission permission) = FORBIDDEN"
| "axum_status NotElevated = FORBIDDEN"
| "axum_status NotPrivileged = FORBIDDEN"
| "axum_status CannotGiveMissingPermissions = FORBIDDEN"
| "axum_status NotOwner = FORBIDDEN"
| "axum_status IsElevated = FORBIDDEN"
| "axum_status (DatabaseError operation collection) = INTERNAL_SERVER_ERROR"
| "axum_status InternalError = INTERNAL_SERVER_ERROR"
| "axum_status InvalidOperation = BAD_REQUEST"
| "axum_status InvalidCredentials = UNAUTHORIZED"
| "axum_status InvalidProperty = BAD_REQUEST"
| "axum_status InvalidSession = UNAUTHORIZED"
| "axum_status InvalidFlagValue = BAD_REQUEST"
| "axum_status NotAuthenticated = UNAUTHORIZED"
| "axum_status DuplicateNonce = CONFLICT"
| "axum_status NotFound = NOT_FOUND"
| "axum_status NoEffect = OK"
| "axum_status (FailedValidation error) = BAD_REQUEST"
| "axum_status LiveKitUnavailable = BAD_REQUEST"
| "axum_status NotAVoiceChannel = BAD_REQUEST"
| "axum_status AlreadyConnected = BAD_REQUEST"
| "axum_status NotConnected = BAD_REQUEST"
| "axum_status UnknownNode = BAD_REQUEST"
| "axum_status ProxyError = BAD_REQUEST"
| "axum_status FileTooSmall = UNPROCESSABLE_ENTITY"
| "axum_status (FileTooLarge limit) = UNPROCESSABLE_ENTITY"
| "axum_status FileTypeNotAllowed = BAD_REQUEST"
| "axum_status ImageProcessingFailed = INTERNAL_SERVER_ERROR"
| "axum_status NoEmbedData = BAD_REQUEST"
| "axum_status VosoUnavailable = BAD_REQUEST"
| "axum_status (FeatureDisabled feature) = BAD_REQUEST"
| "axum_status (InsufficientTier required message) = FORBIDDEN"
| "axum_status (ServerMemberLimitReached limit message) = FORBIDDEN"
| "axum_status (ViewerLimitReached limit message) = FORBIDDEN"
| "axum_status (ClipDailyLimitReached limit message) = FORBIDDEN"
| "axum_status (ClipStorageLimitReached limit message) = FORBIDDEN"
| "axum_status ClipDurationNotAllowed = FORBIDDEN"
| "axum_status ClippingNotEnabled = FORBIDDEN"
| "axum_status (BitrateExceedsTier limit message) = FORBIDDEN"
| "axum_status (StripeError message) = BAD_GATEWAY"
| "axum_status AlreadySubscribed = CONFLICT"
| "axum_status NoActiveSubscription = NOT_FOUND"

text \<open>\<open>Responder for Error\<close> in \<open>rocket.rs\<close>.\<close>

primrec rocket_status :: "error_type \<Rightarrow> status_code" where
  "rocket_status LabelMe = INTERNAL_SERVER_ERROR"
| "rocket_status AlreadyOnboarded = FORBIDDEN"
| "rocket_status UsernameTaken = CONFLICT"
| "rocket_status InvalidUsername = BAD_REQUEST"
| "rocket_status DiscriminatorChangeRatelimited = TOO_MANY_REQUESTS"
| "rocket_status UnknownUser = NOT_FOUND"
| "rocket_status AlreadyFriends = CONFLICT"
| "rocket_status AlreadySentRequest = CONFLICT"
| "rocket_status Blocked = CONFLICT"
| "rocket_status BlockedByOther = FORBIDDEN"
| "rocket_status NotFriends = FORBIDDEN"
| "rocket_status (TooManyPendingFriendRequests limit) = BAD_REQUEST"
| "rocket_status UnknownChannel = NOT_FOUND"
| "rocket_status UnknownAttachment = BAD_REQUEST"
| "rocket_status UnknownMessage = NOT_FOUND"
| "rocket_status CannotEditMessage = FORBIDDEN"
| "rocket_status CannotJoinCall = BAD_REQUEST"
| "rocket_status (TooManyAttachments limit) = BAD_REQUEST"
| "rocket_status (TooManyEmbeds limit) = BAD_REQUEST"
| "rocket_status (TooManyReplies limit) = BAD_REQUEST"
| "rocket_status (TooManyChannels limit) = BAD_REQUEST"
| "rocket_status EmptyMessage = UNPROCESSABLE_ENTITY"
| "rocket_status PayloadTooLarge = UNPROCESSABLE_ENTITY"
| "rocket_status CannotRemoveYourself = BAD_REQUEST"
| "rocket_status (GroupTooLarge limit) = FORBIDDEN"
| "rocket_status AlreadyInGroup = CONFLICT"
| "rocket_status NotInGroup = NOT_FOUND"
| "rocket_status AlreadyPinned = BAD_REQUEST"
| "rocket_status NotPinned = BAD_REQUEST"
| "rocket_status UnknownServer = NOT_FOUND"
| "rocket_status InvalidRole = NOT_FOUND"
| "rocket_status Banned = FORBIDDEN"
| "rocket_status (TooManyServers limit message) = BAD_REQUEST"
| "rocket_status (TooManyEmoji limit) = BAD_REQUEST"
| "rocket_status (TooManyRoles limit) = BAD_REQUEST"
| "rocket_status AlreadyInServer = CONFLICT"
| "rocket_status CannotTimeoutYourself = BAD_REQUEST"
| "rocket_status ReachedMaximumBots = BAD_REQUEST"
| "rocket_status IsBot = BAD_REQUEST"
| "rocket_status IsNotBot = BAD_REQUEST"
| "rocket_status BotIsPrivate = FORBIDDEN"
| "rocket_status TooManyBotCommands = BAD_REQUEST"
| "rocket_status DuplicateCommandName = CONFLICT"
| "rocket_status UnknownInteraction = NOT_FOUND"
| "rocket_status AICompanionBotExists = CONFLICT"
| "rocket_status (AICompanionServerLimit message) = FORBIDDEN"
| "rocket_status (LicenseVerificationFailed message) = FORBIDDEN"
| "rocket_status BotMissingEncryptionKey = BAD_REQUEST"
| "rocket_status (InvalidPublicKey message) = BAD_REQUEST"
| "rocket_status EncryptionKeyNotFound = NOT_FOUND"
| "rocket_status InvitationExpired = GONE"
| "rocket_status (EncryptionError message) = INTERNAL_SERVER_ERROR"
| "rocket_status CannotReportYourself = BAD_REQUEST"
| "rocket_status (MissingPermission permission) = FORBIDDEN"
| "rocket_status (MissingUserPermission permission) = FORBIDDEN"
| "rocket_status NotElevated = FORBIDDEN"
| "rocket_status NotPrivileged = FORBIDDEN"
| "rocket_status CannotGiveMissingPermissions = FORBIDDEN"
| "rocket_status NotOwner = FORBIDDEN"
| "rocket_status IsElevated = FORBIDDEN"
| "rocket_status (DatabaseError operation collection) = INTERNAL_SERVER_ERROR"
| "rocket_status InternalError = INTERNAL_SERVER_ERROR"
| "rocket_status InvalidOperation = BAD_REQUEST"
| "rocket_status InvalidCredentials = UNAUTHORIZED"
| "rocket_status InvalidProperty = BAD_REQUEST"
| "rocket_status InvalidSession = UNAUTHORIZED"
| "rocket_status InvalidFlagValue = BAD_REQUEST"
| "rocket_status NotAuthenticated = UNAUTHORIZED"
| "rocket_status DuplicateNonce = CONFLICT"
| "rocket_status NotFound = NOT_FOUND"
| "rocket_status NoEffect = OK"
| "rocket_status (FailedValidation error) = BAD_REQUEST"
| "rocket_status LiveKitUnavailable = BAD_REQUEST"
| "rocket_status NotAVoiceChannel = BAD_REQUEST"
| "rocket_status AlreadyConnected = BAD_REQUEST"
| "rocket_status NotConnected = BAD_REQUEST"
| "rocket_status UnknownNode = BAD_REQUEST"
| "rocket_status ProxyError = BAD_REQUEST"
| "rocket_status FileTooSmall = UNPROCESSABLE_ENTITY"
| "rocket_status (FileTooLarge limit) = UNPROCESSABLE_ENTITY"
| "rocket_status FileTypeNotAllowed = BAD_REQUEST"
| "rocket_status ImageProcessingFailed = INTERNAL_SERVER_ERROR"
| "rocket_status NoEmbedData = BAD_REQUEST"
| "rocket_status VosoUnavailable = BAD_REQUEST"
| "rocket_status (FeatureDisabled feature) = BAD_REQUEST"
| "rocket_status (InsufficientTier required message) = FORBIDDEN"
| "rocket_status (ServerMemberLimitReached limit message) = FORBIDDEN"
| "rocket_status (ViewerLimitReached limit message) = FORBIDDEN"
| "rocket_status (ClipDailyLimitReached limit message) = FORBIDDEN"
| "rocket_status (ClipStorageLimitReached limit message) = FORBIDDEN"
| "rocket_status ClipDurationNotAllowed = FORBIDDEN"
| "rocket_status ClippingNotEnabled = FORBIDDEN"
| "rocket_status (BitrateExceedsTier limit message) = FORBIDDEN"
| "rocket_status (StripeError message) = BAD_GATEWAY"
| "rocket_status AlreadySubscribed = CONFLICT"
| "rocket_status NoActiveSubscription = NOT_FOUND"

section \<open>The two renderings agree\<close>

text \<open>An error is answered with the same HTTP status by the axum services and by the Rocket
  API, for every error type, and the only error type that either answers with a success status is
  \<open>NoEffect\<close>.\<close>

lemma axum_rocket_status_agree:
  "axum_status e = rocket_status e \<and> (status_value (axum_status e) < 400 \<longleftrightarrow> e = NoEffect)"
  by (cases e) simp_all

end
