(* ===== verification/Permissions.thy ===== *)
theory Permissions
  imports Result_Errors
begin

unbundle bit_operations_syntax

text \<open>
  Permission values, overrides and the checks made on them (\<open>crates/core/permissions/src/models\<close>).

  A \<open>PermissionValue\<close> is a 64 bit word; \<open>pv_apply\<close>, \<open>pv_allow\<close>, \<open>pv_revoke\<close>,
  \<open>pv_restrict\<close> and \<open>pv_has\<close> are its methods. \<open>override\<close> is the pair of words the
  calculations use, \<open>override_field\<close> the pair of signed integers stored in the database.
  Every word level operation is characterised bit by bit in \<open>bit_facts\<close>, and a sequence of
  overrides by the last override that mentions a bit (\<open>apply_all_bit\<close>).
\<close>

section \<open>Enumerations\<close>

datatype channel_type = CT_SavedMessages | CT_DirectMessage | CT_Group | CT_ServerChannel | CT_Unknown

text \<open>The relationship as the permission crate sees it.\<close>

datatype relationship_status =
    Rel_None | Rel_User | Rel_Friend | Rel_Outgoing | Rel_Incoming | Rel_Blocked | Rel_BlockedOther

datatype user_permission = UserAccess | UserViewProfile | UserSendMessage | UserInvite

primrec user_permission_value :: "user_permission \<Rightarrow> u64" where
  "user_permission_value UserAccess = push_bit 0 1"
| "user_permission_value UserViewProfile = push_bit 1 1"
| "user_permission_value UserSendMessage = push_bit 2 1"
| "user_permission_value UserInvite = push_bit 3 1"

primrec user_permission_name :: "user_permission \<Rightarrow> string" where
  "user_permission_name UserAccess = ''Access''"
| "user_permission_name UserViewProfile = ''ViewProfile''"
| "user_permission_name UserSendMessage = ''SendMessage''"
| "user_permission_name UserInvite = ''Invite''"

datatype channel_permission =
    ManageChannel | ManageServer | ManagePermissions | ManageRole | ManageCustomisation
  | KickMembers | BanMembers | TimeoutMembers | AssignRoles | ChangeNickname | ManageNicknames
  | ChangeAvatar | RemoveAvatars | ViewChannel | ReadMessageHistory | SendMessage
  | ManageMessages | ManageWebhooks | InviteOthers | SendEmbeds | UploadFiles | Masquerade
  | React | Connect | Speak | Video | MuteMembers | DeafenMembers | MoveMembers | Listen
  | MentionEveryone | MentionRoles | GrantAllSafe | GrantAll

primrec channel_permission_value :: "channel_permission \<Rightarrow> u64" where
  "channel_permission_value ManageChannel = push_bit 0 1"
| "channel_permission_value ManageServer = push_bit 1 1"
| "channel_permission_value ManagePermissions = push_bit 2 1"
| "channel_permission_value ManageRole = push_bit 3 1"
| "channel_permission_value ManageCustomisation = push_bit 4 1"
| "channel_permission_value KickMembers = push_bit 6 1"
| "channel_permission_value BanMembers = push_bit 7 1"
| "channel_permission_value TimeoutMembers = push_bit 8 1"
| "channel_permission_value AssignRoles = push_bit 9 1"
| "channel_permission_value ChangeNickname = push_bit 10 1"
| "channel_permission_value ManageNicknames = push_bit 11 1"
| "channel_permission_value ChangeAvatar = push_bit 12 1"
| "channel_permission_value RemoveAvatars = push_bit 13 1"
| "channel_permission_value ViewChannel = push_bit 20 1"
| "channel_permission_value ReadMessageHistory = push_bit 21 1"
| "channel_permission_value SendMessage = push_bit 22 1"
| "channel_permission_value ManageMessages = push_bit 23 1"
| "channel_permission_value ManageWebhooks = push_bit 24 1"
| "channel_permission_value InviteOthers = push_bit 25 1"
| "channel_permission_value SendEmbeds = push_bit 26 1"
| "channel_permission_value UploadFiles = push_bit 27 1"
| "channel_permission_value Masquerade = push_bit 28 1"
| "channel_permission_value React = push_bit 29 1"
| "channel_permission_value Connect = push_bit 30 1"
| "channel_permission_value Speak = push_bit 31 1"
| "channel_permission_value Video = push_bit 32 1"
| "channel_permission_value MuteMembers = push_bit 33 1"
| "channel_permission_value DeafenMembers = push_bit 34 1"
| "channel_permission_value MoveMembers = push_bit 35 1"
| "channel_permission_value Listen = push_bit 36 1"
| "channel_permission_value MentionEveryone = push_bit 37 1"
| "channel_permission_value MentionRoles = push_bit 38 1"
| "channel_permission_value GrantAllSafe = 0x000FFFFFFFFFFFFF"
| "channel_permission_value GrantAll = - 1"

primrec channel_permission_name :: "channel_permission \<Rightarrow> string" where
  "channel_permission_name ManageChannel = ''ManageChannel''"
| "channel_permission_name ManageServer = ''ManageServer''"
| "channel_permission_name ManagePermissions = ''ManagePermissions''"
| "channel_permission_name ManageRole = ''ManageRole''"
| "channel_permission_name ManageCustomisation = ''ManageCustomisation''"
| "channel_permission_name KickMembers = ''KickMembers''"
| "channel_permission_name BanMembers = ''BanMembers''"
| "channel_permission_name TimeoutMembers = ''TimeoutMembers''"
| "channel_permission_name AssignRoles = ''AssignRoles''"
| "channel_permission_name ChangeNickname = ''ChangeNickname''"
| "channel_permission_name ManageNicknames = ''ManageNicknames''"
| "channel_permission_name ChangeAvatar = ''ChangeAvatar''"
| "channel_permission_name RemoveAvatars = ''RemoveAvatars''"
| "channel_permission_name ViewChannel = ''ViewChannel''"
| "channel_permission_name ReadMessageHistory = ''ReadMessageHistory''"
| "channel_permission_name SendMessage = ''SendMessage''"
| "channel_permission_name ManageMessages = ''ManageMessages''"
| "channel_permission_name ManageWebhooks = ''ManageWebhooks''"
| "channel_permission_name InviteOthers = ''InviteOthers''"
| "channel_permission_name SendEmbeds = ''SendEmbeds''"
| "channel_permission_name UploadFiles = ''UploadFiles''"
| "channel_permission_name Masquerade = ''Masquerade''"
| "channel_permission_name React = ''React''"
| "channel_permission_name Connect = ''Connect''"
| "channel_permission_name Speak = ''Speak''"
| "channel_permission_name Video = ''Video''"
| "channel_permission_name MuteMembers = ''MuteMembers''"
| "channel_permission_name DeafenMembers = ''DeafenMembers''"
| "channel_permission_name MoveMembers = ''MoveMembers''"
| "channel_permission_name Listen = ''Listen''"
| "channel_permission_name MentionEveryone = ''MentionEveryone''"
| "channel_permission_name MentionRoles = ''MentionRoles''"
| "channel_permission_name GrantAllSafe = ''GrantAllSafe''"
| "channel_permission_name GrantAll = ''GrantAll''"

section \<open>Default permission sets\<close>

text \<open>\<open>+\<close> on channel permissions is a bitwise or.\<close>

definition permission_sum :: "channel_permission list \<Rightarrow> u64" where
  "permission_sum ps = foldr (\<lambda>p v. channel_permission_value p OR v) ps 0"

definition ALLOW_IN_TIMEOUT :: u64 where
  "ALLOW_IN_TIMEOUT = permission_sum [ViewChannel, ReadMessageHistory]"

definition DEFAULT_PERMISSION_VIEW_ONLY :: u64 where
  "DEFAULT_PERMISSION_VIEW_ONLY = permission_sum [ViewChannel, ReadMessageHistory]"

definition DEFAULT_PERMISSION :: u64 where
  "DEFAULT_PERMISSION = DEFAULT_PERMISSION_VIEW_ONLY OR
     permission_sum [SendMessage, InviteOthers, SendEmbeds, UploadFiles, Connect, Speak, Listen, Video]"

definition DEFAULT_PERMISSION_SAVED_MESSAGES :: u64 where
  "DEFAULT_PERMISSION_SAVED_MESSAGES = channel_permission_value GrantAllSafe"

definition DEFAULT_PERMISSION_DIRECT_MESSAGE :: u64 where
  "DEFAULT_PERMISSION_DIRECT_MESSAGE = DEFAULT_PERMISSION OR permission_sum [ManageChannel, React]"

definition DEFAULT_PERMISSION_SERVER :: u64 where
  "DEFAULT_PERMISSION_SERVER = DEFAULT_PERMISSION OR permission_sum [React, ChangeNickname, ChangeAvatar]"

definition DEFAULT_WEBHOOK_PERMISSIONS :: u64 where
  "DEFAULT_WEBHOOK_PERMISSIONS = permission_sum [SendMessage, SendEmbeds, Masquerade, React]"

section \<open>Overrides\<close>

record override =
  allow :: u64
  deny :: u64

record override_field =
  ov_a :: i64
  ov_d :: i64

definition default_override :: override where
  "default_override = \<lparr>allow = 0, deny = 0\<rparr>"

definition default_override_field :: override_field where
  "default_override_field = \<lparr>ov_a = 0, ov_d = 0\<rparr>"

definition override_to_field :: "override \<Rightarrow> override_field" where
  "override_to_field v = \<lparr>ov_a = u64_as_i64 (allow v), ov_d = u64_as_i64 (deny v)\<rparr>"

definition field_to_override :: "override_field \<Rightarrow> override" where
  "field_to_override v = \<lparr>allow = i64_as_u64 (ov_a v), deny = i64_as_u64 (ov_d v)\<rparr>"

section \<open>Permission values\<close>

type_synonym permission_value = u64

definition pv_allow :: "permission_value \<Rightarrow> u64 \<Rightarrow> permission_value" where
  "pv_allow p v = p OR v"

definition pv_revoke :: "permission_value \<Rightarrow> u64 \<Rightarrow> permission_value" where
  "pv_revoke p v = p AND NOT v"

definition pv_revoke_all :: "permission_value \<Rightarrow> permission_value" where
  "pv_revoke_all p = 0"

definition pv_restrict :: "permission_value \<Rightarrow> u64 \<Rightarrow> permission_value" where
  "pv_restrict p v = p AND v"

definition pv_apply :: "permission_value \<Rightarrow> override \<Rightarrow> permission_value" where
  "pv_apply p v = pv_revoke (pv_allow p (allow v)) (deny v)"

definition pv_has :: "permission_value \<Rightarrow> u64 \<Rightarrow> bool" where
  "pv_has p v \<longleftrightarrow> p AND v = v"

definition has_user_permission :: "permission_value \<Rightarrow> user_permission \<Rightarrow> bool" where
  "has_user_permission p x = pv_has p (user_permission_value x)"

definition has_channel_permission :: "permission_value \<Rightarrow> channel_permission \<Rightarrow> bool" where
  "has_channel_permission p x = pv_has p (channel_permission_value x)"

definition throw_if_lacking_user_permission :: "permission_value \<Rightarrow> user_permission \<Rightarrow> unit result" where
  "throw_if_lacking_user_permission p x =
     (if has_user_permission p x then Ok () else Err (MissingPermission (user_permission_name x)))"

definition throw_if_lacking_channel_permission :: "permission_value \<Rightarrow> channel_permission \<Rightarrow> unit result" where
  "throw_if_lacking_channel_permission p x =
     (if has_channel_permission p x then Ok () else Err (MissingPermission (channel_permission_name x)))"

definition throw_permission_override :: "permission_value \<Rightarrow> override option \<Rightarrow> override \<Rightarrow> unit result" where
  "throw_permission_override p current_value next_value =
     (case current_value of
        Some current \<Rightarrow>
          if \<not> pv_has p (NOT (allow current) AND allow next_value)
             \<or> \<not> pv_has p (deny current AND NOT (deny next_value))
          then Err CannotGiveMissingPermissions
          else Ok ()
      | None \<Rightarrow>
          if \<not> pv_has p (allow next_value) then Err CannotGiveMissingPermissions else Ok ())"

text \<open>\<open>for v in overrides { permissions.apply(v) }\<close>\<close>

definition apply_all :: "permission_value \<Rightarrow> override list \<Rightarrow> permission_value" where
  "apply_all p vs = foldl pv_apply p vs"

section \<open>Single bits\<close>

lemma bit_u64_less: "bit (w :: u64) n \<Longrightarrow> n < 64"
  using bit_imp_le_length [of w n] by simp

lemma bit_u64_and_not: "bit (v AND NOT w) n \<longleftrightarrow> bit v n \<and> \<not> bit w n" for v w :: u64
  by (auto simp: bit_and_iff bit_not_iff dest: bit_u64_less)

lemma bit_pv_allow [bit_facts]: "bit (pv_allow p v) n \<longleftrightarrow> bit p n \<or> bit v n"
  by (simp add: pv_allow_def bit_or_iff)

lemma bit_pv_revoke [bit_facts]: "bit (pv_revoke p v) n \<longleftrightarrow> bit p n \<and> \<not> bit v n"
  by (simp add: pv_revoke_def bit_u64_and_not)

lemma bit_pv_restrict [bit_facts]: "bit (pv_restrict p v) n \<longleftrightarrow> bit p n \<and> bit v n"
  by (simp add: pv_restrict_def bit_and_iff)

lemma bit_pv_apply [bit_facts]:
  "bit (pv_apply p v) n \<longleftrightarrow> (bit p n \<or> bit (allow v) n) \<and> \<not> bit (deny v) n"
  by (simp add: pv_apply_def bit_facts)

lemma pv_has_iff: "pv_has p v \<longleftrightarrow> (\<forall>n. bit v n \<longrightarrow> bit p n)"
  by (auto simp: pv_has_def bit_eq_iff bit_and_iff) (metis bit_u64_less)

lemma bit_single: "k < 64 \<Longrightarrow> bit (push_bit k (1 :: u64)) n \<longleftrightarrow> n = k"
  by (auto simp: bit_push_bit_iff bit_1_iff simp del: push_bit_of_1)

declare channel_permission_value.simps [simp del]

lemma bit_channel_permission [bit_facts]:
  "bit (channel_permission_value ViewChannel) n \<longleftrightarrow> n = 20"
  "bit (channel_permission_value ReadMessageHistory) n \<longleftrightarrow> n = 21"
  "bit (channel_permission_value Speak) n \<longleftrightarrow> n = 31"
  "bit (channel_permission_value Video) n \<longleftrightarrow> n = 32"
  "bit (channel_permission_value Listen) n \<longleftrightarrow> n = 36"
  by (simp_all only: channel_permission_value.simps bit_single)

lemma has_ViewChannel [bit_facts]: "has_channel_permission p ViewChannel \<longleftrightarrow> bit p 20"
  by (simp add: has_channel_permission_def pv_has_iff bit_facts)

lemma bit_ALLOW_IN_TIMEOUT [bit_facts]: "bit ALLOW_IN_TIMEOUT n \<longleftrightarrow> n = 20 \<or> n = 21"
  by (simp add: ALLOW_IN_TIMEOUT_def permission_sum_def bit_or_iff bit_facts)

lemma GrantAllSafe_mask: "channel_permission_value GrantAllSafe = mask 52"
  by (simp add: channel_permission_value.simps mask_eq_exp_minus_1)

lemma bit_GrantAllSafe [bit_facts]: "bit (channel_permission_value GrantAllSafe) n \<longleftrightarrow> n < 52"
  by (auto simp: GrantAllSafe_mask bit_mask_iff simp del: mask_numeral)

text \<open>The effect of a list of overrides on one bit: the last override that mentions the bit
  decides it, and inside one override a denial beats a grant.\<close>

definition mentions :: "override \<Rightarrow> nat \<Rightarrow> bool" where
  "mentions v n \<longleftrightarrow> bit (allow v) n \<or> bit (deny v) n"

definition decided :: "override list \<Rightarrow> nat \<Rightarrow> bool \<Rightarrow> bool" where
  "decided vs n base = (case List.find (\<lambda>v. mentions v n) (rev vs) of
     None \<Rightarrow> base | Some v \<Rightarrow> \<not> bit (deny v) n)"

lemma apply_all_Nil [simp]: "apply_all p [] = p"
  by (simp add: apply_all_def)

lemma apply_all_snoc: "apply_all p (vs @ [v]) = pv_apply (apply_all p vs) v"
  by (simp add: apply_all_def)

lemma apply_all_bit: "bit (apply_all p vs) n = decided vs n (bit p n)"
  by (induction vs rule: rev_induct) (auto simp: decided_def apply_all_snoc bit_facts mentions_def)

lemma decided_base_mono: "decided vs n False \<Longrightarrow> decided vs n True"
  by (auto simp: decided_def split: option.splits)

lemma decided_unmentioned: "\<forall>v\<in>set vs. \<not> bit (allow v) n \<Longrightarrow> decided vs n False \<Longrightarrow> False"
  by (auto simp: decided_def find_Some_iff mentions_def split: option.splits)
     (metis nth_mem set_rev length_rev)

section \<open>Properties\<close>

text \<open>C3: changing a permission override cannot hand out a permission the actor lacks. If
  \<open>throw_permission_override\<close> accepts the change from the current override (or from no override)
  to the next one, then for every value the override is applied to, each permission that appears
  because of the change is one the actor holds.\<close>

theorem throw_permission_override_no_escalation:
  assumes "throw_permission_override actor current next_value = Ok ()"
    and "bit (pv_apply p next_value) n"
    and "\<not> bit (case current of None \<Rightarrow> p | Some c \<Rightarrow> pv_apply p c) n"
  shows "bit actor n"
  using assms
  by (auto simp: throw_permission_override_def pv_has_iff bit_facts bit_u64_and_not
      and.commute [of "NOT _"] split: option.splits if_splits)

theorem throw_permission_override_no_escalation_witness:
  "bit (channel_permission_value ManageChannel) 0"
  by (rule throw_permission_override_no_escalation
      [where current = "Some \<lparr>allow = 0, deny = 1\<rparr>" and next_value = "\<lparr>allow = 1, deny = 0\<rparr>" and p = 0])
     (simp_all add: throw_permission_override_def pv_has_def bit_facts channel_permission_value.simps)

text \<open>An override survives its database representation: storing it as two signed integers and
  reading it back gives the same override, for all 64 bit masks; and a stored pair of 64 bit
  integers is what is stored again after being read.\<close>

lemma override_field_round_trip:
  "field_to_override (override_to_field v) = v \<and>
   (i64_range (ov_a f) \<and> i64_range (ov_d f) \<longrightarrow> override_to_field (field_to_override f) = f)"
  by (simp add: field_to_override_def override_to_field_def i64_as_u64_as_i64)

lemma override_field_round_trip_example:
  "override_to_field (field_to_override \<lparr>ov_a = - 1, ov_d = 5\<rparr>) = \<lparr>ov_a = - 1, ov_d = 5\<rparr>"
  using override_field_round_trip [of default_override "\<lparr>ov_a = - 1, ov_d = 5\<rparr>"]
  by (simp add: i64_range_def)

end
