(* ===== verification/Permission_Calc.thy ===== *)
theory Permission_Calc
  imports Permissions "HOL-Library.Monad_Syntax"
begin

unbundle bit_operations_syntax

text \<open>
  The permission calculations (\<open>crates/core/permissions/src/impl.rs\<close>) over the trait
  \<open>PermissionQuery\<close> (\<open>trait.rs\<close>).

  A value of the trait is a record of operations on a state \<open>'q\<close>: a method takes \<open>&mut self\<close>,
  so it returns the next state, and it may panic, so it returns an option. The calculations are
  written once over such a record. What they promise is a predicate on the facts a query reports
  (\<open>server_grants\<close>, \<open>channel_grants\<close>, \<open>user_permission_spec\<close>), and the locale
  \<open>permission_provider\<close> is the contract under which the calculations meet it; its interpretation
  on the database backed query is in the theory of that query.
\<close>

section \<open>The trait\<close>

type_synonym ('q, 'a) query_op = "'q \<Rightarrow> ('a \<times> 'q) option"

record 'q permission_query =
  are_we_privileged :: "('q, bool) query_op"
  are_we_a_bot :: "('q, bool) query_op"
  are_the_users_same :: "('q, bool) query_op"
  user_relationship :: "('q, relationship_status) query_op"
  user_is_bot :: "('q, bool) query_op"
  have_mutual_connection :: "('q, bool) query_op"
  are_we_server_owner :: "('q, bool) query_op"
  are_we_a_member :: "('q, bool) query_op"
  get_default_server_permissions :: "('q, u64) query_op"
  get_our_server_role_overrides :: "('q, override list) query_op"
  are_we_timed_out :: "('q, bool) query_op"
  do_we_have_publish_overwrites :: "('q, bool) query_op"
  do_we_have_receive_overwrites :: "('q, bool) query_op"
  get_channel_type :: "('q, channel_type) query_op"
  get_default_channel_permissions :: "('q, override) query_op"
  get_our_channel_role_overrides :: "('q, override list) query_op"
  do_we_own_the_channel :: "('q, bool) query_op"
  are_we_a_group_moderator :: "('q, bool) query_op"
  are_we_part_of_the_channel :: "('q, bool) query_op"
  set_recipient_as_user :: "('q, unit) query_op"
  set_server_from_channel :: "('q, unit) query_op"

section \<open>The calculations\<close>

text \<open>\<open>a || b\<close>: the second query is only made when the first one answers no.\<close>

definition query_or :: "('q, bool) query_op \<Rightarrow> ('q, bool) query_op \<Rightarrow> ('q, bool) query_op" where
  "query_or a b q = do { (x, q) \<leftarrow> a q; if x then Some (True, q) else b q }"

definition calculate_user_permissions :: "'q permission_query \<Rightarrow> ('q, permission_value) query_op" where
  "calculate_user_permissions query q = do {
     (privileged, q) \<leftarrow> are_we_privileged query q;
     if privileged then Some (- 1, q) else do {
     (same, q) \<leftarrow> are_the_users_same query q;
     if same then Some (- 1, q) else do {
     (relationship, q) \<leftarrow> user_relationship query q;
     let permissions = 0;
         continue = (\<lambda>permissions. do {
           (mutual, q) \<leftarrow> have_mutual_connection query q;
           if mutual then do {
             let permissions = user_permission_value UserAccess + user_permission_value UserViewProfile;
             (bot, q) \<leftarrow> query_or (user_is_bot query) (are_we_a_bot query) q;
             if bot then Some (permissions + user_permission_value UserSendMessage, q)
             else Some (permissions, q) }
           else Some (permissions, q) })
     in case relationship of
       Rel_Friend \<Rightarrow> Some (- 1, q)
     | Rel_Blocked \<Rightarrow> Some (user_permission_value UserAccess, q)
     | Rel_BlockedOther \<Rightarrow> Some (user_permission_value UserAccess, q)
     | Rel_Incoming \<Rightarrow> continue (user_permission_value UserAccess)
     | Rel_Outgoing \<Rightarrow> continue (user_permission_value UserAccess)
     | _ \<Rightarrow> continue permissions }}}"

definition calculate_server_permissions :: "'q permission_query \<Rightarrow> ('q, permission_value) query_op" where
  "calculate_server_permissions query q = do {
     (all, q) \<leftarrow> query_or (are_we_privileged query) (are_we_server_owner query) q;
     if all then Some (channel_permission_value GrantAllSafe, q) else do {
     (member, q) \<leftarrow> are_we_a_member query q;
     if \<not> member then Some (0, q) else do {
     (permissions, q) \<leftarrow> get_default_server_permissions query q;
     (role_overrides, q) \<leftarrow> get_our_server_role_overrides query q;
     let permissions = apply_all permissions role_overrides;
     (publish, q) \<leftarrow> do_we_have_publish_overwrites query q;
     let permissions = (if \<not> publish
           then pv_revoke (pv_revoke permissions (channel_permission_value Speak)) (channel_permission_value Video)
           else permissions);
     (receive, q) \<leftarrow> do_we_have_receive_overwrites query q;
     let permissions = (if \<not> receive then pv_revoke permissions (channel_permission_value Listen)
           else permissions);
     (timed_out, q) \<leftarrow> are_we_timed_out query q;
     let permissions = (if timed_out then pv_restrict permissions ALLOW_IN_TIMEOUT else permissions);
     Some (permissions, q) }}}"

definition calculate_channel_permissions :: "'q permission_query \<Rightarrow> ('q, permission_value) query_op" where
  "calculate_channel_permissions query q = do {
     (privileged, q) \<leftarrow> are_we_privileged query q;
     if privileged then Some (channel_permission_value GrantAllSafe, q) else do {
     (ctype, q) \<leftarrow> get_channel_type query q;
     case ctype of
       CT_SavedMessages \<Rightarrow> do {
         (own, q) \<leftarrow> do_we_own_the_channel query q;
         if own then Some (DEFAULT_PERMISSION_SAVED_MESSAGES, q) else Some (0, q) }
     | CT_DirectMessage \<Rightarrow> do {
         (part, q) \<leftarrow> are_we_part_of_the_channel query q;
         if part then do {
           (_, q) \<leftarrow> set_recipient_as_user query q;
           (permissions, q) \<leftarrow> calculate_user_permissions query q;
           if has_user_permission permissions UserSendMessage
           then Some (DEFAULT_PERMISSION_DIRECT_MESSAGE, q)
           else Some (DEFAULT_PERMISSION_VIEW_ONLY, q) }
         else Some (0, q) }
     | CT_Group \<Rightarrow> do {
         (own, q) \<leftarrow> do_we_own_the_channel query q;
         if own then Some (channel_permission_value GrantAllSafe, q) else do {
         (moderator, q) \<leftarrow> are_we_a_group_moderator query q;
         if moderator then Some (channel_permission_value GrantAllSafe, q) else do {
         (part, q) \<leftarrow> are_we_part_of_the_channel query q;
         if part then do {
           (default, q) \<leftarrow> get_default_channel_permissions query q;
           Some (DEFAULT_PERMISSION_VIEW_ONLY OR allow default, q) }
         else Some (0, q) }}}
     | CT_ServerChannel \<Rightarrow> do {
         (_, q) \<leftarrow> set_server_from_channel query q;
         (own, q) \<leftarrow> are_we_server_owner query q;
         if own then Some (channel_permission_value GrantAllSafe, q) else do {
         (member, q) \<leftarrow> are_we_a_member query q;
         if member then do {
           (permissions, q) \<leftarrow> calculate_server_permissions query q;
           (default, q) \<leftarrow> get_default_channel_permissions query q;
           let permissions = pv_apply permissions default;
           (role_overrides, q) \<leftarrow> get_our_channel_role_overrides query q;
           let permissions = apply_all permissions role_overrides;
           (timed_out, q) \<leftarrow> are_we_timed_out query q;
           let permissions = (if timed_out then pv_restrict permissions ALLOW_IN_TIMEOUT else permissions);
           let permissions = (if \<not> has_channel_permission permissions ViewChannel
                 then pv_revoke_all permissions else permissions);
           Some (permissions, q) }
         else Some (0, q) }}
     | CT_Unknown \<Rightarrow> Some (0, q) }}"

section \<open>What the calculations promise\<close>

text \<open>The facts a query reports about one viewer and one target.\<close>

record permission_facts =
  f_privileged :: bool
  f_bot :: bool
  f_same :: bool
  f_relationship :: relationship_status
  f_user_is_bot :: bool
  f_mutual :: bool
  f_owner :: bool
  f_member :: bool
  f_default :: u64
  f_role_overrides :: "override list"
  f_timed_out :: bool
  f_publish :: bool
  f_receive :: bool
  f_channel_type :: channel_type
  f_channel_default :: override
  f_channel_overrides :: "override list"
  f_own_channel :: bool
  f_moderator :: bool
  f_part :: bool

definition user_permission_spec :: "permission_facts \<Rightarrow> u64" where
  "user_permission_spec f =
     (if f_privileged f \<or> f_same f \<or> f_relationship f = Rel_Friend then - 1
      else if f_relationship f \<in> {Rel_Blocked, Rel_BlockedOther} then 1
      else if f_mutual f then (if f_user_is_bot f \<or> f_bot f then 7 else 3)
      else if f_relationship f \<in> {Rel_Incoming, Rel_Outgoing} then 1 else 0)"

text \<open>Permission \<open>n\<close> on a server: everything safe for owners and privileged users; for a member
  the default corrected by the roles from the lowest to the highest, without the voice permissions
  a mute or deafen removes, and inside the time out set while timed out.\<close>

definition server_grants :: "permission_facts \<Rightarrow> nat \<Rightarrow> bool" where
  "server_grants f n \<longleftrightarrow>
     (if f_privileged f \<or> f_owner f then n < 52
      else f_member f
        \<and> decided (f_role_overrides f) n (bit (f_default f) n)
        \<and> (n = 31 \<or> n = 32 \<longrightarrow> f_publish f)
        \<and> (n = 36 \<longrightarrow> f_receive f)
        \<and> (f_timed_out f \<longrightarrow> n = 20 \<or> n = 21))"

text \<open>Permission \<open>n\<close> on a channel of a server, before and after the requirement that the channel
  is visible.\<close>

definition channel_raw :: "permission_facts \<Rightarrow> nat \<Rightarrow> bool" where
  "channel_raw f n \<longleftrightarrow>
     decided (f_channel_default f # f_channel_overrides f) n (server_grants f n)
     \<and> (f_timed_out f \<longrightarrow> n = 20 \<or> n = 21)"

definition channel_grants :: "permission_facts \<Rightarrow> nat \<Rightarrow> bool" where
  "channel_grants f n \<longleftrightarrow>
     (if f_privileged f \<or> f_owner f then n < 52
      else f_member f \<and> channel_raw f 20 \<and> channel_raw f n)"

text \<open>Permissions on the channels that do not belong to a server; \<open>fd\<close> are the facts once the
  other recipient of a direct message is the selected user.\<close>

definition private_channel_spec :: "permission_facts \<Rightarrow> permission_facts \<Rightarrow> u64" where
  "private_channel_spec f fd =
     (case f_channel_type f of
        CT_SavedMessages \<Rightarrow> if f_own_channel f then DEFAULT_PERMISSION_SAVED_MESSAGES else 0
      | CT_DirectMessage \<Rightarrow>
          if \<not> f_part f then 0
          else if has_user_permission (user_permission_spec fd) UserSendMessage
          then DEFAULT_PERMISSION_DIRECT_MESSAGE else DEFAULT_PERMISSION_VIEW_ONLY
      | CT_Group \<Rightarrow>
          if f_own_channel f \<or> f_moderator f then channel_permission_value GrantAllSafe
          else if f_part f then DEFAULT_PERMISSION_VIEW_ONLY OR allow (f_channel_default f) else 0
      | _ \<Rightarrow> 0)"

lemma channel_raw_bit:
  assumes "\<And>m. bit w m \<longleftrightarrow> server_grants f m"
  shows "bit (let p = apply_all (pv_apply w (f_channel_default f)) (f_channel_overrides f)
    in if f_timed_out f then pv_restrict p ALLOW_IN_TIMEOUT else p) n \<longleftrightarrow> channel_raw f n"
proof -
  have "apply_all (pv_apply w (f_channel_default f)) (f_channel_overrides f) =
      apply_all w (f_channel_default f # f_channel_overrides f)"
    by (simp add: apply_all_def)
  then show ?thesis
    by (simp add: Let_def channel_raw_def apply_all_bit bit_facts assms)
qed

section \<open>The contract of a query\<close>

text \<open>\<open>answers r v P\<close>: the query finishes without a panic, answers \<open>v\<close>, and its final state
  satisfies \<open>P\<close>.\<close>

definition answers :: "('a \<times> 'q) option \<Rightarrow> 'a \<Rightarrow> ('q \<Rightarrow> bool) \<Rightarrow> bool" where
  "answers r v P \<longleftrightarrow> (\<exists>q. r = Some (v, q) \<and> P q)"

lemma answersE:
  assumes "answers r v P"
  obtains q where "r = Some (v, q)" "P q"
  using assms by (auto simp: answers_def)

text \<open>The laws a provider of the trait promises: while its invariant holds no method panics, the
  answers are the facts of the state, and asking does not change the facts (\<open>stays\<close>; asking
  about a mutual connection or membership may fill a cache, which is only promised not to change the
  facts about the current selection, \<open>keeps\<close>). The role dependent
  answers are only promised once membership has been confirmed (\<open>loaded\<close>), which is the order in
  which the calculations ask. \<open>dm_facts\<close> and \<open>server_facts\<close> are the facts after the query has
  been pointed at the other recipient, or at the server that owns the channel.\<close>

locale permission_provider =
  fixes ops :: "'q permission_query"
    and facts dm_facts server_facts :: "'q \<Rightarrow> permission_facts"
    and inv loaded :: "'q \<Rightarrow> bool"
    and keeps stays :: "'q \<Rightarrow> 'q \<Rightarrow> bool"
  assumes keeps_iff: "keeps q q' \<longleftrightarrow> inv q' \<and> facts q' = facts q \<and> (loaded q \<longrightarrow> loaded q')"
    and stays_iff: "stays q q' \<longleftrightarrow> keeps q q' \<and> dm_facts q' = dm_facts q \<and> server_facts q' = server_facts q"
    and privileged: "inv q \<Longrightarrow> answers (are_we_privileged ops q) (f_privileged (facts q)) (stays q)"
    and bot: "inv q \<Longrightarrow> answers (are_we_a_bot ops q) (f_bot (facts q)) (stays q)"
    and same: "inv q \<Longrightarrow> answers (are_the_users_same ops q) (f_same (facts q)) (stays q)"
    and relationship: "inv q \<Longrightarrow> answers (user_relationship ops q) (f_relationship (facts q)) (stays q)"
    and ubot: "inv q \<Longrightarrow> answers (user_is_bot ops q) (f_user_is_bot (facts q)) (stays q)"
    and mutual: "inv q \<Longrightarrow> answers (have_mutual_connection ops q) (f_mutual (facts q)) (keeps q)"
    and owner: "inv q \<Longrightarrow> answers (are_we_server_owner ops q) (f_owner (facts q)) (stays q)"
    and member: "inv q \<Longrightarrow> answers (are_we_a_member ops q) (f_member (facts q))
      (\<lambda>q'. keeps q q' \<and> (f_member (facts q) \<longrightarrow> loaded q'))"
    and default: "inv q \<Longrightarrow> answers (get_default_server_permissions ops q) (f_default (facts q)) (stays q)"
    and roles: "inv q \<Longrightarrow> loaded q \<Longrightarrow>
      answers (get_our_server_role_overrides ops q) (f_role_overrides (facts q)) (stays q)"
    and timed_out: "inv q \<Longrightarrow> loaded q \<Longrightarrow> answers (are_we_timed_out ops q) (f_timed_out (facts q)) (stays q)"
    and publish: "inv q \<Longrightarrow> loaded q \<Longrightarrow>
      answers (do_we_have_publish_overwrites ops q) (f_publish (facts q)) (stays q)"
    and receive: "inv q \<Longrightarrow> loaded q \<Longrightarrow>
      answers (do_we_have_receive_overwrites ops q) (f_receive (facts q)) (stays q)"
    and ctype: "inv q \<Longrightarrow> answers (get_channel_type ops q) (f_channel_type (facts q)) (stays q)"
    and cdefault: "inv q \<Longrightarrow>
      answers (get_default_channel_permissions ops q) (f_channel_default (facts q)) (stays q)"
    and croles: "inv q \<Longrightarrow> loaded q \<Longrightarrow>
      answers (get_our_channel_role_overrides ops q) (f_channel_overrides (facts q)) (stays q)"
    and own: "inv q \<Longrightarrow> answers (do_we_own_the_channel ops q) (f_own_channel (facts q)) (stays q)"
    and moderator: "inv q \<Longrightarrow> answers (are_we_a_group_moderator ops q) (f_moderator (facts q)) (stays q)"
    and part: "inv q \<Longrightarrow> answers (are_we_part_of_the_channel ops q) (f_part (facts q)) (stays q)"
    and recipient: "inv q \<Longrightarrow> f_channel_type (facts q) = CT_DirectMessage \<Longrightarrow> f_part (facts q) \<Longrightarrow>
      answers (set_recipient_as_user ops q) () (\<lambda>q'. facts q' = dm_facts q \<and> inv q')"
    and server: "inv q \<Longrightarrow> f_channel_type (facts q) = CT_ServerChannel \<Longrightarrow>
      answers (set_server_from_channel ops q) () (\<lambda>q'. facts q' = server_facts q \<and> inv q')"
    and server_privileged: "inv q \<Longrightarrow> f_privileged (server_facts q) = f_privileged (facts q)"
begin

lemmas keep_simps = keeps_iff stays_iff

lemma user_permissions:
  assumes "inv q"
  shows "\<exists>q'. calculate_user_permissions ops q = Some (user_permission_spec (facts q), q')"
proof -
  let ?F = "facts q"
  obtain q1 where 1: "are_we_privileged ops q = Some (f_privileged ?F, q1)" "keeps q q1"
    using privileged [OF assms] by (auto simp: keep_simps elim!: answersE)
  obtain q2 where 2: "are_the_users_same ops q1 = Some (f_same ?F, q2)" "keeps q q2"
    using same [of q1] 1(2) by (auto simp: keep_simps elim!: answersE)
  obtain q3 where 3: "user_relationship ops q2 = Some (f_relationship ?F, q3)" "keeps q q3"
    using relationship [of q2] 2(2) by (auto simp: keep_simps elim!: answersE)
  obtain q4 where 4: "have_mutual_connection ops q3 = Some (f_mutual ?F, q4)" "keeps q q4"
    using mutual [of q3] 3(2) by (auto simp: keep_simps elim!: answersE)
  obtain q5 where 5: "user_is_bot ops q4 = Some (f_user_is_bot ?F, q5)" "keeps q q5"
    using ubot [of q4] 4(2) by (auto simp: keep_simps elim!: answersE)
  obtain q6 where 6: "are_we_a_bot ops q5 = Some (f_bot ?F, q6)"
    using bot [of q5] 5(2) by (auto simp: keep_simps elim!: answersE)
  show ?thesis
    by (simp add: calculate_user_permissions_def query_or_def user_permission_spec_def Let_def
        1(1) 2(1) 3(1) 4(1) 5(1) 6 split: relationship_status.split)
qed

text \<open>The word a server calculation returns, bit by bit, and that it leaves the query loaded.\<close>

lemma server_permissions:
  assumes "inv q"
  shows "\<exists>w q'. calculate_server_permissions ops q = Some (w, q') \<and> keeps q q'
    \<and> (\<forall>n. bit w n \<longleftrightarrow> server_grants (facts q) n)"
proof -
  let ?F = "facts q"
  obtain q1 where 1: "are_we_privileged ops q = Some (f_privileged ?F, q1)" "keeps q q1"
    using privileged [OF assms] by (auto simp: keep_simps elim!: answersE)
  obtain q2 where 2: "are_we_server_owner ops q1 = Some (f_owner ?F, q2)" "keeps q q2"
    using owner [of q1] 1(2) by (auto simp: keep_simps elim!: answersE)
  obtain q3 where 3: "are_we_a_member ops q2 = Some (f_member ?F, q3)" "keeps q q3" "f_member ?F \<longrightarrow> loaded q3"
    using member [of q2] 2(2) by (auto simp: keep_simps elim!: answersE)
  note early = calculate_server_permissions_def query_or_def 1(1) 2(1) 3(1) server_grants_def
  show ?thesis
  proof (cases "f_privileged ?F \<or> f_owner ?F \<or> \<not> f_member ?F")
    case True
    then show ?thesis
      using 1(2) 2(2) 3(2) by (cases "f_privileged ?F"; cases "f_owner ?F") (simp_all add: early bit_facts)
  next
    case False
    obtain q4 where 4: "get_default_server_permissions ops q3 = Some (f_default ?F, q4)" "keeps q q4" "loaded q4"
      using default [of q3] 3(2,3) False by (auto simp: keep_simps elim!: answersE)
    obtain q5 where 5: "get_our_server_role_overrides ops q4 = Some (f_role_overrides ?F, q5)" "keeps q q5" "loaded q5"
      using roles [of q4] 4(2,3) by (auto simp: keep_simps elim!: answersE)
    obtain q6 where 6: "do_we_have_publish_overwrites ops q5 = Some (f_publish ?F, q6)" "keeps q q6" "loaded q6"
      using publish [of q5] 5(2,3) by (auto simp: keep_simps elim!: answersE)
    obtain q7 where 7: "do_we_have_receive_overwrites ops q6 = Some (f_receive ?F, q7)" "keeps q q7" "loaded q7"
      using receive [of q6] 6(2,3) by (auto simp: keep_simps elim!: answersE)
    obtain q8 where 8: "are_we_timed_out ops q7 = Some (f_timed_out ?F, q8)" "keeps q q8"
      using timed_out [of q7] 7(2,3) by (auto simp: keep_simps elim!: answersE)
    show ?thesis
      using False 8(2) by (auto simp: early 4(1) 5(1) 6(1) 7(1) 8(1) Let_def apply_all_bit bit_facts)
  qed
qed

text \<open>The first two questions of the channel calculation.\<close>

lemma channel_start:
  assumes "inv q"
  obtains q1 q2 where "are_we_privileged ops q = Some (f_privileged (facts q), q1)"
    "get_channel_type ops q1 = Some (f_channel_type (facts q), q2)" "stays q q2"
proof -
  obtain q1 where 1: "are_we_privileged ops q = Some (f_privileged (facts q), q1)" "stays q q1"
    using privileged [OF assms] by (auto simp: keep_simps elim!: answersE)
  obtain q2 where "get_channel_type ops q1 = Some (f_channel_type (facts q), q2)" "stays q q2"
    using ctype [of q1] 1(2) by (auto simp: keep_simps elim!: answersE)
  with 1(1) that show thesis by blast
qed

lemma channel_privileged:
  assumes "inv q" "f_privileged (facts q)"
  shows "\<exists>q'. calculate_channel_permissions ops q = Some (channel_permission_value GrantAllSafe, q')"
proof -
  obtain q1 q2 where "are_we_privileged ops q = Some (True, q1)"
    using assms by (metis (full_types) channel_start)
  then show ?thesis by (simp add: calculate_channel_permissions_def)
qed

lemma private_channel_permissions:
  assumes "inv q" "\<not> f_privileged (facts q)" "f_channel_type (facts q) \<noteq> CT_ServerChannel"
  shows "\<exists>q'. calculate_channel_permissions ops q = Some (private_channel_spec (facts q) (dm_facts q), q')"
proof -
  let ?F = "facts q"
  obtain q1 q2 where 2: "are_we_privileged ops q = Some (f_privileged ?F, q1)"
      "get_channel_type ops q1 = Some (f_channel_type ?F, q2)" "stays q q2"
    using assms(1) by (rule channel_start)
  obtain q3 where 3: "do_we_own_the_channel ops q2 = Some (f_own_channel ?F, q3)" "stays q q3"
    using own [of q2] 2(3) by (auto simp: keep_simps elim!: answersE)
  obtain q4 where 4: "are_we_a_group_moderator ops q3 = Some (f_moderator ?F, q4)" "stays q q4"
    using moderator [of q3] 3(2) by (auto simp: keep_simps elim!: answersE)
  obtain q5 where 5: "are_we_part_of_the_channel ops q4 = Some (f_part ?F, q5)" "stays q q5"
    using part [of q4] 4(2) by (auto simp: keep_simps elim!: answersE)
  obtain q6 where 6: "get_default_channel_permissions ops q5 = Some (f_channel_default ?F, q6)"
    using cdefault [of q5] 5(2) by (auto simp: keep_simps elim!: answersE)
  obtain q7 where 7: "are_we_part_of_the_channel ops q2 = Some (f_part ?F, q7)" "stays q q7"
    using part [of q2] 2(3) by (auto simp: keep_simps elim!: answersE)
  note start = calculate_channel_permissions_def private_channel_spec_def 2(1,2) assms(2)
  show ?thesis
  proof (cases "f_channel_type ?F = CT_DirectMessage \<and> f_part ?F")
    case True
    obtain q8 where 8: "set_recipient_as_user ops q7 = Some ((), q8)" "facts q8 = dm_facts q" "inv q8"
      using recipient [of q7] 7(2) True by (auto simp: keep_simps elim!: answersE)
    obtain q9 where "calculate_user_permissions ops q8 = Some (user_permission_spec (dm_facts q), q9)"
      using user_permissions [OF 8(3)] 8(2) by auto
    with True show ?thesis by (auto simp: start 7(1) 8(1))
  next
    case False
    with assms(3) show ?thesis
      by (cases "f_channel_type ?F") (auto simp: start 3(1) 4(1) 5(1) 6 7(1))
  qed
qed

lemma server_channel_permissions:
  assumes "inv q" "f_channel_type (facts q) = CT_ServerChannel"
  shows "\<exists>w q'. calculate_channel_permissions ops q = Some (w, q')
    \<and> (\<forall>n. bit w n \<longleftrightarrow> channel_grants (server_facts q) n)"
proof (cases "f_privileged (facts q)")
  case True
  then show ?thesis
    using channel_privileged [OF assms(1) True] server_privileged [OF assms(1)]
    by (auto simp: channel_grants_def bit_facts)
next
  case False
  let ?F = "server_facts q"
  obtain q1 q2 where 2: "are_we_privileged ops q = Some (f_privileged (facts q), q1)"
      "get_channel_type ops q1 = Some (f_channel_type (facts q), q2)" "stays q q2"
    using assms(1) by (rule channel_start)
  obtain q3 where 3: "set_server_from_channel ops q2 = Some ((), q3)" "facts q3 = ?F" "inv q3"
    using server [of q2] 2(3) assms(2) by (auto simp: keep_simps elim!: answersE)
  obtain q4 where 4: "are_we_server_owner ops q3 = Some (f_owner ?F, q4)" "keeps q3 q4"
    using owner [OF 3(3)] 3(2) by (auto simp: keep_simps elim!: answersE)
  obtain q5 where 5: "are_we_a_member ops q4 = Some (f_member ?F, q5)" "keeps q3 q5" "f_member ?F \<longrightarrow> loaded q5"
    using member [of q4] 4(2) 3(2) by (auto simp: keep_simps elim!: answersE)
  have unprivileged: "\<not> f_privileged ?F" using False server_privileged [OF assms(1)] by simp
  note start = calculate_channel_permissions_def channel_grants_def 2(1,2) 3(1) 4(1) 5(1) assms(2) False unprivileged
  show ?thesis
  proof (cases "f_owner ?F \<or> \<not> f_member ?F")
    case True
    then show ?thesis by (cases "f_owner ?F") (simp_all add: start bit_facts)
  next
    case member: False
    obtain w q6 where 6: "calculate_server_permissions ops q5 = Some (w, q6)" "keeps q3 q6" "loaded q6"
        and w: "\<And>n. bit w n \<longleftrightarrow> server_grants ?F n"
      using server_permissions [of q5] 5(2,3) 3(2) member by (auto simp: keep_simps)
    obtain q7 where 7: "get_default_channel_permissions ops q6 = Some (f_channel_default ?F, q7)" "keeps q3 q7" "loaded q7"
      using cdefault [of q6] 6(2,3) 3(2) by (auto simp: keep_simps elim!: answersE)
    obtain q8 where 8: "get_our_channel_role_overrides ops q7 = Some (f_channel_overrides ?F, q8)" "keeps q3 q8" "loaded q8"
      using croles [of q7] 7(2,3) 3(2) by (auto simp: keep_simps elim!: answersE)
    obtain q9 where 9: "are_we_timed_out ops q8 = Some (f_timed_out ?F, q9)"
      using timed_out [of q8] 8(2,3) 3(2) by (auto simp: keep_simps elim!: answersE)
    show ?thesis
      using member channel_raw_bit [of w ?F, OF w]
      by (auto simp: start 6(1) 7(1) 8(1) 9 Let_def bit_facts pv_revoke_all_def)
  qed
qed

end

end
