(* ===== verification/User_Models.thy ===== *)
theory User_Models
  imports Permissions
begin

text \<open>
  Files, users, bots and emoji as the database stores them
  (\<open>crates/core/database/src/models/{files,users,bots,emojis}/model.rs\<close>).

  A struct is a record with the struct's fields, prefixed by the struct's name because record
  selectors share one name space; an enum is a datatype. A \<open>Timestamp\<close> is a number of
  milliseconds. The partial struct of a struct (all fields optional) is derived by a macro of the
  \<open>revolt_optional_struct\<close> crate; it is a record of options, and the derived \<open>apply_options\<close>
  is a parameter wherever it is used.
\<close>

type_synonym timestamp = int
type_synonym i32 = int

section \<open>Files\<close>

datatype file_metadata =
    MetadataFile
  | MetadataText
  | MetadataImage int int
  | MetadataVideo int int
  | MetadataAudio

datatype file_used_for_type =
    ForMessage | ForServerBanner | ForEmoji | ForUserAvatar | ForWebhookAvatar
  | ForUserProfileBackground | ForLegacyGroupIcon | ForChannelIcon | ForServerIcon

record file_used_for =
  used_object_type :: file_used_for_type
  used_id :: string

record stored_file =
  file_id :: string
  file_tag :: string
  file_filename :: string
  file_hash :: "string option"
  file_uploaded_at :: "timestamp option"
  file_uploader_id :: "string option"
  file_used_for :: "file_used_for option"
  file_deleted :: "bool option"
  file_reported :: "bool option"
  file_metadata :: file_metadata
  file_content_type :: string
  file_size :: int
  file_message_id :: "string option"
  file_user_id :: "string option"
  file_server_id :: "string option"
  file_object_id :: "string option"

section \<open>Decorations\<close>

datatype decoration_category =
    AvatarFrame | DecorationBanner | DecorationBadge | Nameplate | ChatBubble | CardSmall | CardLarge
  | UserPopout | UserPopoutMobile | ChatBackground | ChatBackgroundMobile | ProfileModal

record decoration_equip =
  equip_decoration_id :: string
  equip_slot :: decoration_category

section \<open>Subscriptions\<close>

datatype subscription_tier = TierFree | TierBasic | TierPro | TierUltra

record user_subscription =
  sub_tier :: subscription_tier
  sub_expires_at :: "i64 option"
  sub_stripe_customer_id :: "string option"
  sub_stripe_subscription_id :: "string option"

primrec tier_rank :: "subscription_tier \<Rightarrow> nat" where
  "tier_rank TierFree = 0"
| "tier_rank TierBasic = 1"
| "tier_rank TierPro = 2"
| "tier_rank TierUltra = 3"

definition can_enable_clipping :: "subscription_tier \<Rightarrow> bool" where
  "can_enable_clipping t \<longleftrightarrow> t \<noteq> TierFree"

primrec clip_durations_seconds :: "subscription_tier \<Rightarrow> nat list" where
  "clip_durations_seconds TierFree = [60]"
| "clip_durations_seconds TierBasic = [60, 300]"
| "clip_durations_seconds TierPro = [60, 300, 600, 900]"
| "clip_durations_seconds TierUltra = [60, 300, 600, 900, 3600]"

primrec clips_per_day :: "subscription_tier \<Rightarrow> nat option" where
  "clips_per_day TierFree = Some 3"
| "clips_per_day TierBasic = Some 10"
| "clips_per_day TierPro = Some 30"
| "clips_per_day TierUltra = None"

primrec max_clips_stored :: "subscription_tier \<Rightarrow> nat option" where
  "max_clips_stored TierFree = Some 5"
| "max_clips_stored TierBasic = Some 50"
| "max_clips_stored TierPro = Some 200"
| "max_clips_stored TierUltra = None"

primrec max_clip_storage_gb :: "subscription_tier \<Rightarrow> nat option" where
  "max_clip_storage_gb TierFree = Some 1"
| "max_clip_storage_gb TierBasic = Some 2"
| "max_clip_storage_gb TierPro = Some 10"
| "max_clip_storage_gb TierUltra = Some 50"

primrec clip_retention_days :: "subscription_tier \<Rightarrow> nat option" where
  "clip_retention_days TierFree = Some 30"
| "clip_retention_days TierBasic = Some 90"
| "clip_retention_days TierPro = Some 365"
| "clip_retention_days TierUltra = None"

definition can_download_clips :: "subscription_tier \<Rightarrow> bool" where
  "can_download_clips t \<longleftrightarrow> t \<in> {TierPro, TierUltra}"

definition vod_recording_enabled :: "subscription_tier \<Rightarrow> bool" where
  "vod_recording_enabled t \<longleftrightarrow> t \<in> {TierPro, TierUltra}"

primrec vod_buffer_minutes :: "subscription_tier \<Rightarrow> nat option" where
  "vod_buffer_minutes TierFree = None"
| "vod_buffer_minutes TierBasic = None"
| "vod_buffer_minutes TierPro = Some 120"
| "vod_buffer_minutes TierUltra = None"

definition vod_permanent_storage :: "subscription_tier \<Rightarrow> bool" where
  "vod_permanent_storage t \<longleftrightarrow> t = TierUltra"

primrec max_emoji_slots :: "subscription_tier \<Rightarrow> nat" where
  "max_emoji_slots TierFree = 10"
| "max_emoji_slots TierBasic = 25"
| "max_emoji_slots TierPro = 50"
| "max_emoji_slots TierUltra = 100"

primrec stream_viewer_limit :: "subscription_tier \<Rightarrow> usize" where
  "stream_viewer_limit TierFree = 10"
| "stream_viewer_limit TierBasic = 50"
| "stream_viewer_limit TierPro = 200"
| "stream_viewer_limit TierUltra = 0"

definition uses_livekit_for_public_streams :: "subscription_tier \<Rightarrow> bool" where
  "uses_livekit_for_public_streams t \<longleftrightarrow> t \<noteq> TierFree"

definition stream_recording_enabled :: "subscription_tier \<Rightarrow> bool" where
  "stream_recording_enabled t \<longleftrightarrow> t \<in> {TierPro, TierUltra}"

definition priority_stream_routing :: "subscription_tier \<Rightarrow> bool" where
  "priority_stream_routing t \<longleftrightarrow> t = TierUltra"

section \<open>Users\<close>

datatype fields_user =
    UserField_Avatar | UserField_StatusText | UserField_StatusPresence | UserField_ProfileContent
  | UserField_ProfileBackground | UserField_DisplayName | UserField_Suspension | UserField_None

record relationship =
  rel_id :: string
  rel_status :: relationship_status

datatype presence = Online | Idle | Focus | Busy | Invisible

record user_status =
  status_text :: "string option"
  status_presence :: "presence option"

record user_profile =
  profile_content :: "string option"
  profile_background :: "stored_file option"

record bot_information =
  bot_info_owner :: string

datatype user_hint = HintAny | HintBot | HintUser

record user =
  user_id :: string
  user_username :: string
  user_discriminator :: string
  user_display_name :: "string option"
  user_avatar :: "stored_file option"
  user_relations :: "relationship list option"
  user_badges :: "i32 option"
  user_status :: "user_status option"
  user_profile :: "user_profile option"
  user_flags :: "i32 option"
  user_privileged :: bool
  user_bot :: "bot_information option"
  user_suspended_until :: "timestamp option"
  user_last_acknowledged_policy_change :: timestamp
  user_subscription :: "user_subscription option"
  user_active_decorations :: "decoration_equip list option"
  user_presence_style :: "string option"

record partial_user =
  pu_id :: "string option"
  pu_username :: "string option"
  pu_discriminator :: "string option"
  pu_display_name :: "string option"
  pu_avatar :: "stored_file option"
  pu_relations :: "relationship list option"
  pu_badges :: "i32 option"
  pu_status :: "user_status option"
  pu_profile :: "user_profile option"
  pu_flags :: "i32 option"
  pu_privileged :: "bool option"
  pu_bot :: "bot_information option"
  pu_suspended_until :: "timestamp option"
  pu_last_acknowledged_policy_change :: "timestamp option"
  pu_subscription :: "user_subscription option"
  pu_active_decorations :: "decoration_equip list option"
  pu_presence_style :: "string option"

definition default_user :: user where
  "default_user = \<lparr>user_id = '''', user_username = '''', user_discriminator = '''',
     user_display_name = None, user_avatar = None, user_relations = None, user_badges = None,
     user_status = None, user_profile = None, user_flags = None, user_privileged = False,
     user_bot = None, user_suspended_until = None, user_last_acknowledged_policy_change = 0,
     user_subscription = None, user_active_decorations = None, user_presence_style = None\<rparr>"

definition empty_partial_user :: partial_user where
  "empty_partial_user = \<lparr>pu_id = None, pu_username = None, pu_discriminator = None,
     pu_display_name = None, pu_avatar = None, pu_relations = None, pu_badges = None,
     pu_status = None, pu_profile = None, pu_flags = None, pu_privileged = None, pu_bot = None,
     pu_suspended_until = None, pu_last_acknowledged_policy_change = None, pu_subscription = None,
     pu_active_decorations = None, pu_presence_style = None\<rparr>"

primrec user_remove_field :: "fields_user \<Rightarrow> user \<Rightarrow> user" where
  "user_remove_field UserField_Avatar u = u\<lparr>user_avatar := None\<rparr>"
| "user_remove_field UserField_StatusText u =
     u\<lparr>user_status := map_option (\<lambda>x. x\<lparr>status_text := None\<rparr>) (user_status u)\<rparr>"
| "user_remove_field UserField_StatusPresence u =
     u\<lparr>user_status := map_option (\<lambda>x. x\<lparr>status_presence := None\<rparr>) (user_status u)\<rparr>"
| "user_remove_field UserField_ProfileContent u =
     u\<lparr>user_profile := map_option (\<lambda>x. x\<lparr>profile_content := None\<rparr>) (user_profile u)\<rparr>"
| "user_remove_field UserField_ProfileBackground u =
     u\<lparr>user_profile := map_option (\<lambda>x. x\<lparr>profile_background := None\<rparr>) (user_profile u)\<rparr>"
| "user_remove_field UserField_DisplayName u = u\<lparr>user_display_name := None\<rparr>"
| "user_remove_field UserField_Suspension u = u\<lparr>user_suspended_until := None\<rparr>"
| "user_remove_field UserField_None u = u"

section \<open>Bots and emoji\<close>

datatype bot_type = BotRegular | BotAiCompanion

record bot =
  bot_id :: string
  bot_owner :: string
  bot_token :: string
  bot_public :: bool
  bot_analytics :: bool
  bot_discoverable :: bool
  bot_interactions_url :: string
  bot_terms_of_service_url :: string
  bot_privacy_policy_url :: string
  bot_flags :: "i32 option"
  bot_type :: bot_type
  bot_license_type :: "string option"
  bot_license_verified_at :: "timestamp option"
  bot_joined_server_id :: "string option"
  bot_public_key_pem :: "string option"
  bot_public_key_registered_at :: "timestamp option"

datatype fields_bot = BotField_Token | BotField_InteractionsURL

datatype emoji_parent = EmojiServer string | EmojiDetached

record emoji =
  emoji_id :: string
  emoji_parent :: emoji_parent
  emoji_creator_id :: string
  emoji_name :: string
  emoji_animated :: bool
  emoji_nsfw :: bool

primrec emoji_parent_id :: "emoji_parent \<Rightarrow> string" where
  "emoji_parent_id (EmojiServer i) = i"
| "emoji_parent_id EmojiDetached = ''''"

section \<open>Reading a user\<close>

definition relationship_with :: "user \<Rightarrow> string \<Rightarrow> relationship_status" where
  "relationship_with u user_b =
     (if user_id u = user_b then Rel_User
      else case user_relations u of
        Some relations \<Rightarrow>
          (case List.find (\<lambda>x. rel_id x = user_b) relations of
             Some r \<Rightarrow> rel_status r | None \<Rightarrow> Rel_None)
      | None \<Rightarrow> Rel_None)"

definition is_friends_with :: "user \<Rightarrow> string \<Rightarrow> bool" where
  "is_friends_with u user_b \<longleftrightarrow> relationship_with u user_b \<in> {Rel_Friend, Rel_User}"

text \<open>The clock is an argument: \<open>now\<close> in seconds.\<close>

definition active_subscription_tier :: "i64 \<Rightarrow> user \<Rightarrow> subscription_tier" where
  "active_subscription_tier now u =
     (case user_subscription u of
        Some subscription \<Rightarrow>
          if sub_tier subscription \<noteq> TierFree
          then (case sub_expires_at subscription of
                  Some expires_at \<Rightarrow> if expires_at \<le> now then TierFree else sub_tier subscription
                | None \<Rightarrow> sub_tier subscription)
          else TierFree
      | None \<Rightarrow> TierFree)"

definition is_premium :: "i64 \<Rightarrow> user \<Rightarrow> bool" where
  "is_premium now u \<longleftrightarrow> active_subscription_tier now u \<noteq> TierFree"

definition has_tier_or_higher :: "i64 \<Rightarrow> user \<Rightarrow> subscription_tier \<Rightarrow> bool" where
  "has_tier_or_higher now u required \<longleftrightarrow> tier_rank (active_subscription_tier now u) \<ge> tier_rank required"

end
