(* ===== verification/Server_Models.thy ===== *)
theory Server_Models
  imports User_Models
begin

text \<open>
  Servers, roles, members, bans and channels
  (\<open>crates/core/database/src/models/{servers,server_members,server_bans,channels}/model.rs\<close>):
  the stored data and the methods that only read or edit one value.
\<close>

section \<open>Servers and roles\<close>

record role =
  role_id :: string
  role_name :: string
  role_permissions :: override_field
  role_colour :: "string option"
  role_hoist :: bool
  role_rank :: i64

record partial_role =
  pr_id :: "string option"
  pr_name :: "string option"
  pr_permissions :: "override_field option"
  pr_colour :: "string option"
  pr_hoist :: "bool option"
  pr_rank :: "i64 option"

record category =
  category_id :: string
  category_title :: string
  category_channels :: "string list"

record system_message_channels =
  smc_user_joined :: "string option"
  smc_user_left :: "string option"
  smc_user_kicked :: "string option"
  smc_user_banned :: "string option"

datatype fields_server =
    ServerField_Description | ServerField_Categories | ServerField_SystemMessages
  | ServerField_Icon | ServerField_Banner

datatype fields_role = RoleField_Colour

record server =
  server_id :: string
  server_owner :: string
  server_name :: string
  server_description :: "string option"
  server_channels :: "string list"
  server_categories :: "category list option"
  server_system_messages :: "system_message_channels option"
  server_roles :: "(string, role) hash_map"
  server_default_permissions :: i64
  server_icon :: "stored_file option"
  server_banner :: "stored_file option"
  server_flags :: "i32 option"
  server_nsfw :: bool
  server_analytics :: bool
  server_discoverable :: bool

record partial_server =
  ps_id :: "string option"
  ps_owner :: "string option"
  ps_name :: "string option"
  ps_description :: "string option"
  ps_channels :: "string list option"
  ps_categories :: "category list option"
  ps_system_messages :: "system_message_channels option"
  ps_roles :: "(string, role) hash_map option"
  ps_default_permissions :: "i64 option"
  ps_icon :: "stored_file option"
  ps_banner :: "stored_file option"
  ps_flags :: "i32 option"
  ps_nsfw :: "bool option"
  ps_analytics :: "bool option"
  ps_discoverable :: "bool option"

definition empty_partial_role :: partial_role where
  "empty_partial_role = \<lparr>pr_id = None, pr_name = None, pr_permissions = None, pr_colour = None,
     pr_hoist = None, pr_rank = None\<rparr>"

definition empty_partial_server :: partial_server where
  "empty_partial_server = \<lparr>ps_id = None, ps_owner = None, ps_name = None, ps_description = None,
     ps_channels = None, ps_categories = None, ps_system_messages = None, ps_roles = None,
     ps_default_permissions = None, ps_icon = None, ps_banner = None, ps_flags = None,
     ps_nsfw = None, ps_analytics = None, ps_discoverable = None\<rparr>"

primrec server_remove_field :: "fields_server \<Rightarrow> server \<Rightarrow> server" where
  "server_remove_field ServerField_Description s = s\<lparr>server_description := None\<rparr>"
| "server_remove_field ServerField_Categories s = s\<lparr>server_categories := None\<rparr>"
| "server_remove_field ServerField_SystemMessages s = s\<lparr>server_system_messages := None\<rparr>"
| "server_remove_field ServerField_Icon s = s\<lparr>server_icon := None\<rparr>"
| "server_remove_field ServerField_Banner s = s\<lparr>server_banner := None\<rparr>"

primrec role_remove_field :: "fields_role \<Rightarrow> role \<Rightarrow> role" where
  "role_remove_field RoleField_Colour r = r\<lparr>role_colour := None\<rparr>"

definition role_into_optional :: "role \<Rightarrow> partial_role" where
  "role_into_optional r = \<lparr>pr_id = Some (role_id r), pr_name = Some (role_name r),
     pr_permissions = Some (role_permissions r), pr_colour = role_colour r,
     pr_hoist = Some (role_hoist r), pr_rank = Some (role_rank r)\<rparr>"

definition ordered_roles :: "server \<Rightarrow> (string \<times> role) list" where
  "ordered_roles s = sort_key (\<lambda>(_, r). role_rank r) (server_roles s)"

definition into_channel_ids :: "system_message_channels \<Rightarrow> string set" where
  "into_channel_ids c = set_option (smc_user_joined c) \<union> set_option (smc_user_left c)
     \<union> set_option (smc_user_kicked c) \<union> set_option (smc_user_banned c)"

section \<open>Members and bans\<close>

record member_composite_key =
  key_server :: string
  key_user :: string

record member =
  member_id :: member_composite_key
  member_joined_at :: timestamp
  member_nickname :: "string option"
  member_avatar :: "stored_file option"
  member_roles :: "string list"
  member_timeout :: "timestamp option"
  member_can_publish :: bool
  member_can_receive :: bool

record partial_member =
  pm_id :: "member_composite_key option"
  pm_joined_at :: "timestamp option"
  pm_nickname :: "string option"
  pm_avatar :: "stored_file option"
  pm_roles :: "string list option"
  pm_timeout :: "timestamp option"
  pm_can_publish :: "bool option"
  pm_can_receive :: "bool option"

datatype fields_member =
    MemberField_Nickname | MemberField_Avatar | MemberField_Roles | MemberField_Timeout
  | MemberField_CanReceive | MemberField_CanPublish | MemberField_JoinedAt | MemberField_VoiceChannel

datatype removal_intention = Leave | Kick | Ban

record server_ban =
  ban_id :: member_composite_key
  ban_reason :: "string option"

definition default_member :: "timestamp \<Rightarrow> member" where
  "default_member now = \<lparr>member_id = \<lparr>key_server = '''', key_user = ''''\<rparr>, member_joined_at = now,
     member_nickname = None, member_avatar = None, member_roles = [], member_timeout = None,
     member_can_publish = True, member_can_receive = True\<rparr>"

primrec member_remove_field :: "fields_member \<Rightarrow> member \<Rightarrow> member" where
  "member_remove_field MemberField_JoinedAt m = m"
| "member_remove_field MemberField_Avatar m = m\<lparr>member_avatar := None\<rparr>"
| "member_remove_field MemberField_Nickname m = m\<lparr>member_nickname := None\<rparr>"
| "member_remove_field MemberField_Roles m = m\<lparr>member_roles := []\<rparr>"
| "member_remove_field MemberField_Timeout m = m\<lparr>member_timeout := None\<rparr>"
| "member_remove_field MemberField_CanReceive m = m\<lparr>member_can_receive := True\<rparr>"
| "member_remove_field MemberField_CanPublish m = m\<lparr>member_can_publish := True\<rparr>"
| "member_remove_field MemberField_VoiceChannel m = m"

fun ranking_loop :: "server \<Rightarrow> string list \<Rightarrow> i64 \<Rightarrow> i64" where
  "ranking_loop s [] value = value"
| "ranking_loop s (r # rs) value =
     (case map_of (server_roles s) r of
        Some role \<Rightarrow> ranking_loop s rs (if role_rank role < value then role_rank role else value)
      | None \<Rightarrow> ranking_loop s rs value)"

definition get_ranking :: "member \<Rightarrow> server \<Rightarrow> i64" where
  "get_ranking m s = ranking_loop s (member_roles m) i64_max"

definition in_timeout :: "timestamp \<Rightarrow> member \<Rightarrow> bool" where
  "in_timeout now m = (case member_timeout m of Some timeout \<Rightarrow> timeout > now | None \<Rightarrow> False)"

section \<open>Channels\<close>

datatype viewer_list_visibility = Nobody | ParticipantsOnly | ModeratorsOnly | Everyone

record voice_information =
  voice_max_users :: "usize option"
  voice_bitrate :: "u32 option"
  voice_is_stream_public :: bool
  voice_show_viewer_list_to :: viewer_list_visibility

definition default_voice_information :: voice_information where
  "default_voice_information = \<lparr>voice_max_users = None, voice_bitrate = None,
     voice_is_stream_public = False, voice_show_viewer_list_to = Nobody\<rparr>"

record saved_messages_channel =
  saved_id :: string
  saved_user :: string

record direct_message_channel =
  dm_id :: string
  dm_active :: bool
  dm_recipients :: "string list"
  dm_last_message_id :: "string option"

record group_channel =
  group_id :: string
  group_name :: string
  group_owner :: string
  group_description :: "string option"
  group_recipients :: "string list"
  group_icon :: "stored_file option"
  group_last_message_id :: "string option"
  group_permissions :: "i64 option"
  group_moderators :: "string list"
  group_nsfw :: bool
  group_encrypted :: bool

record text_channel =
  text_id :: string
  text_server :: string
  text_name :: string
  text_description :: "string option"
  text_icon :: "stored_file option"
  text_last_message_id :: "string option"
  text_default_permissions :: "override_field option"
  text_role_permissions :: "(string, override_field) hash_map"
  text_nsfw :: bool
  text_voice :: "voice_information option"
  text_encrypted :: bool

datatype channel =
    SavedMessages saved_messages_channel
  | DirectMessage direct_message_channel
  | Group group_channel
  | TextChannel text_channel

record partial_channel =
  pc_name :: "string option"
  pc_owner :: "string option"
  pc_description :: "string option"
  pc_icon :: "stored_file option"
  pc_nsfw :: "bool option"
  pc_active :: "bool option"
  pc_permissions :: "i64 option"
  pc_moderators :: "string list option"
  pc_role_permissions :: "(string, override_field) hash_map option"
  pc_default_permissions :: "override_field option"
  pc_last_message_id :: "string option"
  pc_voice :: "voice_information option"
  pc_encrypted :: "bool option"

datatype fields_channel =
    ChannelField_Description | ChannelField_Icon | ChannelField_DefaultPermissions | ChannelField_Voice

definition empty_partial_channel :: partial_channel where
  "empty_partial_channel = \<lparr>pc_name = None, pc_owner = None, pc_description = None, pc_icon = None,
     pc_nsfw = None, pc_active = None, pc_permissions = None, pc_moderators = None,
     pc_role_permissions = None, pc_default_permissions = None, pc_last_message_id = None,
     pc_voice = None, pc_encrypted = None\<rparr>"

definition is_direct_dm :: "channel \<Rightarrow> bool" where
  "is_direct_dm c = (case c of DirectMessage _ \<Rightarrow> True | _ \<Rightarrow> False)"

definition contains_user :: "channel \<Rightarrow> string \<Rightarrow> bool" where
  "contains_user c u = (case c of Group g \<Rightarrow> u \<in> set (group_recipients g) | _ \<Rightarrow> False)"

definition channel_users :: "channel \<Rightarrow> string list result" where
  "channel_users c = (case c of Group g \<Rightarrow> Ok (group_recipients g) | _ \<Rightarrow> Err NotFound)"

primrec channel_id :: "channel \<Rightarrow> string" where
  "channel_id (SavedMessages c) = saved_id c"
| "channel_id (DirectMessage c) = dm_id c"
| "channel_id (Group c) = group_id c"
| "channel_id (TextChannel c) = text_id c"

definition channel_server :: "channel \<Rightarrow> string option" where
  "channel_server c = (case c of TextChannel t \<Rightarrow> Some (text_server t) | _ \<Rightarrow> None)"

definition is_encrypted :: "channel \<Rightarrow> bool" where
  "is_encrypted c = (case c of TextChannel t \<Rightarrow> text_encrypted t | Group g \<Rightarrow> group_encrypted g | _ \<Rightarrow> False)"

definition channel_voice :: "channel \<Rightarrow> voice_information option" where
  "channel_voice c = (case c of
     DirectMessage _ \<Rightarrow> Some default_voice_information
   | Group _ \<Rightarrow> Some default_voice_information
   | TextChannel t \<Rightarrow> text_voice t
   | _ \<Rightarrow> None)"

primrec channel_remove_field :: "fields_channel \<Rightarrow> channel \<Rightarrow> channel" where
  "channel_remove_field ChannelField_Description c = (case c of
     Group g \<Rightarrow> Group (g\<lparr>group_description := None\<rparr>)
   | TextChannel t \<Rightarrow> TextChannel (t\<lparr>text_description := None\<rparr>)
   | _ \<Rightarrow> c)"
| "channel_remove_field ChannelField_Icon c = (case c of
     Group g \<Rightarrow> Group (g\<lparr>group_icon := None\<rparr>)
   | TextChannel t \<Rightarrow> TextChannel (t\<lparr>text_icon := None\<rparr>)
   | _ \<Rightarrow> c)"
| "channel_remove_field ChannelField_DefaultPermissions c = (case c of
     TextChannel t \<Rightarrow> TextChannel (t\<lparr>text_default_permissions := None\<rparr>)
   | _ \<Rightarrow> c)"
| "channel_remove_field ChannelField_Voice c = (case c of
     TextChannel t \<Rightarrow> TextChannel (t\<lparr>text_voice := None\<rparr>)
   | _ \<Rightarrow> c)"

definition channel_remove_fields :: "fields_channel list \<Rightarrow> channel \<Rightarrow> channel" where
  "channel_remove_fields fs c = fold channel_remove_field fs c"

text \<open>\<open>if let Some(v) = partial.x { *x = v }\<close> and \<open>if let Some(v) = partial.x { x.replace(v); }\<close>.\<close>

definition over :: "'a option \<Rightarrow> 'a \<Rightarrow> 'a" where
  "over x old = (case x of Some v \<Rightarrow> v | None \<Rightarrow> old)"

definition over_option :: "'a option \<Rightarrow> 'a option \<Rightarrow> 'a option" where
  "over_option x old = (case x of Some v \<Rightarrow> Some v | None \<Rightarrow> old)"

primrec channel_apply_options :: "channel \<Rightarrow> partial_channel \<Rightarrow> channel" where
  "channel_apply_options (SavedMessages c) p = SavedMessages c"
| "channel_apply_options (DirectMessage c) p =
     DirectMessage (c\<lparr>dm_active := over (pc_active p) (dm_active c)\<rparr>)"
| "channel_apply_options (Group c) p =
     Group (c\<lparr>group_name := over (pc_name p) (group_name c),
       group_owner := over (pc_owner p) (group_owner c),
       group_description := over_option (pc_description p) (group_description c),
       group_icon := over_option (pc_icon p) (group_icon c),
       group_nsfw := over (pc_nsfw p) (group_nsfw c),
       group_permissions := over_option (pc_permissions p) (group_permissions c),
       group_moderators := over (pc_moderators p) (group_moderators c),
       group_encrypted := over (pc_encrypted p) (group_encrypted c)\<rparr>)"
| "channel_apply_options (TextChannel c) p =
     TextChannel (c\<lparr>text_name := over (pc_name p) (text_name c),
       text_description := over_option (pc_description p) (text_description c),
       text_icon := over_option (pc_icon p) (text_icon c),
       text_nsfw := over (pc_nsfw p) (text_nsfw c),
       text_role_permissions := over (pc_role_permissions p) (text_role_permissions c),
       text_default_permissions := over_option (pc_default_permissions p) (text_default_permissions c),
       text_voice := over_option (pc_voice p) (text_voice c),
       text_encrypted := over (pc_encrypted p) (text_encrypted c)\<rparr>)"

section \<open>Reading and editing single values\<close>

lemma over_None [simp]: "over None x = x" and over_Some [simp]: "over (Some v) x = v"
  by (simp_all add: over_def)

lemma over_option_None [simp]: "over_option None x = x"
  and over_option_Some [simp]: "over_option (Some v) x = Some v"
  by (simp_all add: over_option_def)

lemma channel_id_remove_field [simp]: "channel_id (channel_remove_field f c) = channel_id c"
  by (cases f; cases c) simp_all

lemma channel_id_remove_fields [simp]: "channel_id (channel_remove_fields fs c) = channel_id c"
  by (induction fs arbitrary: c) (simp_all add: channel_remove_fields_def)

lemma channel_id_apply_options [simp]: "channel_id (channel_apply_options c p) = channel_id c"
  by (cases c) simp_all

end
