(* ===== verification/Message_Models.thy ===== *)
theory Message_Models
  imports User_Models
begin

unbundle bit_operations_syntax

text \<open>
  Messages, their embeds and their flags
  (\<open>crates/core/database/src/models/messages/model.rs\<close>, \<open>crates/core/models/src/v0/embeds.rs\<close>
  and the \<open>MessageFlags\<close> of \<open>crates/core/models/src/v0/messages.rs\<close>).

  The reactions of a message, an \<open>IndexMap\<close> of \<open>IndexSet\<close>s, are an association list of lists
  without duplicates.
\<close>

section \<open>Embeds\<close>

datatype image_size = ImageLarge | ImagePreview

record embed_image =
  image_url :: string
  image_width :: usize
  image_height :: usize
  image_size :: image_size

record embed_video =
  video_url :: string
  video_width :: usize
  video_height :: usize

datatype twitch_type = TwitchChannel | TwitchVideo | TwitchClip
datatype lightspeed_type = LightspeedChannel
datatype bandcamp_type = BandcampAlbum | BandcampTrack

datatype special =
    SpecialNone
  | SpecialGIF
  | SpecialYouTube string "string option"
  | SpecialLightspeed lightspeed_type string
  | SpecialTwitch twitch_type string
  | SpecialSpotify string string
  | SpecialSoundcloud
  | SpecialBandcamp bandcamp_type string
  | SpecialAppleMusic string "string option"
  | SpecialStreamable string

record website_metadata =
  web_url :: "string option"
  web_original_url :: "string option"
  web_special :: "special option"
  web_title :: "string option"
  web_description :: "string option"
  web_image :: "embed_image option"
  web_video :: "embed_video option"
  web_site_name :: "string option"
  web_icon_url :: "string option"
  web_colour :: "string option"

record text_embed =
  te_icon_url :: "string option"
  te_url :: "string option"
  te_title :: "string option"
  te_description :: "string option"
  te_media :: "stored_file option"
  te_colour :: "string option"

datatype embed =
    EmbedWebsite website_metadata
  | EmbedImage embed_image
  | EmbedVideo embed_video
  | EmbedText text_embed
  | EmbedNone

definition website_is_empty :: "website_metadata \<Rightarrow> bool" where
  "website_is_empty w \<longleftrightarrow>
     (web_title w = None \<or> web_title w = Some '''')
     \<and> (web_description w = None \<or> web_description w = Some '''')
     \<and> web_special w = None \<and> web_video w = None \<and> web_image w = None"

text \<open>\<open>String::truncate\<close> on UTF-8 bytes: nothing happens when the string is short enough;
  otherwise the cut must fall on a character boundary, or the call panics.\<close>

definition is_char_boundary :: "string \<Rightarrow> nat \<Rightarrow> bool" where
  "is_char_boundary s n \<longleftrightarrow> n = 0 \<or> n = length s
     \<or> (n < length s \<and> \<not> (128 \<le> (of_char (s ! n) :: nat) \<and> (of_char (s ! n) :: nat) < 192))"

definition string_truncate :: "nat \<Rightarrow> string \<Rightarrow> string result" where
  "string_truncate n s =
     (if n \<le> length s then (if is_char_boundary s n then Ok (take n s) else Panic) else Ok s)"

definition truncate_field :: "nat \<Rightarrow> string option \<Rightarrow> string option result" where
  "truncate_field n f = (case f of None \<Rightarrow> Ok None | Some s \<Rightarrow> res_bind (string_truncate n s) (\<lambda>t. Ok (Some t)))"

definition website_truncate :: "website_metadata \<Rightarrow> website_metadata result" where
  "website_truncate w =
     res_bind (truncate_field 256 (web_url w)) (\<lambda>url.
     res_bind (truncate_field 256 (web_original_url w)) (\<lambda>original_url.
     res_bind (truncate_field 100 (web_title w)) (\<lambda>title.
     res_bind (truncate_field 1000 (web_description w)) (\<lambda>description.
     res_bind (truncate_field 32 (web_site_name w)) (\<lambda>site_name.
     res_bind (truncate_field 256 (web_icon_url w)) (\<lambda>icon_url.
     res_bind (truncate_field 32 (web_colour w)) (\<lambda>colour.
       Ok (w\<lparr>web_url := url, web_original_url := original_url, web_title := title,
            web_description := description, web_site_name := site_name,
            web_icon_url := icon_url, web_colour := colour\<rparr>))))))))"

section \<open>Messages\<close>

datatype system_message =
    SysText string
  | SysUserAdded string string
  | SysUserRemove string string
  | SysUserJoined string
  | SysUserLeft string
  | SysUserKicked string
  | SysUserBanned string
  | SysChannelRenamed string string
  | SysChannelDescriptionChanged string
  | SysChannelIconChanged string
  | SysChannelOwnershipChanged string string
  | SysMessagePinned string string
  | SysMessageUnpinned string string
  | SysCallStarted string "timestamp option"

record masquerade =
  masq_name :: "string option"
  masq_avatar :: "string option"
  masq_colour :: "string option"

record interactions =
  int_reactions :: "string list option"
  int_restrict_reactions :: bool

record append_message =
  append_embeds :: "embed list option"

datatype message_sort = SortRelevance | SortLatest | SortOldest

datatype message_time_period =
    Relative string
  | Absolute "string option" "string option" "message_sort option"

record message_filter =
  filter_channel :: "string option"
  filter_author :: "string option"
  filter_query :: "string option"
  filter_pinned :: "bool option"

record message_query =
  query_limit :: "i64 option"
  query_filter :: message_filter
  query_time_period :: message_time_period

datatype fields_message = MessageField_Pinned

record message_webhook =
  mw_name :: string
  mw_avatar :: "string option"

record message =
  msg_id :: string
  msg_nonce :: "string option"
  msg_channel :: string
  msg_author :: string
  msg_webhook :: "message_webhook option"
  msg_content :: "string option"
  msg_system :: "system_message option"
  msg_attachments :: "stored_file list option"
  msg_edited :: "timestamp option"
  msg_embeds :: "embed list option"
  msg_mentions :: "string list option"
  msg_role_mentions :: "string list option"
  msg_replies :: "string list option"
  msg_reactions :: "(string, string list) hash_map"
  msg_interactions :: interactions
  msg_masquerade :: "masquerade option"
  msg_pinned :: "bool option"
  msg_flags :: "u32 option"

record partial_message =
  pmsg_id :: "string option"
  pmsg_nonce :: "string option"
  pmsg_channel :: "string option"
  pmsg_author :: "string option"
  pmsg_webhook :: "message_webhook option"
  pmsg_content :: "string option"
  pmsg_system :: "system_message option"
  pmsg_attachments :: "stored_file list option"
  pmsg_edited :: "timestamp option"
  pmsg_embeds :: "embed list option"
  pmsg_mentions :: "string list option"
  pmsg_role_mentions :: "string list option"
  pmsg_replies :: "string list option"
  pmsg_reactions :: "(string, string list) hash_map option"
  pmsg_interactions :: "interactions option"
  pmsg_masquerade :: "masquerade option"
  pmsg_pinned :: "bool option"
  pmsg_flags :: "u32 option"

definition default_interactions :: interactions where
  "default_interactions = \<lparr>int_reactions = None, int_restrict_reactions = False\<rparr>"

definition default_message :: message where
  "default_message = \<lparr>msg_id = '''', msg_nonce = None, msg_channel = '''', msg_author = '''',
     msg_webhook = None, msg_content = None, msg_system = None, msg_attachments = None,
     msg_edited = None, msg_embeds = None, msg_mentions = None, msg_role_mentions = None,
     msg_replies = None, msg_reactions = [], msg_interactions = default_interactions,
     msg_masquerade = None, msg_pinned = None, msg_flags = None\<rparr>"

primrec message_remove_field :: "fields_message \<Rightarrow> message \<Rightarrow> message" where
  "message_remove_field MessageField_Pinned m = m\<lparr>msg_pinned := None\<rparr>"

text \<open>\<open>SystemMessage::into_message\<close>; the ULID it draws is an argument.\<close>

definition system_author :: string where
  "system_author = ''00000000000000000000000000''"

definition into_message :: "string \<Rightarrow> system_message \<Rightarrow> string \<Rightarrow> message" where
  "into_message ulid sys chan = default_message\<lparr>msg_id := ulid, msg_channel := chan,
     msg_author := system_author, msg_system := Some sys\<rparr>"

definition interactions_can_use :: "interactions \<Rightarrow> string \<Rightarrow> bool" where
  "interactions_can_use i emoji =
     (if int_restrict_reactions i
      then (case int_reactions i of Some reactions \<Rightarrow> emoji \<in> set reactions | None \<Rightarrow> False)
      else True)"

definition interactions_is_default :: "interactions \<Rightarrow> bool" where
  "interactions_is_default i \<longleftrightarrow> \<not> int_restrict_reactions i \<and> int_reactions i = None"

section \<open>Message flags\<close>

datatype message_flags = SuppressNotifications | MentionsEveryone | MentionsOnline

primrec message_flags_value :: "message_flags \<Rightarrow> nat" where
  "message_flags_value SuppressNotifications = 1"
| "message_flags_value MentionsEveryone = 2"
| "message_flags_value MentionsOnline = 3"

definition flags_has_value :: "u32 \<Rightarrow> nat \<Rightarrow> bool" where
  "flags_has_value v k \<longleftrightarrow> (let mask = push_bit k 1 in v AND mask = mask)"

definition flags_has :: "u32 \<Rightarrow> message_flags \<Rightarrow> bool" where
  "flags_has v f = flags_has_value v (message_flags_value f)"

definition flags_set_value :: "u32 \<Rightarrow> nat \<Rightarrow> bool \<Rightarrow> u32" where
  "flags_set_value v k toggle = (if toggle then v OR push_bit k 1 else v AND NOT (push_bit k 1))"

definition flags_set :: "u32 \<Rightarrow> message_flags \<Rightarrow> bool \<Rightarrow> u32" where
  "flags_set v f toggle = flags_set_value v (message_flags_value f) toggle"

definition has_suppressed_notifications :: "message \<Rightarrow> bool" where
  "has_suppressed_notifications m = (case msg_flags m of
     Some flags \<Rightarrow> flags AND word_of_nat (message_flags_value SuppressNotifications)
       = word_of_nat (message_flags_value SuppressNotifications)
   | None \<Rightarrow> False)"

definition contains_mass_push_mention :: "message \<Rightarrow> bool" where
  "contains_mass_push_mention m \<longleftrightarrow>
     (case msg_flags m of Some flags \<Rightarrow> flags_has flags MentionsEveryone | None \<Rightarrow> False)
     \<or> msg_role_mentions m \<noteq> None"

text \<open>The flags \<open>create_from_api\<close> stores on a message.\<close>

definition final_message_flags :: "bool \<Rightarrow> bool \<Rightarrow> bool \<Rightarrow> u32" where
  "final_message_flags suppress everyone online =
     flags_set (flags_set (flags_set 0 SuppressNotifications suppress) MentionsEveryone everyone)
       MentionsOnline online"

end
