(* ===== verification/Reference_Db.thy ===== *)
theory Reference_Db
  imports Server_Models Message_Models
begin

text \<open>
  The reference database: \<open>ReferenceDb\<close> of \<open>drivers/reference.rs\<close> and the operations of the
  \<open>Abstract*\<close> traits implemented for it in \<open>models/*/ops/reference.rs\<close>.

  Every table is a hash map behind its own mutex; an operation locks one table, so it is one atomic
  step on the record of tables. A reading operation is a function of the record, a writing one
  returns the record as well. \<open>todo!()\<close> and \<open>panic!\<close> are the outcome \<open>Panic\<close>.

  The derived \<open>apply_options\<close> functions, the clock and drawn identifiers are arguments.
  The locale \<open>entity_table\<close> is the contract of a table keyed by an identifier; it is interpreted
  on the tables of users, servers, channels, messages, bans, bots and emoji.
\<close>

section \<open>State\<close>

record channel_composite_key =
  ckey_channel :: string
  ckey_user :: string

record channel_unread =
  unread_id :: channel_composite_key
  unread_last_id :: "string option"
  unread_mentions :: "string list option"

datatype ratelimit_event_type = DiscriminatorChange

record ratelimit_event =
  rle_id :: string
  rle_target_id :: string
  rle_event_type :: ratelimit_event_type

record reference_db =
  db_bots :: "(string, bot) hash_map"
  db_channels :: "(string, channel) hash_map"
  db_channel_unreads :: "(channel_composite_key, channel_unread) hash_map"
  db_emojis :: "(string, emoji) hash_map"
  db_files :: "(string, stored_file) hash_map"
  db_messages :: "(string, message) hash_map"
  db_ratelimit_events :: "(string, ratelimit_event) hash_map"
  db_users :: "(string, user) hash_map"
  db_server_bans :: "(member_composite_key, server_ban) hash_map"
  db_server_members :: "(member_composite_key, member) hash_map"
  db_servers :: "(string, server) hash_map"
  db_channel_encryption_keys :: "(string, string) hash_map"

definition empty_db :: reference_db where
  "empty_db = \<lparr>db_bots = [], db_channels = [], db_channel_unreads = [], db_emojis = [],
     db_files = [], db_messages = [], db_ratelimit_events = [], db_users = [], db_server_bans = [],
     db_server_members = [], db_servers = [], db_channel_encryption_keys = []\<rparr>"

text \<open>The \<open>apply_options\<close> functions derived for the partial structs.\<close>

record optional_structs =
  apply_user :: "partial_user \<Rightarrow> user \<Rightarrow> user"
  apply_server :: "partial_server \<Rightarrow> server \<Rightarrow> server"
  apply_role :: "partial_role \<Rightarrow> role \<Rightarrow> role"
  apply_member :: "partial_member \<Rightarrow> member \<Rightarrow> member"
  apply_message :: "partial_message \<Rightarrow> message \<Rightarrow> message"

type_synonym 'a db_op = "(reference_db, error_type, 'a) io"

section \<open>Users\<close>

definition insert_user :: "user \<Rightarrow> unit db_op" where
  "insert_user u db =
     (if hm_contains (db_users db) (user_id u) then (Err (DatabaseError ''insert'' ''user''), db)
      else (Ok (), db\<lparr>db_users := AList.update (user_id u) u (db_users db)\<rparr>))"

definition fetch_user :: "reference_db \<Rightarrow> string \<Rightarrow> user result" where
  "fetch_user db i = ok_or (map_of (db_users db) i) NotFound"

definition fetch_user_by_username ::
  "(string \<Rightarrow> string) \<Rightarrow> reference_db \<Rightarrow> string \<Rightarrow> string \<Rightarrow> user result" where
  "fetch_user_by_username to_lowercase db username discriminator =
     ok_or (List.find (\<lambda>u. to_lowercase (user_username u) = to_lowercase username
         \<and> user_discriminator u = discriminator) (hm_values (db_users db))) NotFound"

definition fetch_session_by_token :: "reference_db \<Rightarrow> string \<Rightarrow> (string \<times> string) result" where
  "fetch_session_by_token db token = Panic"

definition fetch_users :: "reference_db \<Rightarrow> string list \<Rightarrow> user list result" where
  "fetch_users db ids = collect_res (map (\<lambda>i. ok_or (map_of (db_users db) i) NotFound) ids)"

definition fetch_discriminators_in_use ::
  "(string \<Rightarrow> string) \<Rightarrow> reference_db \<Rightarrow> string \<Rightarrow> string list result" where
  "fetch_discriminators_in_use to_lowercase db username =
     Ok (map user_discriminator
       (filter (\<lambda>u. to_lowercase (user_username u) = to_lowercase username) (hm_values (db_users db))))"

definition fetch_mutual_user_ids :: "reference_db \<Rightarrow> string \<Rightarrow> string \<Rightarrow> string list result" where
  "fetch_mutual_user_ids db a b = Panic"

definition fetch_mutual_channel_ids :: "reference_db \<Rightarrow> string \<Rightarrow> string \<Rightarrow> string list result" where
  "fetch_mutual_channel_ids db a b = Panic"

definition fetch_mutual_server_ids :: "reference_db \<Rightarrow> string \<Rightarrow> string \<Rightarrow> string list result" where
  "fetch_mutual_server_ids db a b = Panic"

definition update_user :: "optional_structs \<Rightarrow> string \<Rightarrow> partial_user \<Rightarrow> fields_user list \<Rightarrow> unit db_op" where
  "update_user opt i partial remove db =
     (if hm_contains (db_users db) i
      then (Ok (), db\<lparr>db_users :=
        hm_adjust i (\<lambda>u. apply_user opt partial (fold user_remove_field remove u)) (db_users db)\<rparr>)
      else (Err NotFound, db))"

definition retain_relations :: "string \<Rightarrow> user \<Rightarrow> user" where
  "retain_relations target u =
     u\<lparr>user_relations := map_option (filter (\<lambda>r. rel_id r \<noteq> target)) (user_relations u)\<rparr>"

definition push_relation :: "string \<Rightarrow> relationship_status \<Rightarrow> user \<Rightarrow> user" where
  "push_relation target status u =
     u\<lparr>user_relations := Some (case user_relations u of
        Some relations \<Rightarrow>
          filter (\<lambda>r. rel_id r \<noteq> target) relations @ [\<lparr>rel_id = target, rel_status = status\<rparr>]
      | None \<Rightarrow> [\<lparr>rel_id = target, rel_status = status\<rparr>])\<rparr>"

definition pull_relationship :: "string \<Rightarrow> string \<Rightarrow> unit db_op" where
  "pull_relationship uid target db =
     (if hm_contains (db_users db) uid
      then (Ok (), db\<lparr>db_users := hm_adjust uid (retain_relations target) (db_users db)\<rparr>)
      else (Err NotFound, db))"

definition db_set_relationship :: "string \<Rightarrow> string \<Rightarrow> relationship_status \<Rightarrow> unit db_op" where
  "db_set_relationship uid target status db =
     (if status = Rel_User \<or> status = Rel_None then pull_relationship uid target db
      else if hm_contains (db_users db) uid
      then (Ok (), db\<lparr>db_users := hm_adjust uid (push_relation target status) (db_users db)\<rparr>)
      else (Err NotFound, db))"

definition delete_user :: "string \<Rightarrow> unit db_op" where
  "delete_user i db =
     (if hm_contains (db_users db) i then (Ok (), db\<lparr>db_users := AList.delete i (db_users db)\<rparr>)
      else (Err NotFound, db))"

definition count_users :: "reference_db \<Rightarrow> u64 result" where
  "count_users db = Ok (word_of_nat (length (db_users db)))"

section \<open>Servers and roles\<close>

definition insert_server :: "server \<Rightarrow> unit db_op" where
  "insert_server s db =
     (if hm_contains (db_servers db) (server_id s) then (Err (DatabaseError ''insert'' ''server''), db)
      else (Ok (), db\<lparr>db_servers := AList.update (server_id s) s (db_servers db)\<rparr>))"

definition fetch_server :: "reference_db \<Rightarrow> string \<Rightarrow> server result" where
  "fetch_server db i = ok_or (map_of (db_servers db) i) NotFound"

definition fetch_servers :: "reference_db \<Rightarrow> string list \<Rightarrow> server list result" where
  "fetch_servers db ids = collect_res (map (\<lambda>i. ok_or (map_of (db_servers db) i) NotFound) ids)"

definition update_server ::
  "optional_structs \<Rightarrow> string \<Rightarrow> partial_server \<Rightarrow> fields_server list \<Rightarrow> unit db_op" where
  "update_server opt i partial remove db =
     (if hm_contains (db_servers db) i
      then (Ok (), db\<lparr>db_servers :=
        hm_adjust i (\<lambda>s. apply_server opt partial (fold server_remove_field remove s)) (db_servers db)\<rparr>)
      else (Err NotFound, db))"

definition delete_server :: "string \<Rightarrow> unit db_op" where
  "delete_server i db =
     (if hm_contains (db_servers db) i then (Ok (), db\<lparr>db_servers := AList.delete i (db_servers db)\<rparr>)
      else (Err NotFound, db))"

definition insert_role :: "string \<Rightarrow> role \<Rightarrow> unit db_op" where
  "insert_role sid r db =
     (if hm_contains (db_servers db) sid
      then (Ok (), db\<lparr>db_servers :=
        hm_adjust sid (\<lambda>s. s\<lparr>server_roles := AList.update (role_id r) r (server_roles s)\<rparr>) (db_servers db)\<rparr>)
      else (Err NotFound, db))"

definition update_role ::
  "optional_structs \<Rightarrow> string \<Rightarrow> string \<Rightarrow> partial_role \<Rightarrow> fields_role list \<Rightarrow> unit db_op" where
  "update_role opt sid rid partial remove db =
     (case map_of (db_servers db) sid of
        Some s \<Rightarrow>
          if hm_contains (server_roles s) rid
          then (Ok (), db\<lparr>db_servers :=
            hm_adjust sid (\<lambda>s. s\<lparr>server_roles :=
              hm_adjust rid (\<lambda>r. apply_role opt partial (fold role_remove_field remove r)) (server_roles s)\<rparr>)
              (db_servers db)\<rparr>)
          else (Err NotFound, db)
      | None \<Rightarrow> (Err NotFound, db))"

definition delete_role :: "string \<Rightarrow> string \<Rightarrow> unit db_op" where
  "delete_role sid rid db =
     (case map_of (db_servers db) sid of
        Some s \<Rightarrow>
          if hm_contains (server_roles s) rid
          then (Ok (), db\<lparr>db_servers :=
            hm_adjust sid (\<lambda>s. s\<lparr>server_roles := AList.delete rid (server_roles s)\<rparr>) (db_servers db)\<rparr>)
          else (Err NotFound, db)
      | None \<Rightarrow> (Err NotFound, db))"

definition count_servers :: "reference_db \<Rightarrow> u64 result" where
  "count_servers db = Ok (word_of_nat (length (db_servers db)))"

definition fetch_owned_server_count :: "reference_db \<Rightarrow> string \<Rightarrow> usize result" where
  "fetch_owned_server_count db uid =
     Ok (length (filter (\<lambda>s. server_owner s = uid) (hm_values (db_servers db))))"

definition fetch_discoverable_servers :: "reference_db \<Rightarrow> server list result" where
  "fetch_discoverable_servers db = Ok (filter server_discoverable (hm_values (db_servers db)))"

section \<open>Members\<close>

definition insert_or_merge_member :: "member \<Rightarrow> member option db_op" where
  "insert_or_merge_member m db =
     (if hm_contains (db_server_members db) (member_id m)
      then (Err (DatabaseError ''insert'' ''member''), db)
      else (Ok None, db\<lparr>db_server_members := AList.update (member_id m) m (db_server_members db)\<rparr>))"

definition fetch_member :: "reference_db \<Rightarrow> string \<Rightarrow> string \<Rightarrow> member result" where
  "fetch_member db sid uid =
     ok_or (map_of (db_server_members db) \<lparr>key_server = sid, key_user = uid\<rparr>) NotFound"

definition fetch_all_members :: "reference_db \<Rightarrow> string \<Rightarrow> member list result" where
  "fetch_all_members db sid =
     Ok (filter (\<lambda>m. key_server (member_id m) = sid) (hm_values (db_server_members db)))"

definition fetch_all_members_with_roles :: "reference_db \<Rightarrow> string \<Rightarrow> string list \<Rightarrow> member list result" where
  "fetch_all_members_with_roles db sid roles =
     Ok (filter (\<lambda>m. key_server (member_id m) = sid \<and> filter (\<lambda>p. p \<in> set roles) (member_roles m) \<noteq> [])
       (hm_values (db_server_members db)))"

definition fetch_all_memberships :: "reference_db \<Rightarrow> string \<Rightarrow> member list result" where
  "fetch_all_memberships db uid =
     Ok (filter (\<lambda>m. key_user (member_id m) = uid) (hm_values (db_server_members db)))"

definition fetch_members :: "reference_db \<Rightarrow> string \<Rightarrow> string list \<Rightarrow> member list result" where
  "fetch_members db sid ids =
     Ok (List.map_filter (\<lambda>i. map_of (db_server_members db) \<lparr>key_server = sid, key_user = i\<rparr>) ids)"

definition fetch_member_count :: "reference_db \<Rightarrow> string \<Rightarrow> usize result" where
  "fetch_member_count db sid =
     Ok (length (filter (\<lambda>m. key_server (member_id m) = sid) (hm_values (db_server_members db))))"

definition fetch_server_count :: "reference_db \<Rightarrow> string \<Rightarrow> usize result" where
  "fetch_server_count db uid =
     Ok (length (filter (\<lambda>m. key_user (member_id m) = uid) (hm_values (db_server_members db))))"

definition update_member ::
  "optional_structs \<Rightarrow> member_composite_key \<Rightarrow> partial_member \<Rightarrow> fields_member list \<Rightarrow> unit db_op" where
  "update_member opt i partial remove db =
     (if hm_contains (db_server_members db) i
      then (Ok (), db\<lparr>db_server_members :=
        hm_adjust i (\<lambda>m. apply_member opt partial (fold member_remove_field remove m)) (db_server_members db)\<rparr>)
      else (Err NotFound, db))"

definition soft_delete_member :: "timestamp \<Rightarrow> member_composite_key \<Rightarrow> unit db_op" where
  "soft_delete_member now i db =
     (case map_of (db_server_members db) i of
        Some m \<Rightarrow>
          if in_timeout now m then (Panic, db)
          else (Ok (), db\<lparr>db_server_members := AList.delete i (db_server_members db)\<rparr>)
      | None \<Rightarrow> (Err NotFound, db))"

definition force_delete_member :: "member_composite_key \<Rightarrow> unit db_op" where
  "force_delete_member i db =
     (if hm_contains (db_server_members db) i
      then (Ok (), db\<lparr>db_server_members := AList.delete i (db_server_members db)\<rparr>)
      else (Err NotFound, db))"

section \<open>Bans\<close>

definition insert_ban :: "server_ban \<Rightarrow> unit db_op" where
  "insert_ban b db =
     (if hm_contains (db_server_bans db) (ban_id b) then (Err (DatabaseError ''insert'' ''ban''), db)
      else (Ok (), db\<lparr>db_server_bans := AList.update (ban_id b) b (db_server_bans db)\<rparr>))"

definition fetch_ban :: "reference_db \<Rightarrow> string \<Rightarrow> string \<Rightarrow> server_ban result" where
  "fetch_ban db sid uid = ok_or (map_of (db_server_bans db) \<lparr>key_server = sid, key_user = uid\<rparr>) NotFound"

definition fetch_bans :: "reference_db \<Rightarrow> string \<Rightarrow> server_ban list result" where
  "fetch_bans db sid = Ok (filter (\<lambda>b. key_server (ban_id b) = sid) (hm_values (db_server_bans db)))"

definition delete_ban :: "member_composite_key \<Rightarrow> unit db_op" where
  "delete_ban i db =
     (if hm_contains (db_server_bans db) i
      then (Ok (), db\<lparr>db_server_bans := AList.delete i (db_server_bans db)\<rparr>)
      else (Err NotFound, db))"

section \<open>Channels\<close>

definition insert_channel :: "channel \<Rightarrow> unit db_op" where
  "insert_channel c db =
     (if hm_contains (db_channels db) (channel_id c) then (Err (DatabaseError ''insert'' ''channel''), db)
      else (Ok (), db\<lparr>db_channels := AList.update (channel_id c) c (db_channels db)\<rparr>))"

definition fetch_channel :: "reference_db \<Rightarrow> string \<Rightarrow> channel result" where
  "fetch_channel db i = ok_or (map_of (db_channels db) i) NotFound"

definition fetch_channels :: "reference_db \<Rightarrow> string list \<Rightarrow> channel list result" where
  "fetch_channels db ids = collect_res (map (\<lambda>i. ok_or (map_of (db_channels db) i) NotFound) ids)"

definition find_direct_messages :: "reference_db \<Rightarrow> string \<Rightarrow> channel list result" where
  "find_direct_messages db uid = Ok (filter (\<lambda>c. contains_user c uid) (hm_values (db_channels db)))"

definition find_saved_messages_channel :: "reference_db \<Rightarrow> string \<Rightarrow> channel result" where
  "find_saved_messages_channel db uid = ok_or (map_of (db_channels db) uid) (DatabaseError ''fetch'' ''channel'')"

definition find_direct_message_channel :: "reference_db \<Rightarrow> string \<Rightarrow> string \<Rightarrow> channel result" where
  "find_direct_message_channel db a b =
     ok_or (List.find (\<lambda>c. contains_user c a \<and> contains_user c b) (hm_values (db_channels db))) NotFound"

definition db_add_user_to_group :: "string \<Rightarrow> string \<Rightarrow> unit db_op" where
  "db_add_user_to_group cid uid db =
     (case map_of (db_channels db) cid of
        Some (Group g) \<Rightarrow>
          (Ok (), db\<lparr>db_channels :=
            hm_adjust cid (\<lambda>_. Group (g\<lparr>group_recipients := group_recipients g @ [uid]\<rparr>)) (db_channels db)\<rparr>)
      | _ \<Rightarrow> (Err InvalidOperation, db))"

definition set_channel_role_permission :: "string \<Rightarrow> string \<Rightarrow> override_field \<Rightarrow> unit db_op" where
  "set_channel_role_permission cid rid permissions db =
     (case map_of (db_channels db) cid of
        Some (TextChannel t) \<Rightarrow>
          if hm_contains (text_role_permissions t) rid
          then (Ok (), db\<lparr>db_channels :=
            hm_adjust cid (\<lambda>_. TextChannel (t\<lparr>text_role_permissions :=
              AList.update rid permissions (AList.delete rid (text_role_permissions t))\<rparr>)) (db_channels db)\<rparr>)
          else (Err NotFound, db)
      | _ \<Rightarrow> (Err NotFound, db))"

definition update_channel :: "string \<Rightarrow> partial_channel \<Rightarrow> fields_channel list \<Rightarrow> unit db_op" where
  "update_channel i partial remove db =
     (if hm_contains (db_channels db) i
      then (Ok (), db\<lparr>db_channels :=
        hm_adjust i (\<lambda>c. channel_remove_fields remove (channel_apply_options c partial)) (db_channels db)\<rparr>)
      else (Err NotFound, db))"

text \<open>\<open>users()\<close> returns a copy of the recipients, and it is the copy that is filtered: the table
  is left as it is.\<close>

definition db_remove_user_from_group :: "string \<Rightarrow> string \<Rightarrow> unit db_op" where
  "db_remove_user_from_group cid uid db =
     (case map_of (db_channels db) cid of
        Some c \<Rightarrow>
          (case channel_users c of
             Ok users \<Rightarrow> if uid \<in> set users then (Ok (), db) else (Err NotFound, db)
           | Err e \<Rightarrow> (Err e, db)
           | Panic \<Rightarrow> (Panic, db))
      | None \<Rightarrow> (Err NotFound, db))"

definition delete_channel :: "channel \<Rightarrow> unit db_op" where
  "delete_channel c db =
     (if hm_contains (db_channels db) (channel_id c)
      then (Ok (), db\<lparr>db_channels := AList.delete (channel_id c) (db_channels db)\<rparr>)
      else (Err NotFound, db))"

definition set_channel_encryption_key :: "string \<Rightarrow> string \<Rightarrow> unit db_op" where
  "set_channel_encryption_key cid key db =
     (Ok (), db\<lparr>db_channel_encryption_keys := AList.update cid key (db_channel_encryption_keys db)\<rparr>)"

definition get_channel_encryption_key :: "reference_db \<Rightarrow> string \<Rightarrow> string result" where
  "get_channel_encryption_key db cid = ok_or (map_of (db_channel_encryption_keys db) cid) EncryptionKeyNotFound"

section \<open>Unread markers\<close>

definition acknowledge_message :: "string \<Rightarrow> string \<Rightarrow> string \<Rightarrow> channel_unread option db_op" where
  "acknowledge_message cid uid mid db =
     (let key = \<lparr>ckey_channel = cid, ckey_user = uid\<rparr>;
          unreads = (if hm_contains (db_channel_unreads db) key
            then hm_adjust key (\<lambda>u. u\<lparr>unread_mentions := None, unread_last_id := Some mid\<rparr>) (db_channel_unreads db)
            else AList.update key \<lparr>unread_id = key, unread_last_id = Some mid, unread_mentions = None\<rparr>
              (db_channel_unreads db))
      in (Ok (map_of unreads key), db\<lparr>db_channel_unreads := unreads\<rparr>))"

fun acknowledge_channels :: "string \<Rightarrow> string \<Rightarrow> string list \<Rightarrow> unit db_op" where
  "acknowledge_channels current_time uid [] db = (Ok (), db)"
| "acknowledge_channels current_time uid (cid # cids) db =
     io_bind (acknowledge_message cid uid current_time) (\<lambda>_. acknowledge_channels current_time uid cids) db"

definition add_mention :: "string \<Rightarrow> string list \<Rightarrow> string
    \<Rightarrow> (channel_composite_key, channel_unread) hash_map \<Rightarrow> (channel_composite_key, channel_unread) hash_map" where
  "add_mention cid mids uid unreads =
     (let key = \<lparr>ckey_channel = cid, ckey_user = uid\<rparr> in
      if hm_contains unreads key
      then hm_adjust key (\<lambda>u. u\<lparr>unread_mentions := Some mids\<rparr>) unreads
      else AList.update key \<lparr>unread_id = key, unread_last_id = None, unread_mentions = Some mids\<rparr> unreads)"

definition add_mention_to_unread :: "string \<Rightarrow> string \<Rightarrow> string list \<Rightarrow> unit db_op" where
  "add_mention_to_unread cid uid mids db =
     (Ok (), db\<lparr>db_channel_unreads := add_mention cid mids uid (db_channel_unreads db)\<rparr>)"

definition add_mention_to_many_unreads :: "string \<Rightarrow> string list \<Rightarrow> string list \<Rightarrow> unit db_op" where
  "add_mention_to_many_unreads cid uids mids db =
     (Ok (), db\<lparr>db_channel_unreads := fold (add_mention cid mids) uids (db_channel_unreads db)\<rparr>)"

definition fetch_unread_mentions :: "reference_db \<Rightarrow> string \<Rightarrow> channel_unread list result" where
  "fetch_unread_mentions db uid =
     Ok (filter (\<lambda>u. ckey_user (unread_id u) = uid \<and> unread_mentions u \<noteq> None) (hm_values (db_channel_unreads db)))"

definition fetch_unreads :: "reference_db \<Rightarrow> string \<Rightarrow> channel_unread list result" where
  "fetch_unreads db uid = Ok (filter (\<lambda>u. ckey_user (unread_id u) = uid) (hm_values (db_channel_unreads db)))"

definition fetch_unread :: "reference_db \<Rightarrow> string \<Rightarrow> string \<Rightarrow> channel_unread option result" where
  "fetch_unread db uid cid = Ok (map_of (db_channel_unreads db) \<lparr>ckey_channel = cid, ckey_user = uid\<rparr>)"

section \<open>Messages\<close>

definition insert_message :: "message \<Rightarrow> unit db_op" where
  "insert_message m db =
     (if hm_contains (db_messages db) (msg_id m) then (Err (DatabaseError ''insert'' ''message''), db)
      else (Ok (), db\<lparr>db_messages := AList.update (msg_id m) m (db_messages db)\<rparr>))"

definition fetch_message :: "reference_db \<Rightarrow> string \<Rightarrow> message result" where
  "fetch_message db i = ok_or (map_of (db_messages db) i) NotFound"

text \<open>\<open>str::contains\<close>\<close>

fun is_prefix :: "string \<Rightarrow> string \<Rightarrow> bool" where
  "is_prefix [] ys = True"
| "is_prefix (x # xs) [] = False"
| "is_prefix (x # xs) (y # ys) = (x = y \<and> is_prefix xs ys)"

fun str_contains :: "string \<Rightarrow> string \<Rightarrow> bool" where
  "str_contains [] pat = (pat = [])"
| "str_contains (x # xs) pat = (is_prefix pat (x # xs) \<or> str_contains xs pat)"

definition message_matches :: "(string \<Rightarrow> string) \<Rightarrow> message_filter \<Rightarrow> message \<Rightarrow> bool" where
  "message_matches to_lowercase f m \<longleftrightarrow>
     (case filter_channel f of Some c \<Rightarrow> msg_channel m = c | None \<Rightarrow> True)
     \<and> (case filter_author f of Some a \<Rightarrow> msg_author m = a | None \<Rightarrow> True)
     \<and> (case filter_query f of
          Some q \<Rightarrow> (case msg_content m of Some content \<Rightarrow> str_contains (to_lowercase content) q | None \<Rightarrow> False)
        | None \<Rightarrow> True)
     \<and> (case filter_pinned f of
          Some pinned \<Rightarrow> (case msg_pinned m of Some p \<Rightarrow> p | None \<Rightarrow> False) \<noteq> pinned
        | None \<Rightarrow> True)"

definition fetch_messages :: "(string \<Rightarrow> string) \<Rightarrow> reference_db \<Rightarrow> message_query \<Rightarrow> message list result" where
  "fetch_messages to_lowercase db q =
     Ok (filter (message_matches to_lowercase (query_filter q)) (hm_values (db_messages db)))"

definition fetch_messages_by_id :: "reference_db \<Rightarrow> string list \<Rightarrow> message list result" where
  "fetch_messages_by_id db ids = collect_res (map (fetch_message db) ids)"

definition update_message ::
  "optional_structs \<Rightarrow> string \<Rightarrow> partial_message \<Rightarrow> fields_message list \<Rightarrow> unit db_op" where
  "update_message opt i partial remove db =
     (if hm_contains (db_messages db) i
      then (Ok (), db\<lparr>db_messages :=
        hm_adjust i (\<lambda>m. fold message_remove_field remove (apply_message opt partial m)) (db_messages db)\<rparr>)
      else (Err NotFound, db))"

definition append_embeds_to :: "append_message \<Rightarrow> message \<Rightarrow> message" where
  "append_embeds_to a m = (case append_embeds a of
     Some embeds \<Rightarrow>
       if embeds \<noteq> []
       then m\<lparr>msg_embeds := Some (case msg_embeds m of Some data \<Rightarrow> data @ embeds | None \<Rightarrow> embeds)\<rparr>
       else m
   | None \<Rightarrow> m)"

definition db_append_message :: "string \<Rightarrow> append_message \<Rightarrow> unit db_op" where
  "db_append_message i a db =
     (if hm_contains (db_messages db) i
      then (Ok (), db\<lparr>db_messages := hm_adjust i (append_embeds_to a) (db_messages db)\<rparr>)
      else (Err NotFound, db))"

text \<open>The reactions are an \<open>IndexMap\<close> of \<open>IndexSet\<close>s: a map of sets without duplicates. The
  order in which entries are kept after a removal is not modelled.\<close>

definition set_insert :: "'a \<Rightarrow> 'a list \<Rightarrow> 'a list" where
  "set_insert x xs = (if x \<in> set xs then xs else xs @ [x])"

definition db_add_reaction :: "string \<Rightarrow> string \<Rightarrow> string \<Rightarrow> unit db_op" where
  "db_add_reaction i emoji uid db =
     (if hm_contains (db_messages db) i
      then (Ok (), db\<lparr>db_messages := hm_adjust i (\<lambda>m. m\<lparr>msg_reactions :=
          if hm_contains (msg_reactions m) emoji
          then hm_adjust emoji (set_insert uid) (msg_reactions m)
          else AList.update emoji [uid] (msg_reactions m)\<rparr>) (db_messages db)\<rparr>)
      else (Err NotFound, db))"

definition db_remove_reaction :: "string \<Rightarrow> string \<Rightarrow> string \<Rightarrow> unit db_op" where
  "db_remove_reaction i emoji uid db =
     (if hm_contains (db_messages db) i
      then (Ok (), db\<lparr>db_messages := hm_adjust i (\<lambda>m. m\<lparr>msg_reactions :=
          hm_adjust emoji (filter (\<lambda>u. u \<noteq> uid)) (msg_reactions m)\<rparr>) (db_messages db)\<rparr>)
      else (Err NotFound, db))"

definition db_clear_reaction :: "string \<Rightarrow> string \<Rightarrow> unit db_op" where
  "db_clear_reaction i emoji db =
     (if hm_contains (db_messages db) i
      then (Ok (), db\<lparr>db_messages := hm_adjust i (\<lambda>m. m\<lparr>msg_reactions :=
          AList.delete emoji (msg_reactions m)\<rparr>) (db_messages db)\<rparr>)
      else (Err NotFound, db))"

definition delete_message :: "string \<Rightarrow> unit db_op" where
  "delete_message i db =
     (if hm_contains (db_messages db) i then (Ok (), db\<lparr>db_messages := AList.delete i (db_messages db)\<rparr>)
      else (Err NotFound, db))"

definition delete_messages :: "string \<Rightarrow> string list \<Rightarrow> unit db_op" where
  "delete_messages cid ids db =
     (Ok (), db\<lparr>db_messages :=
        hm_retain (\<lambda>i m. msg_channel m \<noteq> cid \<and> i \<notin> set ids) (db_messages db)\<rparr>)"

section \<open>Files\<close>

definition insert_attachment :: "stored_file \<Rightarrow> unit db_op" where
  "insert_attachment f db =
     (if hm_contains (db_files db) (file_id f) then (Err (DatabaseError ''insert'' ''attachment''), db)
      else (Ok (), db\<lparr>db_files := AList.update (file_id f) f (db_files db)\<rparr>))"

definition fetch_attachment :: "reference_db \<Rightarrow> string \<Rightarrow> string \<Rightarrow> stored_file result" where
  "fetch_attachment db tag fid = (case map_of (db_files db) fid of
     Some f \<Rightarrow> if file_tag f = tag then Ok f else Err NotFound
   | None \<Rightarrow> Err NotFound)"

definition fetch_deleted_attachments :: "reference_db \<Rightarrow> stored_file list result" where
  "fetch_deleted_attachments db =
     Ok (filter (\<lambda>f. file_deleted f = Some True \<and> file_reported f \<noteq> Some True) (hm_values (db_files db)))"

definition fetch_dangling_files :: "reference_db \<Rightarrow> stored_file list result" where
  "fetch_dangling_files db =
     Ok (filter (\<lambda>f. file_used_for f = None \<and> file_deleted f \<noteq> Some True) (hm_values (db_files db)))"

definition count_file_hash_references :: "reference_db \<Rightarrow> string \<Rightarrow> usize result" where
  "count_file_hash_references db h =
     Ok (length (filter (\<lambda>f. file_hash f = Some h) (hm_values (db_files db))))"

definition find_and_use_attachment :: "string \<Rightarrow> string \<Rightarrow> file_used_for \<Rightarrow> string \<Rightarrow> stored_file db_op" where
  "find_and_use_attachment i tag used_for uploader db = (case map_of (db_files db) i of
     Some f \<Rightarrow>
       if file_tag f = tag
       then (let f' = f\<lparr>file_uploader_id := Some uploader, file_used_for := Some used_for\<rparr>
             in (Ok f', db\<lparr>db_files := hm_adjust i (\<lambda>_. f') (db_files db)\<rparr>))
       else (Err NotFound, db)
   | None \<Rightarrow> (Err NotFound, db))"

definition mark_attachment_as_reported :: "string \<Rightarrow> unit db_op" where
  "mark_attachment_as_reported i db =
     (if hm_contains (db_files db) i
      then (Ok (), db\<lparr>db_files := hm_adjust i (\<lambda>f. f\<lparr>file_reported := Some True\<rparr>) (db_files db)\<rparr>)
      else (Err NotFound, db))"

definition mark_attachment_as_deleted :: "string \<Rightarrow> unit db_op" where
  "mark_attachment_as_deleted i db =
     (if hm_contains (db_files db) i
      then (Ok (), db\<lparr>db_files := hm_adjust i (\<lambda>f. f\<lparr>file_deleted := Some True\<rparr>) (db_files db)\<rparr>)
      else (Err NotFound, db))"

definition mark_attachments_as_deleted :: "string list \<Rightarrow> unit db_op" where
  "mark_attachments_as_deleted ids db =
     (if \<exists>i\<in>set ids. \<not> hm_contains (db_files db) i then (Err NotFound, db)
      else (Ok (), db\<lparr>db_files :=
        fold (\<lambda>i. hm_adjust i (\<lambda>f. f\<lparr>file_reported := Some True\<rparr>)) ids (db_files db)\<rparr>))"

definition delete_attachment :: "string \<Rightarrow> unit db_op" where
  "delete_attachment i db =
     (if hm_contains (db_files db) i then (Ok (), db\<lparr>db_files := AList.delete i (db_files db)\<rparr>)
      else (Err NotFound, db))"

section \<open>Rate limit events\<close>

definition insert_ratelimit_event :: "ratelimit_event \<Rightarrow> unit db_op" where
  "insert_ratelimit_event e db =
     (if hm_contains (db_ratelimit_events db) (rle_id e) then (Err (DatabaseError ''insert'' ''message''), db)
      else (Ok (), db\<lparr>db_ratelimit_events := AList.update (rle_id e) e (db_ratelimit_events db)\<rparr>))"

text \<open>The smallest ULID of the period, \<open>gte_cmp_id\<close>, is computed from the clock by the ULID
  library and is an argument.\<close>

definition has_ratelimited ::
  "string \<Rightarrow> reference_db \<Rightarrow> string \<Rightarrow> ratelimit_event_type \<Rightarrow> usize \<Rightarrow> bool result" where
  "has_ratelimited gte_cmp_id db target event_type count =
     Ok (length (filter (\<lambda>(i, e). str_less gte_cmp_id i \<and> rle_target_id e = target
         \<and> rle_event_type e = event_type) (db_ratelimit_events db)) \<ge> count)"

definition ratelimit_event_create :: "string \<Rightarrow> string \<Rightarrow> ratelimit_event_type \<Rightarrow> unit db_op" where
  "ratelimit_event_create ulid target event_type =
     insert_ratelimit_event \<lparr>rle_id = ulid, rle_target_id = target, rle_event_type = event_type\<rparr>"

section \<open>Emoji\<close>

definition insert_emoji :: "emoji \<Rightarrow> unit db_op" where
  "insert_emoji e db =
     (if hm_contains (db_emojis db) (emoji_id e) then (Err (DatabaseError ''insert'' ''emoji''), db)
      else (Ok (), db\<lparr>db_emojis := AList.update (emoji_id e) e (db_emojis db)\<rparr>))"

definition fetch_emoji :: "reference_db \<Rightarrow> string \<Rightarrow> emoji result" where
  "fetch_emoji db i = ok_or (map_of (db_emojis db) i) NotFound"

definition fetch_emoji_by_parent_id :: "reference_db \<Rightarrow> string \<Rightarrow> emoji list result" where
  "fetch_emoji_by_parent_id db parent =
     Ok (filter (\<lambda>e. emoji_parent e = EmojiServer parent) (hm_values (db_emojis db)))"

definition fetch_emoji_by_parent_ids :: "reference_db \<Rightarrow> string list \<Rightarrow> emoji list result" where
  "fetch_emoji_by_parent_ids db parents =
     Ok (filter (\<lambda>e. case emoji_parent e of EmojiServer i \<Rightarrow> i \<in> set parents | _ \<Rightarrow> False) (hm_values (db_emojis db)))"

definition detach_emoji :: "emoji \<Rightarrow> unit db_op" where
  "detach_emoji e db =
     (if hm_contains (db_emojis db) (emoji_id e)
      then (Ok (), db\<lparr>db_emojis :=
        hm_adjust (emoji_id e) (\<lambda>x. x\<lparr>emoji_parent := EmojiDetached\<rparr>) (db_emojis db)\<rparr>)
      else (Err NotFound, db))"

section \<open>Bots\<close>

definition insert_bot :: "bot \<Rightarrow> unit db_op" where
  "insert_bot b db =
     (if hm_contains (db_bots db) (bot_id b) then (Err (DatabaseError ''insert'' ''bot''), db)
      else (Ok (), db\<lparr>db_bots := AList.update (bot_id b) b (db_bots db)\<rparr>))"

definition fetch_bot :: "reference_db \<Rightarrow> string \<Rightarrow> bot result" where
  "fetch_bot db i = ok_or (map_of (db_bots db) i) NotFound"

definition fetch_bot_by_token :: "reference_db \<Rightarrow> string \<Rightarrow> bot result" where
  "fetch_bot_by_token db token = ok_or (List.find (\<lambda>b. bot_token b = token) (hm_values (db_bots db))) NotFound"

definition fetch_bots_by_user :: "reference_db \<Rightarrow> string \<Rightarrow> bot list result" where
  "fetch_bots_by_user db uid = Ok (filter (\<lambda>b. bot_owner b = uid) (hm_values (db_bots db)))"

definition get_number_of_bots_by_user :: "reference_db \<Rightarrow> string \<Rightarrow> usize result" where
  "get_number_of_bots_by_user db uid = Ok (length (filter (\<lambda>b. bot_owner b = uid) (hm_values (db_bots db))))"

definition delete_bot :: "string \<Rightarrow> unit db_op" where
  "delete_bot i db =
     (if hm_contains (db_bots db) i then (Ok (), db\<lparr>db_bots := AList.delete i (db_bots db)\<rparr>)
      else (Err NotFound, db))"

definition find_ai_companion_bot_by_owner :: "reference_db \<Rightarrow> string \<Rightarrow> bot option result" where
  "find_ai_companion_bot_by_owner db owner =
     Ok (List.find (\<lambda>b. bot_owner b = owner \<and> bot_type b = BotAiCompanion) (hm_values (db_bots db)))"

definition update_bot_joined_server :: "string \<Rightarrow> string option \<Rightarrow> unit db_op" where
  "update_bot_joined_server i sid db =
     (if hm_contains (db_bots db) i
      then (Ok (), db\<lparr>db_bots := hm_adjust i (\<lambda>b. b\<lparr>bot_joined_server_id := sid\<rparr>) (db_bots db)\<rparr>)
      else (Err NotFound, db))"

definition update_bot_public_key :: "string \<Rightarrow> string \<Rightarrow> timestamp \<Rightarrow> unit db_op" where
  "update_bot_public_key i pem registered_at db =
     (if hm_contains (db_bots db) i
      then (Ok (), db\<lparr>db_bots := hm_adjust i (\<lambda>b. b\<lparr>bot_public_key_pem := Some pem,
        bot_public_key_registered_at := Some registered_at\<rparr>) (db_bots db)\<rparr>)
      else (Err NotFound, db))"

end
