(* ===== verification/Reference_Db_Laws.thy ===== *)
theory Reference_Db_Laws
  imports Reference_Db
begin

text \<open>
  What the reference database promises: the contract of an entity table and its interpretations, and
  the invariant that every table is keyed, without duplicates, by the identifier its entries carry,
  for every database reached from the empty one by the writing operations.
\<close>

section \<open>Tables keyed by an identifier\<close>

text \<open>The life of an entry of a table, in terms of the operations: under a free identifier an insertion
  succeeds, is read back, keeps every other entry, blocks a second insertion, and is undone by a
  deletion; under a taken identifier an insertion fails and changes nothing.\<close>

definition entry_life_cycle :: "('v \<Rightarrow> 'k) \<Rightarrow> ('v \<Rightarrow> 'db \<Rightarrow> unit result \<times> 'db) \<Rightarrow> ('db \<Rightarrow> 'k \<Rightarrow> 'v result)
    \<Rightarrow> ('k \<Rightarrow> 'db \<Rightarrow> unit result \<times> 'db) \<Rightarrow> error_type \<Rightarrow> 'db \<Rightarrow> 'v \<Rightarrow> bool" where
  "entry_life_cycle key ins fetch del dup db v =
     (if fetch db (key v) = Err NotFound
      then let db1 = snd (ins v db); db2 = snd (del (key v) db1) in
        fst (ins v db) = Ok ()
        \<and> (\<forall>k. fetch db1 k = (if k = key v then Ok v else fetch db k))
        \<and> (\<forall>w. key w = key v \<longrightarrow> ins w db1 = (Err dup, db1))
        \<and> fst (del (key v) db1) = Ok () \<and> (\<forall>k. fetch db2 k = fetch db k)
      else ins v db = (Err dup, db))"

locale entity_table =
  fixes get :: "'db \<Rightarrow> 'k \<Rightarrow> 'v option"
    and key :: "'v \<Rightarrow> 'k"
    and insert :: "'v \<Rightarrow> 'db \<Rightarrow> unit result \<times> 'db"
    and fetch :: "'db \<Rightarrow> 'k \<Rightarrow> 'v result"
    and delete :: "'k \<Rightarrow> 'db \<Rightarrow> unit result \<times> 'db"
    and duplicate :: error_type
  assumes insert_fresh: "get db (key v) = None \<Longrightarrow> fst (insert v db) = Ok ()"
    and get_insert: "get db (key v) = None \<Longrightarrow>
      get (snd (insert v db)) k = (if k = key v then Some v else get db k)"
    and insert_taken: "get db (key v) \<noteq> None \<Longrightarrow> insert v db = (Err duplicate, db)"
    and fetch_get: "fetch db k = ok_or (get db k) NotFound"
    and delete_present: "get db k \<noteq> None \<Longrightarrow> fst (delete k db) = Ok ()"
    and get_delete: "get db k \<noteq> None \<Longrightarrow> get (snd (delete k db)) k' = (if k' = k then None else get db k')"
    and delete_absent: "get db k = None \<Longrightarrow> delete k db = (Err NotFound, db)"
begin

text \<open>The life of an entry: a successful insertion is read back and keeps every other entry, a second
  insertion under the same identifier is refused and changes nothing, and after a deletion the entry
  is gone and the identifier is free again.\<close>

lemma insert_Ok_iff: "fst (insert v db) = Ok () \<longleftrightarrow> get db (key v) = None"
  using insert_fresh insert_taken by (cases "get db (key v) = None") auto

lemma fetch_after_insert:
  "fst (insert v db) = Ok () \<Longrightarrow>
   fetch (snd (insert v db)) k = (if k = key v then Ok v else fetch db k)"
  by (simp add: insert_Ok_iff fetch_get get_insert ok_or_def)

lemma insert_again:
  "fst (insert v db) = Ok () \<Longrightarrow> key w = key v \<Longrightarrow>
   insert w (snd (insert v db)) = (Err duplicate, snd (insert v db))"
  by (rule insert_taken) (simp add: insert_Ok_iff get_insert)

lemma fetch_after_delete:
  "fst (delete k db) = Ok () \<Longrightarrow>
   fetch (snd (delete k db)) k' = (if k' = k then Err NotFound else fetch db k')"
  using delete_absent [of db k] by (cases "get db k = None") (auto simp: fetch_get get_delete ok_or_def)

lemma delete_then_insert:
  "fst (delete (key v) db) = Ok () \<Longrightarrow> fst (insert v (snd (delete (key v) db))) = Ok ()"
  using delete_absent [of db "key v"]
  by (cases "get db (key v) = None") (auto simp: insert_Ok_iff get_delete)

lemma fetch_taken: "fetch db (key v) \<noteq> Err NotFound \<Longrightarrow> insert v db = (Err duplicate, db)"
  by (rule insert_taken) (auto simp: fetch_get ok_or_def split: option.splits)

text \<open>The same as one statement about an insertion.\<close>

lemma life_cycle: "entry_life_cycle key insert fetch delete duplicate db v"
proof (cases "fetch db (key v) = Err NotFound")
  case True
  then have fresh: "get db (key v) = None"
    by (auto simp: fetch_get ok_or_def split: option.splits)
  then have ok: "fst (insert v db) = Ok ()" by (rule insert_fresh)
  have "get (snd (insert v db)) (key v) \<noteq> None" using fresh by (simp add: get_insert)
  then have del: "fst (delete (key v) (snd (insert v db))) = Ok ()" by (rule delete_present)
  show ?thesis
    using True ok del fetch_after_insert [OF ok] insert_again [OF ok] fetch_after_delete [OF del]
    by (simp add: entry_life_cycle_def Let_def)
qed (simp add: entry_life_cycle_def fetch_taken)

end

interpretation users: entity_table
  "\<lambda>db. map_of (db_users db)" user_id insert_user fetch_user delete_user "DatabaseError ''insert'' ''user''"
  by unfold_locales (auto simp: insert_user_def fetch_user_def delete_user_def hm_contains_def hm.get_simps)

interpretation servers: entity_table
  "\<lambda>db. map_of (db_servers db)" server_id insert_server fetch_server delete_server "DatabaseError ''insert'' ''server''"
  by unfold_locales (auto simp: insert_server_def fetch_server_def delete_server_def hm_contains_def hm.get_simps)

interpretation messages: entity_table
  "\<lambda>db. map_of (db_messages db)" msg_id insert_message fetch_message delete_message "DatabaseError ''insert'' ''message''"
  by unfold_locales (auto simp: insert_message_def fetch_message_def delete_message_def hm_contains_def hm.get_simps)

interpretation bots: entity_table
  "\<lambda>db. map_of (db_bots db)" bot_id insert_bot fetch_bot delete_bot "DatabaseError ''insert'' ''bot''"
  by unfold_locales (auto simp: insert_bot_def fetch_bot_def delete_bot_def hm_contains_def hm.get_simps)

lemma composite_key_eta [simp]: "\<lparr>key_server = key_server k, key_user = key_user k\<rparr> = k"
  by (cases k) simp

text \<open>Bans and members are fetched by server and user, and a channel is deleted through a value that has its
  identifier.\<close>

interpretation bans: entity_table
  "\<lambda>db. map_of (db_server_bans db)" ban_id insert_ban "\<lambda>db k. fetch_ban db (key_server k) (key_user k)"
  delete_ban "DatabaseError ''insert'' ''ban''"
  by unfold_locales (auto simp: insert_ban_def fetch_ban_def delete_ban_def hm_contains_def hm.get_simps)

interpretation members: entity_table
  "\<lambda>db. map_of (db_server_members db)" member_id
  "\<lambda>m db. (res_bind (fst (insert_or_merge_member m db)) (\<lambda>_. Ok ()), snd (insert_or_merge_member m db))"
  "\<lambda>db k. fetch_member db (key_server k) (key_user k)" force_delete_member "DatabaseError ''insert'' ''member''"
  by unfold_locales
    (auto simp: insert_or_merge_member_def fetch_member_def force_delete_member_def hm_contains_def hm.get_simps)

interpretation channels: entity_table
  "\<lambda>db. map_of (db_channels db)" channel_id insert_channel fetch_channel
  "\<lambda>i. delete_channel (SavedMessages \<lparr>saved_id = i, saved_user = ''''\<rparr>)" "DatabaseError ''insert'' ''channel''"
  by unfold_locales (auto simp: insert_channel_def fetch_channel_def delete_channel_def hm_contains_def hm.get_simps)

section \<open>The table invariant\<close>

definition table_ok :: "('v \<Rightarrow> 'k) \<Rightarrow> ('k, 'v) hash_map \<Rightarrow> bool" where
  "table_ok key m \<longleftrightarrow> hm_wf m \<and> (\<forall>k v. map_of m k = Some v \<longrightarrow> key v = k)"

definition db_wf :: "reference_db \<Rightarrow> bool" where
  "db_wf db \<longleftrightarrow>
     table_ok bot_id (db_bots db) \<and> table_ok channel_id (db_channels db)
     \<and> table_ok unread_id (db_channel_unreads db) \<and> table_ok emoji_id (db_emojis db)
     \<and> table_ok file_id (db_files db) \<and> table_ok msg_id (db_messages db)
     \<and> table_ok rle_id (db_ratelimit_events db) \<and> table_ok user_id (db_users db)
     \<and> table_ok ban_id (db_server_bans db) \<and> table_ok member_id (db_server_members db)
     \<and> table_ok server_id (db_servers db)"

lemma table_ok_Nil [invariant_intros]: "table_ok key []"
  by (simp add: table_ok_def hm_wf_def)

lemma table_ok_insert [invariant_intros]: "table_ok key m \<Longrightarrow> key v = k \<Longrightarrow> table_ok key (AList.update k v m)"
  by (auto simp: table_ok_def hm.wf_insert hm.get_insert)

lemma table_ok_delete [invariant_intros]: "table_ok key m \<Longrightarrow> table_ok key (AList.delete k m)"
  by (auto simp: table_ok_def hm.wf_remove hm.get_remove split: if_splits)

lemma table_ok_retain [invariant_intros]: "table_ok key m \<Longrightarrow> table_ok key (hm_retain P m)"
  by (auto simp: table_ok_def hm.wf_retain hm.get_retain_Some)

lemma table_ok_adjust [invariant_intros]:
  "table_ok key m \<Longrightarrow> (\<And>v. map_of m k = Some v \<Longrightarrow> key (f v) = key v) \<Longrightarrow> table_ok key (hm_adjust k f m)"
  by (auto simp: table_ok_def hm.wf_adjust hm.get_adjust split: if_splits)

text \<open>Entities keep their identifier under every edit; for the derived \<open>apply_options\<close> this is the
  documented behaviour that a field absent from the partial value is left alone.\<close>

definition keeps_ids :: "optional_structs \<Rightarrow> bool" where
  "keeps_ids opt \<longleftrightarrow>
     (\<forall>p u. pu_id p = None \<longrightarrow> user_id (apply_user opt p u) = user_id u)
     \<and> (\<forall>p s. ps_id p = None \<longrightarrow> server_id (apply_server opt p s) = server_id s)
     \<and> (\<forall>p m. pm_id p = None \<longrightarrow> member_id (apply_member opt p m) = member_id m)
     \<and> (\<forall>p m. pmsg_id p = None \<longrightarrow> msg_id (apply_message opt p m) = msg_id m)"

lemma remove_field_ids [simp]:
  "user_id (user_remove_field f u) = user_id u"
  "server_id (server_remove_field g s) = server_id s"
  "member_id (member_remove_field h m) = member_id m"
  "msg_id (message_remove_field i msg) = msg_id msg"
proof -
  show "user_id (user_remove_field f u) = user_id u" by (cases f) simp_all
  show "server_id (server_remove_field g s) = server_id s" by (cases g) simp_all
  show "member_id (member_remove_field h m) = member_id m" by (cases h) simp_all
  show "msg_id (message_remove_field i msg) = msg_id msg" by (cases i) simp_all
qed

lemma fold_keeps: "(\<And>x v. key (f x v) = key v) \<Longrightarrow> key (fold f xs v) = key v"
  by (induction xs arbitrary: v) simp_all

lemma append_embeds_id [simp]: "msg_id (append_embeds_to a m) = msg_id m"
  by (simp add: append_embeds_to_def split: option.splits)

lemma relation_ids [simp]:
  "user_id (push_relation t st u) = user_id u" "user_id (retain_relations t u) = user_id u"
  by (simp_all add: push_relation_def retain_relations_def)

lemma add_mention_ok: "table_ok unread_id m \<Longrightarrow> table_ok unread_id (add_mention cid mids uid m)"
  by (auto simp: add_mention_def Let_def intro!: invariant_intros)

lemma fold_add_mention_ok:
  "table_ok unread_id m \<Longrightarrow> table_ok unread_id (fold (add_mention cid mids) uids m)"
  by (induction uids arbitrary: m) (simp_all add: add_mention_ok)

lemma fold_adjust_ok:
  "(\<And>v. key (f v) = key v) \<Longrightarrow> table_ok key m \<Longrightarrow> table_ok key (fold (\<lambda>i. hm_adjust i f) ids m)"
  by (induction ids arbitrary: m) (auto intro!: invariant_intros)

text \<open>One writing operation; partial values do not carry a new identifier.\<close>

inductive db_step :: "optional_structs \<Rightarrow> reference_db \<Rightarrow> reference_db \<Rightarrow> bool" for opt where
  "db_step opt db (snd (insert_user u db))"
| "pu_id p = None \<Longrightarrow> db_step opt db (snd (update_user opt i p fu db))"
| "db_step opt db (snd (db_set_relationship a b st db))"
| "db_step opt db (snd (delete_user i db))"
| "db_step opt db (snd (insert_server s db))"
| "ps_id ps = None \<Longrightarrow> db_step opt db (snd (update_server opt i ps fs db))"
| "db_step opt db (snd (delete_server i db))"
| "db_step opt db (snd (insert_role i r db))"
| "db_step opt db (snd (update_role opt i j pr fr db))"
| "db_step opt db (snd (delete_role i j db))"
| "db_step opt db (snd (insert_or_merge_member m db))"
| "pm_id pm = None \<Longrightarrow> db_step opt db (snd (update_member opt k pm fm db))"
| "db_step opt db (snd (soft_delete_member now k db))"
| "db_step opt db (snd (force_delete_member k db))"
| "db_step opt db (snd (insert_ban b db))"
| "db_step opt db (snd (delete_ban k db))"
| "db_step opt db (snd (insert_channel c db))"
| "db_step opt db (snd (db_add_user_to_group i j db))"
| "db_step opt db (snd (set_channel_role_permission i j ov db))"
| "db_step opt db (snd (update_channel i pc fc db))"
| "db_step opt db (snd (db_remove_user_from_group i j db))"
| "db_step opt db (snd (delete_channel c db))"
| "db_step opt db (snd (set_channel_encryption_key i j db))"
| "db_step opt db (snd (acknowledge_message i j mid db))"
| "db_step opt db (snd (add_mention_to_unread i j mids db))"
| "db_step opt db (snd (add_mention_to_many_unreads i js mids db))"
| "db_step opt db (snd (insert_message msg db))"
| "pmsg_id pmsg = None \<Longrightarrow> db_step opt db (snd (update_message opt i pmsg fmsg db))"
| "db_step opt db (snd (db_append_message i app db))"
| "db_step opt db (snd (db_add_reaction i e j db))"
| "db_step opt db (snd (db_remove_reaction i e j db))"
| "db_step opt db (snd (db_clear_reaction i e db))"
| "db_step opt db (snd (delete_message i db))"
| "db_step opt db (snd (delete_messages i ids db))"
| "db_step opt db (snd (insert_attachment f db))"
| "db_step opt db (snd (find_and_use_attachment i t uf up db))"
| "db_step opt db (snd (mark_attachment_as_reported i db))"
| "db_step opt db (snd (mark_attachment_as_deleted i db))"
| "db_step opt db (snd (mark_attachments_as_deleted ids db))"
| "db_step opt db (snd (delete_attachment i db))"
| "db_step opt db (snd (insert_ratelimit_event ev db))"
| "db_step opt db (snd (insert_emoji em db))"
| "db_step opt db (snd (detach_emoji em db))"
| "db_step opt db (snd (insert_bot bt db))"
| "db_step opt db (snd (delete_bot i db))"
| "db_step opt db (snd (update_bot_joined_server i sid db))"
| "db_step opt db (snd (update_bot_public_key i pem at db))"

lemmas user_write_defs = insert_user_def update_user_def db_set_relationship_def pull_relationship_def
  delete_user_def
lemmas server_write_defs = insert_server_def update_server_def delete_server_def insert_role_def
  update_role_def delete_role_def
lemmas member_write_defs = insert_or_merge_member_def update_member_def soft_delete_member_def
  force_delete_member_def insert_ban_def delete_ban_def
lemmas channel_write_defs = insert_channel_def db_add_user_to_group_def set_channel_role_permission_def
  update_channel_def db_remove_user_from_group_def delete_channel_def set_channel_encryption_key_def
  acknowledge_message_def add_mention_to_unread_def add_mention_to_many_unreads_def
lemmas message_write_defs = insert_message_def update_message_def db_append_message_def db_add_reaction_def
  db_remove_reaction_def db_clear_reaction_def delete_message_def delete_messages_def
lemmas other_write_defs = insert_attachment_def find_and_use_attachment_def mark_attachment_as_reported_def
  mark_attachment_as_deleted_def mark_attachments_as_deleted_def delete_attachment_def
  insert_ratelimit_event_def insert_emoji_def detach_emoji_def insert_bot_def delete_bot_def
  update_bot_joined_server_def update_bot_public_key_def
lemmas write_defs = user_write_defs server_write_defs member_write_defs channel_write_defs
  message_write_defs other_write_defs

lemma keeps_ids_fold:
  assumes "keeps_ids opt"
  shows "pu_id p = None \<Longrightarrow> user_id (apply_user opt p (fold user_remove_field fu u)) = user_id u"
    and "ps_id ps = None \<Longrightarrow> server_id (apply_server opt ps (fold server_remove_field fs s)) = server_id s"
    and "pm_id pm = None \<Longrightarrow> member_id (apply_member opt pm (fold member_remove_field fm m)) = member_id m"
    and "pmsg_id pmsg = None \<Longrightarrow> msg_id (fold message_remove_field fmsg (apply_message opt pmsg msg)) = msg_id msg"
  using assms by (simp_all add: keeps_ids_def fold_keeps)

lemma db_step_wf:
  assumes "db_step opt db db'" "keeps_ids opt" "db_wf db"
  shows "db_wf db'"
  using assms
  by (induction rule: db_step.induct)
     (auto simp: db_wf_def write_defs keeps_ids_fold Let_def channel_users_def
       split: option.splits channel.splits if_splits
       intro!: invariant_intros fold_add_mention_ok add_mention_ok fold_adjust_ok)

inductive reachable_db :: "optional_structs \<Rightarrow> reference_db \<Rightarrow> bool" for opt where
  start: "reachable_db opt empty_db"
| step: "reachable_db opt db \<Longrightarrow> db_step opt db db' \<Longrightarrow> reachable_db opt db'"

lemma empty_db_wf: "db_wf empty_db"
  by (simp add: db_wf_def empty_db_def invariant_intros)

section \<open>Properties\<close>

text \<open>C29: what is inserted is what is fetched. In the tables of users, servers, channels, messages, bots
  and bans an insertion under a free identifier is read back unchanged and touches no other entry, a
  second one under the same identifier is refused without any effect, and deleting the entry restores
  every lookup.\<close>

theorem tables_keep_what_is_inserted:
  "entry_life_cycle user_id insert_user fetch_user delete_user (DatabaseError ''insert'' ''user'') db u
   \<and> entry_life_cycle server_id insert_server fetch_server delete_server (DatabaseError ''insert'' ''server'') db s
   \<and> entry_life_cycle channel_id insert_channel fetch_channel
       (\<lambda>i. delete_channel (SavedMessages \<lparr>saved_id = i, saved_user = ''''\<rparr>))
       (DatabaseError ''insert'' ''channel'') db c
   \<and> entry_life_cycle msg_id insert_message fetch_message delete_message (DatabaseError ''insert'' ''message'') db m
   \<and> entry_life_cycle bot_id insert_bot fetch_bot delete_bot (DatabaseError ''insert'' ''bot'') db b
   \<and> entry_life_cycle ban_id insert_ban (\<lambda>db k. fetch_ban db (key_server k) (key_user k)) delete_ban
       (DatabaseError ''insert'' ''ban'') db x"
  by (intro conjI users.life_cycle servers.life_cycle channels.life_cycle messages.life_cycle
      bots.life_cycle bans.life_cycle)

text \<open>C28: in every database reached from the empty one by the writing operations, each table is keyed by
  the identifier its entries carry and has no two entries under one identifier.\<close>

theorem reachable_databases_well_formed:
  assumes "reachable_db opt db" "keeps_ids opt"
  shows "db_wf db"
  using assms by (induction rule: reachable_db.induct) (auto simp: empty_db_wf intro: db_step_wf)

text \<open>An instance of the derived functions that sets some of the given fields, for the witnesses.\<close>

definition plain_structs :: optional_structs where
  "plain_structs = \<lparr>apply_user = (\<lambda>p u. u\<lparr>user_username := over (pu_username p) (user_username u)\<rparr>),
     apply_server = (\<lambda>p s. s\<lparr>server_name := over (ps_name p) (server_name s)\<rparr>),
     apply_role = (\<lambda>p r. r\<lparr>role_permissions := over (pr_permissions p) (role_permissions r)\<rparr>),
     apply_member = (\<lambda>p m. m\<lparr>member_nickname := over_option (pm_nickname p) (member_nickname m)\<rparr>),
     apply_message = (\<lambda>p m. m\<lparr>msg_content := over_option (pmsg_content p) (msg_content m)\<rparr>)\<rparr>"

lemma plain_structs_keeps_ids: "keeps_ids plain_structs"
  by (simp add: keeps_ids_def plain_structs_def)

theorem reachable_databases_well_formed_witness:
  "db_wf (snd (update_user plain_structs ''U'' (empty_partial_user\<lparr>pu_username := Some ''new''\<rparr>) []
     (snd (insert_user (default_user\<lparr>user_id := ''U''\<rparr>) empty_db))))"
  by (intro reachable_databases_well_formed [OF _ plain_structs_keeps_ids]
      reachable_db.step [OF reachable_db.step [OF reachable_db.start db_step.intros(1)] db_step.intros(2)])
     (simp add: empty_partial_user_def)

text \<open>\<open>delete_messages\<close> deletes more than it is asked to: after deleting a list of identifiers from
  a channel, a message can still be fetched exactly if it could be before, is outside the channel and is
  not in the list. So every message of the channel is lost, also those that were not named, and messages
  of other channels are lost when they are named.\<close>

lemma delete_messages_empties_channel:
  assumes "hm_wf (db_messages db)"
  shows "fetch_message (snd (delete_messages cid ids db)) i = Ok m \<longleftrightarrow>
    fetch_message db i = Ok m \<and> msg_channel m \<noteq> cid \<and> i \<notin> set ids"
  using assms by (auto simp: fetch_message_def delete_messages_def hm.get_retain_Some)

lemma delete_messages_empties_channel_example:
  "fetch_message (snd (delete_messages ''C'' [] (snd (insert_message
     (default_message\<lparr>msg_id := ''M'', msg_channel := ''C''\<rparr>) empty_db)))) ''M''
   \<noteq> Ok (default_message\<lparr>msg_id := ''M'', msg_channel := ''C''\<rparr>)"
  by (subst delete_messages_empties_channel)
     (simp_all add: insert_message_def empty_db_def hm_contains_def hm_wf_def)

text \<open>Removing a user from a group in the reference database reports success and changes nothing:
  whenever the user is a recipient of the stored group the operation returns \<open>Ok\<close> and the database,
  with the user still in the group, is the same as before.\<close>

lemma remove_user_from_group_has_no_effect:
  "snd (db_remove_user_from_group cid uid db) = db \<and>
   (fst (db_remove_user_from_group cid uid db) = Ok () \<longleftrightarrow>
     (\<exists>g. map_of (db_channels db) cid = Some (Group g) \<and> uid \<in> set (group_recipients g)))"
  by (auto simp: db_remove_user_from_group_def channel_users_def split: option.splits channel.splits)

text \<open>The pinned filter of a message search is inverted: asking for pinned messages returns exactly the
  stored messages that are not pinned, and asking for unpinned ones returns the pinned ones.\<close>

lemma pinned_filter_is_inverted:
  "fetch_messages lower db
     \<lparr>query_limit = l, query_filter = \<lparr>filter_channel = None, filter_author = None, filter_query = None,
        filter_pinned = Some pinned\<rparr>, query_time_period = p\<rparr>
   = Ok (filter (\<lambda>m. (msg_pinned m = Some True) = (\<not> pinned)) (hm_values (db_messages db)))"
proof -
  have "message_matches lower \<lparr>filter_channel = None, filter_author = None, filter_query = None,
      filter_pinned = Some pinned\<rparr> m \<longleftrightarrow> (msg_pinned m = Some True) = (\<not> pinned)" for m
    by (cases "msg_pinned m") (auto simp: message_matches_def)
  then show ?thesis by (simp add: fetch_messages_def cong: filter_cong)
qed

text \<open>Three operations of the reference database do not do what their documentation says. Deleting some
  messages of a channel leaves exactly the messages outside the channel that are not named, so every message of the
  channel is lost; removing a user from a group changes nothing, also when it reports success; and a
  search for pinned messages returns exactly the others.\<close>

lemma reference_driver_deviations:
  assumes "hm_wf (db_messages db)"
  shows "(fetch_message (snd (delete_messages cid ids db)) i = Ok m \<longleftrightarrow>
      fetch_message db i = Ok m \<and> msg_channel m \<noteq> cid \<and> i \<notin> set ids)
    \<and> snd (db_remove_user_from_group cid uid db) = db
    \<and> fetch_messages lower db
       \<lparr>query_limit = l, query_filter = \<lparr>filter_channel = None, filter_author = None, filter_query = None,
          filter_pinned = Some pinned\<rparr>, query_time_period = p\<rparr>
      = Ok (filter (\<lambda>m. (msg_pinned m = Some True) = (\<not> pinned)) (hm_values (db_messages db)))"
  by (intro conjI delete_messages_empties_channel [OF assms] conjunct1 [OF remove_user_from_group_has_no_effect]
      pinned_filter_is_inverted)

lemma reference_driver_deviations_example:
  "let db = snd (insert_message (default_message\<lparr>msg_id := ''M'', msg_channel := ''C''\<rparr>) empty_db) in
   fetch_message (snd (delete_messages ''C'' [] db)) ''M'' \<noteq> Ok (default_message\<lparr>msg_id := ''M'', msg_channel := ''C''\<rparr>)
   \<and> snd (db_remove_user_from_group ''C'' ''U'' db) = db"
proof -
  let ?db = "snd (insert_message (default_message\<lparr>msg_id := ''M'', msg_channel := ''C''\<rparr>) empty_db)"
  have "hm_wf (db_messages ?db)" by (simp add: insert_message_def empty_db_def hm_contains_def hm_wf_def)
  note deviations = reference_driver_deviations [OF this, of "''C''" "[]" "''M''"
    "default_message\<lparr>msg_id := ''M'', msg_channel := ''C''\<rparr>" "''U''"]
  have "fetch_message (snd (delete_messages ''C'' [] ?db)) ''M'' \<noteq> Ok (default_message\<lparr>msg_id := ''M'', msg_channel := ''C''\<rparr>)"
    by (subst conjunct1 [OF deviations]) simp
  moreover have "snd (db_remove_user_from_group ''C'' ''U'' ?db) = ?db"
    by (rule conjunct1 [OF conjunct2 [OF deviations]])
  ultimately show ?thesis by (simp only: Let_def simp_thms)
qed

end
