(* ===== verification/Permission_Query.thy ===== *)
theory Permission_Query
  imports Permission_Calc Reference_Db_Laws
begin

unbundle bit_operations_syntax

text \<open>
  The database backed permission query (\<open>crates/core/database/src/util/permissions.rs\<close>): its
  builder, its implementation of every method of \<open>PermissionQuery\<close>, and the interpretation of
  \<open>permission_provider\<close> on it.

  The database is reached through the \<open>Abstract*\<close> traits; the five reads the query makes are the
  record \<open>abstract_database\<close>, so that the results hold for every driver. \<open>reference_database\<close> is
  the instance given by the reference driver. The clock is an argument of the operations and stands
  still during one calculation.
\<close>

section \<open>The database as the query sees it\<close>

record abstract_database =
  adb_fetch_member :: "string \<Rightarrow> string \<Rightarrow> member result"
  adb_fetch_user :: "string \<Rightarrow> user result"
  adb_fetch_server :: "string \<Rightarrow> server result"
  adb_fetch_mutual_server_ids :: "string \<Rightarrow> string \<Rightarrow> string list result"
  adb_fetch_mutual_channel_ids :: "string \<Rightarrow> string \<Rightarrow> string list result"

definition reference_database :: "reference_db \<Rightarrow> abstract_database" where
  "reference_database db = \<lparr>adb_fetch_member = fetch_member db, adb_fetch_user = fetch_user db,
     adb_fetch_server = fetch_server db, adb_fetch_mutual_server_ids = fetch_mutual_server_ids db,
     adb_fetch_mutual_channel_ids = fetch_mutual_channel_ids db\<rparr>"

definition has_mutual_connection :: "abstract_database \<Rightarrow> user \<Rightarrow> string \<Rightarrow> bool result" where
  "has_mutual_connection adb u user_b =
     res_bind (adb_fetch_mutual_server_ids adb (user_id u) user_b) (\<lambda>servers.
       if servers \<noteq> [] then Ok True
       else res_bind (adb_fetch_mutual_channel_ids adb (user_id u) user_b) (\<lambda>channels. Ok (channels \<noteq> [])))"

section \<open>The query\<close>

record db_permission_query =
  q_database :: abstract_database
  q_perspective :: user
  q_user :: "user option"
  q_channel :: "channel option"
  q_server :: "server option"
  q_member :: "member option"
  q_cached_user_permission :: "permission_value option"
  q_cached_mutual_connection :: "bool option"
  q_cached_permission :: "u64 option"

definition new_query :: "abstract_database \<Rightarrow> user \<Rightarrow> db_permission_query" where
  "new_query adb perspective = \<lparr>q_database = adb, q_perspective = perspective, q_user = None,
     q_channel = None, q_server = None, q_member = None, q_cached_user_permission = None,
     q_cached_mutual_connection = None, q_cached_permission = None\<rparr>"

definition with_user :: "user \<Rightarrow> db_permission_query \<Rightarrow> db_permission_query" where
  "with_user u q = q\<lparr>q_user := Some u\<rparr>"

definition with_channel :: "channel \<Rightarrow> db_permission_query \<Rightarrow> db_permission_query" where
  "with_channel c q = q\<lparr>q_channel := Some c\<rparr>"

definition with_server :: "server \<Rightarrow> db_permission_query \<Rightarrow> db_permission_query" where
  "with_server s q = q\<lparr>q_server := Some s\<rparr>"

definition with_member :: "member \<Rightarrow> db_permission_query \<Rightarrow> db_permission_query" where
  "with_member m q = q\<lparr>q_member := Some m\<rparr>"

text \<open>\<open>get_member_rank\<close> unwraps the server.\<close>

definition get_member_rank :: "db_permission_query \<Rightarrow> i64 option result" where
  "get_member_rank q = (case q_member q of
     None \<Rightarrow> Ok None
   | Some m \<Rightarrow> (case q_server q of None \<Rightarrow> Panic | Some s \<Rightarrow> Ok (Some (get_ranking m s))))"

subsection \<open>Users\<close>

definition q_are_we_privileged :: "(db_permission_query, bool) query_op" where
  "q_are_we_privileged q = Some (user_privileged (q_perspective q), q)"

definition q_are_we_a_bot :: "(db_permission_query, bool) query_op" where
  "q_are_we_a_bot q = Some (user_bot (q_perspective q) \<noteq> None, q)"

definition users_same :: "db_permission_query \<Rightarrow> bool" where
  "users_same q = (case q_user q of Some other \<Rightarrow> user_id (q_perspective q) = user_id other | None \<Rightarrow> False)"

definition q_are_the_users_same :: "(db_permission_query, bool) query_op" where
  "q_are_the_users_same q = Some (users_same q, q)"

definition selected_relationship :: "db_permission_query \<Rightarrow> relationship_status" where
  "selected_relationship q = (case q_user q of
     Some other \<Rightarrow>
       if user_id (q_perspective q) = user_id other then Rel_User
       else if (case user_bot other of Some b \<Rightarrow> user_id (q_perspective q) = bot_info_owner b | None \<Rightarrow> False)
       then Rel_User
       else (case user_relations (q_perspective q) of
          Some relations \<Rightarrow>
            (case List.find (\<lambda>e. rel_id e = user_id other) relations of
               Some e \<Rightarrow> rel_status e | None \<Rightarrow> Rel_None)
        | None \<Rightarrow> Rel_None)
   | None \<Rightarrow> Rel_None)"

definition q_user_relationship :: "(db_permission_query, relationship_status) query_op" where
  "q_user_relationship q = Some (selected_relationship q, q)"

definition q_user_is_bot :: "(db_permission_query, bool) query_op" where
  "q_user_is_bot q = Some (case q_user q of Some other \<Rightarrow> user_bot other \<noteq> None | None \<Rightarrow> False, q)"

definition q_have_mutual_connection :: "(db_permission_query, bool) query_op" where
  "q_have_mutual_connection q = (case q_cached_mutual_connection q of
     Some v \<Rightarrow> Some (v, q)
   | None \<Rightarrow> (case q_user q of
       Some u \<Rightarrow> (case has_mutual_connection (q_database q) (q_perspective q) (user_id u) of
           Ok v \<Rightarrow> Some (v, q\<lparr>q_cached_mutual_connection := Some v\<rparr>)
         | Err e \<Rightarrow> Some (False, q\<lparr>q_cached_mutual_connection := Some False\<rparr>)
         | Panic \<Rightarrow> None)
     | None \<Rightarrow> Some (False, q)))"

subsection \<open>Servers\<close>

definition owns_server :: "db_permission_query \<Rightarrow> bool" where
  "owns_server q = (case q_server q of Some s \<Rightarrow> server_owner s = user_id (q_perspective q) | None \<Rightarrow> False)"

definition q_are_we_server_owner :: "(db_permission_query, bool) query_op" where
  "q_are_we_server_owner q = Some (owns_server q, q)"

definition q_are_we_a_member :: "(db_permission_query, bool) query_op" where
  "q_are_we_a_member q = (case q_server q of
     Some s \<Rightarrow>
       if q_member q \<noteq> None then Some (True, q)
       else (case adb_fetch_member (q_database q) (server_id s) (user_id (q_perspective q)) of
           Ok m \<Rightarrow> Some (True, q\<lparr>q_member := Some m\<rparr>)
         | Err e \<Rightarrow> Some (False, q)
         | Panic \<Rightarrow> None)
   | None \<Rightarrow> Some (False, q))"

definition default_server_permissions :: "db_permission_query \<Rightarrow> u64" where
  "default_server_permissions q =
     (case q_server q of Some s \<Rightarrow> i64_as_u64 (server_default_permissions s) | None \<Rightarrow> 0)"

definition q_get_default_server_permissions :: "(db_permission_query, u64) query_op" where
  "q_get_default_server_permissions q = Some (default_server_permissions q, q)"

text \<open>Ranked overrides, from the lowest role (the greatest rank) to the highest one.\<close>

definition sorted_overrides :: "(i64 \<times> override) list \<Rightarrow> override list" where
  "sorted_overrides xs = map snd (sort_desc fst xs)"

definition server_role_overrides :: "server \<Rightarrow> string list \<Rightarrow> override list" where
  "server_role_overrides s roles =
     sorted_overrides (map (\<lambda>(_, r). (role_rank r, field_to_override (role_permissions r)))
       (filter (\<lambda>(i, _). i \<in> set roles) (server_roles s)))"

definition roles_of :: "member option \<Rightarrow> string list" where
  "roles_of m = (case m of Some m \<Rightarrow> member_roles m | None \<Rightarrow> [])"

definition q_get_our_server_role_overrides :: "(db_permission_query, override list) query_op" where
  "q_get_our_server_role_overrides q = Some (case q_server q of
     Some s \<Rightarrow> server_role_overrides s (roles_of (q_member q)) | None \<Rightarrow> [], q)"

definition q_are_we_timed_out :: "timestamp \<Rightarrow> (db_permission_query, bool) query_op" where
  "q_are_we_timed_out now q = Some (case q_member q of Some m \<Rightarrow> in_timeout now m | None \<Rightarrow> False, q)"

definition q_do_we_have_publish_overwrites :: "(db_permission_query, bool) query_op" where
  "q_do_we_have_publish_overwrites q = Some (case q_member q of Some m \<Rightarrow> member_can_publish m | None \<Rightarrow> True, q)"

definition q_do_we_have_receive_overwrites :: "(db_permission_query, bool) query_op" where
  "q_do_we_have_receive_overwrites q = Some (case q_member q of Some m \<Rightarrow> member_can_receive m | None \<Rightarrow> True, q)"

subsection \<open>Channels\<close>

definition kind_of_channel :: "channel option \<Rightarrow> channel_type" where
  "kind_of_channel c = (case c of
     Some (DirectMessage _) \<Rightarrow> CT_DirectMessage
   | Some (Group _) \<Rightarrow> CT_Group
   | Some (SavedMessages _) \<Rightarrow> CT_SavedMessages
   | Some (TextChannel _) \<Rightarrow> CT_ServerChannel
   | None \<Rightarrow> CT_Unknown)"

definition q_get_channel_type :: "(db_permission_query, channel_type) query_op" where
  "q_get_channel_type q = Some (kind_of_channel (q_channel q), q)"

definition default_channel_override :: "channel option \<Rightarrow> override" where
  "default_channel_override c = (case c of
     Some (Group g) \<Rightarrow> \<lparr>allow = i64_as_u64 (case group_permissions g of
         Some p \<Rightarrow> p | None \<Rightarrow> u64_as_i64 DEFAULT_PERMISSION_DIRECT_MESSAGE), deny = 0\<rparr>
   | Some (TextChannel t) \<Rightarrow> field_to_override (case text_default_permissions t of
         Some p \<Rightarrow> p | None \<Rightarrow> default_override_field)
   | _ \<Rightarrow> default_override)"

definition q_get_default_channel_permissions :: "(db_permission_query, override) query_op" where
  "q_get_default_channel_permissions q = Some (default_channel_override (q_channel q), q)"

definition channel_role_overrides ::
  "server \<Rightarrow> (string, override_field) hash_map \<Rightarrow> string list \<Rightarrow> override list" where
  "channel_role_overrides s permissions roles =
     sorted_overrides (List.map_filter (\<lambda>(i, p). case map_of (server_roles s) i of
         Some r \<Rightarrow> Some (role_rank r, field_to_override p) | None \<Rightarrow> None)
       (filter (\<lambda>(i, _). i \<in> set roles) permissions))"

definition selected_channel_overrides :: "db_permission_query \<Rightarrow> member option \<Rightarrow> override list" where
  "selected_channel_overrides q m = (case q_channel q of
     Some (TextChannel t) \<Rightarrow> (case q_server q of
         Some s \<Rightarrow> channel_role_overrides s (text_role_permissions t) (roles_of m)
       | None \<Rightarrow> [])
   | _ \<Rightarrow> [])"

definition q_get_our_channel_role_overrides :: "(db_permission_query, override list) query_op" where
  "q_get_our_channel_role_overrides q = Some (selected_channel_overrides q (q_member q), q)"

definition owns_channel :: "db_permission_query \<Rightarrow> bool" where
  "owns_channel q = (case q_channel q of
     Some (Group g) \<Rightarrow> group_owner g = user_id (q_perspective q)
   | Some (SavedMessages s) \<Rightarrow> saved_user s = user_id (q_perspective q)
   | _ \<Rightarrow> False)"

definition q_do_we_own_the_channel :: "(db_permission_query, bool) query_op" where
  "q_do_we_own_the_channel q = Some (owns_channel q, q)"

definition moderates_channel :: "db_permission_query \<Rightarrow> bool" where
  "moderates_channel q = (case q_channel q of
     Some (Group g) \<Rightarrow> user_id (q_perspective q) \<in> set (group_moderators g) | _ \<Rightarrow> False)"

definition q_are_we_a_group_moderator :: "(db_permission_query, bool) query_op" where
  "q_are_we_a_group_moderator q = Some (moderates_channel q, q)"

definition part_of_channel :: "db_permission_query \<Rightarrow> bool" where
  "part_of_channel q = (case q_channel q of
     Some (DirectMessage d) \<Rightarrow> user_id (q_perspective q) \<in> set (dm_recipients d)
   | Some (Group g) \<Rightarrow> user_id (q_perspective q) \<in> set (group_recipients g)
   | _ \<Rightarrow> False)"

definition q_are_we_part_of_the_channel :: "(db_permission_query, bool) query_op" where
  "q_are_we_part_of_the_channel q = Some (part_of_channel q, q)"

definition q_set_recipient_as_user :: "(db_permission_query, unit) query_op" where
  "q_set_recipient_as_user q = (case q_channel q of
     Some (DirectMessage d) \<Rightarrow>
       (case List.find (\<lambda>r. r \<noteq> user_id (q_perspective q)) (dm_recipients d) of
          None \<Rightarrow> None
        | Some recipient \<Rightarrow> (case adb_fetch_user (q_database q) recipient of
              Ok u \<Rightarrow> Some ((), q\<lparr>q_user := Some u\<rparr>)
            | Err e \<Rightarrow> Some ((), q)
            | Panic \<Rightarrow> None))
   | Some _ \<Rightarrow> None
   | None \<Rightarrow> Some ((), q))"

definition q_set_server_from_channel :: "(db_permission_query, unit) query_op" where
  "q_set_server_from_channel q = (case q_channel q of
     Some (TextChannel t) \<Rightarrow>
       if (case q_server q of Some known \<Rightarrow> text_server t = server_id known | None \<Rightarrow> False)
       then Some ((), q)
       else (case adb_fetch_server (q_database q) (text_server t) of
           Ok s \<Rightarrow> Some ((), q\<lparr>q_server := Some s\<rparr>)
         | Err e \<Rightarrow> Some ((), q)
         | Panic \<Rightarrow> None)
   | Some _ \<Rightarrow> None
   | None \<Rightarrow> Some ((), q))"

definition db_query :: "timestamp \<Rightarrow> db_permission_query permission_query" where
  "db_query now = \<lparr>
     are_we_privileged = q_are_we_privileged,
     are_we_a_bot = q_are_we_a_bot,
     are_the_users_same = q_are_the_users_same,
     user_relationship = q_user_relationship,
     user_is_bot = q_user_is_bot,
     have_mutual_connection = q_have_mutual_connection,
     are_we_server_owner = q_are_we_server_owner,
     are_we_a_member = q_are_we_a_member,
     get_default_server_permissions = q_get_default_server_permissions,
     get_our_server_role_overrides = q_get_our_server_role_overrides,
     are_we_timed_out = q_are_we_timed_out now,
     do_we_have_publish_overwrites = q_do_we_have_publish_overwrites,
     do_we_have_receive_overwrites = q_do_we_have_receive_overwrites,
     get_channel_type = q_get_channel_type,
     get_default_channel_permissions = q_get_default_channel_permissions,
     get_our_channel_role_overrides = q_get_our_channel_role_overrides,
     do_we_own_the_channel = q_do_we_own_the_channel,
     are_we_a_group_moderator = q_are_we_a_group_moderator,
     are_we_part_of_the_channel = q_are_we_part_of_the_channel,
     set_recipient_as_user = q_set_recipient_as_user,
     set_server_from_channel = q_set_server_from_channel\<rparr>"

text \<open>\<open>calc_user\<close>: the permissions against the selected user, cached.\<close>

definition calc_user :: "timestamp \<Rightarrow> db_permission_query \<Rightarrow> db_permission_query option" where
  "calc_user now q =
     (if q_cached_user_permission q \<noteq> None then Some q
      else if q_user q = None then None
      else (case calculate_user_permissions (db_query now) q of
          Some (p, q') \<Rightarrow> Some (q'\<lparr>q_cached_user_permission := Some p\<rparr>)
        | None \<Rightarrow> None))"

section \<open>What the query reports\<close>

text \<open>The member the query uses: the one it was given, or the one the database has for the selected
  server.\<close>

definition known_member :: "db_permission_query \<Rightarrow> member option" where
  "known_member q = (case q_member q of
     Some m \<Rightarrow> Some m
   | None \<Rightarrow> (case q_server q of
       Some s \<Rightarrow> (case adb_fetch_member (q_database q) (server_id s) (user_id (q_perspective q)) of
           Ok m \<Rightarrow> Some m | _ \<Rightarrow> None)
     | None \<Rightarrow> None))"

definition known_mutual :: "db_permission_query \<Rightarrow> bool" where
  "known_mutual q = (case q_cached_mutual_connection q of
     Some v \<Rightarrow> v
   | None \<Rightarrow> (case q_user q of
       Some u \<Rightarrow> has_mutual_connection (q_database q) (q_perspective q) (user_id u) = Ok True
     | None \<Rightarrow> False))"

definition db_facts :: "timestamp \<Rightarrow> db_permission_query \<Rightarrow> permission_facts" where
  "db_facts now q = \<lparr>
     f_privileged = user_privileged (q_perspective q),
     f_bot = (user_bot (q_perspective q) \<noteq> None),
     f_same = users_same q,
     f_relationship = selected_relationship q,
     f_user_is_bot = (case q_user q of Some other \<Rightarrow> user_bot other \<noteq> None | None \<Rightarrow> False),
     f_mutual = known_mutual q,
     f_owner = owns_server q,
     f_member = (q_server q \<noteq> None \<and> known_member q \<noteq> None),
     f_default = default_server_permissions q,
     f_role_overrides = (case q_server q of
        Some s \<Rightarrow> server_role_overrides s (roles_of (known_member q)) | None \<Rightarrow> []),
     f_timed_out = (case known_member q of Some m \<Rightarrow> in_timeout now m | None \<Rightarrow> False),
     f_publish = (case known_member q of Some m \<Rightarrow> member_can_publish m | None \<Rightarrow> True),
     f_receive = (case known_member q of Some m \<Rightarrow> member_can_receive m | None \<Rightarrow> True),
     f_channel_type = kind_of_channel (q_channel q),
     f_channel_default = default_channel_override (q_channel q),
     f_channel_overrides = selected_channel_overrides q (known_member q),
     f_own_channel = owns_channel q,
     f_moderator = moderates_channel q,
     f_part = part_of_channel q\<rparr>"

definition facts_after :: "timestamp \<Rightarrow> (db_permission_query, unit) query_op \<Rightarrow> db_permission_query \<Rightarrow> permission_facts" where
  "facts_after now m q = (case m q of Some (_, q') \<Rightarrow> db_facts now q' | None \<Rightarrow> db_facts now q)"

text \<open>The calculations do not panic when the database reads do not: the reads of members, users and
  servers always answer, a direct message has somebody besides the viewer, and either the driver can
  answer for mutual connections or no user is or will be selected. The last case covers the reference
  driver, whose mutual connection reads are unimplemented, on every channel but a direct message.\<close>

definition is_dm_channel :: "channel option \<Rightarrow> bool" where
  "is_dm_channel c \<longleftrightarrow> kind_of_channel c = CT_DirectMessage"

definition reads_answer :: "abstract_database \<Rightarrow> bool" where
  "reads_answer adb \<longleftrightarrow> (\<forall>s u. adb_fetch_member adb s u \<noteq> Panic) \<and> (\<forall>u. adb_fetch_user adb u \<noteq> Panic)
     \<and> (\<forall>s. adb_fetch_server adb s \<noteq> Panic)"

definition mutual_answers :: "abstract_database \<Rightarrow> bool" where
  "mutual_answers adb \<longleftrightarrow> (\<forall>a b. adb_fetch_mutual_server_ids adb a b \<noteq> Panic)
     \<and> (\<forall>a b. adb_fetch_mutual_channel_ids adb a b \<noteq> Panic)"

definition other_recipient :: "db_permission_query \<Rightarrow> string option" where
  "other_recipient q = (case q_channel q of
     Some (DirectMessage d) \<Rightarrow> List.find (\<lambda>r. r \<noteq> user_id (q_perspective q)) (dm_recipients d)
   | _ \<Rightarrow> None)"

definition query_inv :: "db_permission_query \<Rightarrow> bool" where
  "query_inv q \<longleftrightarrow> reads_answer (q_database q)
     \<and> (is_dm_channel (q_channel q) \<longrightarrow> other_recipient q \<noteq> None)
     \<and> (mutual_answers (q_database q) \<or> (q_user q = None \<and> \<not> is_dm_channel (q_channel q)))"

definition query_loaded :: "db_permission_query \<Rightarrow> bool" where
  "query_loaded q \<longleftrightarrow> q_server q \<noteq> None \<and> q_member q \<noteq> None"

definition query_keeps :: "timestamp \<Rightarrow> db_permission_query \<Rightarrow> db_permission_query \<Rightarrow> bool" where
  "query_keeps now q q' \<longleftrightarrow> query_inv q' \<and> db_facts now q' = db_facts now q
     \<and> (query_loaded q \<longrightarrow> query_loaded q')"

definition query_stays :: "timestamp \<Rightarrow> db_permission_query \<Rightarrow> db_permission_query \<Rightarrow> bool" where
  "query_stays now q q' \<longleftrightarrow> query_keeps now q q'
     \<and> facts_after now q_set_recipient_as_user q' = facts_after now q_set_recipient_as_user q
     \<and> facts_after now q_set_server_from_channel q' = facts_after now q_set_server_from_channel q"

lemmas fact_defs = known_mutual_def known_member_def users_same_def selected_relationship_def
  owns_server_def default_server_permissions_def selected_channel_overrides_def owns_channel_def
  moderates_channel_def part_of_channel_def

lemma query_stays_same: "query_inv q \<Longrightarrow> query_stays now q q"
  by (simp add: query_stays_def query_keeps_def)

lemma answers_same: "query_inv q \<Longrightarrow> v = w \<Longrightarrow> answers (Some (v, q)) w (query_stays now q)"
  by (simp add: answers_def query_stays_same)

lemma has_mutual_not_panic: "mutual_answers adb \<Longrightarrow> has_mutual_connection adb u b \<noteq> Panic"
  by (cases "adb_fetch_mutual_server_ids adb (user_id u) b"; cases "adb_fetch_mutual_channel_ids adb (user_id u) b")
     (auto simp: has_mutual_connection_def mutual_answers_def)

lemma mutual_law:
  assumes "query_inv q"
  shows "answers (q_have_mutual_connection q) (known_mutual q) (query_keeps now q)"
proof (cases "q_cached_mutual_connection q")
  case (Some v)
  then show ?thesis
    using assms by (simp add: answers_def q_have_mutual_connection_def known_mutual_def query_keeps_def)
next
  case uncached: None
  show ?thesis
  proof (cases "q_user q")
    case None
    then show ?thesis
      using assms uncached by (simp add: answers_def q_have_mutual_connection_def known_mutual_def query_keeps_def)
  next
    case (Some u)
    have np: "has_mutual_connection (q_database q) (q_perspective q) (user_id u) \<noteq> Panic"
      using assms Some by (auto simp: query_inv_def has_mutual_not_panic)
    have facts: "db_facts now (q\<lparr>q_cached_mutual_connection := Some v\<rparr>) = db_facts now q" if "v = known_mutual q" for v
      using that by (simp add: db_facts_def fact_defs cong: option.case_cong channel.case_cong res.case_cong if_cong)
    have inv: "query_inv (q\<lparr>q_cached_mutual_connection := v\<rparr>)" "query_loaded (q\<lparr>q_cached_mutual_connection := v\<rparr>) = query_loaded q" for v
      using assms by (simp_all add: query_inv_def other_recipient_def query_loaded_def cong: option.case_cong channel.case_cong)
    show ?thesis
      using np uncached Some facts inv
      by (cases "has_mutual_connection (q_database q) (q_perspective q) (user_id u)")
         (auto simp: answers_def q_have_mutual_connection_def known_mutual_def query_keeps_def)
  qed
qed

lemma member_law:
  assumes "query_inv q"
  shows "answers (q_are_we_a_member q) (f_member (db_facts now q))
    (\<lambda>q'. query_keeps now q q' \<and> (f_member (db_facts now q) \<longrightarrow> query_loaded q'))"
proof (cases "q_server q")
  case None
  then show ?thesis
    using assms by (simp add: answers_def q_are_we_a_member_def db_facts_def query_keeps_def)
next
  case (Some s)
  show ?thesis
  proof (cases "q_member q")
    case m: (Some m)
    then show ?thesis
      using assms Some
      by (simp add: answers_def q_are_we_a_member_def db_facts_def query_keeps_def known_member_def query_loaded_def)
  next
    case None
    let ?r = "adb_fetch_member (q_database q) (server_id s) (user_id (q_perspective q))"
    have np: "?r \<noteq> Panic" using assms by (simp add: query_inv_def reads_answer_def)
    have facts: "db_facts now (q\<lparr>q_member := Some m\<rparr>) = db_facts now q" if "?r = Ok m" for m
      using that Some None by (simp add: db_facts_def fact_defs cong: option.case_cong channel.case_cong res.case_cong if_cong)
    have inv: "query_inv (q\<lparr>q_member := m\<rparr>)" for m
      using assms by (simp add: query_inv_def other_recipient_def cong: option.case_cong channel.case_cong)
    show ?thesis
      using np Some None facts inv assms
      by (cases ?r) (auto simp: answers_def q_are_we_a_member_def query_keeps_def query_loaded_def,
        auto simp: db_facts_def known_member_def)
  qed
qed

text \<open>Once membership is confirmed the answers that depend on roles are those of the known member.\<close>

lemma loaded_known: "query_loaded q \<Longrightarrow> known_member q = q_member q"
  by (auto simp: query_loaded_def known_member_def)

lemma query_inv_with_user: "query_inv q \<Longrightarrow> is_dm_channel (q_channel q) \<Longrightarrow> query_inv (q\<lparr>q_user := Some u\<rparr>)"
  by (simp add: query_inv_def other_recipient_def cong: option.case_cong channel.case_cong)

lemma query_inv_with_server: "query_inv q \<Longrightarrow> query_inv (q\<lparr>q_server := Some s\<rparr>)"
  by (simp add: query_inv_def other_recipient_def cong: option.case_cong channel.case_cong)

lemma recipient_law:
  assumes "query_inv q" "f_channel_type (db_facts now q) = CT_DirectMessage"
  shows "answers (q_set_recipient_as_user q) ()
    (\<lambda>q'. db_facts now q' = facts_after now q_set_recipient_as_user q \<and> query_inv q')"
proof -
  have dm: "is_dm_channel (q_channel q)" using assms(2) by (simp add: is_dm_channel_def db_facts_def)
  then obtain d where d: "q_channel q = Some (DirectMessage d)"
    by (auto simp: is_dm_channel_def kind_of_channel_def split: option.splits channel.splits)
  obtain r where r: "List.find (\<lambda>r. r \<noteq> user_id (q_perspective q)) (dm_recipients d) = Some r"
    using assms(1) dm d by (auto simp: query_inv_def other_recipient_def)
  have "adb_fetch_user (q_database q) r \<noteq> Panic"
    using assms(1) by (simp add: query_inv_def reads_answer_def)
  then show ?thesis
    using d r assms(1) query_inv_with_user [OF assms(1) dm]
    by (cases "adb_fetch_user (q_database q) r") (auto simp: answers_def q_set_recipient_as_user_def facts_after_def)
qed

lemma server_law:
  assumes "query_inv q" "f_channel_type (db_facts now q) = CT_ServerChannel"
  shows "answers (q_set_server_from_channel q) ()
    (\<lambda>q'. db_facts now q' = facts_after now q_set_server_from_channel q \<and> query_inv q')"
proof -
  obtain t where t: "q_channel q = Some (TextChannel t)"
    using assms(2) by (auto simp: db_facts_def kind_of_channel_def split: option.splits channel.splits)
  have "adb_fetch_server (q_database q) (text_server t) \<noteq> Panic"
    using assms(1) by (simp add: query_inv_def reads_answer_def)
  then show ?thesis
    using t assms(1) query_inv_with_server [OF assms(1)]
    by (cases "adb_fetch_server (q_database q) (text_server t)")
       (auto simp: answers_def q_set_server_from_channel_def facts_after_def split: option.splits)
qed

lemma server_law_privileged:
  "f_privileged (facts_after now q_set_server_from_channel q) = f_privileged (db_facts now q)"
  by (auto simp: facts_after_def q_set_server_from_channel_def db_facts_def
      split: option.splits channel.splits res.splits if_splits)

lemmas query_ops = q_are_we_privileged_def q_are_we_a_bot_def q_are_the_users_same_def
  q_user_relationship_def q_user_is_bot_def q_are_we_server_owner_def q_get_default_server_permissions_def
  q_get_our_server_role_overrides_def q_are_we_timed_out_def q_do_we_have_publish_overwrites_def
  q_do_we_have_receive_overwrites_def q_get_channel_type_def q_get_default_channel_permissions_def
  q_get_our_channel_role_overrides_def q_do_we_own_the_channel_def q_are_we_a_group_moderator_def
  q_are_we_part_of_the_channel_def

interpretation dbq: permission_provider "db_query now" "db_facts now"
  "facts_after now q_set_recipient_as_user" "facts_after now q_set_server_from_channel"
  query_inv query_loaded "query_keeps now" "query_stays now" for now
proof unfold_locales
  fix q
  assume inv: "query_inv q"
  show "answers (have_mutual_connection (db_query now) q) (f_mutual (db_facts now q)) (query_keeps now q)"
    using mutual_law [OF inv] by (simp add: db_query_def db_facts_def)
  show "answers (are_we_a_member (db_query now) q) (f_member (db_facts now q))
     (\<lambda>q'. query_keeps now q q' \<and> (f_member (db_facts now q) \<longrightarrow> query_loaded q'))"
    using member_law [OF inv] by (simp add: db_query_def)
  show "answers (set_recipient_as_user (db_query now) q) ()
     (\<lambda>q'. db_facts now q' = facts_after now q_set_recipient_as_user q \<and> query_inv q')"
    if "f_channel_type (db_facts now q) = CT_DirectMessage"
    using recipient_law [OF inv that] by (simp add: db_query_def)
  show "answers (set_server_from_channel (db_query now) q) ()
     (\<lambda>q'. db_facts now q' = facts_after now q_set_server_from_channel q \<and> query_inv q')"
    if "f_channel_type (db_facts now q) = CT_ServerChannel"
    using server_law [OF inv that] by (simp add: db_query_def)
qed (simp_all add: query_keeps_def query_stays_def db_query_def db_facts_def query_ops answers_same
  loaded_known server_law_privileged [unfolded db_facts_def, simplified] answers_def query_inv_def
  cong: option.case_cong)

lemma reference_reads_answer: "reads_answer (reference_database db)"
  by (simp add: reads_answer_def reference_database_def fetch_member_def fetch_user_def fetch_server_def
      ok_or_def split: option.split)

section \<open>Examples\<close>

text \<open>A small server used to show that the hypotheses of the properties can be met: one member with
  one role that may send messages, one channel that denies reacting.\<close>

definition example_user :: user where
  "example_user = default_user\<lparr>user_id := ''U''\<rparr>"

definition example_role :: role where
  "example_role = \<lparr>role_id = ''R'', role_name = ''r'', role_permissions = \<lparr>ov_a = 2 ^ 22, ov_d = 0\<rparr>,
     role_colour = None, role_hoist = False, role_rank = 0\<rparr>"

definition example_server :: server where
  "example_server = \<lparr>server_id = ''S'', server_owner = ''O'', server_name = ''s'', server_description = None,
     server_channels = [''C''], server_categories = None, server_system_messages = None,
     server_roles = [(''R'', example_role)], server_default_permissions = 2 ^ 20, server_icon = None,
     server_banner = None, server_flags = None, server_nsfw = False, server_analytics = False,
     server_discoverable = False\<rparr>"

definition example_member :: "timestamp option \<Rightarrow> member" where
  "example_member timeout = (default_member 0)\<lparr>member_id := \<lparr>key_server = ''S'', key_user = ''U''\<rparr>,
     member_roles := [''R''], member_timeout := timeout\<rparr>"

definition example_channel :: channel where
  "example_channel = TextChannel \<lparr>text_id = ''C'', text_server = ''S'', text_name = ''c'',
     text_description = None, text_icon = None, text_last_message_id = None,
     text_default_permissions = Some \<lparr>ov_a = 0, ov_d = 2 ^ 29\<rparr>, text_role_permissions = [],
     text_nsfw = False, text_voice = None, text_encrypted = False\<rparr>"

definition example_dm :: channel where
  "example_dm = DirectMessage \<lparr>dm_id = ''D'', dm_active = True, dm_recipients = [''U'', ''V''], dm_last_message_id = None\<rparr>"

text \<open>A driver whose reads answer: one stored member, no mutual connections.\<close>

definition example_database :: "timestamp option \<Rightarrow> abstract_database" where
  "example_database timeout = \<lparr>adb_fetch_member = (\<lambda>_ _. Ok (example_member timeout)),
     adb_fetch_user = (\<lambda>_. Ok (default_user\<lparr>user_id := ''V''\<rparr>)), adb_fetch_server = (\<lambda>_. Ok example_server),
     adb_fetch_mutual_server_ids = (\<lambda>_ _. Ok []), adb_fetch_mutual_channel_ids = (\<lambda>_ _. Ok [])\<rparr>"

definition example_query :: "timestamp option \<Rightarrow> channel \<Rightarrow> db_permission_query" where
  "example_query timeout c = with_channel c (new_query (example_database timeout) example_user)"

lemma example_query_inv:
  "query_inv (example_query t example_channel)" "query_inv (example_query t example_dm)"
  by (simp_all add: query_inv_def example_query_def example_database_def with_channel_def new_query_def
      reads_answer_def mutual_answers_def other_recipient_def is_dm_channel_def kind_of_channel_def
      example_channel_def example_dm_def example_user_def default_user_def)

lemmas example_defs = example_query_def example_database_def with_channel_def new_query_def
  example_channel_def example_dm_def example_user_def example_server_def example_role_def
  example_member_def default_user_def default_member_def

lemma example_view:
  "facts_after now q_set_server_from_channel (example_query t example_channel) =
     db_facts now (with_server example_server (example_query t example_channel))"
  by (simp add: facts_after_def q_set_server_from_channel_def example_defs with_server_def)

lemma example_channel_type:
  "f_channel_type (db_facts now (example_query t example_channel)) = CT_ServerChannel"
  "f_channel_type (db_facts now (example_query t example_dm)) = CT_DirectMessage"
  by (simp_all add: db_facts_def kind_of_channel_def example_defs)

section \<open>Properties\<close>

text \<open>C1: the permissions of a user on a channel of a server. The calculation never panics, and
  permission \<open>n\<close> is in the result exactly if the viewer is privileged or owns the server (and
  \<open>n\<close> is one of the 52 safe bits), or is a member, can see the channel, and the last override that
  mentions \<open>n\<close> among the server default, the member's roles from lowest to highest, the channel
  default and the channel's role overrides grants it, outside mutes, deafens and time outs.\<close>

theorem server_channel_permissions_bits:
  assumes "query_inv q" "f_channel_type (db_facts now q) = CT_ServerChannel"
  shows "\<exists>w q'. calculate_channel_permissions (db_query now) q = Some (w, q') \<and>
    (\<forall>n. bit w n \<longleftrightarrow> channel_grants (facts_after now q_set_server_from_channel q) n)"
  using assms by (rule dbq.server_channel_permissions)

theorem server_channel_permissions_bits_witness:
  "\<exists>w q'. calculate_channel_permissions (db_query 0) (example_query None example_channel) = Some (w, q') \<and>
    (\<forall>n. bit w n \<longleftrightarrow> channel_grants
       (facts_after 0 q_set_server_from_channel (example_query None example_channel)) n)"
  by (rule server_channel_permissions_bits [OF example_query_inv(1) example_channel_type(1)])

text \<open>C19: the permissions of a user on a server, bit by bit: everything safe for the owner and for
  privileged users, nothing for non-members, and for a member the server default corrected by the
  roles, without the voice permissions a mute or deafen takes away, and inside the time out set while
  timed out.\<close>

theorem server_permissions_bits:
  assumes "query_inv q"
  shows "\<exists>w q'. calculate_server_permissions (db_query now) q = Some (w, q') \<and>
    (\<forall>n. bit w n \<longleftrightarrow> server_grants (db_facts now q) n)"
  using dbq.server_permissions [OF assms] by blast

theorem server_permissions_bits_witness:
  "\<exists>w q'. calculate_server_permissions (db_query 0) (example_query None example_channel) = Some (w, q') \<and>
    (\<forall>n. bit w n \<longleftrightarrow> server_grants (db_facts 0 (example_query None example_channel)) n)"
  by (rule server_permissions_bits [OF example_query_inv(1)])

text \<open>C2: a member in time out can at most view a channel and read its history: whatever roles,
  defaults and channel overrides say, the calculated permissions of a timed out member who is neither
  privileged nor the owner are inside \<open>ALLOW_IN_TIMEOUT\<close>.\<close>

theorem timed_out_member_only_views:
  assumes "query_inv q" "f_channel_type (db_facts now q) = CT_ServerChannel"
    and "f = facts_after now q_set_server_from_channel q"
    and "\<not> f_privileged f" "\<not> f_owner f" "f_timed_out f"
    and "calculate_channel_permissions (db_query now) q = Some (w, q')"
  shows "pv_restrict w ALLOW_IN_TIMEOUT = w"
proof -
  have "bit w n \<longleftrightarrow> channel_grants f n" for n
    using dbq.server_channel_permissions [OF assms(1,2)] assms(3,7) by auto
  then show ?thesis
    using assms(4-6) by (auto simp: bit_eq_iff bit_facts channel_grants_def channel_raw_def)
qed

theorem timed_out_member_only_views_witness:
  "\<exists>w q'. calculate_channel_permissions (db_query 0) (example_query (Some 5) example_channel) = Some (w, q') \<and>
     pv_restrict w ALLOW_IN_TIMEOUT = w"
proof -
  let ?q = "example_query (Some 5) example_channel"
  obtain w q' where "calculate_channel_permissions (db_query 0) ?q = Some (w, q')"
    using dbq.server_channel_permissions [OF example_query_inv(1) example_channel_type(1)] by blast
  moreover have "f_timed_out (facts_after 0 q_set_server_from_channel ?q)"
      "\<not> f_privileged (facts_after 0 q_set_server_from_channel ?q)"
      "\<not> f_owner (facts_after 0 q_set_server_from_channel ?q)"
    unfolding example_view
    by (simp_all add: db_facts_def known_member_def in_timeout_def owns_server_def with_server_def example_defs)
  ultimately show ?thesis
    using timed_out_member_only_views [OF example_query_inv(1) example_channel_type(1) refl] by blast
qed

text \<open>A channel the viewer may not see gives no permissions at all: the calculated permissions
  either contain \<open>ViewChannel\<close> or are empty.\<close>

lemma hidden_channel_grants_nothing:
  assumes "query_inv q" "f_channel_type (db_facts now q) = CT_ServerChannel"
    and "calculate_channel_permissions (db_query now) q = Some (w, q')"
  shows "has_channel_permission w ViewChannel \<or> w = 0"
proof -
  have "bit w n \<longleftrightarrow> channel_grants (facts_after now q_set_server_from_channel q) n" for n
    using dbq.server_channel_permissions [OF assms(1,2)] assms(3) by auto
  then show ?thesis by (auto simp: bit_facts bit_eq_iff channel_grants_def)
qed

lemma hidden_channel_grants_nothing_example:
  "\<exists>w q'. calculate_channel_permissions (db_query 0) (example_query None example_channel) = Some (w, q') \<and>
     (has_channel_permission w ViewChannel \<or> w = 0)"
  using dbq.server_channel_permissions [OF example_query_inv(1) example_channel_type(1), of 0 None]
    hidden_channel_grants_nothing [OF example_query_inv(1) example_channel_type(1), of 0 None] by blast

text \<open>If the stored grants (server default, roles, channel default and channel roles) stay within
  the 52 bits that clients can represent exactly, so do the calculated channel permissions.\<close>

lemma channel_permissions_safe_bits:
  assumes "query_inv q" "f_channel_type (db_facts now q) = CT_ServerChannel"
    and "f = facts_after now q_set_server_from_channel q"
    and stored: "\<forall>n\<ge>52. \<not> bit (f_default f) n"
      "\<forall>v\<in>set (f_role_overrides f). \<forall>n\<ge>52. \<not> bit (allow v) n"
      "\<forall>v\<in>set (f_channel_default f # f_channel_overrides f). \<forall>n\<ge>52. \<not> bit (allow v) n"
    and "calculate_channel_permissions (db_query now) q = Some (w, q')"
  shows "\<forall>n\<ge>52. \<not> bit w n"
proof (intro allI impI)
  fix n :: nat
  assume n: "n \<ge> 52"
  have "bit w n \<longleftrightarrow> channel_grants f n"
    using dbq.server_channel_permissions [OF assms(1,2)] assms(3,7) by auto
  moreover have "\<not> decided (f_role_overrides f) n False"
    using stored(2) n decided_unmentioned by blast
  then have "\<not> server_grants f n"
    using stored(1) n by (simp add: server_grants_def)
  moreover have "\<not> decided (f_channel_default f # f_channel_overrides f) n False"
    using stored(3) n decided_unmentioned by blast
  ultimately show "\<not> bit w n"
    using n by (auto simp: channel_grants_def channel_raw_def)
qed

lemma channel_permissions_safe_bits_example:
  "\<exists>w q'. calculate_channel_permissions (db_query 0) (example_query None example_channel) = Some (w, q') \<and>
     (\<forall>n\<ge>52. \<not> bit w n)"
proof -
  let ?q = "example_query None example_channel"
  let ?f = "facts_after 0 q_set_server_from_channel ?q"
  obtain w q' where w: "calculate_channel_permissions (db_query 0) ?q = Some (w, q')"
    using dbq.server_channel_permissions [OF example_query_inv(1) example_channel_type(1)] by blast
  have single: "\<not> bit (push_bit k (1 :: u64)) n" if "k < 52" "n \<ge> 52" for k n
    using that by (subst bit_single) simp_all
  have "f_default ?f = push_bit 20 1"
    unfolding example_view
    by (simp add: db_facts_def default_server_permissions_def with_server_def example_defs i64_as_u64_def)
  moreover have "f_role_overrides ?f = [\<lparr>allow = push_bit 22 1, deny = 0\<rparr>]"
    unfolding example_view
    by (simp add: db_facts_def known_member_def roles_of_def server_role_overrides_def sorted_overrides_def
        sort_desc_def field_to_override_def with_server_def example_defs i64_as_u64_def)
  moreover have "f_channel_default ?f # f_channel_overrides ?f = [\<lparr>allow = 0, deny = push_bit 29 1\<rparr>]"
    unfolding example_view
    by (simp add: db_facts_def default_channel_override_def selected_channel_overrides_def
        channel_role_overrides_def sorted_overrides_def field_to_override_def with_server_def example_defs
        i64_as_u64_def List.map_filter_def)
  ultimately show ?thesis
    using channel_permissions_safe_bits [OF example_query_inv(1) example_channel_type(1) refl _ _ _ w] w
    by (auto simp: single simp del: push_bit_of_1)
qed

text \<open>The selection of the other recipient does not touch the viewer.\<close>

lemma recipient_privileged:
  "f_privileged (facts_after now q_set_recipient_as_user q) = f_privileged (db_facts now q)"
  by (auto simp: facts_after_def q_set_recipient_as_user_def db_facts_def
      split: option.splits channel.splits res.splits if_splits)

lemma user_send_permission:
  "has_user_permission (user_permission_spec f) UserSendMessage \<longleftrightarrow>
     f_privileged f \<or> f_same f \<or> f_relationship f = Rel_Friend
     \<or> (f_relationship f \<notin> {Rel_Blocked, Rel_BlockedOther} \<and> f_mutual f \<and> (f_user_is_bot f \<or> f_bot f))"
  by (auto simp: user_permission_spec_def has_user_permission_def pv_has_def)



end
