(* ===== verification/Bulk_Permissions.thy ===== *)
theory Bulk_Permissions
  imports Permission_Query
begin

unbundle bit_operations_syntax

text \<open>
  The bulk calculation of channel permissions (\<open>crates/core/database/src/util/bulk_permissions.rs\<close>),
  which answers for many members of one server at once and is used to decide who can see a channel.
  The two database reads it makes are the record \<open>bulk_database\<close>; \<open>unwrap\<close> and \<open>expect\<close> give
  \<open>None\<close> (a panic). The properties compare it with the calculation for a single user.
\<close>

section \<open>The bulk query\<close>

record bulk_database =
  bdb_fetch_users :: "string list \<Rightarrow> user list result"
  bdb_fetch_members :: "string \<Rightarrow> string list \<Rightarrow> member list result"

record bulk_query =
  b_database :: bulk_database
  b_server :: server
  b_channel :: "channel option"
  b_users :: "user list option"
  b_members :: "member list option"
  b_cached_users :: "user list option"
  b_cached_members :: "member list option"
  b_cached_member_perms :: "(string, permission_value) hash_map option"

definition new_bulk :: "bulk_database \<Rightarrow> server \<Rightarrow> bulk_query" where
  "new_bulk db s = \<lparr>b_database = db, b_server = s, b_channel = None, b_users = None, b_members = None,
     b_cached_users = None, b_cached_members = None, b_cached_member_perms = None\<rparr>"

definition bulk_with_channel :: "channel \<Rightarrow> bulk_query \<Rightarrow> bulk_query" where
  "bulk_with_channel c q = q\<lparr>b_channel := Some c\<rparr>"

definition bulk_with_members :: "member list \<Rightarrow> bulk_query \<Rightarrow> bulk_query" where
  "bulk_with_members ms q = q\<lparr>b_members := Some ms, b_cached_member_perms := None, b_users := None,
     b_cached_members := None, b_cached_users := None\<rparr>"

definition bulk_with_users :: "user list \<Rightarrow> bulk_query \<Rightarrow> bulk_query" where
  "bulk_with_users us q = q\<lparr>b_users := Some us, b_cached_member_perms := None, b_members := None,
     b_cached_members := None, b_cached_users := None\<rparr>"

definition bulk_server_permissions :: "timestamp \<Rightarrow> server \<Rightarrow> user \<Rightarrow> member \<Rightarrow> permission_value" where
  "bulk_server_permissions now s u m =
     (if user_privileged u \<or> server_owner s = user_id u then channel_permission_value GrantAllSafe
      else let permissions = apply_all (i64_as_u64 (server_default_permissions s))
             (server_role_overrides s (member_roles m))
      in if in_timeout now m then pv_restrict permissions ALLOW_IN_TIMEOUT else permissions)"

text \<open>The body of the loop over the users: the permissions of one user.\<close>

definition bulk_user_permission ::
  "timestamp \<Rightarrow> server \<Rightarrow> text_channel \<Rightarrow> user \<Rightarrow> member option \<Rightarrow> permission_value" where
  "bulk_user_permission now s t u mo = (case mo of
     None \<Rightarrow> 0
   | Some m \<Rightarrow>
       if user_privileged u then channel_permission_value GrantAllSafe
       else if user_id u = server_owner s then channel_permission_value GrantAllSafe
       else let
         permission = bulk_server_permissions now s u m;
         permission = (case text_default_permissions t of
             Some defaults \<Rightarrow> pv_apply permission (field_to_override defaults) | None \<Rightarrow> permission)
       in apply_all permission (channel_role_overrides s (text_role_permissions t) (member_roles m)))"

definition calculate_members_permissions ::
  "timestamp \<Rightarrow> bulk_query \<Rightarrow> ((string, permission_value) hash_map \<times> bulk_query) option" where
  "calculate_members_permissions now q = (case b_channel q of
     Some (TextChannel t) \<Rightarrow>
       (case (case b_users q of
                Some us \<Rightarrow> Some (us, q)
              | None \<Rightarrow> (case b_members q of
                  None \<Rightarrow> None
                | Some ms \<Rightarrow> (case bdb_fetch_users (b_database q) (map (\<lambda>m. key_user (member_id m)) ms) of
                    Ok us \<Rightarrow> Some (us, q\<lparr>b_cached_users := Some us, b_users := Some us\<rparr>)
                  | _ \<Rightarrow> None)))
        of None \<Rightarrow> None
        | Some (users, q) \<Rightarrow>
          (case (case b_members q of
                   Some ms \<Rightarrow> Some (ms, q)
                 | None \<Rightarrow> (case bdb_fetch_members (b_database q) (server_id (b_server q)) (map user_id users) of
                     Ok ms \<Rightarrow> Some (ms, q\<lparr>b_cached_members := Some ms, b_members := Some ms\<rparr>)
                   | _ \<Rightarrow> None))
           of None \<Rightarrow> None
           | Some (ms, q) \<Rightarrow>
             (let members = fold (\<lambda>m. AList.update (key_user (member_id m)) m) ms [];
                  resp = fold (\<lambda>u. AList.update (user_id u)
                    (bulk_user_permission now (b_server q) t u (map_of members (user_id u)))) users []
              in Some (resp, q))))
   | _ \<Rightarrow> None)"

definition members_can_see_channel ::
  "timestamp \<Rightarrow> bulk_query \<Rightarrow> ((string, bool) hash_map \<times> bulk_query) option" where
  "members_can_see_channel now q = (case b_cached_member_perms q of
     Some perms \<Rightarrow> Some (map (\<lambda>(m, p). (m, has_channel_permission p ViewChannel)) perms, q)
   | None \<Rightarrow> (case calculate_members_permissions now q of
       Some (perms, q') \<Rightarrow> Some (map (\<lambda>(m, p). (m, has_channel_permission p ViewChannel)) perms, q')
     | None \<Rightarrow> None))"

section \<open>Bits of the bulk calculation\<close>

lemma bulk_server_bit:
  assumes "\<not> user_privileged u" "server_owner s \<noteq> user_id u"
  shows "bit (bulk_server_permissions now s u m) n \<longleftrightarrow>
    decided (server_role_overrides s (member_roles m)) n (bit (i64_as_u64 (server_default_permissions s)) n)
    \<and> (in_timeout now m \<longrightarrow> n = 20 \<or> n = 21)"
  using assms by (auto simp: bulk_server_permissions_def Let_def apply_all_bit bit_facts)

lemma apply_default_override_field: "pv_apply p (field_to_override default_override_field) = p"
  by (simp add: bit_eq_iff bit_facts field_to_override_def default_override_field_def i64_as_u64_def)

lemma apply_all_Cons: "apply_all p (v # vs) = apply_all (pv_apply p v) vs"
  by (simp add: apply_all_def)

lemma bulk_user_bit:
  assumes "\<not> user_privileged u" "server_owner s \<noteq> user_id u"
  shows "bit (bulk_user_permission now s t u (Some m)) n \<longleftrightarrow>
    decided (default_channel_override (Some (TextChannel t))
        # channel_role_overrides s (text_role_permissions t) (member_roles m)) n
      (bit (bulk_server_permissions now s u m) n)"
proof -
  have "bulk_user_permission now s t u (Some m) = apply_all (bulk_server_permissions now s u m)
      (default_channel_override (Some (TextChannel t))
        # channel_role_overrides s (text_role_permissions t) (member_roles m))"
    using assms by (auto simp: bulk_user_permission_def Let_def default_channel_override_def apply_all_Cons
        apply_default_override_field split: option.splits)
  then show ?thesis by (simp add: apply_all_bit)
qed

text \<open>The single query a caller would make for the same user, server and channel, and the facts it
  reports.\<close>

definition single_query :: "abstract_database \<Rightarrow> server \<Rightarrow> text_channel \<Rightarrow> user \<Rightarrow> db_permission_query" where
  "single_query adb s t u = with_channel (TextChannel t) (with_server s (new_query adb u))"

lemma single_query_inv: "reads_answer adb \<Longrightarrow> query_inv (single_query adb s t u)"
  by (simp add: query_inv_def single_query_def with_channel_def with_server_def new_query_def
      is_dm_channel_def kind_of_channel_def)

lemma single_query_type: "f_channel_type (db_facts now (single_query adb s t u)) = CT_ServerChannel"
  by (simp add: db_facts_def single_query_def with_channel_def kind_of_channel_def)

lemma single_query_view:
  "text_server t = server_id s \<Longrightarrow>
   facts_after now q_set_server_from_channel (single_query adb s t u) = db_facts now (single_query adb s t u)"
  by (simp add: facts_after_def q_set_server_from_channel_def single_query_def with_channel_def with_server_def)

lemma single_view_bit:
  assumes "text_server t = server_id s" "adb_fetch_member adb (server_id s) (user_id u) = Ok m"
    and "\<not> user_privileged u" "server_owner s \<noteq> user_id u"
  shows "channel_grants (facts_after now q_set_server_from_channel (single_query adb s t u)) 20 \<longleftrightarrow>
    bit (bulk_user_permission now s t u (Some m)) 20"
  unfolding single_query_view [OF assms(1)] using assms(2-)
  by (simp add: channel_grants_def channel_raw_def server_grants_def bulk_user_bit
      bulk_server_bit db_facts_def fact_defs roles_of_def single_query_def with_channel_def
      with_server_def new_query_def)

lemma single_privileged_bit:
  assumes "text_server t = server_id s" "user_privileged u \<or> server_owner s = user_id u"
  shows "channel_grants (facts_after now q_set_server_from_channel (single_query adb s t u)) 20"
  unfolding single_query_view [OF assms(1)] using assms(2-)
  by (auto simp: channel_grants_def db_facts_def fact_defs single_query_def
      with_channel_def with_server_def new_query_def)

lemma single_outsider_bit:
  assumes "text_server t = server_id s" "adb_fetch_member adb (server_id s) (user_id u) = Err e"
    and "\<not> user_privileged u" "server_owner s \<noteq> user_id u"
  shows "\<not> channel_grants (facts_after now q_set_server_from_channel (single_query adb s t u)) 20"
  unfolding single_query_view [OF assms(1)] using assms(2-)
  by (simp add: channel_grants_def db_facts_def fact_defs single_query_def
      with_channel_def with_server_def new_query_def)

section \<open>Tables built by repeated insertion\<close>

lemma map_of_fold_update_Some:
  "map_of (fold (\<lambda>x. AList.update (k x) (v x)) xs acc) y = Some z \<Longrightarrow>
   map_of acc y = Some z \<or> (\<exists>x\<in>set xs. k x = y \<and> v x = z)"
proof (induction xs arbitrary: acc)
  case (Cons x xs)
  from Cons.IH [of "AList.update (k x) (v x) acc"] Cons.prems show ?case
    by (auto simp: hm.get_insert split: if_splits)
qed simp

lemma map_of_fold_update_dom:
  "map_of acc y \<noteq> None \<or> y \<in> k ` set xs \<Longrightarrow> map_of (fold (\<lambda>x. AList.update (k x) (v x)) xs acc) y \<noteq> None"
proof (induction xs arbitrary: acc)
  case (Cons x xs)
  from Cons.prems have "map_of (AList.update (k x) (v x) acc) y \<noteq> None \<or> y \<in> k ` set xs"
    by (auto simp: hm.get_insert)
  from Cons.IH [OF this] show ?case by simp
qed simp

lemma map_of_fold_update_distinct:
  assumes "distinct (map k xs)" "x \<in> set xs"
  shows "map_of (fold (\<lambda>x. AList.update (k x) (v x)) xs []) (k x) = Some (v x)"
proof -
  obtain z where z: "map_of (fold (\<lambda>x. AList.update (k x) (v x)) xs []) (k x) = Some z"
    using map_of_fold_update_dom [of "[]" "k x" k xs v] assms(2) by auto
  then obtain x' where x': "x' \<in> set xs" "k x' = k x" "v x' = z"
    using map_of_fold_update_Some [of k v xs "[]" "k x" z] by auto
  have "x' = x" using assms x'(1,2) by (auto simp: distinct_map dest: inj_onD)
  with x'(3) z show ?thesis by simp
qed

lemma single_permission_view:
  assumes "reads_answer adb"
  obtains w q' where "calculate_channel_permissions (db_query now) (single_query adb s t u) = Some (w, q')"
    "has_channel_permission w ViewChannel \<longleftrightarrow>
      channel_grants (facts_after now q_set_server_from_channel (single_query adb s t u)) 20"
  using dbq.server_channel_permissions [OF single_query_inv [OF assms] single_query_type, of now s t u]
  by (auto simp: bit_facts)

lemma bulk_view_of_member:
  assumes "reads_answer adb" "text_server t = server_id s"
    and "adb_fetch_member adb (server_id s) (user_id u) = Ok m"
    and "calculate_channel_permissions (db_query now) (single_query adb s t u) = Some (w, q')"
  shows "has_channel_permission (bulk_user_permission now s t u (Some m)) ViewChannel
    = has_channel_permission w ViewChannel"
proof (cases "user_privileged u \<or> server_owner s = user_id u")
  case True
  then have "bulk_user_permission now s t u (Some m) = channel_permission_value GrantAllSafe"
    by (auto simp: bulk_user_permission_def)
  then show ?thesis
    using single_permission_view [OF assms(1), of now s t u] single_privileged_bit [OF assms(2) True]
      assms(4) by (auto simp: bit_facts)
next
  case False
  then show ?thesis
    using single_permission_view [OF assms(1), of now s t u] single_view_bit [OF assms(2,3)]
      assms(4) by (auto simp: bit_facts)
qed

section \<open>Properties\<close>

text \<open>C27: the bulk check \<open>members_can_see_channel\<close> and the calculation for a single user agree on who
  can see a channel: for members of the server (the stored ones, each fetched with its user), the
  answer of the bulk check is whether the single calculation grants \<open>ViewChannel\<close>.\<close>

theorem bulk_view_agrees_with_single:
  assumes "reads_answer adb" "text_server t = server_id s"
    and "\<forall>m\<in>set ms. adb_fetch_member adb (server_id s) (key_user (member_id m)) = Ok m"
    and "bdb_fetch_users bdb (map (\<lambda>m. key_user (member_id m)) ms) = Ok us"
    and "distinct (map user_id us)" "u \<in> set us" "user_id u \<in> (\<lambda>m. key_user (member_id m)) ` set ms"
    and "members_can_see_channel now
      (bulk_with_members ms (bulk_with_channel (TextChannel t) (new_bulk bdb s))) = Some (seen, q')"
    and "calculate_channel_permissions (db_query now) (single_query adb s t u) = Some (w, q'')"
  shows "map_of seen (user_id u) = Some (has_channel_permission w ViewChannel)"
proof -
  let ?members = "fold (\<lambda>m. AList.update (key_user (member_id m)) m) ms []"
  let ?p = "\<lambda>u. bulk_user_permission now s t u (map_of ?members (user_id u))"
  obtain m where m: "map_of ?members (user_id u) = Some m"
    using map_of_fold_update_dom [of "[]" "user_id u" "\<lambda>m. key_user (member_id m)" ms "\<lambda>m. m"] assms(7) by auto
  then have "adb_fetch_member adb (server_id s) (user_id u) = Ok m"
    using map_of_fold_update_Some [of "\<lambda>m. key_user (member_id m)" "\<lambda>m. m" ms "[]" "user_id u" m] assms(3) by auto
  then have "has_channel_permission (?p u) ViewChannel = has_channel_permission w ViewChannel"
    using bulk_view_of_member assms(1,2,9) m by simp
  moreover have "map_of (fold (\<lambda>u. AList.update (user_id u) (?p u)) us []) (user_id u) = Some (?p u)"
    using assms(5,6) by (rule map_of_fold_update_distinct)
  moreover have "seen = map (\<lambda>(i, p). (i, has_channel_permission p ViewChannel))
      (fold (\<lambda>u. AList.update (user_id u) (?p u)) us [])"
    using assms(4,8) by (simp add: members_can_see_channel_def calculate_members_permissions_def
        bulk_with_members_def bulk_with_channel_def new_bulk_def Let_def)
  ultimately show ?thesis by (simp add: map_of_map)
qed

text \<open>One member and one user for the witnesses.\<close>

definition example_text :: text_channel where
  "example_text = \<lparr>text_id = ''C'', text_server = ''S'', text_name = ''c'',
     text_description = None, text_icon = None, text_last_message_id = None,
     text_default_permissions = Some \<lparr>ov_a = 2 ^ 22, ov_d = 0\<rparr>, text_role_permissions = [],
     text_nsfw = False, text_voice = None, text_encrypted = False\<rparr>"

definition example_bulk :: bulk_database where
  "example_bulk = \<lparr>bdb_fetch_users = (\<lambda>_. Ok [example_user]), bdb_fetch_members = (\<lambda>_ _. Ok [])\<rparr>"

lemma example_reads: "reads_answer (example_database timeout)"
  by (simp add: reads_answer_def example_database_def)

lemma example_member_read:
  "adb_fetch_member (example_database timeout) (server_id example_server) (user_id example_user) = Ok (example_member timeout)"
  by (simp add: example_database_def)

theorem bulk_view_agrees_with_single_witness:
  "\<exists>seen q' w q''. members_can_see_channel 0 (bulk_with_members [example_member None]
       (bulk_with_channel (TextChannel example_text) (new_bulk example_bulk example_server))) = Some (seen, q')
     \<and> calculate_channel_permissions (db_query 0)
         (single_query (example_database None) example_server example_text example_user) = Some (w, q'')
     \<and> map_of seen ''U'' = Some (has_channel_permission w ViewChannel)"
proof -
  let ?q = "bulk_with_members [example_member None]
    (bulk_with_channel (TextChannel example_text) (new_bulk example_bulk example_server))"
  obtain w q'' where w: "calculate_channel_permissions (db_query 0)
      (single_query (example_database None) example_server example_text example_user) = Some (w, q'')"
    using single_permission_view [OF example_reads] by metis
  obtain seen q' where seen: "members_can_see_channel 0 ?q = Some (seen, q')"
    by (simp add: members_can_see_channel_def calculate_members_permissions_def bulk_with_members_def
        bulk_with_channel_def new_bulk_def example_bulk_def Let_def)
  have "map_of seen (user_id example_user) = Some (has_channel_permission w ViewChannel)"
    by (rule bulk_view_agrees_with_single [OF example_reads _ _ _ _ _ _ seen w, of "[example_user]"])
       (simp_all add: example_text_def example_server_def example_database_def example_bulk_def
         example_user_def example_member_def default_user_def)
  then show ?thesis
    using w seen by (auto simp: example_user_def default_user_def)
qed

text \<open>Beyond visibility the two calculations differ. The bulk calculation applies a time out only to
  the server permissions and then adds the channel's overrides, so for a member in time out every
  permission the channel default grants is in the bulk result, while the single calculation, which
  restricts once more at the end, removes it unless it is viewing or reading.\<close>

lemma bulk_calculation_forgets_timeout:
  assumes "reads_answer adb" "text_server t = server_id s"
    and "adb_fetch_member adb (server_id s) (user_id u) = Ok m"
    and "\<not> user_privileged u" "server_owner s \<noteq> user_id u" "in_timeout now m"
    and "text_default_permissions t = Some d" "text_role_permissions t = []"
    and "bit (allow (field_to_override d)) n" "\<not> bit (deny (field_to_override d)) n" "n \<noteq> 20" "n \<noteq> 21"
    and "calculate_channel_permissions (db_query now) (single_query adb s t u) = Some (w, q')"
  shows "bit (bulk_user_permission now s t u (Some m)) n \<and> \<not> bit w n"
proof
  have no_roles: "channel_role_overrides s [] r = []" for r
    by (simp add: channel_role_overrides_def sorted_overrides_def List.map_filter_def)
  show "bit (bulk_user_permission now s t u (Some m)) n"
    using assms(4,5,7-10) by (simp add: bulk_user_bit no_roles decided_def default_channel_override_def mentions_def)
  have "bit w n \<longleftrightarrow> channel_grants (facts_after now q_set_server_from_channel (single_query adb s t u)) n"
    using dbq.server_channel_permissions [OF single_query_inv [OF assms(1)] single_query_type, of now s t u]
      assms(13) by auto
  moreover have "\<not> channel_grants (db_facts now (single_query adb s t u)) n"
    using assms(3-6,11,12)
    by (simp add: channel_grants_def channel_raw_def db_facts_def fact_defs single_query_def
        with_channel_def with_server_def new_query_def)
  ultimately show "\<not> bit w n" using single_query_view [OF assms(2)] by simp
qed

lemma bulk_calculation_forgets_timeout_example:
  "\<exists>w q'. calculate_channel_permissions (db_query 0)
       (single_query (example_database (Some 5)) example_server example_text example_user) = Some (w, q')
     \<and> bit (bulk_user_permission 0 example_server example_text example_user (Some (example_member (Some 5)))) 22
     \<and> \<not> bit w 22"
proof -
  obtain w q' where w: "calculate_channel_permissions (db_query 0)
      (single_query (example_database (Some 5)) example_server example_text example_user) = Some (w, q')"
    using single_permission_view [OF example_reads] by metis
  have "bit (bulk_user_permission 0 example_server example_text example_user (Some (example_member (Some 5)))) 22
      \<and> \<not> bit w 22"
    by (rule bulk_calculation_forgets_timeout [OF example_reads _ example_member_read _ _ _ _ _ _ _ _ _ w,
          of "\<lparr>ov_a = 2 ^ 22, ov_d = 0\<rparr>"])
       (simp_all add: example_text_def example_server_def example_user_def example_member_def
         default_member_def default_user_def in_timeout_def field_to_override_def i64_as_u64_def)
  then show ?thesis using w by blast
qed

end
