(* ===== verification/World.thy ===== *)
theory World
  imports Reference_Db_Laws
begin

text \<open>
  What the handlers of the database crate act on: the database, the events they publish
  (\<open>crates/core/database/src/events/client.rs\<close>), the notifications they hand to the message
  broker, and the limits they read from the configuration (\<open>crates/core/config/src/lib.rs\<close>).

  A published event is a pair of a topic and an event in the order of publication. An event carries
  the value the code hands to the conversion into the API model; the conversion itself is not modelled.
  Publishing does not fail, as in a release build, where the result is discarded.
\<close>

section \<open>Configured limits\<close>

record global_limits =
  lim_group_size :: usize
  lim_message_embeds :: usize
  lim_message_replies :: usize
  lim_message_reactions :: usize
  lim_server_emoji :: usize
  lim_server_roles :: usize
  lim_server_channels :: usize
  lim_new_user_hours :: usize
  lim_body_limit_size :: usize

text \<open>The limits that depend on the user. The aspect ratios, a pair of floats no modelled code reads,
  are left out.\<close>

record features_limits =
  lim_outgoing_friend_requests :: usize
  lim_bots :: usize
  lim_message_length :: usize
  lim_message_attachments :: usize
  lim_servers :: usize
  lim_voice_quality :: u32
  lim_max_voice_bitrate :: u32
  lim_video :: bool
  lim_video_resolution :: "u32 \<times> u32"
  lim_file_upload_size_limit :: "(string, usize) hash_map"
  lim_max_stream_viewers :: usize
  lim_max_server_members :: usize

record limits_collection =
  limits_global :: global_limits
  limits_new_user :: features_limits
  limits_default :: features_limits
  limits_roles :: "(string, features_limits) hash_map"

text \<open>\<open>User::limits\<close>. The time since the user's ULID was drawn is computed by the ULID library:
  \<open>age\<close> gives it in seconds, or None where decoding fails and the code panics.\<close>

definition tier_role_key :: "subscription_tier \<Rightarrow> string option" where
  "tier_role_key t = (case t of TierBasic \<Rightarrow> Some ''basic'' | TierPro \<Rightarrow> Some ''pro'' | TierUltra \<Rightarrow> Some ''ultra''
     | TierFree \<Rightarrow> None)"

text \<open>Decimal digits, as \<open>format!("{}", n)\<close> prints them.\<close>

definition digit :: "nat \<Rightarrow> char" where
  "digit n = char_of (48 + n mod 10)"

fun decimal :: "nat \<Rightarrow> string" where
  "decimal n = (if n < 10 then [digit n] else decimal (n div 10) @ [digit n])"

declare decimal.simps [simp del]

lemma digit_eq_iff: "digit m = digit n \<longleftrightarrow> m mod 10 = n mod 10"
proof
  assume "digit m = digit n"
  then have "of_char (digit m) = (of_char (digit n) :: nat)" by simp
  then show "m mod 10 = n mod 10" by (simp add: digit_def)
qed (simp add: digit_def)

definition user_limits ::
  "limits_collection \<Rightarrow> (string \<Rightarrow> nat option) \<Rightarrow> i64 \<Rightarrow> user \<Rightarrow> features_limits result" where
  "user_limits cfg age now u =
     (let by_age = (case age (user_id u) of
          None \<Rightarrow> Panic
        | Some elapsed \<Rightarrow> Ok (if elapsed \<le> 3600 * lim_new_user_hours (limits_global cfg)
            then limits_new_user cfg else limits_default cfg))
      in case tier_role_key (active_subscription_tier now u) of
        Some key \<Rightarrow> (case map_of (limits_roles cfg) key of
            Some l \<Rightarrow> Ok l
          | None \<Rightarrow> (case map_of (limits_roles cfg) ''premium'' of Some l \<Rightarrow> Ok l | None \<Rightarrow> by_age))
      | None \<Rightarrow> by_age)"

section \<open>Events\<close>

record user_voice_state =
  uvs_id :: string
  uvs_joined_at :: timestamp
  uvs_is_receiving :: bool
  uvs_is_publishing :: bool
  uvs_screensharing :: bool
  uvs_camera :: bool

record partial_user_voice_state =
  puv_id :: "string option"
  puv_joined_at :: "timestamp option"
  puv_is_receiving :: "bool option"
  puv_is_publishing :: "bool option"
  puv_screensharing :: "bool option"
  puv_camera :: "bool option"

text \<open>The protocol events that the modelled handlers publish. The voice states that accompany a new
  server come from Redis and are left out of its event.\<close>

datatype (plugins only: ) event =
    EvMessage message
  | EvMessageUpdate string string partial_message "fields_message list"
  | EvMessageAppend string string append_message
  | EvMessageDelete string string
  | EvMessageReact string string string string
  | EvMessageUnreact string string string string
  | EvMessageRemoveReaction string string string
  | EvBulkMessageDelete string "string list"
  | EvServerCreate string server "channel list" "emoji list"
  | EvServerUpdate string partial_server "fields_server list"
  | EvServerDelete string
  | EvServerMemberUpdate member_composite_key partial_member "fields_member list"
  | EvServerMemberJoin string string member
  | EvServerMemberLeave string string removal_intention
  | EvServerRoleUpdate string string partial_role "fields_role list"
  | EvServerRoleDelete string string
  | EvServerRoleRanksUpdate string "string list"
  | EvUserUpdate string partial_user "fields_user list" "string option"
  | EvUserRelationship string user
  | EvEmojiCreate emoji
  | EvEmojiDelete string
  | EvChannelCreate channel
  | EvChannelUpdate string partial_channel "fields_channel list"
  | EvChannelDelete string
  | EvChannelGroupJoin string string
  | EvChannelGroupLeave string string
  | EvChannelAck string string string
  | EvVoiceChannelJoin string user_voice_state
  | EvVoiceChannelLeave string string
  | EvVoiceChannelMove string string string user_voice_state
  | EvUserVoiceStateUpdate string string partial_user_voice_state
  | EvViewerCountUpdate string u32
  | EvUserMoveVoiceChannel string string string string
  | EvLogout

text \<open>Payloads handed to the broker for push notifications, and background tasks queued by handlers.\<close>

datatype (plugins only: ) broker_message =
    FriendRequestAccepted user string
  | FriendRequestReceived user string

datatype (plugins only: ) queued_task =
    QueueLastMessageId string string bool
  | QueueProcessMessage string message "string list" bool
  | QueueAckMessage string string string

record world =
  w_db :: reference_db
  w_published :: "(string \<times> event) list"
  w_broker :: "broker_message list"
  w_tasks :: "queued_task list"

type_synonym 'a handler = "(world, error_type, 'a) io"

text \<open>Running a database operation, and reading from the database.\<close>

definition on_db :: "'a db_op \<Rightarrow> 'a handler" where
  "on_db m w = (case m (w_db w) of (r, db) \<Rightarrow> (r, w\<lparr>w_db := db\<rparr>))"

definition read_db :: "(reference_db \<Rightarrow> 'a result) \<Rightarrow> 'a handler" where
  "read_db f w = (f (w_db w), w)"

definition publish :: "string \<Rightarrow> event \<Rightarrow> unit handler" where
  "publish topic e w = (Ok (), w\<lparr>w_published := w_published w @ [(topic, e)]\<rparr>)"

definition publish_private :: "string \<Rightarrow> event \<Rightarrow> unit handler" where
  "publish_private i e = publish (i @ ''!'') e"

definition publish_server :: "string \<Rightarrow> event \<Rightarrow> unit handler" where
  "publish_server i e = publish (i @ ''u'') e"

fun publish_all :: "(string \<times> event) list \<Rightarrow> unit handler" where
  "publish_all [] = io_return ()"
| "publish_all ((t, e) # xs) = io_then (publish t e) (publish_all xs)"

definition publish_user :: "string \<Rightarrow> event \<Rightarrow> unit handler" where
  "publish_user i e = io_then (publish i e) (\<lambda>w.
     case fetch_all_memberships (w_db w) i of
       Ok members \<Rightarrow> publish_all (map (\<lambda>m. (key_server (member_id m) @ ''u'', e)) members) w
     | _ \<Rightarrow> (Ok (), w))"

definition send_broker :: "broker_message \<Rightarrow> unit handler" where
  "send_broker m w = (Ok (), w\<lparr>w_broker := w_broker w @ [m]\<rparr>)"

definition queue_task :: "queued_task \<Rightarrow> unit handler" where
  "queue_task t w = (Ok (), w\<lparr>w_tasks := w_tasks w @ [t]\<rparr>)"

lemmas effect_defs [outcome_simps] = on_db_def read_db_def publish_def publish_private_def
  publish_server_def send_broker_def queue_task_def

lemma io_bind_read_db:
  "io_bind (read_db f) k w = (case f (w_db w) of Ok x \<Rightarrow> k x w | Err e \<Rightarrow> (Err e, w) | Panic \<Rightarrow> (Panic, w))"
  by (simp add: io_bind_def read_db_def)

lemma io_then_send_broker: "io_then (send_broker m) k w = k (w\<lparr>w_broker := w_broker w @ [m]\<rparr>)"
  by (simp add: io_then_def io_bind_def send_broker_def)

lemma publish_all_effect:
  "publish_all xs w = (Ok (), w\<lparr>w_published := w_published w @ xs\<rparr>)"
  by (induction xs arbitrary: w) (auto simp: outcome_simps)

lemma publish_user_effect:
  "fst (publish_user i e w) = Ok ()" "w_db (snd (publish_user i e w)) = w_db w"
  by (simp_all add: publish_user_def outcome_simps fetch_all_memberships_def publish_all_effect)

end
