(* ===== verification/Users.thy ===== *)
theory Users
  imports World
begin

text \<open>
  Users (\<open>crates/core/database/src/models/users/model.rs\<close>): creation, user names and
  discriminators, updates, and the relationships between two users.

  Lower-casing and the homoglyph filter are arguments, as are the identifiers and random choices the
  code draws. A relationship change writes both users to the database; the properties are about every
  database reached by the relationship handlers.
\<close>

section \<open>Names\<close>

definition BLOCKED_USERNAMES :: "string list" where
  "BLOCKED_USERNAMES = [''admin'', ''revolt'']"

definition BLOCKED_SUBSTRINGS :: "string list" where
  "BLOCKED_SUBSTRINGS = [[CHR 0x60, CHR 0x60, CHR 0x60], ''discord.gg'', ''company.earthservers.net'', ''guilded.gg'', ''https://'',
     ''http://'']"

definition validate_username ::
  "(string \<Rightarrow> string) \<Rightarrow> (string \<Rightarrow> string) \<Rightarrow> string \<Rightarrow> string result" where
  "validate_username to_lowercase cure username =
     (let lower = to_lowercase username in
      if cure lower \<noteq> lower then Err InvalidUsername
      else if lower \<in> set BLOCKED_USERNAMES then Err InvalidUsername
      else if \<exists>s\<in>set BLOCKED_SUBSTRINGS. str_contains lower s then Err InvalidUsername
      else Ok username)"

text \<open>\<open>format!("{:0>4}", v)\<close>: decimal digits padded on the left to four characters.\<close>

definition format4 :: "nat \<Rightarrow> string" where
  "format4 v = [digit (v div 1000), digit (v div 100), digit (v div 10), digit v]"

definition DISCRIMINATOR_SEARCH_SPACE :: "string list" where
  "DISCRIMINATOR_SEARCH_SPACE =
     filter (\<lambda>d. d \<notin> set (map format4 [123, 1234, 1111, 2222, 3333, 4444, 5555, 6666, 7777, 8888, 9999, 1488]))
       (map format4 [2..<9999])"

text \<open>\<open>pick\<close> draws an element of a list at random; it is an argument, and so are the ULID of a new
  rate limit event and the oldest ULID of the last day.\<close>

definition find_discriminator ::
  "(string \<Rightarrow> string) \<Rightarrow> (string list \<Rightarrow> string) \<Rightarrow> string \<Rightarrow> string
    \<Rightarrow> string \<Rightarrow> (string \<times> string) option \<Rightarrow> string db_op" where
  "find_discriminator to_lowercase pick ulid day_ago username preferred db =
     (case fetch_discriminators_in_use to_lowercase db username of
        Err e \<Rightarrow> (Err e, db)
      | Panic \<Rightarrow> (Panic, db)
      | Ok used \<Rightarrow>
        (let available = filter (\<lambda>d. d \<notin> set used) DISCRIMINATOR_SEARCH_SPACE in
         if available = [] then (Err UsernameTaken, db)
         else case preferred of
           Some (wanted, target) \<Rightarrow>
             if wanted \<in> set available then (Ok wanted, db)
             else (case has_ratelimited day_ago db target DiscriminatorChange 1 of
                 Ok True \<Rightarrow> (Err DiscriminatorChangeRatelimited, db)
               | Ok False \<Rightarrow>
                   io_bind (ratelimit_event_create ulid target DiscriminatorChange) (\<lambda>_ db. (Ok (pick available), db)) db
               | Err e \<Rightarrow> (Err e, db)
               | Panic \<Rightarrow> (Panic, db))
         | None \<Rightarrow> (Ok (pick available), db)))"

section \<open>Creation and update\<close>

definition user_create ::
  "optional_structs \<Rightarrow> (string \<Rightarrow> string) \<Rightarrow> (string \<Rightarrow> string) \<Rightarrow> (string list \<Rightarrow> string) \<Rightarrow> string
    \<Rightarrow> timestamp \<Rightarrow> string \<Rightarrow> string option \<Rightarrow> partial_user option \<Rightarrow> user handler" where
  "user_create opt to_lowercase cure pick ulid now username account_id data =
     (case validate_username to_lowercase cure username of
        Err e \<Rightarrow> io_fail e
      | Panic \<Rightarrow> io_panic
      | Ok username \<Rightarrow>
        io_bind (on_db (find_discriminator to_lowercase pick ulid ulid username None)) (\<lambda>discriminator.
        let u = default_user\<lparr>user_id := (case account_id of Some i \<Rightarrow> i | None \<Rightarrow> ulid),
              user_discriminator := discriminator, user_username := username,
              user_last_acknowledged_policy_change := now\<rparr>;
            u = (case data of Some p \<Rightarrow> apply_user opt p u | None \<Rightarrow> u)
        in io_then (on_db (insert_user u)) (io_return u)))"

definition user_update ::
  "optional_structs \<Rightarrow> string \<Rightarrow> user \<Rightarrow> partial_user \<Rightarrow> fields_user list \<Rightarrow> user handler" where
  "user_update opt event_id u partial remove =
     (let u = apply_user opt partial (fold user_remove_field remove u) in
      io_then (on_db (update_user opt (user_id u) partial remove))
      (io_then (publish_user (user_id u) (EvUserUpdate (user_id u) partial remove (Some event_id)))
      (io_return u)))"

definition update_username ::
  "optional_structs \<Rightarrow> (string \<Rightarrow> string) \<Rightarrow> (string \<Rightarrow> string) \<Rightarrow> (string list \<Rightarrow> string) \<Rightarrow> string \<Rightarrow> string
    \<Rightarrow> string \<Rightarrow> user \<Rightarrow> string \<Rightarrow> user handler" where
  "update_username opt to_lowercase cure pick ulid day_ago event_id u username =
     (case validate_username to_lowercase cure username of
        Err e \<Rightarrow> io_fail e
      | Panic \<Rightarrow> io_panic
      | Ok username \<Rightarrow>
        if to_lowercase (user_username u) = to_lowercase username
        then user_update opt event_id u (empty_partial_user\<lparr>pu_username := Some username\<rparr>) []
        else io_bind (on_db (find_discriminator to_lowercase pick ulid day_ago username
               (Some (user_discriminator u, user_id u)))) (\<lambda>discriminator.
             user_update opt event_id u
               (empty_partial_user\<lparr>pu_discriminator := Some discriminator, pu_username := Some username\<rparr>) []))"

definition mark_deleted :: "optional_structs \<Rightarrow> string \<Rightarrow> user \<Rightarrow> user handler" where
  "mark_deleted opt event_id u = user_update opt event_id u
     (empty_partial_user\<lparr>pu_username := Some (''Deleted User '' @ user_id u), pu_flags := Some 2\<rparr>)
     [UserField_Avatar, UserField_StatusText, UserField_StatusPresence, UserField_ProfileContent,
      UserField_ProfileBackground, UserField_Suspension]"

definition too_many_servers_message :: "usize \<Rightarrow> string" where
  "too_many_servers_message n = ''You've reached your server limit of '' @ decimal n
     @ ''. Upgrade your subscription to create more servers.''"

definition can_acquire_server ::
  "limits_collection \<Rightarrow> (string \<Rightarrow> nat option) \<Rightarrow> i64 \<Rightarrow> reference_db \<Rightarrow> user \<Rightarrow> unit result" where
  "can_acquire_server cfg age now db u =
     res_bind (user_limits cfg age now u) (\<lambda>limits.
     res_bind (fetch_owned_server_count db (user_id u)) (\<lambda>count.
       if count < lim_servers limits then Ok ()
       else Err (TooManyServers (lim_servers limits) (too_many_servers_message (lim_servers limits)))))"

section \<open>Relationships\<close>

text \<open>The user value in memory after \<open>set_relationship\<close>, and the method itself: the write to the
  database, then the value in memory.\<close>

definition relate :: "string \<Rightarrow> relationship_status \<Rightarrow> user \<Rightarrow> user" where
  "relate target status u =
     (if status = Rel_None \<or> status = Rel_User then retain_relations target u
      else push_relation target status u)"

definition set_relationship :: "user \<Rightarrow> user \<Rightarrow> relationship_status \<Rightarrow> user handler" where
  "set_relationship u user_b status =
     io_then (on_db (db_set_relationship (user_id u) (user_id user_b) status))
       (io_return (relate (user_id user_b) status u))"

definition apply_relationship ::
  "user \<Rightarrow> user \<Rightarrow> relationship_status \<Rightarrow> relationship_status \<Rightarrow> (user \<times> user) handler" where
  "apply_relationship u target local remote =
     io_bind (set_relationship target u remote) (\<lambda>target.
     io_bind (set_relationship u target local) (\<lambda>u.
     io_then (publish_private (user_id target) (EvUserRelationship (user_id target) u))
    (io_then (publish_private (user_id u) (EvUserRelationship (user_id u) target))
    (io_return (u, target)))))"

definition outgoing_count :: "user \<Rightarrow> nat" where
  "outgoing_count u = (case user_relations u of
     Some relations \<Rightarrow> length (filter (\<lambda>r. rel_status r = Rel_Outgoing) relations) | None \<Rightarrow> 0)"

definition add_friend ::
  "limits_collection \<Rightarrow> (string \<Rightarrow> nat option) \<Rightarrow> i64 \<Rightarrow> user \<Rightarrow> user \<Rightarrow> (user \<times> user) handler" where
  "add_friend cfg age now u target = (case relationship_with u (user_id target) of
     Rel_User \<Rightarrow> io_fail NoEffect
   | Rel_Friend \<Rightarrow> io_fail AlreadyFriends
   | Rel_Outgoing \<Rightarrow> io_fail AlreadySentRequest
   | Rel_Blocked \<Rightarrow> io_fail Blocked
   | Rel_BlockedOther \<Rightarrow> io_fail BlockedByOther
   | Rel_Incoming \<Rightarrow>
       io_then (send_broker (FriendRequestAccepted u (user_id target)))
         (apply_relationship u target Rel_Friend Rel_Friend)
   | Rel_None \<Rightarrow>
       (case user_limits cfg age now u of
          Ok limits \<Rightarrow>
            if outgoing_count u \<ge> lim_outgoing_friend_requests limits
            then io_fail (TooManyPendingFriendRequests (lim_outgoing_friend_requests limits))
            else io_then (send_broker (FriendRequestReceived u (user_id target)))
              (apply_relationship u target Rel_Outgoing Rel_Incoming)
        | Err e \<Rightarrow> io_fail e
        | Panic \<Rightarrow> io_panic))"

definition remove_friend :: "user \<Rightarrow> user \<Rightarrow> (user \<times> user) handler" where
  "remove_friend u target =
     (if relationship_with u (user_id target) \<in> {Rel_Friend, Rel_Outgoing, Rel_Incoming}
      then apply_relationship u target Rel_None Rel_None else io_fail NoEffect)"

definition block_user :: "user \<Rightarrow> user \<Rightarrow> (user \<times> user) handler" where
  "block_user u target = (case relationship_with u (user_id target) of
     Rel_User \<Rightarrow> io_fail NoEffect
   | Rel_Blocked \<Rightarrow> io_fail NoEffect
   | Rel_BlockedOther \<Rightarrow> apply_relationship u target Rel_Blocked Rel_Blocked
   | _ \<Rightarrow> apply_relationship u target Rel_Blocked Rel_BlockedOther)"

definition unblock_user :: "user \<Rightarrow> user \<Rightarrow> (user \<times> user) handler" where
  "unblock_user u target = (case relationship_with u (user_id target) of
     Rel_Blocked \<Rightarrow> (case relationship_with target (user_id u) of
         Rel_Blocked \<Rightarrow> apply_relationship u target Rel_BlockedOther Rel_Blocked
       | Rel_BlockedOther \<Rightarrow> apply_relationship u target Rel_None Rel_None
       | _ \<Rightarrow> io_fail InternalError)
   | _ \<Rightarrow> io_fail NoEffect)"

section \<open>Relationship routes\<close>

text \<open>The routes of the API server (\<open>crates/delta/src/routes/users\<close>). The user of the session is an
  argument; the answer is the target before its conversion into the API model.\<close>

definition as_user :: "string \<Rightarrow> user handler" where
  "as_user i = read_db (\<lambda>db. fetch_user db i)"

definition route_add :: "limits_collection \<Rightarrow> (string \<Rightarrow> nat option) \<Rightarrow> i64 \<Rightarrow> user \<Rightarrow> string \<Rightarrow> user handler" where
  "route_add cfg age now u target = io_bind (as_user target) (\<lambda>t.
     if user_bot u \<noteq> None \<or> user_bot t \<noteq> None then io_fail IsBot
     else io_bind (add_friend cfg age now u t) (\<lambda>(u, t). io_return t))"

definition route_remove :: "user \<Rightarrow> string \<Rightarrow> user handler" where
  "route_remove u target = io_bind (as_user target) (\<lambda>t.
     if user_bot u \<noteq> None \<or> user_bot t \<noteq> None then io_fail IsBot
     else io_bind (remove_friend u t) (\<lambda>(u, t). io_return t))"

definition route_block :: "user \<Rightarrow> string \<Rightarrow> user handler" where
  "route_block u target = io_bind (as_user target) (\<lambda>t.
     io_bind (block_user u t) (\<lambda>(u, t). io_return t))"

definition route_unblock :: "user \<Rightarrow> string \<Rightarrow> user handler" where
  "route_unblock u target = io_bind (as_user target) (\<lambda>t.
     io_bind (unblock_user u t) (\<lambda>(u, t). io_return t))"

definition split_once :: "char \<Rightarrow> string \<Rightarrow> (string \<times> string) option" where
  "split_once c s = (if c \<in> set s
     then Some (takeWhile (\<lambda>x. x \<noteq> c) s, tl (dropWhile (\<lambda>x. x \<noteq> c) s)) else None)"

definition send_friend_request ::
  "(string \<Rightarrow> string) \<Rightarrow> limits_collection \<Rightarrow> (string \<Rightarrow> nat option) \<Rightarrow> i64 \<Rightarrow> user \<Rightarrow> string \<Rightarrow> user handler" where
  "send_friend_request to_lowercase cfg age now u username = (case split_once (CHR ''#'') username of
     Some (name, discriminator) \<Rightarrow>
       io_bind (read_db (\<lambda>db. fetch_user_by_username to_lowercase db name discriminator)) (\<lambda>t.
         if user_bot u \<noteq> None \<or> user_bot t \<noteq> None then io_fail IsBot
         else io_bind (add_friend cfg age now u t) (\<lambda>(u, t). io_return t))
   | None \<Rightarrow> io_fail InvalidProperty)"

text \<open>A request of a logged-in user, and the state after serving it: the session resolves to the user
  as stored at that moment.\<close>

datatype relationship_request =
    AddFriend string | SendFriendRequest string | RemoveFriend string | BlockUser string | UnblockUser string

record service =
  svc_lowercase :: "string \<Rightarrow> string"
  svc_limits :: limits_collection
  svc_age :: "string \<Rightarrow> nat option"
  svc_now :: i64

primrec relationship_route :: "service \<Rightarrow> user \<Rightarrow> relationship_request \<Rightarrow> user handler" where
  "relationship_route s u (AddFriend t) = route_add (svc_limits s) (svc_age s) (svc_now s) u t"
| "relationship_route s u (SendFriendRequest n) =
     send_friend_request (svc_lowercase s) (svc_limits s) (svc_age s) (svc_now s) u n"
| "relationship_route s u (RemoveFriend t) = route_remove u t"
| "relationship_route s u (BlockUser t) = route_block u t"
| "relationship_route s u (UnblockUser t) = route_unblock u t"

definition serve_relationship :: "service \<Rightarrow> string \<times> relationship_request \<Rightarrow> world \<Rightarrow> world" where
  "serve_relationship s r w = (case fetch_user (w_db w) (fst r) of
     Ok u \<Rightarrow> snd (relationship_route s u (snd r) w) | _ \<Rightarrow> w)"

end
