(* ===== verification/Relationships.thy ===== *)
theory Relationships
  imports Users
begin

text \<open>
  The relationships between users as a state machine: an abstract specification of what an action does
  to the pair of statuses two users have towards each other, the refinement of the specification by
  the handlers and routes of \<open>Users\<close>, and the invariants of every world reached by creating users and
  serving relationship requests.
\<close>

section \<open>The relationship state machine\<close>

text \<open>The abstract specification: what an action of one user towards another does to the pair of their
  statuses, None where it is refused.\<close>

datatype relationship_action = ActAdd | ActRemove | ActBlock | ActUnblock

fun relationship_spec :: "relationship_action \<Rightarrow> relationship_status \<Rightarrow> relationship_status
    \<Rightarrow> (relationship_status \<times> relationship_status) option" where
  "relationship_spec ActAdd Rel_None _ = Some (Rel_Outgoing, Rel_Incoming)"
| "relationship_spec ActAdd Rel_Incoming _ = Some (Rel_Friend, Rel_Friend)"
| "relationship_spec ActRemove Rel_Friend _ = Some (Rel_None, Rel_None)"
| "relationship_spec ActRemove Rel_Outgoing _ = Some (Rel_None, Rel_None)"
| "relationship_spec ActRemove Rel_Incoming _ = Some (Rel_None, Rel_None)"
| "relationship_spec ActBlock Rel_BlockedOther _ = Some (Rel_Blocked, Rel_Blocked)"
| "relationship_spec ActBlock Rel_None _ = Some (Rel_Blocked, Rel_BlockedOther)"
| "relationship_spec ActBlock Rel_Friend _ = Some (Rel_Blocked, Rel_BlockedOther)"
| "relationship_spec ActBlock Rel_Incoming _ = Some (Rel_Blocked, Rel_BlockedOther)"
| "relationship_spec ActBlock Rel_Outgoing _ = Some (Rel_Blocked, Rel_BlockedOther)"
| "relationship_spec ActUnblock Rel_Blocked Rel_Blocked = Some (Rel_BlockedOther, Rel_Blocked)"
| "relationship_spec ActUnblock Rel_Blocked Rel_BlockedOther = Some (Rel_None, Rel_None)"
| "relationship_spec _ _ _ = None"

text \<open>The statuses two users can have towards each other.\<close>

definition paired :: "relationship_status \<Rightarrow> relationship_status \<Rightarrow> bool" where
  "paired x y \<longleftrightarrow> (x, y) \<in> {(Rel_None, Rel_None), (Rel_Friend, Rel_Friend), (Rel_Outgoing, Rel_Incoming),
     (Rel_Incoming, Rel_Outgoing), (Rel_Blocked, Rel_BlockedOther), (Rel_BlockedOther, Rel_Blocked),
     (Rel_Blocked, Rel_Blocked)}"

lemma paired_spec: "paired x y \<Longrightarrow> relationship_spec k x y = Some (l, r) \<Longrightarrow> paired l r"
  by (cases "(k, x, y)" rule: relationship_spec.cases) (auto simp: paired_def)

lemma paired_sym: "paired x y \<Longrightarrow> paired y x"
  by (auto simp: paired_def)

lemma paired_no_user: "paired x y \<Longrightarrow> x \<noteq> Rel_User"
  by (auto simp: paired_def)

text \<open>The relations of a user after one of them is set.\<close>

lemma find_filter_other: "b \<noteq> t \<Longrightarrow> List.find (\<lambda>r. rel_id r = b) (filter (\<lambda>r. rel_id r \<noteq> t) rs) = List.find (\<lambda>r. rel_id r = b) rs"
  by (induction rs) auto

lemma find_filter_same: "List.find (\<lambda>r. rel_id r = t) (filter (\<lambda>r. rel_id r \<noteq> t) rs) = None"
  by (induction rs) auto

lemma find_snoc: "List.find P (xs @ [x]) = (case List.find P xs of Some y \<Rightarrow> Some y | None \<Rightarrow> if P x then Some x else None)"
  by (induction xs) auto

lemma user_id_relate [simp]: "user_id (relate t s u) = user_id u"
  by (simp add: relate_def push_relation_def retain_relations_def)

lemma relationship_with_self: "b = user_id u \<Longrightarrow> relationship_with u b = Rel_User"
  by (simp add: relationship_with_def)

lemma relationship_with_relate:
  assumes "t \<noteq> user_id u"
  shows "relationship_with (relate t s u) b =
    (if b = user_id u then Rel_User else if b = t then (if s = Rel_User then Rel_None else s)
     else relationship_with u b)"
  using assms
  by (auto simp: relationship_with_def relate_def push_relation_def retain_relations_def find_snoc
      find_filter_other find_filter_same split: option.splits)

text \<open>What a relationship change does to the table of users.\<close>

type_synonym user_table = "(string, user) hash_map"

abbreviation users_of :: "world \<Rightarrow> user_table" where
  "users_of w \<equiv> db_users (w_db w)"

definition related :: "string \<Rightarrow> string \<Rightarrow> relationship_status \<Rightarrow> relationship_status \<Rightarrow> user_table \<Rightarrow> user_table" where
  "related a b l r m = hm_adjust a (relate b l) (hm_adjust b (relate a r) m)"

lemma db_set_relationship_relate:
  assumes "map_of (db_users db) i \<noteq> None"
  shows "db_set_relationship i t s db = (Ok (), db\<lparr>db_users := hm_adjust i (relate t s) (db_users db)\<rparr>)"
  using assms
  by (auto simp: db_set_relationship_def pull_relationship_def hm_contains_def relate_def[abs_def])

lemma apply_relationship_run:
  assumes "map_of (users_of w) (user_id u) = Some u'" "map_of (users_of w) (user_id t) = Some t'"
  shows "fst (apply_relationship u t l r w) = Ok (relate (user_id t) l u, relate (user_id u) r t)"
    and "users_of (snd (apply_relationship u t l r w)) = related (user_id u) (user_id t) l r (users_of w)"
  using assms
  by (auto simp: apply_relationship_def set_relationship_def outcome_simps db_set_relationship_relate
      hm.get_adjust related_def)

text \<open>One action of user \<open>a\<close> towards user \<open>b\<close>: either nothing is stored, or the pair of stored
  statuses moves as the specification says, and a new request is within the limit.\<close>

definition within_limit :: "service \<Rightarrow> user \<Rightarrow> bool" where
  "within_limit s u \<longleftrightarrow> (\<exists>limits. user_limits (svc_limits s) (svc_age s) (svc_now s) u = Ok limits
     \<and> outgoing_count u < lim_outgoing_friend_requests limits)"

definition moved :: "service \<Rightarrow> relationship_action \<Rightarrow> string \<Rightarrow> string \<Rightarrow> user_table \<Rightarrow> user_table \<Rightarrow> bool" where
  "moved s k a b m m' \<longleftrightarrow> m' = m \<or> (a \<noteq> b \<and> (\<exists>u t l r. map_of m a = Some u \<and> map_of m b = Some t
     \<and> relationship_spec k (relationship_with u b) (relationship_with t a) = Some (l, r)
     \<and> (l = Rel_Outgoing \<longrightarrow> within_limit s u) \<and> m' = related a b l r m))"

lemma moved_refl [simp]: "moved s k a b m m"
  by (simp add: moved_def)

lemma movedE:
  assumes "moved s k a b m m'" "m' \<noteq> m"
  obtains u t l r where "a \<noteq> b" "map_of m a = Some u" "map_of m b = Some t"
    "relationship_spec k (relationship_with u b) (relationship_with t a) = Some (l, r)"
    "l = Rel_Outgoing \<Longrightarrow> within_limit s u" "m' = related a b l r m"
  using assms unfolding moved_def by blast

lemma moved_related:
  assumes "map_of m (user_id u) = Some u" "map_of m (user_id t) = Some t"
    and "relationship_spec k (relationship_with u (user_id t)) (relationship_with t (user_id u)) = Some (l, r)"
    and "l = Rel_Outgoing \<Longrightarrow> within_limit s u"
  shows "moved s k (user_id u) (user_id t) m (related (user_id u) (user_id t) l r m)"
proof -
  have "relationship_with u (user_id t) \<noteq> Rel_User" using assms(3) by (cases k) auto
  then have "user_id u \<noteq> user_id t" by (auto simp: relationship_with_def)
  then show ?thesis using assms by (auto simp: moved_def)
qed

primrec relationship_change :: "service \<Rightarrow> relationship_action \<Rightarrow> user \<Rightarrow> user \<Rightarrow> (user \<times> user) handler" where
  "relationship_change s ActAdd u t = add_friend (svc_limits s) (svc_age s) (svc_now s) u t"
| "relationship_change s ActRemove u t = remove_friend u t"
| "relationship_change s ActBlock u t = block_user u t"
| "relationship_change s ActUnblock u t = unblock_user u t"

text \<open>The handlers implement the specification: they store the pair it gives and answer with the two
  users as stored, or they fail and store nothing.\<close>

lemma relationship_change_spec:
  assumes "map_of (users_of w) (user_id u) = Some u" "map_of (users_of w) (user_id t) = Some t"
  shows "case relationship_spec k (relationship_with u (user_id t)) (relationship_with t (user_id u)) of
      Some (l, r) \<Rightarrow>
        if l = Rel_Outgoing \<and> \<not> within_limit s u
        then \<not> is_ok (fst (relationship_change s k u t w)) \<and> users_of (snd (relationship_change s k u t w)) = users_of w
        else fst (relationship_change s k u t w) = Ok (relate (user_id t) l u, relate (user_id u) r t)
          \<and> users_of (snd (relationship_change s k u t w)) = related (user_id u) (user_id t) l r (users_of w)
    | None \<Rightarrow> \<not> is_ok (fst (relationship_change s k u t w)) \<and> snd (relationship_change s k u t w) = w"
proof (cases k)
  note run = apply_relationship_run [of _ u u t t]
  case ActAdd
  then show ?thesis
    using assms run
    by (cases "relationship_with u (user_id t)"; cases "user_limits (svc_limits s) (svc_age s) (svc_now s) u")
       (auto simp: add_friend_def io_then_send_broker io_fail_def io_panic_def within_limit_def is_ok_iff)
next
  note run = apply_relationship_run [of _ u u t t]
  case ActRemove
  then show ?thesis
    using assms run
    by (cases "relationship_with u (user_id t)") (auto simp: remove_friend_def io_fail_def is_ok_iff)
next
  note run = apply_relationship_run [of _ u u t t]
  case ActBlock
  then show ?thesis
    using assms run
    by (cases "relationship_with u (user_id t)") (auto simp: block_user_def io_fail_def is_ok_iff)
next
  note run = apply_relationship_run [of _ u u t t]
  case ActUnblock
  then show ?thesis
    using assms run
    by (cases "relationship_with u (user_id t)"; cases "relationship_with t (user_id u)")
       (auto simp: unblock_user_def io_fail_def is_ok_iff)
qed

lemma relationship_change_moved:
  assumes "map_of (users_of w) (user_id u) = Some u" "map_of (users_of w) (user_id t) = Some t"
  shows "moved s k (user_id u) (user_id t) (users_of w) (users_of (snd (relationship_change s k u t w)))"
  using relationship_change_spec [OF assms, where k = k and s = s] moved_related [OF assms]
  by (auto split: option.splits prod.splits if_splits)

primrec action_of :: "relationship_request \<Rightarrow> relationship_action" where
  "action_of (AddFriend _) = ActAdd"
| "action_of (SendFriendRequest _) = ActAdd"
| "action_of (RemoveFriend _) = ActRemove"
| "action_of (BlockUser _) = ActBlock"
| "action_of (UnblockUser _) = ActUnblock"

lemma table_ok_find:
  assumes "table_ok key m" "List.find P (hm_values m) = Some v"
  shows "map_of m (key v) = Some v"
proof -
  have "v \<in> set (hm_values m)" using assms(2) by (auto simp: find_Some_iff)
  then obtain k where "(k, v) \<in> set m" by (auto simp: hm_values_def)
  then have "map_of m k = Some v" using assms(1) by (auto simp: table_ok_def hm_wf_def)
  then show ?thesis using assms(1) by (auto simp: table_ok_def)
qed

lemma snd_answer: "snd (io_bind m (\<lambda>(u, t). io_return t) w) = snd (m w)"
  by (auto simp: io_bind_def io_return_def split: prod.splits res.splits)

text \<open>Every served request is one action of the requesting user towards some stored user.\<close>

lemma relationship_route_effect:
  assumes "table_ok user_id (users_of w)"
  shows "snd (relationship_route s u q w) = w \<or> (\<exists>t. map_of (users_of w) (user_id t) = Some t \<and> (\<forall>i. q = UnblockUser i \<longrightarrow> user_id t = i) \<and>
    snd (relationship_route s u q w) = snd (relationship_change s (action_of q) u t w))"
proof -
  have by_id: "map_of (users_of w) (user_id t) = Some t \<and> user_id t = i" if "fetch_user (w_db w) i = Ok t" for i t
    using that assms by (auto simp: fetch_user_def table_ok_def)
  have by_name: "map_of (users_of w) (user_id t) = Some t"
    if "fetch_user_by_username f (w_db w) n d = Ok t" for f n d t
    using that table_ok_find [OF assms] by (auto simp: fetch_user_by_username_def)
  have step: "snd (io_bind (read_db f) (\<lambda>t. if B t then io_fail e else io_bind (m t) (\<lambda>(u, t). io_return t)) w) = w
    \<or> (\<exists>t. map_of (users_of w) (user_id t) = Some t \<and> Q t \<and>
      snd (io_bind (read_db f) (\<lambda>t. if B t then io_fail e else io_bind (m t) (\<lambda>(u, t). io_return t)) w) = snd (m t w))"
    if "\<And>t. f (w_db w) = Ok t \<Longrightarrow> map_of (users_of w) (user_id t) = Some t \<and> Q t"
    for f B e Q and m :: "user \<Rightarrow> (user \<times> user) handler"
    using that by (cases "f (w_db w)") (auto simp: io_bind_read_db snd_answer io_fail_def)
  have id_step: "snd (io_bind (as_user i) (\<lambda>t. if B t then io_fail e else io_bind (m t) (\<lambda>(u, t). io_return t)) w) = w
    \<or> (\<exists>t. map_of (users_of w) (user_id t) = Some t \<and> user_id t = i \<and>
      snd (io_bind (as_user i) (\<lambda>t. if B t then io_fail e else io_bind (m t) (\<lambda>(u, t). io_return t)) w) = snd (m t w))"
    for i B e and m :: "user \<Rightarrow> (user \<times> user) handler"
    unfolding as_user_def by (rule step) (rule by_id)
  show ?thesis
  proof (cases q)
    case (SendFriendRequest n)
    show ?thesis
    proof (cases "split_once (CHR ''#'') n")
      case (Some nd)
      obtain name d where nd: "nd = (name, d)" by fastforce
      show ?thesis
        using step [where Q = "\<lambda>t. \<forall>i. q = UnblockUser i \<longrightarrow> user_id t = i",
            of "\<lambda>db. fetch_user_by_username (svc_lowercase s) db name d"] by_name Some nd SendFriendRequest
        by (simp add: send_friend_request_def)
    qed (simp add: SendFriendRequest send_friend_request_def io_fail_def)
  next
    case (BlockUser i)
    then show ?thesis using id_step [of i "\<lambda>_. False"] by (auto simp: route_block_def)
  next
    case (UnblockUser i)
    then show ?thesis using id_step [of i "\<lambda>_. False"] by (auto simp: route_unblock_def)
  next
    case (AddFriend i)
    then show ?thesis
      using id_step [of i "\<lambda>t. user_bot u \<noteq> None \<or> user_bot t \<noteq> None" IsBot
          "add_friend (svc_limits s) (svc_age s) (svc_now s) u"]
      by (auto simp: route_add_def)
  next
    case (RemoveFriend i)
    then show ?thesis
      using id_step [of i "\<lambda>t. user_bot u \<noteq> None \<or> user_bot t \<noteq> None" IsBot "remove_friend u"]
      by (auto simp: route_remove_def)
  qed
qed

lemma serve_moved:
  assumes "table_ok user_id (users_of w)"
  shows "\<exists>b. moved s (action_of (snd r)) (fst r) b (users_of w) (users_of (serve_relationship s r w))
    \<and> (\<forall>i. snd r = UnblockUser i \<longrightarrow> b = i)"
proof -
  have unchanged: ?thesis if "serve_relationship s r w = w"
    using that by (cases "snd r") auto
  show ?thesis
proof (cases "fetch_user (w_db w) (fst r)")
  case (Ok u)
  then have u: "user_id u = fst r" "map_of (users_of w) (user_id u) = Some u"
    using assms by (auto simp: fetch_user_def table_ok_def)
  consider "serve_relationship s r w = w"
    | t where "map_of (users_of w) (user_id t) = Some t" "\<forall>i. snd r = UnblockUser i \<longrightarrow> user_id t = i"
      "serve_relationship s r w = snd (relationship_change s (action_of (snd r)) u t w)"
    using relationship_route_effect [OF assms, of s u "snd r"] Ok by (auto simp: serve_relationship_def)
  then show ?thesis
  proof cases
    case 1
    then show ?thesis by (rule unchanged)
  next
    case 2
    then show ?thesis
      using relationship_change_moved [OF u(2), of t s "action_of (snd r)"] u(1)
      by (intro exI [of _ "user_id t"]) simp
  qed
qed (use unchanged in \<open>auto simp: serve_relationship_def\<close>)
qed

section \<open>The relationship invariant\<close>

text \<open>Two stored users always have paired statuses, and nobody has a relation to a user that is not
  stored.\<close>

definition relations_ok :: "user_table \<Rightarrow> bool" where
  "relations_ok m \<longleftrightarrow> table_ok user_id m
     \<and> (\<forall>a b u v. map_of m a = Some u \<longrightarrow> map_of m b = Some v \<longrightarrow> a \<noteq> b \<longrightarrow>
          paired (relationship_with u b) (relationship_with v a))
     \<and> (\<forall>a b u. map_of m a = Some u \<longrightarrow> map_of m b = None \<longrightarrow> relationship_with u b = Rel_None)"

lemma relations_okD:
  assumes "relations_ok m"
  shows "map_of m a = Some u \<Longrightarrow> user_id u = a" "table_ok user_id m"
    "map_of m a = Some u \<Longrightarrow> map_of m b = Some v \<Longrightarrow> a \<noteq> b \<Longrightarrow>
      paired (relationship_with u b) (relationship_with v a)"
    "map_of m a = Some u \<Longrightarrow> map_of m b = None \<Longrightarrow> relationship_with u b = Rel_None"
  using assms by (auto simp: relations_ok_def table_ok_def)

lemma related_get:
  assumes "map_of m a = Some u" "map_of m b = Some t" "a \<noteq> b"
  shows "map_of (related a b l r m) c =
    (if c = a then Some (relate b l u) else if c = b then Some (relate a r t) else map_of m c)"
  using assms by (auto simp: related_def hm.get_adjust)

lemma related_relations:
  assumes "relations_ok m" "map_of m a = Some u" "map_of m b = Some t" "a \<noteq> b" "l \<noteq> Rel_User" "r \<noteq> Rel_User"
    and "map_of (related a b l r m) c = Some v"
  shows "\<exists>v'. map_of m c = Some v' \<and> user_id v = c \<and> (\<forall>d. relationship_with v d =
    (if c = a \<and> d = b then l else if c = b \<and> d = a then r else relationship_with v' d))"
proof -
  have u: "user_id u = a" and t: "user_id t = b"
    using relations_okD(1) [OF assms(1)] assms(2,3) by auto
  consider "c = a" | "c = b" | "c \<noteq> a" "c \<noteq> b" by blast
  then show ?thesis
  proof cases
    case 1
    then have v: "v = relate b l u" using assms(2-4,7) by (simp add: related_get)
    show ?thesis
      by (rule exI [of _ u]) (use 1 v u assms(2,4,5) in \<open>auto simp: relationship_with_relate relationship_with_self\<close>)
  next
    case 2
    then have v: "v = relate a r t" using assms(2-4,7) by (simp add: related_get)
    show ?thesis
      by (rule exI [of _ t]) (use 2 v t assms(3,4,6) in \<open>auto simp: relationship_with_relate relationship_with_self\<close>)
  next
    case 3
    then have "map_of m c = Some v" using assms(2-4,7) by (simp add: related_get)
    then show ?thesis using 3 relations_okD(1) [OF assms(1)] by (intro exI [of _ v]) auto
  qed
qed

lemma related_ok:
  assumes "relations_ok m" "map_of m a = Some u" "map_of m b = Some t" "a \<noteq> b" "paired l r"
  shows "relations_ok (related a b l r m)"
proof -
  have no_user: "l \<noteq> Rel_User" "r \<noteq> Rel_User"
    using assms(5) paired_no_user paired_sym by blast+
  note get = related_relations [OF assms(1-4) no_user]
  have "table_ok user_id (related a b l r m)"
    unfolding related_def using relations_okD(2) [OF assms(1)] by (intro invariant_intros) auto
  moreover have "paired (relationship_with v d) (relationship_with w c)"
    if v: "map_of (related a b l r m) c = Some v" and w: "map_of (related a b l r m) d = Some w" and "c \<noteq> d"
    for c d v w
  proof -
    obtain v' where m: "map_of m c = Some v'"
      and v: "\<forall>e. relationship_with v e = (if c = a \<and> e = b then l else if c = b \<and> e = a then r else relationship_with v' e)"
      using get [OF v] by blast
    obtain w' where "map_of m d = Some w'"
      and w: "\<forall>e. relationship_with w e = (if d = a \<and> e = b then l else if d = b \<and> e = a then r else relationship_with w' e)"
      using get [OF w] by blast
    then have "paired (relationship_with v' d) (relationship_with w' c)"
      using relations_okD(3) [OF assms(1)] m \<open>c \<noteq> d\<close> by blast
    then show ?thesis using assms(4,5) paired_sym by (auto simp: v w)
  qed
  moreover have "relationship_with v d = Rel_None"
    if v: "map_of (related a b l r m) c = Some v" and d: "map_of (related a b l r m) d = None" for c d v
  proof -
    have d: "d \<noteq> a" "d \<noteq> b" "map_of m d = None"
      using d assms(2-4) by (auto simp: related_get split: if_splits)
    show ?thesis using get [OF v] d relations_okD(4) [OF assms(1)] by auto
  qed
  ultimately show ?thesis unfolding relations_ok_def by blast
qed

lemma moved_ok:
  assumes "relations_ok m" "moved s k a b m m'"
  shows "relations_ok m'"
proof (cases "m' = m")
  case False
  show ?thesis
  proof (rule movedE [OF assms(2) False])
    fix u t l r
    assume ab: "a \<noteq> b" "map_of m a = Some u" "map_of m b = Some t" and m': "m' = related a b l r m"
      and "relationship_spec k (relationship_with u b) (relationship_with t a) = Some (l, r)"
    then have "paired l r" using paired_spec relations_okD(3) [OF assms(1)] by blast
    then show "relations_ok m'" unfolding m' by (rule related_ok [OF assms(1) ab(2,3,1)])
  qed
qed (simp add: assms(1))

lemma serve_ok:
  assumes "relations_ok (users_of w)"
  shows "relations_ok (users_of (serve_relationship s r w))"
proof -
  obtain b where "moved s (action_of (snd r)) (fst r) b (users_of w) (users_of (serve_relationship s r w))"
    using serve_moved [OF relations_okD(2) [OF assms]] by blast
  with assms show ?thesis by (rule moved_ok)
qed

text \<open>What one action does to the status of \<open>a\<close> towards \<open>b\<close>: it stays, or it moves by an action of \<open>a\<close>
  towards \<open>b\<close>, or by an action of \<open>b\<close> towards \<open>a\<close>.\<close>

lemma moved_status:
  assumes "relations_ok m" "moved s k c d m m'" "map_of m a = Some u"
  obtains u' where "map_of m' a = Some u'" "relationship_with u' b = relationship_with u b"
  | u' t r where "c = a" "d = b" "map_of m' a = Some u'" "map_of m b = Some t" "a \<noteq> b"
      "relationship_spec k (relationship_with u b) (relationship_with t a) = Some (relationship_with u' b, r)"
      "relationship_with u' b = Rel_Outgoing \<Longrightarrow> within_limit s u"
  | u' t l where "c = b" "d = a" "map_of m' a = Some u'" "map_of m b = Some t" "a \<noteq> b"
      "relationship_spec k (relationship_with t a) (relationship_with u b) = Some (l, relationship_with u' b)"
proof (cases "m' = m")
  case True
  then show ?thesis using that(1) assms(3) by blast
next
  case False
  show ?thesis
  proof (rule movedE [OF assms(2) False])
    fix v t l r
    assume cd: "c \<noteq> d" "map_of m c = Some v" "map_of m d = Some t"
      and spec: "relationship_spec k (relationship_with v d) (relationship_with t c) = Some (l, r)"
      and lim: "l = Rel_Outgoing \<Longrightarrow> within_limit s v" and m': "m' = related c d l r m"
    have "paired l r" using paired_spec relations_okD(3) [OF assms(1)] cd spec by blast
    then have "l \<noteq> Rel_User" "r \<noteq> Rel_User" using paired_no_user paired_sym by blast+
    note get = related_relations [OF assms(1) cd(2,3,1) this]
    obtain u' where u': "map_of m' a = Some u'"
      using assms(3) cd by (cases "a = c \<or> a = d") (auto simp: m' related_get)
    then have r: "relationship_with u' b =
        (if a = c \<and> b = d then l else if a = d \<and> b = c then r else relationship_with u b)"
      using get [of a u'] assms(3) by (auto simp: m')
    show ?thesis
    proof (cases "a = c \<and> b = d")
      case True
      then show ?thesis using that(2) [of u' t r] u' r cd spec lim assms(3) by auto
    next
      case no: False
      show ?thesis
      proof (cases "a = d \<and> b = c")
        case True
        then show ?thesis using that(3) [of u' v l] u' r cd spec assms(3) by auto
      next
        case False
        then show ?thesis using that(1) u' r no by auto
      qed
    qed
  qed
qed

text \<open>Creating a user without further data stores a user without relations under a free identifier.\<close>

lemma find_discriminator_users:
  "db_users (snd (find_discriminator lower pick ulid day name preferred db)) = db_users db"
  by (auto simp: find_discriminator_def outcome_simps ratelimit_event_create_def insert_ratelimit_event_def Let_def
      split: res.splits option.splits prod.splits bool.splits)

lemma user_create_users:
  obtains "users_of (snd (user_create opt lower cure pick ulid now name account None w)) = users_of w"
  | u where "users_of (snd (user_create opt lower cure pick ulid now name account None w))
       = AList.update (user_id u) u (users_of w)"
     "map_of (users_of w) (user_id u) = None" "user_relations u = None"
proof (cases "validate_username lower cure name")
  case (Ok n)
  obtain r db where d: "find_discriminator lower pick ulid ulid n None (w_db w) = (r, db)" by fastforce
  then have users: "db_users db = users_of w"
    using find_discriminator_users [of lower pick ulid ulid n None "w_db w"] by simp
  show ?thesis
  proof (cases r)
    case r: (Ok d')
    let ?u = "default_user\<lparr>user_id := (case account of Some i \<Rightarrow> i | None \<Rightarrow> ulid),
      user_discriminator := d', user_username := n, user_last_acknowledged_policy_change := now\<rparr>"
    have run: "users_of (snd (user_create opt lower cure pick ulid now name account None w))
        = db_users (snd (insert_user ?u db))"
      using d r Ok by (auto simp: user_create_def outcome_simps Let_def split: prod.split res.split)
    show ?thesis
    proof (cases "map_of (users_of w) (user_id ?u)")
      case None
      then show ?thesis
        by (intro that(2) [of ?u]) (auto simp: run insert_user_def hm_contains_def users default_user_def)
    qed (use that(1) run users in \<open>auto simp: insert_user_def hm_contains_def\<close>)
  qed (use d Ok users that in \<open>auto simp: user_create_def outcome_simps\<close>)
qed (use that in \<open>auto simp: user_create_def outcome_simps\<close>)

lemma relations_ok_insert:
  assumes "relations_ok m" "map_of m (user_id u) = None" "user_relations u = None"
  shows "relations_ok (AList.update (user_id u) u m)"
proof -
  have "relationship_with u b = Rel_None" if "b \<noteq> user_id u" for b
    using assms(3) that by (simp add: relationship_with_def)
  then show ?thesis
    using assms(1,2) by (auto simp: relations_ok_def hm.get_insert paired_def intro: table_ok_insert)
qed

text \<open>Worlds reached by creating users and serving relationship requests.\<close>

inductive reachable_relationships :: "service \<Rightarrow> world \<Rightarrow> bool" for s where
  start: "db_users (w_db w) = [] \<Longrightarrow> reachable_relationships s w"
| created: "reachable_relationships s w \<Longrightarrow> reachable_relationships s
     (snd (user_create opt lower cure pick ulid now name account None w))"
| served: "reachable_relationships s w \<Longrightarrow> reachable_relationships s (serve_relationship s r w)"

lemma reachable_relations_ok: "reachable_relationships s w \<Longrightarrow> relations_ok (users_of w)"
proof (induction rule: reachable_relationships.induct)
  case (start w)
  then show ?case by (simp add: relations_ok_def table_ok_Nil)
next
  case (created w opt lower cure pick ulid now name account)
  show ?case
    by (rule user_create_users [of opt lower cure pick ulid now name account w])
       (use created.IH relations_ok_insert in auto)
qed (rule serve_ok)

end
