(* ===== verification/Example_Users.thy ===== *)
theory Example_Users
  imports Relationships
begin

text \<open>
  A small world with two users, for the witnesses of the properties of users.
\<close>

definition naming_structs :: optional_structs where
  "naming_structs = plain_structs\<lparr>apply_user := (\<lambda>p u. u\<lparr>user_username := over (pu_username p) (user_username u),
     user_discriminator := over (pu_discriminator p) (user_discriminator u)\<rparr>)\<rparr>"

definition no_limits :: limits_collection where
  "no_limits = (let l = \<lparr>lim_outgoing_friend_requests = 2, lim_bots = 5, lim_message_length = 2000,
       lim_message_attachments = 5, lim_servers = 100, lim_voice_quality = 16000, lim_max_voice_bitrate = 128000,
       lim_video = True, lim_video_resolution = (1920, 1080), lim_file_upload_size_limit = [],
       lim_max_stream_viewers = 10, lim_max_server_members = 100\<rparr> in
     \<lparr>limits_global = \<lparr>lim_group_size = 100, lim_message_embeds = 5, lim_message_replies = 5,
        lim_message_reactions = 20, lim_server_emoji = 100, lim_server_roles = 200, lim_server_channels = 200,
        lim_new_user_hours = 72, lim_body_limit_size = 20000000\<rparr>,
      limits_new_user = l, limits_default = l, limits_roles = []\<rparr>)"

definition example_service :: service where
  "example_service = \<lparr>svc_lowercase = (\<lambda>s. s), svc_limits = no_limits, svc_age = (\<lambda>_. Some 0), svc_now = 0\<rparr>"

definition empty_world :: world where
  "empty_world = \<lparr>w_db = empty_db, w_published = [], w_broker = [], w_tasks = []\<rparr>"

definition create_plain :: "string \<Rightarrow> world \<Rightarrow> world" where
  "create_plain i w = snd (user_create naming_structs (\<lambda>s. s) (\<lambda>s. s) hd ''R'' 0 i (Some i) None w)"

definition example_world :: world where
  "example_world = create_plain ''B'' (create_plain ''A'' empty_world)"

definition plain_user :: "string \<Rightarrow> user" where
  "plain_user i = default_user\<lparr>user_id := i, user_discriminator := ''0002'', user_username := i\<rparr>"

lemma plain_user_simps [simp]:
  "user_id (plain_user i) = i" "user_username (plain_user i) = i" "user_bot (plain_user i) = None"
  "user_relations (plain_user i) = None" "user_subscription (plain_user i) = None"
  by (simp_all add: plain_user_def default_user_def)

lemma search_space_0002: "\<exists>rest. DISCRIMINATOR_SEARCH_SPACE = ''0002'' # rest"
proof -
  have "''0002'' = format4 2" by code_simp
  moreover have "format4 2 \<notin> set (map format4 [123, 1234, 1111, 2222, 3333, 4444, 5555, 6666, 7777, 8888, 9999, 1488])"
    by (simp add: format4_def digit_eq_iff)
  moreover have "[2..<9999] = 2 # [Suc 2..<9999]" by (rule upt_conv_Cons) simp
  ultimately show ?thesis unfolding DISCRIMINATOR_SEARCH_SPACE_def by (simp only: list.map filter.simps if_True not_False_eq_True) blast
qed

lemma create_plain_users:
  assumes "map_of (users_of w) i = None" "\<forall>u\<in>set (hm_values (users_of w)). user_username u \<noteq> i"
    and "validate_username (\<lambda>s. s) (\<lambda>s. s) i = Ok i"
  shows "users_of (create_plain i w) = AList.update i (plain_user i) (users_of w)"
proof -
  have "fetch_discriminators_in_use (\<lambda>s. s) (w_db w) i = Ok []"
    using assms(2) by (auto simp: fetch_discriminators_in_use_def filter_empty_conv)
  moreover obtain rest where rest: "DISCRIMINATOR_SEARCH_SPACE = ''0002'' # rest"
    using search_space_0002 by blast
  ultimately have "find_discriminator (\<lambda>s. s) hd ''R'' ''R'' i None (w_db w) = (Ok ''0002'', w_db w)"
    by (simp add: find_discriminator_def Let_def rest)
  then show ?thesis
    using assms(1,3)
    by (simp add: create_plain_def user_create_def outcome_simps Let_def insert_user_def hm_contains_def
        plain_user_def default_user_def)
qed

lemma example_world_users: "users_of example_world = [(''A'', plain_user ''A''), (''B'', plain_user ''B'')]"
proof -
  have plain_names: "list_all (\<lambda>n. n \<notin> set BLOCKED_USERNAMES \<and> \<not> list_ex (str_contains n) BLOCKED_SUBSTRINGS) [''A'', ''B'']"
    by code_simp
  have v: "validate_username (\<lambda>s. s) (\<lambda>s. s) ''A'' = Ok ''A''" "validate_username (\<lambda>s. s) (\<lambda>s. s) ''B'' = Ok ''B''"
    using plain_names by (auto simp: validate_username_def Let_def list_ex_iff)
  have "users_of (create_plain ''A'' empty_world) = [(''A'', plain_user ''A'')]"
    by (subst create_plain_users) (simp_all add: v empty_world_def empty_db_def hm_values_def)
  then show ?thesis
    unfolding example_world_def
    by (subst create_plain_users) (simp_all add: v hm_values_def)
qed

end
