(* ===== verification/Relationship_Properties.thy ===== *)
theory Relationship_Properties
  imports Example_Users
begin

text \<open>
  The properties of the relationship handlers: consistent pairs of statuses, blocks that hold, consent,
  bounded requests, the refinement of the specification, and what interleaved requests can do.
\<close>

section \<open>Properties\<close>

lemma example_world_reachable: "reachable_relationships example_service example_world"
  unfolding example_world_def create_plain_def
  by (intro reachable_relationships.intros) (simp add: empty_world_def empty_db_def)

lemma plain_limit: "within_limit example_service (plain_user i)"
  by (simp add: within_limit_def user_limits_def active_subscription_tier_def tier_role_key_def
      example_service_def no_limits_def outgoing_count_def Let_def)

lemma served_users:
  "users_of (serve_relationship example_service (''A'', AddFriend ''B'') example_world)
     = related ''A'' ''B'' Rel_Outgoing Rel_Incoming (users_of example_world)"
  "users_of (serve_relationship example_service (''A'', BlockUser ''B'') example_world)
     = related ''A'' ''B'' Rel_Blocked Rel_BlockedOther (users_of example_world)"
  using relationship_change_spec [of example_world "plain_user ''A''" "plain_user ''B''" example_service ActAdd]
    relationship_change_spec [of example_world "plain_user ''A''" "plain_user ''B''" example_service ActBlock]
  by (simp_all add: serve_relationship_def fetch_user_def example_world_users route_add_def route_block_def
      as_user_def io_bind_read_db snd_answer ok_or_def relationship_with_def plain_limit)

lemma served_request:
  "fetch_user (w_db (serve_relationship example_service (''A'', AddFriend ''B'') example_world)) ''A''
     = Ok (relate ''B'' Rel_Outgoing (plain_user ''A''))"
  "fetch_user (w_db (serve_relationship example_service (''A'', AddFriend ''B'') example_world)) ''B''
     = Ok (relate ''A'' Rel_Incoming (plain_user ''B''))"
  by (simp_all add: fetch_user_def served_users related_def hm_adjust_def ok_or_def example_world_users)

lemma served_block:
  "fetch_user (w_db (serve_relationship example_service (''A'', BlockUser ''B'') example_world)) ''A''
     = Ok (relate ''B'' Rel_Blocked (plain_user ''A''))"
  by (simp add: fetch_user_def served_users related_def hm_adjust_def ok_or_def example_world_users)

lemma served_accept:
  "fetch_user (w_db (serve_relationship example_service (''B'', AddFriend ''A'')
      (serve_relationship example_service (''A'', AddFriend ''B'') example_world))) ''A''
    = Ok (relate ''B'' Rel_Friend (relate ''B'' Rel_Outgoing (plain_user ''A'')))"
proof -
  let ?w = "serve_relationship example_service (''A'', AddFriend ''B'') example_world"
  let ?u = "relate ''A'' Rel_Incoming (plain_user ''B'')" and ?t = "relate ''B'' Rel_Outgoing (plain_user ''A'')"
  have stored: "map_of (users_of ?w) ''B'' = Some ?u" "map_of (users_of ?w) ''A'' = Some ?t"
    using served_request by (simp_all add: fetch_user_def)
  have "user_bot (relate i s (plain_user j)) = None" for i s j
    by (simp add: relate_def push_relation_def retain_relations_def)
  then have "users_of (serve_relationship example_service (''B'', AddFriend ''A'') ?w)
      = related ''B'' ''A'' Rel_Friend Rel_Friend (users_of ?w)"
    using relationship_change_spec [of ?w ?u ?t example_service ActAdd] stored
    by (simp add: serve_relationship_def [of _ "(''B'', _)"] fetch_user_def route_add_def as_user_def io_bind_read_db
        snd_answer ok_or_def relationship_with_relate)
  then show ?thesis using stored by (simp add: fetch_user_def related_get ok_or_def)
qed

text \<open>C4: whatever users are created and whatever relationship requests are served in whatever order, two
  users are always in a consistent pair of statuses: friends of each other, one request outgoing here
  and incoming there, one block seen from both sides, both blocking, or nothing at all.\<close>

theorem relationships_stay_paired:
  assumes "reachable_relationships s w" "a \<noteq> b"
    and "fetch_user (w_db w) a = Ok u" "fetch_user (w_db w) b = Ok v"
  shows "paired (relationship_with u b) (relationship_with v a)"
  using relations_okD(3) [OF reachable_relations_ok [OF assms(1)]] assms(2-4) by (simp add: fetch_user_def)

theorem relationships_stay_paired_witness:
  "\<exists>u v. fetch_user (w_db (serve_relationship example_service (''A'', AddFriend ''B'') example_world)) ''A'' = Ok u
     \<and> fetch_user (w_db (serve_relationship example_service (''A'', AddFriend ''B'') example_world)) ''B'' = Ok v
     \<and> relationship_with u ''B'' = Rel_Outgoing \<and> paired (relationship_with u ''B'') (relationship_with v ''A'')"
proof -
  let ?w = "serve_relationship example_service (''A'', AddFriend ''B'') example_world"
  let ?u = "relate ''B'' Rel_Outgoing (plain_user ''A'')" and ?v = "relate ''A'' Rel_Incoming (plain_user ''B'')"
  have "fetch_user (w_db ?w) ''A'' = Ok ?u" "fetch_user (w_db ?w) ''B'' = Ok ?v"
    by (simp_all add: served_request)
  moreover have "reachable_relationships example_service ?w"
    by (rule reachable_relationships.served [OF example_world_reachable])
  moreover have "relationship_with ?u ''B'' = Rel_Outgoing" by (simp add: relationship_with_relate)
  ultimately show ?thesis
    using relationships_stay_paired [of example_service ?w "''A''" "''B''" ?u ?v] by simp
qed

text \<open>A block holds until the blocking user lifts it.\<close>

lemma moved_keeps_block:
  assumes "relations_ok m" "moved s k c d m m'" "map_of m a = Some u" "relationship_with u b = Rel_Blocked"
    and "\<not> (k = ActUnblock \<and> c = a \<and> d = b)"
  shows "\<exists>u'. map_of m' a = Some u' \<and> relationship_with u' b = Rel_Blocked"
proof (rule moved_status [OF assms(1-3), of b])
  fix u' t r
  assume "c = a" "d = b" "relationship_spec k (relationship_with u b) (relationship_with t a) = Some (relationship_with u' b, r)"
  with assms(4,5) show ?thesis by (cases k) auto
next
  fix u' t l
  assume u': "map_of m' a = Some u'" and t: "map_of m b = Some t" "a \<noteq> b"
    and spec: "relationship_spec k (relationship_with t a) (relationship_with u b) = Some (l, relationship_with u' b)"
  have "paired (relationship_with u b) (relationship_with t a)"
    using relations_okD(3) [OF assms(1)] assms(3) t by blast
  then have "relationship_with t a = Rel_Blocked \<or> relationship_with t a = Rel_BlockedOther"
    using assms(4) by (auto simp: paired_def)
  then show ?thesis using spec u' assms(4) by (cases k) auto
qed (use assms(4) in auto)

lemma serve_keeps_block:
  assumes "relations_ok (users_of w)" "map_of (users_of w) a = Some u" "relationship_with u b = Rel_Blocked"
    and "r \<noteq> (a, UnblockUser b)"
  shows "\<exists>u'. map_of (users_of (serve_relationship s r w)) a = Some u' \<and> relationship_with u' b = Rel_Blocked"
proof -
  obtain d where m: "moved s (action_of (snd r)) (fst r) d (users_of w) (users_of (serve_relationship s r w))"
    and d: "\<forall>i. snd r = UnblockUser i \<longrightarrow> d = i"
    using serve_moved [OF relations_okD(2) [OF assms(1)]] by blast
  have "\<not> (action_of (snd r) = ActUnblock \<and> fst r = a \<and> d = b)"
    using assms(4) d by (cases r; cases "snd r") auto
  then show ?thesis by (rule moved_keeps_block [OF assms(1) m assms(2,3)])
qed

text \<open>C5: a block cannot be removed from outside: over any sequence of requests that does not contain the
  blocking user's own request to unblock, the block stays, whatever the blocked user or anyone else does.\<close>

theorem blocks_persist:
  assumes "reachable_relationships s w" "fetch_user (w_db w) a = Ok u" "relationship_with u b = Rel_Blocked"
    and "(a, UnblockUser b) \<notin> set rs"
  shows "\<exists>u'. fetch_user (w_db (fold (serve_relationship s) rs w)) a = Ok u' \<and> relationship_with u' b = Rel_Blocked"
proof -
  have "relations_ok (users_of w)" "map_of (users_of w) a = Some u"
    using assms(2) reachable_relations_ok [OF assms(1)] by (auto simp: fetch_user_def)
  then show ?thesis
    using assms(3,4)
  proof (induction rs arbitrary: w u)
    case (Cons r rs)
    obtain u' where "map_of (users_of (serve_relationship s r w)) a = Some u'" "relationship_with u' b = Rel_Blocked"
      using serve_keeps_block [OF Cons.prems(1-3), of r s] Cons.prems(4) by auto
    then show ?case using Cons.IH [OF serve_ok [OF Cons.prems(1)]] Cons.prems(4) by auto
  qed (simp add: fetch_user_def ok_or_def)
qed

theorem blocks_persist_witness:
  "\<exists>u'. fetch_user (w_db (fold (serve_relationship example_service)
       [(''B'', UnblockUser ''A''), (''B'', AddFriend ''A''), (''B'', BlockUser ''A''), (''A'', RemoveFriend ''B'')]
       (serve_relationship example_service (''A'', BlockUser ''B'') example_world))) ''A'' = Ok u'
     \<and> relationship_with u' ''B'' = Rel_Blocked"
proof -
  let ?w = "serve_relationship example_service (''A'', BlockUser ''B'') example_world"
  let ?u = "relate ''B'' Rel_Blocked (plain_user ''A'')"
  have "reachable_relationships example_service ?w"
    by (rule reachable_relationships.served [OF example_world_reachable])
  moreover have "fetch_user (w_db ?w) ''A'' = Ok ?u" by (rule served_block)
  moreover have "relationship_with ?u ''B'' = Rel_Blocked" by (simp add: relationship_with_relate)
  ultimately show ?thesis by (rule blocks_persist) simp
qed



text \<open>The requests of a user that add a friend.\<close>

definition asked :: "(string \<times> relationship_request) list \<Rightarrow> string \<Rightarrow> bool" where
  "asked rs a \<longleftrightarrow> (\<exists>q. (a, q) \<in> set rs \<and> action_of q = ActAdd)"

text \<open>What the status of \<open>a\<close> towards \<open>b\<close> tells about the requests made so far.\<close>

primrec consent :: "(string \<times> relationship_request) list \<Rightarrow> string \<Rightarrow> string \<Rightarrow> relationship_status \<Rightarrow> bool" where
  "consent rs a b Rel_Friend = (asked rs a \<and> asked rs b)"
| "consent rs a b Rel_Outgoing = asked rs a"
| "consent rs a b Rel_Incoming = asked rs b"
| "consent rs a b Rel_None = True"
| "consent rs a b Rel_User = True"
| "consent rs a b Rel_Blocked = True"
| "consent rs a b Rel_BlockedOther = True"

lemma consent_mono: "consent rs a b x \<Longrightarrow> consent (rs @ rs') a b x"
  by (cases x) (auto simp: asked_def)

lemma consent_sym: "paired x y \<Longrightarrow> consent rs a b x \<Longrightarrow> consent rs b a y"
  by (auto simp: paired_def)

lemma consent_spec:
  assumes "consent rs a b x" "relationship_spec k x y = Some (l, r)" "k = ActAdd \<Longrightarrow> asked rs' a"
    and "\<And>c. asked rs c \<Longrightarrow> asked rs' c"
  shows "consent rs' a b l"
  using assms by (cases "(k, x, y)" rule: relationship_spec.cases) auto

lemma serve_consent:
  assumes "relations_ok (users_of w)" "map_of (users_of w) a = Some u" "map_of (users_of w) b = Some v" "a \<noteq> b"
    and "consent rs a b (relationship_with u b)"
  shows "\<exists>u' v'. map_of (users_of (serve_relationship s r w)) a = Some u'
    \<and> map_of (users_of (serve_relationship s r w)) b = Some v' \<and> consent (rs @ [r]) a b (relationship_with u' b)"
proof -
  let ?m = "users_of w" and ?m' = "users_of (serve_relationship s r w)"
  obtain d where m: "moved s (action_of (snd r)) (fst r) d ?m ?m'"
    using serve_moved [OF relations_okD(2) [OF assms(1)]] by blast
  have pair: "paired (relationship_with u b) (relationship_with v a)"
    by (rule relations_okD(3) [OF assms(1-4)])
  have more: "asked (rs @ [r]) c" if "asked rs c" for c using that by (auto simp: asked_def)
  have adds: "asked (rs @ [r]) (fst r)" if "action_of (snd r) = ActAdd"
    using that by (cases r) (auto simp: asked_def)
  have ok': "relations_ok ?m'" by (rule serve_ok [OF assms(1)])
  obtain v' where v': "map_of ?m' b = Some v'"
    by (rule moved_status [OF assms(1) m assms(3), of a]) auto
  show ?thesis
  proof (rule moved_status [OF assms(1) m assms(2), of b])
    fix u' assume "map_of ?m' a = Some u'" "relationship_with u' b = relationship_with u b"
    then show ?thesis using v' consent_mono [OF assms(5)] by auto
  next
    fix u' t r' assume u': "map_of ?m' a = Some u'" and "fst r = a" "map_of ?m b = Some t"
      and "relationship_spec (action_of (snd r)) (relationship_with u b) (relationship_with t a) = Some (relationship_with u' b, r')"
    then have "consent (rs @ [r]) a b (relationship_with u' b)"
      using consent_spec [OF assms(5)] adds more by metis
    then show ?thesis using u' v' by blast
  next
    fix u' t l assume u': "map_of ?m' a = Some u'" and f: "fst r = b" and t: "map_of ?m b = Some t"
      and spec: "relationship_spec (action_of (snd r)) (relationship_with t a) (relationship_with u b) = Some (l, relationship_with u' b)"
    have "consent rs b a (relationship_with t a)" using consent_sym [OF pair assms(5)] t assms(3) by simp
    then have "consent (rs @ [r]) b a l" using consent_spec [OF _ spec] adds more f by metis
    moreover have "paired l (relationship_with u' b)"
      using paired_spec [OF paired_sym [OF pair]] spec t assms(3) by auto
    ultimately show ?thesis using consent_sym u' v' by blast
  qed
qed

text \<open>C22: friendship needs both sides. If two users had no relation and are friends after some sequence of
  requests, both of them asked for it: each made a request to add a friend within the sequence.\<close>

theorem friendship_needs_consent:
  assumes "reachable_relationships s w" "a \<noteq> b" "fetch_user (w_db w) a = Ok u" "fetch_user (w_db w) b = Ok v"
    and "relationship_with u b = Rel_None"
    and "fetch_user (w_db (fold (serve_relationship s) rs w)) a = Ok u'" "is_friends_with u' b"
  shows "asked rs a \<and> asked rs b"
proof -
  let ?w = "\<lambda>rs. fold (serve_relationship s) rs w"
  have start: "relations_ok (users_of w)" "map_of (users_of w) a = Some u" "map_of (users_of w) b = Some v"
    using assms(3,4) reachable_relations_ok [OF assms(1)] by (auto simp: fetch_user_def)
  have "relations_ok (users_of (?w rs)) \<and> (\<exists>u v. map_of (users_of (?w rs)) a = Some u
      \<and> map_of (users_of (?w rs)) b = Some v \<and> consent rs a b (relationship_with u b))"
  proof (induction rs rule: rev_induct)
    case Nil
    then show ?case using start assms(5) by simp
  next
    case (snoc r rs)
    then obtain u v where *: "relations_ok (users_of (?w rs))" "map_of (users_of (?w rs)) a = Some u"
        "map_of (users_of (?w rs)) b = Some v" "consent rs a b (relationship_with u b)" by blast
    then show ?case
      using serve_consent [OF *(1-3) assms(2) *(4), of s r] serve_ok [OF *(1), of s r] by simp
  qed
  then have "consent rs a b (relationship_with u' b)" "relationship_with u' b \<noteq> Rel_User"
    using assms(2,6) relations_okD(3) paired_no_user by (fastforce simp: fetch_user_def)+
  then show ?thesis using assms(7) by (auto simp: is_friends_with_def)
qed

theorem friendship_needs_consent_witness:
  "asked [(''A'', AddFriend ''B''), (''B'', AddFriend ''A'')] ''A'' \<and> asked [(''A'', AddFriend ''B''), (''B'', AddFriend ''A'')] ''B''"
proof (rule friendship_needs_consent [OF example_world_reachable])
  show "fetch_user (w_db example_world) ''A'' = Ok (plain_user ''A'')"
    "fetch_user (w_db example_world) ''B'' = Ok (plain_user ''B'')"
    by (simp_all add: fetch_user_def example_world_users ok_or_def)
  show "fetch_user (w_db (fold (serve_relationship example_service)
      [(''A'', AddFriend ''B''), (''B'', AddFriend ''A'')] example_world)) ''A''
    = Ok (relate ''B'' Rel_Friend (relate ''B'' Rel_Outgoing (plain_user ''A'')))"
    using served_accept by simp
qed (simp_all add: relationship_with_def [of "plain_user i" for i] is_friends_with_def relationship_with_relate)

text \<open>The number of outgoing requests is only raised by a new request.\<close>

lemma outgoing_count_relate: "outgoing_count (relate t s u) \<le> outgoing_count u + (if s = Rel_Outgoing then 1 else 0)"
proof -
  have "length (filter P (filter Q xs)) \<le> length (filter P xs)" for P Q and xs :: "relationship list"
    by (induction xs) auto
  then show ?thesis
    by (auto simp: outgoing_count_def relate_def retain_relations_def push_relation_def split: option.splits)
qed

lemma user_limits_relate [simp]: "user_limits cfg age now (relate t s u) = user_limits cfg age now u"
  by (simp add: user_limits_def active_subscription_tier_def relate_def retain_relations_def push_relation_def)

lemma spec_not_outgoing: "relationship_spec k x y = Some (l, r) \<Longrightarrow> r \<noteq> Rel_Outgoing"
  by (cases "(k, x, y)" rule: relationship_spec.cases) auto

definition requests_bounded :: "service \<Rightarrow> user_table \<Rightarrow> bool" where
  "requests_bounded s m \<longleftrightarrow> (\<forall>a u limits. map_of m a = Some u \<longrightarrow>
     user_limits (svc_limits s) (svc_age s) (svc_now s) u = Ok limits \<longrightarrow>
     outgoing_count u \<le> lim_outgoing_friend_requests limits)"

lemma related_bounded:
  assumes "requests_bounded s m" "map_of m c = Some u" "map_of m d = Some t" "c \<noteq> d"
    and "l = Rel_Outgoing \<Longrightarrow> within_limit s u" "r \<noteq> Rel_Outgoing"
  shows "requests_bounded s (related c d l r m)"
  unfolding requests_bounded_def
proof (intro allI impI)
  fix a v limits
  assume v: "map_of (related c d l r m) a = Some v"
    and limits: "user_limits (svc_limits s) (svc_age s) (svc_now s) v = Ok limits"
  have bound: "outgoing_count x \<le> lim_outgoing_friend_requests limits"
    if "map_of m i = Some x" "user_limits (svc_limits s) (svc_age s) (svc_now s) x = Ok limits" for i x
    using that assms(1) unfolding requests_bounded_def by blast
  have v: "(if a = c then Some (relate d l u) else if a = d then Some (relate c r t) else map_of m a) = Some v"
    using v related_get [OF assms(2-4)] by simp
  show "outgoing_count v \<le> lim_outgoing_friend_requests limits"
  proof (cases "a = c")
    case True
    with v have v: "v = relate d l u" by simp
    with limits have u: "user_limits (svc_limits s) (svc_age s) (svc_now s) u = Ok limits" by simp
    have "outgoing_count u < lim_outgoing_friend_requests limits" if "l = Rel_Outgoing"
      using assms(5) [OF that] u by (auto simp: within_limit_def)
    then show ?thesis using v bound [OF assms(2) u] outgoing_count_relate [of d l u] by (cases "l = Rel_Outgoing") auto
  next
    case c: False
    show ?thesis
    proof (cases "a = d")
      case True
      with v c have v: "v = relate c r t" by simp
      with limits have "user_limits (svc_limits s) (svc_age s) (svc_now s) t = Ok limits" by simp
      then show ?thesis using v bound [OF assms(3)] outgoing_count_relate [of c r t] assms(6) by fastforce
    qed (use v c bound limits in simp)
  qed
qed

lemma moved_bounded:
  assumes "requests_bounded s m" "moved s k c d m m'"
  shows "requests_bounded s m'"
proof (cases "m' = m")
  case False
  show ?thesis
    by (rule movedE [OF assms(2) False]) (use related_bounded [OF assms(1)] spec_not_outgoing in blast)
qed (simp add: assms(1))



section \<open>Concurrent requests\<close>

text \<open>The writes of \<open>apply_relationship\<close>, in order. Each is atomic in the database, the pair is not.\<close>

definition relationship_writes :: "string \<Rightarrow> string \<Rightarrow> relationship_status \<Rightarrow> relationship_status \<Rightarrow> unit db_op list" where
  "relationship_writes a b l r = [db_set_relationship b a r, db_set_relationship a b l]"

definition run_writes :: "unit db_op list \<Rightarrow> reference_db \<Rightarrow> reference_db" where
  "run_writes ws db = fold (\<lambda>m db. snd (m db)) ws db"

lemma apply_relationship_writes:
  assumes "map_of (users_of w) (user_id u) = Some u'" "map_of (users_of w) (user_id t) = Some t'"
  shows "users_of (snd (apply_relationship u t l r w))
    = db_users (run_writes (relationship_writes (user_id u) (user_id t) l r) (w_db w))"
  using assms
  by (simp add: apply_relationship_run [OF assms] run_writes_def relationship_writes_def
      db_set_relationship_relate hm.get_adjust related_def)

text \<open>Two users without a relation who send each other a friend request at the same time can end with
  both requests outgoing. One request on its own stores a proper pair, but the two writes of one request
  can interleave with those of the other such that both users see an outgoing request, no request is
  incoming anywhere, and nobody can accept.\<close>

lemma concurrent_requests_lose_incoming:
  assumes "map_of (users_of w) a = Some u" "map_of (users_of w) b = Some t" "a \<noteq> b"
    and "user_id u = a" "user_id t = b"
  shows "\<exists>ws \<in> shuffles (relationship_writes a b Rel_Outgoing Rel_Incoming) (relationship_writes b a Rel_Outgoing Rel_Incoming).
    \<exists>u' t'. fetch_user (run_writes ws (w_db w)) a = Ok u' \<and> fetch_user (run_writes ws (w_db w)) b = Ok t'
      \<and> relationship_with u' b = Rel_Outgoing \<and> relationship_with t' a = Rel_Outgoing
      \<and> (\<forall>cfg age now w'. fst (add_friend cfg age now u' t' w') = Err AlreadySentRequest
          \<and> fst (add_friend cfg age now t' u' w') = Err AlreadySentRequest)"
proof -
  let ?ws = "[db_set_relationship b a Rel_Incoming, db_set_relationship a b Rel_Incoming,
    db_set_relationship a b Rel_Outgoing, db_set_relationship b a Rel_Outgoing]"
  let ?u = "relate b Rel_Outgoing (relate b Rel_Incoming u)" and ?t = "relate a Rel_Outgoing (relate a Rel_Incoming t)"
  have "?ws \<in> shuffles (relationship_writes a b Rel_Outgoing Rel_Incoming) (relationship_writes b a Rel_Outgoing Rel_Incoming)"
    by (auto simp: relationship_writes_def)
  moreover have "fetch_user (run_writes ?ws (w_db w)) a = Ok ?u" "fetch_user (run_writes ?ws (w_db w)) b = Ok ?t"
    using assms(1-3) by (simp_all add: run_writes_def db_set_relationship_relate hm.get_adjust fetch_user_def ok_or_def)
  moreover have "relationship_with ?u b = Rel_Outgoing" "relationship_with ?t a = Rel_Outgoing"
    using assms(3-5) by (simp_all add: relationship_with_relate)
  moreover from this have "fst (add_friend cfg age now ?u ?t w') = Err AlreadySentRequest"
    "fst (add_friend cfg age now ?t ?u w') = Err AlreadySentRequest" for cfg age now w'
    using assms(4,5) by (simp_all add: add_friend_def io_fail_def)
  ultimately show ?thesis by blast
qed

lemma concurrent_requests_lose_incoming_example:
  "\<exists>ws \<in> shuffles (relationship_writes ''A'' ''B'' Rel_Outgoing Rel_Incoming)
      (relationship_writes ''B'' ''A'' Rel_Outgoing Rel_Incoming).
    \<exists>u' t'. fetch_user (run_writes ws (w_db example_world)) ''A'' = Ok u' \<and> relationship_with u' ''B'' = Rel_Outgoing
      \<and> fetch_user (run_writes ws (w_db example_world)) ''B'' = Ok t' \<and> relationship_with t' ''A'' = Rel_Outgoing"
proof -
  have "map_of (users_of example_world) ''A'' = Some (plain_user ''A'')"
    "map_of (users_of example_world) ''B'' = Some (plain_user ''B'')" by (simp_all add: example_world_users)
  then have "\<exists>ws \<in> shuffles (relationship_writes ''A'' ''B'' Rel_Outgoing Rel_Incoming)
      (relationship_writes ''B'' ''A'' Rel_Outgoing Rel_Incoming).
    \<exists>u' t'. fetch_user (run_writes ws (w_db example_world)) ''A'' = Ok u'
      \<and> fetch_user (run_writes ws (w_db example_world)) ''B'' = Ok t'
      \<and> relationship_with u' ''B'' = Rel_Outgoing \<and> relationship_with t' ''A'' = Rel_Outgoing
      \<and> (\<forall>cfg age now w'. fst (add_friend cfg age now u' t' w') = Err AlreadySentRequest
          \<and> fst (add_friend cfg age now t' u' w') = Err AlreadySentRequest)"
    by (rule concurrent_requests_lose_incoming) simp_all
  then show ?thesis by blast
qed

end
