(* ===== verification/Usernames.thy ===== *)
theory Usernames
  imports Example_Users
begin

text \<open>
  User names and discriminators (\<open>User::create\<close>, \<open>User::find_discriminator\<close> and
  \<open>User::update_username\<close> of \<open>crates/core/database/src/models/users/model.rs\<close>): the pair of
  the lower case name and the discriminator identifies a user in every world reached by creating users
  and changing names.
\<close>

definition tag :: "(string \<Rightarrow> string) \<Rightarrow> user \<Rightarrow> string \<times> string" where
  "tag lower u = (lower (user_username u), user_discriminator u)"

definition unique_tags :: "(string \<Rightarrow> string) \<Rightarrow> user_table \<Rightarrow> bool" where
  "unique_tags lower m \<longleftrightarrow> table_ok user_id m \<and> (\<forall>a b u v. map_of m a = Some u \<longrightarrow> map_of m b = Some v \<longrightarrow>
     a \<noteq> b \<longrightarrow> tag lower u \<noteq> tag lower v)"

lemma unique_tagsD:
  assumes "unique_tags lower m"
  shows "table_ok user_id m" "map_of m a = Some u \<Longrightarrow> map_of m b = Some v \<Longrightarrow> a \<noteq> b \<Longrightarrow> tag lower u \<noteq> tag lower v"
  using assms unfolding unique_tags_def by blast+

lemma unique_tags_insert:
  assumes "unique_tags lower m" "\<And>a u. map_of m a = Some u \<Longrightarrow> tag lower u \<noteq> tag lower v"
  shows "unique_tags lower (AList.update (user_id v) v m)"
proof -
  have "table_ok user_id (AList.update (user_id v) v m)"
    using unique_tagsD(1) [OF assms(1)] by (intro invariant_intros) simp_all
  moreover have "tag lower x \<noteq> tag lower y"
    if "map_of (AList.update (user_id v) v m) a = Some x" "map_of (AList.update (user_id v) v m) b = Some y" "a \<noteq> b"
    for a b x y
    using that assms(2) unique_tagsD(2) [OF assms(1)] by (auto simp: hm.get_insert split: if_splits) metis
  ultimately show ?thesis unfolding unique_tags_def by blast
qed

lemma unique_tags_adjust:
  assumes "unique_tags lower m" "map_of m i = Some u" "user_id (f u) = user_id u"
    and "\<And>a v. map_of m a = Some v \<Longrightarrow> a \<noteq> i \<Longrightarrow> tag lower v \<noteq> tag lower (f u)"
  shows "unique_tags lower (hm_adjust i f m)"
proof -
  have "table_ok user_id (hm_adjust i f m)"
    using unique_tagsD(1) [OF assms(1)] assms(2,3) by (intro invariant_intros) auto
  moreover have "tag lower x \<noteq> tag lower y"
    if "map_of (hm_adjust i f m) a = Some x" "map_of (hm_adjust i f m) b = Some y" "a \<noteq> b" for a b x y
    using that assms(2,4) unique_tagsD(2) [OF assms(1)] by (auto simp: hm.get_adjust split: if_splits) metis
  ultimately show ?thesis unfolding unique_tags_def by blast
qed

section \<open>Finding a discriminator\<close>

text \<open>A random choice from a non-empty list is an element of the list.\<close>

definition chooses :: "(string list \<Rightarrow> string) \<Rightarrow> bool" where
  "chooses pick \<longleftrightarrow> (\<forall>xs. xs \<noteq> [] \<longrightarrow> pick xs \<in> set xs)"

lemma find_discriminator_result:
  assumes "find_discriminator lower pick ulid day name preferred db = (Ok d, db')"
    and "fetch_discriminators_in_use lower db name = Ok used"
    and "available = filter (\<lambda>d. d \<notin> set used) DISCRIMINATOR_SEARCH_SPACE"
  shows "d = pick available \<or> d \<in> set available" "available \<noteq> []"
proof -
  have run: "(if available = [] then (Err UsernameTaken, db) else case preferred of
       Some (wanted, target) \<Rightarrow> if wanted \<in> set available then (Ok wanted, db)
         else (case has_ratelimited day db target DiscriminatorChange 1 of
             Ok True \<Rightarrow> (Err DiscriminatorChangeRatelimited, db)
           | Ok False \<Rightarrow>
               io_bind (ratelimit_event_create ulid target DiscriminatorChange) (\<lambda>_ db. (Ok (pick available), db)) db
           | Err e \<Rightarrow> (Err e, db) | Panic \<Rightarrow> (Panic, db))
     | None \<Rightarrow> (Ok (pick available), db)) = (Ok d, db')"
    using assms unfolding find_discriminator_def by (simp only: res.case Let_def)
  then show some: "available \<noteq> []" by (rule contrapos_pn) simp
  show "d = pick available \<or> d \<in> set available"
  proof (cases preferred)
    case (Some p)
    obtain wanted target where p: "p = (wanted, target)" by fastforce
    have "(Ok d, db') = (Ok (pick available), db'') \<or> wanted \<in> set available \<and> d = wanted
        \<or> (\<exists>e. (Ok d, db') = (Err e, db'')) \<or> (Ok d, db') = (Panic, db'')" if "db'' = db'" for db''
      using run some Some p that
      by (auto simp: io_bind_def split: if_split_asm prod.split_asm res.split_asm bool.split_asm)
    then show ?thesis by auto
  qed (use run some in auto)
qed

lemma find_discriminator_free:
  assumes "find_discriminator lower pick ulid day name preferred db = (Ok d, db')" "chooses pick"
  shows "d \<in> set DISCRIMINATOR_SEARCH_SPACE" "db_users db' = db_users db"
    and "map_of (db_users db) a = Some u \<Longrightarrow> lower (user_username u) = lower name \<Longrightarrow> user_discriminator u \<noteq> d"
proof -
  let ?used = "map user_discriminator (filter (\<lambda>u. lower (user_username u) = lower name) (hm_values (db_users db)))"
  let ?available = "filter (\<lambda>d. d \<notin> set ?used) DISCRIMINATOR_SEARCH_SPACE"
  have "d = pick ?available \<or> d \<in> set ?available" and some: "?available \<noteq> []"
    using find_discriminator_result [OF assms(1) fetch_discriminators_in_use_def refl] by blast+
  then have d: "d \<in> set ?available" using assms(2) unfolding chooses_def by metis
  then show "d \<in> set DISCRIMINATOR_SEARCH_SPACE" by simp
  show "db_users db' = db_users db"
    using find_discriminator_users [of lower pick ulid day name preferred db] assms(1) by simp
  assume "map_of (db_users db) a = Some u" "lower (user_username u) = lower name"
  then have "user_discriminator u \<in> set ?used"
    by (auto simp: hm_values_def dest!: map_of_SomeD intro!: image_eqI)
  then show "user_discriminator u \<noteq> d" using d by auto
qed

section \<open>Creating users and changing names\<close>

text \<open>What the derived \<open>apply_options\<close> does with a name and a discriminator.\<close>

definition sets_names :: "optional_structs \<Rightarrow> bool" where
  "sets_names opt \<longleftrightarrow> (\<forall>p u. user_username (apply_user opt p u) = over (pu_username p) (user_username u)
     \<and> user_discriminator (apply_user opt p u) = over (pu_discriminator p) (user_discriminator u)
     \<and> (pu_id p = None \<longrightarrow> user_id (apply_user opt p u) = user_id u))"

lemma user_create_run:
  assumes "chooses pick"
  obtains "users_of (snd (user_create opt lower cure pick ulid now name account None w)) = users_of w"
    "\<not> is_ok (fst (user_create opt lower cure pick ulid now name account None w))"
  | u where "fst (user_create opt lower cure pick ulid now name account None w) = Ok u"
     "users_of (snd (user_create opt lower cure pick ulid now name account None w))
       = AList.update (user_id u) u (users_of w)"
     "map_of (users_of w) (user_id u) = None" "user_discriminator u \<in> set DISCRIMINATOR_SEARCH_SPACE"
     "\<And>a v. map_of (users_of w) a = Some v \<Longrightarrow> tag lower v \<noteq> tag lower u"
proof (cases "validate_username lower cure name")
  case (Ok n)
  obtain r db where d: "find_discriminator lower pick ulid ulid n None (w_db w) = (r, db)" by fastforce
  then have users: "db_users db = users_of w"
    using find_discriminator_users [of lower pick ulid ulid n None "w_db w"] by simp
  show ?thesis
  proof (cases r)
    case r: (Ok d')
    let ?u = "default_user\<lparr>user_id := (case account of Some i \<Rightarrow> i | None \<Rightarrow> ulid),
      user_discriminator := d', user_username := n, user_last_acknowledged_policy_change := now\<rparr>"
    have run: "user_create opt lower cure pick ulid now name account None w =
        (case insert_user ?u db of (r, db') \<Rightarrow> (case r of Ok _ \<Rightarrow> Ok ?u | Err e \<Rightarrow> Err e | Panic \<Rightarrow> Panic, w\<lparr>w_db := db'\<rparr>))"
      using d r Ok by (auto simp: user_create_def outcome_simps Let_def split: prod.split res.split)
    note free = find_discriminator_free [OF d [unfolded r] assms]
    show ?thesis
    proof (cases "map_of (users_of w) (user_id ?u)")
      case None
      then show ?thesis
        using free by (intro that(2) [of ?u]) (auto simp: run insert_user_def hm_contains_def users tag_def)
    qed (use that(1) run users in \<open>auto simp: insert_user_def hm_contains_def is_ok_iff\<close>)
  qed (use d Ok users that(1) in \<open>auto simp: user_create_def outcome_simps is_ok_iff\<close>)
qed (use that(1) in \<open>auto simp: user_create_def outcome_simps is_ok_iff\<close>)

lemma user_create_tags:
  assumes "chooses pick" "unique_tags lower (users_of w)"
  shows "unique_tags lower (users_of (snd (user_create opt lower cure pick ulid now name account None w)))"
  by (rule user_create_run [OF assms(1), of opt lower cure ulid now name account w])
     (use assms(2) unique_tags_insert [OF assms(2)] in auto)

lemma io_then_publish_user: "io_then (publish_user i e) k w = k (snd (publish_user i e w))"
  using publish_user_effect(1) [of i e w] by (cases "publish_user i e w") (simp add: io_then_def io_bind_def)

lemma user_update_users:
  "users_of (snd (user_update opt event u p [] w)) =
    (let i = user_id (apply_user opt p u) in
     if hm_contains (users_of w) i then hm_adjust i (apply_user opt p) (users_of w) else users_of w)"
  by (simp add: user_update_def update_user_def io_then_def [of "on_db _"] io_bind_def on_db_def Let_def
      io_then_publish_user publish_user_effect io_return_def)

lemma update_username_tags:
  assumes "chooses pick" "sets_names opt" "unique_tags lower (users_of w)" "map_of (users_of w) (user_id u) = Some u"
  shows "unique_tags lower (users_of (snd (update_username opt lower cure pick ulid day event u name w)))"
proof -
  have rename: "unique_tags lower (users_of (snd (user_update opt event u p [] w')))"
    if "users_of w' = users_of w" "pu_id p = None"
      "\<And>a v. map_of (users_of w) a = Some v \<Longrightarrow> a \<noteq> user_id u \<Longrightarrow> tag lower v \<noteq> tag lower (apply_user opt p u)" for p w'
    using unique_tags_adjust [OF assms(3,4), of "apply_user opt p"] that assms(2-4)
    by (auto simp: user_update_users Let_def sets_names_def)
  show ?thesis
  proof (cases "validate_username lower cure name")
    case (Ok n)
    show ?thesis
    proof (cases "lower (user_username u) = lower n")
      case True
      let ?p = "empty_partial_user\<lparr>pu_username := Some n\<rparr>"
      have "tag lower (apply_user opt ?p u) = tag lower u"
        using assms(2) True by (simp add: tag_def sets_names_def empty_partial_user_def over_def)
      then show ?thesis
        using rename [of w ?p] Ok True unique_tagsD(2) [OF assms(3)] assms(4)
        by (auto simp: update_username_def empty_partial_user_def)
    next
      case False
      obtain r db where d: "find_discriminator lower pick ulid day n (Some (user_discriminator u, user_id u)) (w_db w) = (r, db)"
        by fastforce
      then have users: "db_users db = users_of w"
        using find_discriminator_users [of lower pick ulid day n _ "w_db w"] by (metis snd_conv)
      show ?thesis
      proof (cases r)
        case r: (Ok d')
        let ?p = "empty_partial_user\<lparr>pu_discriminator := Some d', pu_username := Some n\<rparr>"
        note free = find_discriminator_free(3) [OF d [unfolded r] assms(1)]
        have "unique_tags lower (users_of (snd (user_update opt event u ?p [] (w\<lparr>w_db := db\<rparr>))))"
          by (rule rename)
             (use users free assms(2) in \<open>auto simp: tag_def sets_names_def empty_partial_user_def over_def\<close>)
        then show ?thesis using Ok False d r by (simp add: update_username_def io_bind_def on_db_def)
      qed (use Ok False d users assms(3) in \<open>simp_all add: update_username_def io_bind_def on_db_def\<close>)
    qed
  qed (use assms(3) in \<open>simp_all add: update_username_def io_fail_def io_panic_def\<close>)
qed

text \<open>Worlds reached by creating users and by stored users changing their name, with one lower-casing
  function throughout.\<close>

inductive reachable_names :: "(string \<Rightarrow> string) \<Rightarrow> optional_structs \<Rightarrow> world \<Rightarrow> bool" for lower opt where
  start: "db_users (w_db w) = [] \<Longrightarrow> reachable_names lower opt w"
| created: "reachable_names lower opt w \<Longrightarrow> chooses pick \<Longrightarrow>
     reachable_names lower opt (snd (user_create opt lower cure pick ulid now name account None w))"
| renamed: "reachable_names lower opt w \<Longrightarrow> chooses pick \<Longrightarrow> fetch_user (w_db w) i = Ok u \<Longrightarrow>
     reachable_names lower opt (snd (update_username opt lower cure pick ulid day event u name w))"

text \<open>C23: a user name with its discriminator identifies a user. In every world reached by creating users
  and by changing names, two stored users never have the same discriminator and the same name up to
  case, given that the random choice picks one of the free discriminators.\<close>

theorem tags_identify_users:
  assumes "reachable_names lower opt w" "sets_names opt"
    and "fetch_user (w_db w) a = Ok u" "fetch_user (w_db w) b = Ok v" "a \<noteq> b"
  shows "tag lower u \<noteq> tag lower v"
proof -
  have "unique_tags lower (users_of w)"
    using assms(1)
  proof (induction rule: reachable_names.induct)
    case (created w pick cure ulid now name account)
    show ?case by (rule user_create_tags [OF created.hyps(2) created.IH])
  next
    case (renamed w pick i u cure ulid day event name)
    have "map_of (users_of w) (user_id u) = Some u"
      using unique_tagsD(1) [OF renamed.IH] renamed.hyps(3) by (auto simp: fetch_user_def table_ok_def)
    then show ?case by (rule update_username_tags [OF renamed.hyps(2) assms(2) renamed.IH])
  qed (simp add: unique_tags_def table_ok_Nil)
  then show ?thesis using assms(3-5) by (auto simp: unique_tags_def fetch_user_def)
qed

theorem tags_identify_users_witness:
  "\<exists>u v. fetch_user (w_db example_world) ''A'' = Ok u \<and> fetch_user (w_db example_world) ''B'' = Ok v
     \<and> user_discriminator u = user_discriminator v \<and> tag (\<lambda>s. s) u \<noteq> tag (\<lambda>s. s) v"
proof -
  have "chooses hd" by (simp add: chooses_def)
  then have "reachable_names (\<lambda>s. s) naming_structs example_world"
    unfolding example_world_def create_plain_def
    by (intro reachable_names.intros) (simp_all add: empty_world_def empty_db_def)
  moreover have "sets_names naming_structs" by (simp add: sets_names_def naming_structs_def)
  moreover have "fetch_user (w_db example_world) ''A'' = Ok (plain_user ''A'')"
    "fetch_user (w_db example_world) ''B'' = Ok (plain_user ''B'')"
    by (simp_all add: fetch_user_def example_world_users ok_or_def)
  ultimately have "tag (\<lambda>s. s) (plain_user ''A'') \<noteq> tag (\<lambda>s. s) (plain_user ''B'')"
    by (rule tags_identify_users) simp
  then show ?thesis
    by (simp add: fetch_user_def example_world_users ok_or_def) (simp add: plain_user_def)
qed

end
