(* ===== verification/Beacon_Signal.thy ===== *)
theory Beacon_Signal
  imports Prelude Complex_Main
begin

text \<open>
  The beacon signalling server (\<open>company-beacon-signal/src\<close>): the registry of peers and the file
  hashes they host (\<open>state.rs\<close>), the store of session tokens (\<open>state.rs\<close>), the rate limiter,
  token validation and the handling of a connection (\<open>handlers.rs\<close>), and the upgrade and
  authentication endpoints (\<open>main.rs\<close>, \<open>handlers.rs\<close>).

  An \<open>Instant\<close> is a number of nanoseconds. The sending half of a connection's channel is the number
  of the connection; what is sent is appended to a log of pairs of a connection and a message. Base64,
  HMAC, Ed25519, the JSON decoders and UUIDs are libraries: they are fields of \<open>beacon_libs\<close> or
  arguments. The two floats of the rate limiter are exact rationals; rounding is not modelled.
\<close>

section \<open>Peers and hashes\<close>

definition MAX_PEERS :: usize where "MAX_PEERS = 10000"

definition MAX_SESSIONS :: usize where "MAX_SESSIONS = 1000"

definition SESSION_TTL_SECS :: nat where "SESSION_TTL_SECS = 60"

type_synonym instant = nat
type_synonym connection_id = nat

record peer_entry =
  peer_id :: string
  peer_file_hashes :: "string list"
  peer_multiaddr :: "string option"
  peer_tx :: connection_id
  peer_connected_at :: instant

record signaling_state =
  sig_peers :: "(string, peer_entry) hash_map"
  sig_hash_index :: "(string, string) hash_map"

definition new_signaling :: signaling_state where
  "new_signaling = \<lparr>sig_peers = [], sig_hash_index = []\<rparr>"

definition remove_hashes :: "string \<Rightarrow> signaling_state \<Rightarrow> string list \<times> signaling_state" where
  "remove_hashes p s =
     (map fst (filter (\<lambda>(hash, owner). owner = p) (sig_hash_index s)),
      s\<lparr>sig_hash_index := hm_retain (\<lambda>hash owner. owner \<noteq> p) (sig_hash_index s)\<rparr>)"

definition index_hash :: "string \<Rightarrow> string \<Rightarrow> (string, string) hash_map \<Rightarrow> (string, string) hash_map" where
  "index_hash p hash index = (if hm_contains index hash then index else AList.update hash p index)"

text \<open>The result is None where the code returns an error; the state is then unchanged.\<close>

definition register :: "peer_entry \<Rightarrow> signaling_state \<Rightarrow> signaling_state option" where
  "register e s =
     (let is_existing = hm_contains (sig_peers s) (peer_id e) in
      if \<not> is_existing \<and> length (sig_peers s) \<ge> MAX_PEERS then None
      else let s = (if is_existing then snd (remove_hashes (peer_id e) s) else s);
               s = s\<lparr>sig_hash_index := fold (index_hash (peer_id e)) (peer_file_hashes e) (sig_hash_index s)\<rparr>
      in Some (s\<lparr>sig_peers := AList.update (peer_id e) e (sig_peers s)\<rparr>))"

definition remove_peer :: "string \<Rightarrow> signaling_state \<Rightarrow> string list \<times> signaling_state" where
  "remove_peer p s =
     (let (removed, s) = remove_hashes p s in (removed, s\<lparr>sig_peers := AList.delete p (sig_peers s)\<rparr>))"

definition get_peer :: "signaling_state \<Rightarrow> string \<Rightarrow> peer_entry option" where
  "get_peer s p = map_of (sig_peers s) p"

definition resolve :: "signaling_state \<Rightarrow> string \<Rightarrow> peer_entry option" where
  "resolve s hash = (case map_of (sig_hash_index s) hash of
     Some p \<Rightarrow> map_of (sig_peers s) p | None \<Rightarrow> None)"

section \<open>Session tokens\<close>

record session_entry =
  session_peer_id :: string
  session_created_at :: instant
  session_used :: bool

type_synonym session_store = "(string, session_entry) hash_map"

text \<open>\<open>created_at.elapsed().as_secs()\<close>, zero for an instant in the future.\<close>

definition elapsed_secs :: "instant \<Rightarrow> instant \<Rightarrow> nat" where
  "elapsed_secs now created = (now - created) div 1000000000"

definition evict_expired :: "instant \<Rightarrow> session_store \<Rightarrow> session_store" where
  "evict_expired now tokens = hm_retain (\<lambda>_ e. elapsed_secs now (session_created_at e) < SESSION_TTL_SECS) tokens"

definition session_insert :: "instant \<Rightarrow> string \<Rightarrow> string \<Rightarrow> session_store \<Rightarrow> bool \<times> session_store" where
  "session_insert now token p tokens =
     (let tokens = evict_expired now tokens in
      if length tokens \<ge> MAX_SESSIONS then (False, tokens)
      else (True, AList.update token \<lparr>session_peer_id = p, session_created_at = now, session_used = False\<rparr> tokens))"

definition session_consume :: "instant \<Rightarrow> string \<Rightarrow> session_store \<Rightarrow> string option \<times> session_store" where
  "session_consume now token tokens = (case map_of tokens token of
     None \<Rightarrow> (None, tokens)
   | Some e \<Rightarrow>
       if session_used e then (None, tokens)
       else if elapsed_secs now (session_created_at e) \<ge> SESSION_TTL_SECS then (None, tokens)
       else (Some (session_peer_id e), hm_adjust token (\<lambda>e. e\<lparr>session_used := True\<rparr>) tokens))"

section \<open>The rate limiter\<close>

record rate_limiter =
  rl_tokens :: rat
  rl_max_tokens :: rat
  rl_refill_rate :: rat
  rl_last_refill :: instant

definition new_limiter :: "instant \<Rightarrow> rate_limiter" where
  "new_limiter now = \<lparr>rl_tokens = 10, rl_max_tokens = 10, rl_refill_rate = 10, rl_last_refill = now\<rparr>"

definition elapsed_f64 :: "instant \<Rightarrow> instant \<Rightarrow> rat" where
  "elapsed_f64 now earlier = of_nat (now - earlier) / 1000000000"

definition limiter_allow :: "instant \<Rightarrow> rate_limiter \<Rightarrow> bool \<times> rate_limiter" where
  "limiter_allow now l =
     (let elapsed = elapsed_f64 now (rl_last_refill l);
          tokens = min (rl_tokens l + elapsed * rl_refill_rate l) (rl_max_tokens l);
          l = l\<lparr>rl_tokens := tokens, rl_last_refill := now\<rparr>
      in if tokens \<ge> 1 then (True, l\<lparr>rl_tokens := tokens - 1\<rparr>) else (False, l))"

section \<open>Messages\<close>

type_synonym json = string

datatype inbound_message =
    Register string "string list" "string option" string
  | Resolve string string
  | Signal string json string
  | Leave

datatype outbound_message =
    Registered string
  | Resolved string string "string option"
  | OutNotFound string
  | OutSignal string json
  | OutError string
  | PeerLeft string

record auth_request =
  auth_peer_id :: string
  auth_timestamp :: string
  auth_hmac :: string

datatype auth_response = AuthOk string | AuthUnauthorized string | AuthUnavailable string

section \<open>Authentication\<close>

record jwt_header =
  jwt_alg :: string
  jwt_pubkey :: string

record jwt_claims =
  jwt_sub :: "string option"
  jwt_exp :: "nat option"

record beacon_libs =
  lib_hmac_b64 :: "string \<Rightarrow> string \<Rightarrow> string"
  lib_constant_time_eq :: "string \<Rightarrow> string \<Rightarrow> bool"
  lib_b64_decode :: "string \<Rightarrow> string option"
  lib_jwt_header :: "string \<Rightarrow> jwt_header option"
  lib_jwt_claims :: "string \<Rightarrow> jwt_claims option"
  lib_is_verifying_key :: "string \<Rightarrow> bool"
  lib_verify :: "string \<Rightarrow> string \<Rightarrow> string \<Rightarrow> bool"
  lib_inbound :: "string \<Rightarrow> inbound_message option"

text \<open>\<open>str::parse::<u64>\<close>: an optional plus sign and at least one digit, without overflow.\<close>

definition is_digit :: "char \<Rightarrow> bool" where
  "is_digit c \<longleftrightarrow> (48::nat) \<le> of_char c \<and> of_char c \<le> (57::nat)"

definition digits_value :: "string \<Rightarrow> nat" where
  "digits_value s = fold (\<lambda>c n. 10 * n + (of_char c - 48)) s 0"

definition parse_u64 :: "string \<Rightarrow> nat option" where
  "parse_u64 s =
     (let ds = (case s of c # r \<Rightarrow> if c = CHR ''+'' then r else s | [] \<Rightarrow> s) in
      if ds \<noteq> [] \<and> list_all is_digit ds \<and> digits_value ds < 2 ^ 64 then Some (digits_value ds) else None)"

text \<open>\<open>now\<close> is the system clock in seconds.\<close>

definition verify_client_hmac :: "beacon_libs \<Rightarrow> nat \<Rightarrow> string \<Rightarrow> string \<Rightarrow> string \<Rightarrow> string \<Rightarrow> bool" where
  "verify_client_hmac L now p timestamp_str hmac_header secret = (case parse_u64 timestamp_str of
     None \<Rightarrow> False
   | Some timestamp \<Rightarrow>
       if max now timestamp - min now timestamp > 30 then False
       else lib_constant_time_eq L hmac_header (lib_hmac_b64 L secret (p @ '':'' @ timestamp_str)))"

text \<open>\<open>str::split\<close> with a character.\<close>

fun split_char :: "char \<Rightarrow> string \<Rightarrow> string list" where
  "split_char c [] = [[]]"
| "split_char c (x # s) = (if x = c then [] # split_char c s
     else case split_char c s of w # ws \<Rightarrow> (x # w) # ws | [] \<Rightarrow> [[x]])"

abbreviation (input) AUTH_FAILED :: "(string, 'a) res" where
  "AUTH_FAILED \<equiv> Err ''AUTH_FAILED''"

definition auth_opt :: "'a option \<Rightarrow> ('a \<Rightarrow> (string, 'b) res) \<Rightarrow> (string, 'b) res" where
  "auth_opt x k = (case x of Some v \<Rightarrow> k v | None \<Rightarrow> AUTH_FAILED)"

definition validate_token :: "beacon_libs \<Rightarrow> nat \<Rightarrow> string \<Rightarrow> (string, string) res" where
  "validate_token L now token = (case split_char (CHR ''.'') token of
     [h, p, sg] \<Rightarrow>
       auth_opt (lib_b64_decode L h) (\<lambda>header_bytes.
       auth_opt (lib_jwt_header L header_bytes) (\<lambda>header.
       if jwt_alg header \<noteq> ''EdDSA'' then AUTH_FAILED else
       auth_opt (lib_b64_decode L (jwt_pubkey header)) (\<lambda>pubkey.
       if length pubkey \<noteq> 32 then AUTH_FAILED else
       if \<not> lib_is_verifying_key L pubkey then AUTH_FAILED else
       auth_opt (lib_b64_decode L sg) (\<lambda>signature.
       if length signature \<noteq> 64 then AUTH_FAILED else
       if \<not> lib_verify L pubkey (h @ ''.'' @ p) signature then AUTH_FAILED else
       auth_opt (lib_b64_decode L p) (\<lambda>claims_bytes.
       auth_opt (lib_jwt_claims L claims_bytes) (\<lambda>claims.
       if (case jwt_exp claims of Some expiry \<Rightarrow> now > expiry | None \<Rightarrow> False) then AUTH_FAILED
       else auth_opt (jwt_sub claims) Ok))))))
   | _ \<Rightarrow> AUTH_FAILED)"

section \<open>The server\<close>

record connection =
  conn_peer_id :: "string option"
  conn_limiter :: rate_limiter

record beacon_server =
  bs_signaling :: signaling_state
  bs_sessions :: session_store
  bs_secret :: "string option"
  bs_connections :: "(connection_id, connection) hash_map"
  bs_sent :: "(connection_id \<times> outbound_message) list"

definition new_server :: "string option \<Rightarrow> beacon_server" where
  "new_server secret = \<lparr>bs_signaling = new_signaling, bs_sessions = [], bs_secret = secret,
     bs_connections = [], bs_sent = []\<rparr>"

definition send_to :: "connection_id \<Rightarrow> outbound_message \<Rightarrow> beacon_server \<Rightarrow> beacon_server" where
  "send_to c m sv = sv\<lparr>bs_sent := bs_sent sv @ [(c, m)]\<rparr>"

text \<open>\<open>clock\<close> is the system time in seconds, \<open>now\<close> the monotonic clock in nanoseconds, \<open>uuid\<close> the fresh
  token the code draws.\<close>

definition auth_handler ::
  "beacon_libs \<Rightarrow> nat \<Rightarrow> instant \<Rightarrow> string \<Rightarrow> auth_request \<Rightarrow> beacon_server \<Rightarrow> auth_response \<times> beacon_server" where
  "auth_handler L clock now uuid body sv =
     (if (case bs_secret sv of
            Some secret \<Rightarrow> \<not> verify_client_hmac L clock (auth_peer_id body) (auth_timestamp body) (auth_hmac body) secret
          | None \<Rightarrow> False)
      then (AuthUnauthorized ''AUTH_FAILED'', sv)
      else let (ok, sessions) = session_insert now uuid (auth_peer_id body) (bs_sessions sv);
               sv = sv\<lparr>bs_sessions := sessions\<rparr>
      in if \<not> ok then (AuthUnavailable ''CAPACITY'', sv) else (AuthOk uuid, sv))"

record upgrade_headers =
  hdr_hmac :: "string option"
  hdr_timestamp :: "string option"
  hdr_peer_id :: "string option"
  hdr_session :: "string option"

definition ws_handler ::
  "beacon_libs \<Rightarrow> nat \<Rightarrow> instant \<Rightarrow> connection_id \<Rightarrow> upgrade_headers \<Rightarrow> beacon_server
    \<Rightarrow> (string, unit) res \<times> beacon_server" where
  "ws_handler L clock now c hs sv =
     (let upgrade = (\<lambda>sv. (Ok (), sv\<lparr>bs_connections :=
            AList.update c \<lparr>conn_peer_id = None, conn_limiter = new_limiter now\<rparr> (bs_connections sv)\<rparr>))
      in case bs_secret sv of
        None \<Rightarrow> upgrade sv
      | Some secret \<Rightarrow> (case (hdr_hmac hs, hdr_timestamp hs, hdr_peer_id hs) of
            (Some h, Some ts, Some p) \<Rightarrow>
              if \<not> verify_client_hmac L clock p ts h secret then (Err ''invalid hmac'', sv) else upgrade sv
          | _ \<Rightarrow> (case hdr_session hs of
                None \<Rightarrow> (Err ''missing auth'', sv)
              | Some token \<Rightarrow> (case session_consume now token (bs_sessions sv) of
                  (None, sessions) \<Rightarrow> (Err ''invalid session'', sv\<lparr>bs_sessions := sessions\<rparr>)
                | (Some _, sessions) \<Rightarrow> upgrade (sv\<lparr>bs_sessions := sessions\<rparr>)))))"

text \<open>One message of a connection. \<open>Leave\<close> ends the loop; so do a close frame and the end of the stream.\<close>

definition handle_message ::
  "beacon_libs \<Rightarrow> nat \<Rightarrow> instant \<Rightarrow> connection_id \<Rightarrow> inbound_message \<Rightarrow> beacon_server \<Rightarrow> beacon_server" where
  "handle_message L clock now c m sv = (case m of
     Register _ hashes multiaddr token \<Rightarrow> (case validate_token L clock token of
         Ok sub \<Rightarrow>
           (case register \<lparr>peer_id = sub, peer_file_hashes = hashes, peer_multiaddr = multiaddr, peer_tx = c,
                peer_connected_at = now\<rparr> (bs_signaling sv) of
              None \<Rightarrow> send_to c (OutError ''CAPACITY_EXCEEDED'') sv
            | Some s \<Rightarrow> send_to c (Registered sub) (sv\<lparr>bs_signaling := s,
                bs_connections := hm_adjust c (\<lambda>k. k\<lparr>conn_peer_id := Some sub\<rparr>) (bs_connections sv)\<rparr>))
       | Err code \<Rightarrow> send_to c (OutError code) sv
       | Panic \<Rightarrow> sv)
   | Resolve hash token \<Rightarrow> (case validate_token L clock token of
         Ok _ \<Rightarrow> (case resolve (bs_signaling sv) hash of
             Some e \<Rightarrow> send_to c (Resolved hash (peer_id e) (peer_multiaddr e)) sv
           | None \<Rightarrow> send_to c (OutNotFound hash) sv)
       | Err code \<Rightarrow> send_to c (OutError code) sv
       | Panic \<Rightarrow> sv)
   | Signal to_peer payload token \<Rightarrow> (case validate_token L clock token of
         Ok from_peer \<Rightarrow> (case get_peer (bs_signaling sv) to_peer of
             Some target \<Rightarrow> send_to (peer_tx target) (OutSignal from_peer payload) sv
           | None \<Rightarrow> send_to c (OutError ''PEER_NOT_FOUND'') sv)
       | Err code \<Rightarrow> send_to c (OutError code) sv
       | Panic \<Rightarrow> sv)
   | Leave \<Rightarrow> sv)"

text \<open>The clean-up at the end of \<open>handle_socket\<close>.\<close>

definition disconnect :: "connection_id \<Rightarrow> beacon_server \<Rightarrow> beacon_server" where
  "disconnect c sv = (case map_of (bs_connections sv) c of
     None \<Rightarrow> sv
   | Some k \<Rightarrow>
      (let sv = (case conn_peer_id k of
          None \<Rightarrow> sv
        | Some p \<Rightarrow> (let s = snd (remove_peer p (bs_signaling sv)) in
            fold (\<lambda>e. send_to (peer_tx e) (PeerLeft p)) (hm_values (sig_peers s)) (sv\<lparr>bs_signaling := s\<rparr>)))
       in sv\<lparr>bs_connections := AList.delete c (bs_connections sv)\<rparr>))"

datatype frame = TextFrame string | CloseFrame | OtherFrame | EndOfStream

definition handle_frame ::
  "beacon_libs \<Rightarrow> nat \<Rightarrow> instant \<Rightarrow> connection_id \<Rightarrow> frame \<Rightarrow> beacon_server \<Rightarrow> beacon_server" where
  "handle_frame L clock now c f sv = (case map_of (bs_connections sv) c of
     None \<Rightarrow> sv
   | Some k \<Rightarrow> (case f of
       CloseFrame \<Rightarrow> disconnect c sv
     | EndOfStream \<Rightarrow> disconnect c sv
     | OtherFrame \<Rightarrow> sv
     | TextFrame text \<Rightarrow>
         (let (ok, l) = limiter_allow now (conn_limiter k);
              sv = sv\<lparr>bs_connections := hm_adjust c (\<lambda>k. k\<lparr>conn_limiter := l\<rparr>) (bs_connections sv)\<rparr>
          in if \<not> ok then send_to c (OutError ''RATE_LIMITED'') sv
          else case lib_inbound L text of
            None \<Rightarrow> send_to c (OutError ''MALFORMED'') sv
          | Some Leave \<Rightarrow> disconnect c sv
          | Some m \<Rightarrow> handle_message L clock now c m sv)))"

end
