(* ===== verification/Beacon_Properties.thy ===== *)
theory Beacon_Properties
  imports Beacon_Signal
begin

text \<open>
  What the beacon signalling server guarantees: a consistent and bounded registry in every reachable
  state, the ownership of hashes, session tokens that work once, the rate limit, and where the handling
  of identities and disconnects falls short.
\<close>

section \<open>The registry\<close>

definition signaling_ok :: "signaling_state \<Rightarrow> bool" where
  "signaling_ok s \<longleftrightarrow> hm_wf (sig_peers s) \<and> hm_wf (sig_hash_index s) \<and> length (sig_peers s) \<le> MAX_PEERS
     \<and> (\<forall>p e. map_of (sig_peers s) p = Some e \<longrightarrow> peer_id e = p)
     \<and> (\<forall>h p. map_of (sig_hash_index s) h = Some p \<longrightarrow>
          (\<exists>e. map_of (sig_peers s) p = Some e \<and> h \<in> set (peer_file_hashes e)))"

lemma signaling_okD:
  assumes "signaling_ok s"
  shows "hm_wf (sig_peers s)" "hm_wf (sig_hash_index s)" "length (sig_peers s) \<le> MAX_PEERS"
    and "map_of (sig_peers s) p = Some e \<Longrightarrow> peer_id e = p"
    and "map_of (sig_hash_index s) h = Some p \<Longrightarrow>
      \<exists>e. map_of (sig_peers s) p = Some e \<and> peer_id e = p \<and> h \<in> set (peer_file_hashes e)"
  using assms unfolding signaling_ok_def by blast+

lemma index_fold:
  "map_of (fold (index_hash p) hs m) h = (case map_of m h of Some q \<Rightarrow> Some q | None \<Rightarrow> if h \<in> set hs then Some p else None)"
  by (induction hs arbitrary: m) (auto simp: index_hash_def hm_contains_def hm.get_insert split: option.splits)

lemma index_fold_wf: "hm_wf m \<Longrightarrow> hm_wf (fold (index_hash p) hs m)"
  by (induction hs arbitrary: m) (auto simp: index_hash_def intro: invariant_intros)

lemma remove_hashes_get:
  assumes "hm_wf (sig_hash_index s)"
  shows "map_of (sig_hash_index (snd (remove_hashes p s))) h =
    (case map_of (sig_hash_index s) h of Some q \<Rightarrow> if q = p then None else Some q | None \<Rightarrow> None)"
  using assms by (simp add: remove_hashes_def map_of_hm_retain split: option.split)

lemma remove_hashes_simps [simp]:
  "sig_peers (snd (remove_hashes p s)) = sig_peers s"
  "hm_wf (sig_hash_index s) \<Longrightarrow> hm_wf (sig_hash_index (snd (remove_hashes p s)))"
  by (simp_all add: remove_hashes_def hm.wf_retain)

lemma register_index:
  assumes "register e s = Some s'" "signaling_ok s"
  shows "map_of (sig_hash_index s') h =
    (case map_of (sig_hash_index s) h of
       Some q \<Rightarrow> if q = peer_id e then (if h \<in> set (peer_file_hashes e) then Some q else None) else Some q
     | None \<Rightarrow> if h \<in> set (peer_file_hashes e) then Some (peer_id e) else None)"
proof -
  have "map_of (sig_hash_index s) h \<noteq> Some (peer_id e)" if "\<not> hm_contains (sig_peers s) (peer_id e)"
    using that signaling_okD(5) [OF assms(2), of h "peer_id e"] by (auto simp: hm_contains_def)
  then show ?thesis
    using assms signaling_okD(2) [OF assms(2)]
    by (auto simp: register_def Let_def index_fold remove_hashes_get split: option.splits if_splits)
qed

lemma register_peers:
  assumes "register e s = Some s'"
  shows "sig_peers s' = AList.update (peer_id e) e (sig_peers s)"
  using assms by (auto simp: register_def Let_def split: if_splits)

lemma length_update: "length (AList.update k v m) = (if hm_contains m k then length m else Suc (length m))"
  by (induction m) (auto simp: hm_contains_def)

lemma register_ok:
  assumes "register e s = Some s'" "signaling_ok s"
  shows "signaling_ok s'"
  unfolding signaling_ok_def
proof (intro conjI allI impI)
  note ok = signaling_okD [OF assms(2)]
  show "hm_wf (sig_peers s')" using ok(1) by (simp add: register_peers [OF assms(1)] hm.wf_insert)
  show "hm_wf (sig_hash_index s')"
    using assms(1) ok(2) by (auto simp: register_def Let_def index_fold_wf split: if_splits)
  show "length (sig_peers s') \<le> MAX_PEERS"
    using assms(1) ok(3) by (auto simp: register_peers [OF assms(1)] length_update register_def Let_def split: if_splits)
  show "peer_id x = p" if "map_of (sig_peers s') p = Some x" for p x
    using that ok(4) by (auto simp: register_peers [OF assms(1)] hm.get_insert split: if_splits)
  show "\<exists>x. map_of (sig_peers s') p = Some x \<and> h \<in> set (peer_file_hashes x)"
    if "map_of (sig_hash_index s') h = Some p" for h p
    using that ok(5) [of h]
    by (auto simp: register_peers [OF assms(1)] register_index [OF assms] hm.get_insert split: option.splits if_splits)
qed

lemma remove_peer_get:
  assumes "hm_wf (sig_hash_index s)"
  shows "map_of (sig_peers (snd (remove_peer p s))) q = (if q = p then None else map_of (sig_peers s) q)"
    "map_of (sig_hash_index (snd (remove_peer p s))) h =
      (case map_of (sig_hash_index s) h of Some q \<Rightarrow> if q = p then None else Some q | None \<Rightarrow> None)"
  using remove_hashes_get [OF assms, of p h]
  by (simp_all add: remove_peer_def hm.get_remove split: prod.splits) (metis remove_hashes_simps(1) snd_conv)+

lemma remove_peer_ok:
  assumes "signaling_ok s"
  shows "signaling_ok (snd (remove_peer p s))"
proof -
  note ok = signaling_okD [OF assms]
  have peers: "sig_peers (snd (remove_peer p s)) = AList.delete p (sig_peers s)"
    by (simp add: remove_peer_def remove_hashes_def)
  have "hm_wf (sig_hash_index (snd (remove_peer p s)))"
    using ok(2) by (simp add: remove_peer_def remove_hashes_def hm.wf_retain)
  moreover have "length (AList.delete p (sig_peers s)) \<le> MAX_PEERS"
    using ok(3) unfolding AList.delete_eq by (rule le_trans [OF length_filter_le])
  ultimately show ?thesis
    using ok(1) ok(4) remove_peer_get(2) [OF ok(2), of p]
    unfolding signaling_ok_def peers
    by (auto simp: hm.wf_remove hm.get_remove split: option.splits if_splits dest!: ok(5))
qed

section \<open>Reachable servers\<close>

text \<open>A step of the server: a request for a session token, an upgrade under a fresh connection number, or
  a frame of a connection. The libraries are fixed; the clocks are arbitrary at each step.\<close>

inductive beacon_step :: "beacon_libs \<Rightarrow> beacon_server \<Rightarrow> beacon_server \<Rightarrow> bool" for L where
  authenticate: "beacon_step L sv (snd (auth_handler L clock now uuid body sv))"
| upgrade: "map_of (bs_connections sv) c = None \<Longrightarrow> beacon_step L sv (snd (ws_handler L clock now c hs sv))"
| frame: "beacon_step L sv (handle_frame L clock now c f sv)"

inductive reachable_beacon :: "beacon_libs \<Rightarrow> beacon_server \<Rightarrow> bool" for L where
  start: "reachable_beacon L (new_server secret)"
| step: "reachable_beacon L sv \<Longrightarrow> beacon_step L sv sv' \<Longrightarrow> reachable_beacon L sv'"

text \<open>Sending does not change the server's own state.\<close>

lemma send_to_simps [simp]:
  "bs_signaling (send_to c m sv) = bs_signaling sv" "bs_sessions (send_to c m sv) = bs_sessions sv"
  "bs_connections (send_to c m sv) = bs_connections sv" "bs_secret (send_to c m sv) = bs_secret sv"
  by (simp_all add: send_to_def)

lemma fold_send_to [simp]:
  "bs_signaling (fold (\<lambda>e. send_to (f e) m) es sv) = bs_signaling sv"
  "bs_sessions (fold (\<lambda>e. send_to (f e) m) es sv) = bs_sessions sv"
  "bs_connections (fold (\<lambda>e. send_to (f e) m) es sv) = bs_connections sv"
  by (induction es arbitrary: sv) simp_all

lemma disconnect_effect:
  assumes "map_of (bs_connections sv) c = Some k"
  shows "bs_signaling (disconnect c sv) = (case conn_peer_id k of
      None \<Rightarrow> bs_signaling sv | Some p \<Rightarrow> snd (remove_peer p (bs_signaling sv)))"
    "bs_connections (disconnect c sv) = AList.delete c (bs_connections sv)"
    "bs_sessions (disconnect c sv) = bs_sessions sv"
  using assms by (simp_all add: disconnect_def Let_def split: option.split)

lemma disconnect_sessions [simp]: "bs_sessions (disconnect c sv) = bs_sessions sv"
  by (cases "map_of (bs_connections sv) c") (simp_all add: disconnect_effect, simp add: disconnect_def)

lemma disconnect_ok: "signaling_ok (bs_signaling sv) \<Longrightarrow> signaling_ok (bs_signaling (disconnect c sv))"
  by (cases "map_of (bs_connections sv) c")
     (auto simp: disconnect_effect remove_peer_ok split: option.split, simp add: disconnect_def)

lemma handle_message_effect:
  "bs_sessions (handle_message L clock now c m sv) = bs_sessions sv"
  "signaling_ok (bs_signaling sv) \<Longrightarrow> signaling_ok (bs_signaling (handle_message L clock now c m sv))"
  by (auto simp: handle_message_def register_ok split: inbound_message.split res.split option.split)

lemma handle_frame_effect:
  "bs_sessions (handle_frame L clock now c f sv) = bs_sessions sv"
  "signaling_ok (bs_signaling sv) \<Longrightarrow> signaling_ok (bs_signaling (handle_frame L clock now c f sv))"
  by (auto simp: handle_frame_def Let_def handle_message_effect disconnect_ok
      split: option.split frame.split prod.split inbound_message.split)

lemma session_store_bounded:
  "length tokens \<le> MAX_SESSIONS \<Longrightarrow> length (snd (session_insert now t p tokens)) \<le> MAX_SESSIONS"
  "length (snd (session_consume now t tokens)) = length tokens"
proof -
  have "length (evict_expired now tokens) \<le> length tokens"
    by (simp add: evict_expired_def hm_retain_def)
  then show "length tokens \<le> MAX_SESSIONS \<Longrightarrow> length (snd (session_insert now t p tokens)) \<le> MAX_SESSIONS"
    by (auto simp: session_insert_def Let_def length_update)
  show "length (snd (session_consume now t tokens)) = length tokens"
    by (auto simp: session_consume_def split: option.split)
qed

lemma new_signaling_ok: "signaling_ok new_signaling"
  by (simp add: signaling_ok_def new_signaling_def hm_wf_def)

lemma beacon_step_ok:
  assumes "beacon_step L sv sv'" "signaling_ok (bs_signaling sv)" "length (bs_sessions sv) \<le> MAX_SESSIONS"
  shows "signaling_ok (bs_signaling sv')" "length (bs_sessions sv') \<le> MAX_SESSIONS"
  using assms
proof (induction rule: beacon_step.induct)
  case (authenticate sv clock now uuid body)
  case 1
  then show ?case by (auto simp: auth_handler_def Let_def split: prod.split)
  case 2
  then show ?case
    using session_store_bounded(1) [of "bs_sessions sv" now uuid "auth_peer_id body"]
    by (auto simp: auth_handler_def Let_def split: prod.split)
next
  case (upgrade sv c clock now hs)
  case 1
  then show ?case by (auto simp: ws_handler_def Let_def split: prod.split option.split)
  case 2
  then show ?case
    using session_store_bounded(2) [of now "the (hdr_session hs)" "bs_sessions sv"]
    by (auto simp: ws_handler_def Let_def split: prod.split option.split)
qed (auto simp: handle_frame_effect)

lemma reachable_beacon_ok:
  assumes "reachable_beacon L sv"
  shows "signaling_ok (bs_signaling sv)" "length (bs_sessions sv) \<le> MAX_SESSIONS"
  using assms
  by (induction rule: reachable_beacon.induct) (auto simp: new_server_def new_signaling_ok intro: beacon_step_ok)

text \<open>Libraries for the witnesses: nothing is encoded, every key signs with its first byte, and a text
  other than \<open>leave\<close> registers the peer of that name with one hash.\<close>

definition toy_libs :: beacon_libs where
  "toy_libs = \<lparr>lib_hmac_b64 = (\<lambda>secret m. secret @ m), lib_constant_time_eq = (=), lib_b64_decode = Some,
     lib_jwt_header = (\<lambda>_. Some \<lparr>jwt_alg = ''EdDSA'', jwt_pubkey = replicate 32 (CHR ''k'')\<rparr>),
     lib_jwt_claims = (\<lambda>s. Some \<lparr>jwt_sub = Some s, jwt_exp = None\<rparr>), lib_is_verifying_key = (\<lambda>_. True),
     lib_verify = (\<lambda>key m sg. sg = replicate 64 (hd key)),
     lib_inbound = (\<lambda>text. if text = ''leave'' then Some Leave
       else Some (Register '''' [''h''] None (''e.'' @ text @ ''.'' @ replicate 64 (CHR ''k''))))\<rparr>"

definition no_headers :: upgrade_headers where
  "no_headers = \<lparr>hdr_hmac = None, hdr_timestamp = None, hdr_peer_id = None, hdr_session = None\<rparr>"

definition toy_step :: "connection_id \<Rightarrow> string \<Rightarrow> beacon_server \<Rightarrow> beacon_server" where
  "toy_step c text sv = handle_frame toy_libs 0 0 c (TextFrame text) (snd (ws_handler toy_libs 0 0 c no_headers sv))"

definition toy_entry :: "connection_id \<Rightarrow> string \<Rightarrow> peer_entry" where
  "toy_entry c p = \<lparr>peer_id = p, peer_file_hashes = [''h''], peer_multiaddr = None, peer_tx = c, peer_connected_at = 0\<rparr>"

definition toy_server :: beacon_server where
  "toy_server = toy_step 2 ''a'' (toy_step 1 ''a'' (new_server None))"

lemma toy_server_state:
  "bs_signaling toy_server = \<lparr>sig_peers = [(''a'', toy_entry 2 ''a'')], sig_hash_index = [(''h'', ''a'')]\<rparr>"
  "map fst (bs_connections toy_server) = [1, 2]"
  "map (conn_peer_id \<circ> snd) (bs_connections toy_server) = [Some ''a'', Some ''a'']"
  unfolding toy_server_def toy_step_def by code_simp+

lemma toy_peer:
  "get_peer (bs_signaling toy_server) ''a'' = Some (toy_entry 2 ''a'')" "peer_tx (toy_entry c p) = c"
  "length (sig_peers (bs_signaling toy_server)) < MAX_PEERS"
  by (simp_all add: get_peer_def toy_server_state toy_entry_def MAX_PEERS_def)

lemma toy_reachable: "reachable_beacon toy_libs toy_server"
  unfolding toy_server_def toy_step_def
  by (intro reachable_beacon.step [OF _ beacon_step.frame] reachable_beacon.step [OF _ beacon_step.upgrade] reachable_beacon.start)
     (code_simp+)

section \<open>Properties\<close>

text \<open>C30: in every reachable state of the signalling server the registry is consistent and bounded. A hash
  in the index always resolves, to a registered peer that announced exactly this hash and is found under
  its own identifier, and the numbers of peers and of session tokens stay within their limits.\<close>

theorem beacon_registry_consistent:
  assumes "reachable_beacon L sv"
  shows "(map_of (sig_hash_index (bs_signaling sv)) h = None \<longleftrightarrow> resolve (bs_signaling sv) h = None)
    \<and> (\<forall>e. resolve (bs_signaling sv) h = Some e \<longrightarrow>
         get_peer (bs_signaling sv) (peer_id e) = Some e \<and> h \<in> set (peer_file_hashes e))
    \<and> length (sig_peers (bs_signaling sv)) \<le> MAX_PEERS \<and> length (bs_sessions sv) \<le> MAX_SESSIONS"
proof -
  note ok = signaling_okD [OF reachable_beacon_ok(1) [OF assms]]
  show ?thesis
    using ok(3) ok(5) [of h] reachable_beacon_ok(2) [OF assms]
    by (auto simp: resolve_def get_peer_def split: option.splits)
qed

theorem beacon_registry_consistent_witness:
  "\<exists>e. resolve (bs_signaling toy_server) ''h'' = Some e \<and> get_peer (bs_signaling toy_server) (peer_id e) = Some e
     \<and> length (sig_peers (bs_signaling toy_server)) \<le> MAX_PEERS"
proof -
  have "resolve (bs_signaling toy_server) ''h'' = Some (toy_entry 2 ''a'')"
    by (simp add: resolve_def toy_server_state)
  then show ?thesis using beacon_registry_consistent [OF toy_reachable, of "''h''"] by blast
qed

text \<open>What a registration does to lookups. The first registrant of a hash keeps it against other peers;
  a peer that registers again loses the hashes it no longer announces; a hash nobody had goes to the new
  peer; and the registration fails only when the registry is full and the peer is new.\<close>

lemma register_resolve:
  assumes "signaling_ok s"
  shows "(register e s = None \<longleftrightarrow> get_peer s (peer_id e) = None \<and> length (sig_peers s) \<ge> MAX_PEERS)
    \<and> (\<forall>s'. register e s = Some s' \<longrightarrow> signaling_ok s' \<and> get_peer s' (peer_id e) = Some e \<and>
         resolve s' h = (case resolve s h of
             Some f \<Rightarrow> if peer_id f = peer_id e then (if h \<in> set (peer_file_hashes e) then Some e else None) else Some f
           | None \<Rightarrow> if h \<in> set (peer_file_hashes e) then Some e else None))"
proof (intro conjI allI impI)
  show "register e s = None \<longleftrightarrow> get_peer s (peer_id e) = None \<and> length (sig_peers s) \<ge> MAX_PEERS"
    by (auto simp: register_def Let_def get_peer_def hm_contains_def)
  fix s' assume s': "register e s = Some s'"
  note peers = register_peers [OF s'] and index = register_index [OF s' assms]
  show "signaling_ok s'" by (rule register_ok [OF s' assms])
  show "get_peer s' (peer_id e) = Some e" by (simp add: get_peer_def peers hm.get_insert)
  show "resolve s' h = (case resolve s h of
      Some f \<Rightarrow> if peer_id f = peer_id e then (if h \<in> set (peer_file_hashes e) then Some e else None) else Some f
    | None \<Rightarrow> if h \<in> set (peer_file_hashes e) then Some e else None)"
    using signaling_okD(5) [OF assms, of h] signaling_okD(4) [OF assms]
    by (auto simp: resolve_def peers index hm.get_insert split: option.splits)
qed

lemma register_resolve_example:
  "\<exists>s'. register (toy_entry 3 ''b'') (bs_signaling toy_server) = Some s' \<and> resolve s' ''h'' = Some (toy_entry 2 ''a'')"
proof -
  note r = register_resolve [OF reachable_beacon_ok(1) [OF toy_reachable], of "toy_entry 3 ''b''" "''h''"]
  then obtain s' where "register (toy_entry 3 ''b'') (bs_signaling toy_server) = Some s'"
    by (auto simp: toy_server_state MAX_PEERS_def)
  with r show ?thesis by (auto simp: resolve_def toy_server_state toy_entry_def)
qed

text \<open>A hash that two peers host is lost when the first of them leaves. The index only knows the first
  registrant, and removing it does not hand its hashes to others: afterwards the hash resolves to nobody,
  although a registered peer announces it.\<close>

lemma leaving_owner_hides_other_hosts:
  assumes "signaling_ok s" "resolve s h = Some e" "get_peer s q = Some f" "q \<noteq> peer_id e" "h \<in> set (peer_file_hashes f)"
  shows "let s' = snd (remove_peer (peer_id e) s) in
    signaling_ok s' \<and> get_peer s' q = Some f \<and> h \<in> set (peer_file_hashes f) \<and> resolve s' h = None"
proof -
  note ok = signaling_okD [OF assms(1)]
  have "map_of (sig_hash_index s) h = Some (peer_id e)"
    using assms(2) ok(4) by (auto simp: resolve_def split: option.splits)
  then show ?thesis
    using assms(3-5) remove_peer_ok [OF assms(1)] remove_peer_get [OF ok(2)]
    by (simp add: Let_def get_peer_def resolve_def)
qed


lemma leaving_owner_hides_other_hosts_example:
  "\<exists>s. resolve s ''h'' = Some (toy_entry 2 ''a'') \<and> resolve (snd (remove_peer ''a'' s)) ''h'' = None
     \<and> get_peer (snd (remove_peer ''a'' s)) ''b'' = Some (toy_entry 3 ''b'')"
proof -
  let ?s = "\<lparr>sig_peers = [(''a'', toy_entry 2 ''a''), (''b'', toy_entry 3 ''b'')], sig_hash_index = [(''h'', ''a'')]\<rparr>"
  have "register (toy_entry 3 ''b'') (bs_signaling toy_server) = Some ?s"
    by (simp add: register_def Let_def toy_server_state toy_entry_def hm_contains_def index_hash_def MAX_PEERS_def)
  then have "signaling_ok ?s" by (rule register_ok) (rule reachable_beacon_ok(1) [OF toy_reachable])
  moreover have "resolve ?s ''h'' = Some (toy_entry 2 ''a'')" "get_peer ?s ''b'' = Some (toy_entry 3 ''b'')"
    by (simp_all add: resolve_def get_peer_def)
  moreover have "peer_id (toy_entry c p) = p" "''h'' \<in> set (peer_file_hashes (toy_entry c p))" for c p
    by (simp_all add: toy_entry_def)
  ultimately show ?thesis
    using leaving_owner_hides_other_hosts [of ?s "''h''" "toy_entry 2 ''a''" "''b''" "toy_entry 3 ''b''"]
    by (intro exI [of _ ?s]) (auto simp: Let_def)
qed

section \<open>Session tokens\<close>

datatype session_op = OpInsert instant string string | OpConsume instant string | OpEvict instant

primrec session_run :: "session_op \<Rightarrow> session_store \<Rightarrow> session_store" where
  "session_run (OpInsert now t p) tokens = snd (session_insert now t p tokens)"
| "session_run (OpConsume now t) tokens = snd (session_consume now t tokens)"
| "session_run (OpEvict now) tokens = evict_expired now tokens"

definition spent :: "string \<Rightarrow> session_store \<Rightarrow> bool" where
  "spent t tokens \<longleftrightarrow> hm_wf tokens \<and> (\<forall>e. map_of tokens t = Some e \<longrightarrow> session_used e)"

lemma spent_retain: "spent t tokens \<Longrightarrow> spent t (evict_expired now tokens)"
  by (auto simp: spent_def evict_expired_def hm.wf_retain hm.get_retain_Some)

lemma spent_run:
  assumes "spent t tokens" "\<forall>now p. OpInsert now t p \<noteq> op"
  shows "spent t (session_run op tokens)"
proof (cases op)
  case (OpInsert now t' p)
  then show ?thesis
    using spent_retain [OF assms(1), of now] assms
    by (auto simp: session_insert_def Let_def spent_def hm.wf_insert hm.get_insert)
next
  case (OpConsume now t')
  then show ?thesis
    using assms(1)
    by (auto simp: session_consume_def spent_def hm.wf_adjust hm.get_adjust split: option.split)
qed (use spent_retain [OF assms(1)] in simp)

text \<open>C31: a session token works at most once and for at most a minute. When a token is consumed it was less
  than sixty seconds old, and after that no sequence of insertions of other tokens, consumptions and
  evictions makes it valid again.\<close>

theorem session_token_single_use:
  assumes "hm_wf tokens" "session_consume now t tokens = (Some p, tokens')"
    and "\<forall>now p. OpInsert now t p \<notin> set ops"
  shows "(\<exists>e. map_of tokens t = Some e \<and> session_peer_id e = p \<and> elapsed_secs now (session_created_at e) < 60)
    \<and> fst (session_consume now' t (fold session_run ops tokens')) = None"
proof
  show "\<exists>e. map_of tokens t = Some e \<and> session_peer_id e = p \<and> elapsed_secs now (session_created_at e) < 60"
    using assms(2) by (auto simp: session_consume_def SESSION_TTL_SECS_def split: option.splits if_splits)
  have "spent t tokens'"
    using assms(1,2)
    by (auto simp: session_consume_def spent_def hm.wf_adjust hm.get_adjust split: option.splits if_splits)
  then have "spent t (fold session_run ops tokens')"
    using assms(3) by (induction ops arbitrary: tokens') (auto simp: spent_run)
  then show "fst (session_consume now' t (fold session_run ops tokens')) = None"
    by (auto simp: session_consume_def spent_def split: option.split)
qed

theorem session_token_single_use_witness:
  "\<exists>tokens'. session_consume 5 ''t'' (snd (session_insert 0 ''t'' ''p'' [])) = (Some ''p'', tokens')
     \<and> fst (session_consume 7 ''t'' (fold session_run [OpInsert 6 ''u'' ''p'', OpConsume 6 ''t''] tokens')) = None"
proof -
  let ?s = "snd (session_insert 0 ''t'' ''p'' [])"
  have "hm_wf ?s" by (simp add: session_insert_def evict_expired_def hm_retain_def MAX_SESSIONS_def hm_wf_def)
  moreover obtain tokens' where "session_consume 5 ''t'' ?s = (Some ''p'', tokens')"
    by (simp add: session_insert_def evict_expired_def hm_retain_def MAX_SESSIONS_def session_consume_def
        elapsed_secs_def SESSION_TTL_SECS_def)
  ultimately show ?thesis
    using session_token_single_use [of ?s 5 "''t''" "''p''" tokens' "[OpInsert 6 ''u'' ''p'', OpConsume 6 ''t'']" 7]
    by auto
qed

section \<open>The rate limit\<close>

primrec allowed :: "instant list \<Rightarrow> rate_limiter \<Rightarrow> nat" where
  "allowed [] l = 0"
| "allowed (t # ts) l = (case limiter_allow t l of (ok, l') \<Rightarrow> (if ok then 1 else 0) + allowed ts l')"

definition limiter_ok :: "rate_limiter \<Rightarrow> bool" where
  "limiter_ok l \<longleftrightarrow> rl_max_tokens l = 10 \<and> rl_refill_rate l = 10 \<and> 0 \<le> rl_tokens l \<and> rl_tokens l \<le> 10"

lemma limiter_allow_ok:
  assumes "limiter_ok l"
  shows "limiter_ok (snd (limiter_allow now l))" "limiter_ok (new_limiter now)"
  using assms by (auto simp: limiter_ok_def limiter_allow_def Let_def new_limiter_def elapsed_f64_def)

lemma allowed_bound:
  assumes "limiter_ok l" "sorted (rl_last_refill l # ts)"
  shows "of_nat (allowed ts l) \<le> rl_tokens l + 10 * elapsed_f64 (last (rl_last_refill l # ts)) (rl_last_refill l)"
  using assms
proof (induction ts arbitrary: l)
  case Nil
  then show ?case by (simp add: limiter_ok_def elapsed_f64_def)
next
  case (Cons t ts)
  obtain ok l' where a: "limiter_allow t l = (ok, l')" by fastforce
  have l': "limiter_ok l'" "rl_last_refill l' = t"
    using limiter_allow_ok(1) [OF Cons.prems(1), of t] a by (auto simp: limiter_allow_def Let_def split: if_splits)
  let ?stop = "last (t # ts)"
  have tokens: "(if ok then 1 else 0) + rl_tokens l' \<le> rl_tokens l + 10 * elapsed_f64 t (rl_last_refill l)"
    using a Cons.prems(1) by (auto simp: limiter_allow_def Let_def limiter_ok_def split: if_splits)
  have "t \<le> ?stop" using Cons.prems(2) by (cases ts) auto
  then have split: "elapsed_f64 ?stop t + elapsed_f64 t (rl_last_refill l) = elapsed_f64 ?stop (rl_last_refill l)"
    using Cons.prems(2) by (simp add: elapsed_f64_def add_divide_distrib [symmetric] of_nat_diff)
  have "sorted (rl_last_refill l' # ts)" using Cons.prems(2) l'(2) by simp
  then have "of_nat (allowed ts l') \<le> rl_tokens l' + 10 * elapsed_f64 ?stop t"
    using Cons.IH [OF l'(1)] l'(2) by simp
  then have "of_nat (allowed (t # ts) l) \<le> (if ok then 1 else 0) + (rl_tokens l' + 10 * elapsed_f64 ?stop t)"
    using a by simp
  also have "\<dots> \<le> rl_tokens l + 10 * (elapsed_f64 ?stop t + elapsed_f64 t (rl_last_refill l))"
    using tokens by (simp add: algebra_simps)
  finally show ?case using split by simp
qed

text \<open>The limiters of all connections stay in order.\<close>

definition limiters_ok :: "beacon_server \<Rightarrow> bool" where
  "limiters_ok sv \<longleftrightarrow> (\<forall>c k. map_of (bs_connections sv) c = Some k \<longrightarrow> limiter_ok (conn_limiter k))"

lemma limiters_ok_handle:
  "limiters_ok sv \<Longrightarrow> limiters_ok (send_to c m sv)"
  "limiters_ok sv \<Longrightarrow> limiters_ok (handle_message L clock now c msg sv)"
  "limiters_ok sv \<Longrightarrow> limiters_ok (disconnect c sv)"
proof -
  show "limiters_ok sv \<Longrightarrow> limiters_ok (send_to c m sv)" by (simp add: limiters_ok_def)
  show "limiters_ok sv \<Longrightarrow> limiters_ok (handle_message L clock now c msg sv)"
    by (auto simp: limiters_ok_def handle_message_def hm.get_adjust split: inbound_message.splits res.splits option.splits if_splits)
  show "limiters_ok sv \<Longrightarrow> limiters_ok (disconnect c sv)"
    by (cases "map_of (bs_connections sv) c")
       (auto simp: limiters_ok_def disconnect_effect hm.get_remove split: if_splits, auto simp: disconnect_def)
qed

lemma limiters_ok_frame:
  assumes "limiters_ok sv"
  shows "limiters_ok (handle_frame L clock now c f sv)"
proof (cases "map_of (bs_connections sv) c")
  case (Some k)
  obtain ok l where a: "limiter_allow now (conn_limiter k) = (ok, l)" by fastforce
  have "limiter_ok l" using limiter_allow_ok(1) [of "conn_limiter k" now] assms Some a by (auto simp: limiters_ok_def)
  then have "limiters_ok (sv\<lparr>bs_connections := hm_adjust c (\<lambda>k. k\<lparr>conn_limiter := l\<rparr>) (bs_connections sv)\<rparr>)"
    using assms by (auto simp: limiters_ok_def hm.get_adjust split: if_splits)
  then show ?thesis
    using Some a assms
    by (auto simp: handle_frame_def Let_def limiters_ok_handle split: frame.split option.split inbound_message.split)
qed (use assms in \<open>simp add: handle_frame_def\<close>)

lemma reachable_limiters_ok:
  assumes "reachable_beacon L sv"
  shows "limiters_ok sv"
  using assms
proof (induction rule: reachable_beacon.induct)
  case (step sv sv')
  have "limiter_ok (new_limiter now)" for now by (simp add: limiter_ok_def new_limiter_def)
  from step.hyps(2) step.IH this show ?case
  proof (induction rule: beacon_step.induct)
    case (frame sv clock now c f)
    then show ?case by (simp add: limiters_ok_frame)
  qed (auto simp: auth_handler_def ws_handler_def limiters_ok_def hm.get_insert Let_def
      split: prod.split option.split if_splits)
qed (simp add: new_server_def limiters_ok_def)

text \<open>C32: the rate limit of a connection. In every reachable state and for any run of messages of a connection
  at increasing times, at most ten plus ten per second of the elapsed time are let through; and a message
  that comes a tenth of a second after the one before is always let through.\<close>

theorem limiter_bounds_rate:
  assumes "reachable_beacon L sv" "map_of (bs_connections sv) c = Some k" "l = conn_limiter k"
    and "sorted (rl_last_refill l # t # ts)"
  shows "of_nat (allowed (t # ts) l) \<le> 10 + 10 * elapsed_f64 (last (t # ts)) t
    \<and> (t \<ge> rl_last_refill l + 100000000 \<longrightarrow> fst (limiter_allow t l))"
proof
  have ok: "limiter_ok l" using reachable_limiters_ok [OF assms(1)] assms(2,3) by (auto simp: limiters_ok_def)
  let ?l = "l\<lparr>rl_tokens := min (rl_tokens l + elapsed_f64 t (rl_last_refill l) * rl_refill_rate l) (rl_max_tokens l),
    rl_last_refill := t\<rparr>"
  have "limiter_allow t ?l = limiter_allow t l"
    using ok by (simp add: limiter_allow_def Let_def elapsed_f64_def)
  then have "allowed (t # ts) ?l = allowed (t # ts) l" by simp
  moreover have "limiter_ok ?l" using ok by (auto simp: limiter_ok_def elapsed_f64_def)
  then have "of_nat (allowed (t # ts) ?l) \<le> rl_tokens ?l + 10 * elapsed_f64 (last (t # ts)) t"
    using allowed_bound [of ?l "t # ts"] assms(4) by simp
  ultimately show "of_nat (allowed (t # ts) l) \<le> 10 + 10 * elapsed_f64 (last (t # ts)) t"
    using \<open>limiter_ok ?l\<close> by (simp add: limiter_ok_def)
  show "t \<ge> rl_last_refill l + 100000000 \<longrightarrow> fst (limiter_allow t l)"
  proof
    assume "t \<ge> rl_last_refill l + 100000000"
    then have "of_nat (t - rl_last_refill l) \<ge> (of_nat 100000000 :: rat)" by (simp only: of_nat_le_iff)
    then have "elapsed_f64 t (rl_last_refill l) * 10 \<ge> 1" by (simp add: elapsed_f64_def field_simps)
    then show "fst (limiter_allow t l)"
      using ok by (auto simp: limiter_allow_def Let_def limiter_ok_def)
  qed
qed

theorem limiter_bounds_rate_witness:
  "of_nat (allowed [200000000, 300000000] (new_limiter 0)) \<le> 10 + 10 * elapsed_f64 300000000 200000000
   \<and> fst (limiter_allow 200000000 (new_limiter 0))"
proof -
  let ?sv = "snd (ws_handler toy_libs 0 0 7 no_headers (new_server None))"
  have "reachable_beacon toy_libs ?sv"
    by (intro reachable_beacon.step [OF reachable_beacon.start beacon_step.upgrade]) (simp add: new_server_def)
  moreover have "map_of (bs_connections ?sv) 7 = Some \<lparr>conn_peer_id = None, conn_limiter = new_limiter 0\<rparr>"
    by (simp add: ws_handler_def new_server_def)
  ultimately show ?thesis
    using limiter_bounds_rate [of toy_libs ?sv 7 "\<lparr>conn_peer_id = None, conn_limiter = new_limiter 0\<rparr>"
        "new_limiter 0" 200000000 "[300000000]"]
    by (simp add: new_limiter_def)
qed

section \<open>Identities and disconnects\<close>

text \<open>A disconnecting connection takes down a newer one. When two connections registered under the same
  identity, the entry belongs to the later one; the end of the earlier one removes it all the same, and
  the peer, still connected, can no longer be found.\<close>

lemma disconnect_evicts_other_connection:
  assumes "reachable_beacon L sv" "map_of (bs_connections sv) c = Some k" "conn_peer_id k = Some p"
    and "get_peer (bs_signaling sv) p = Some e" "peer_tx e = c'" "c' \<noteq> c" "map_of (bs_connections sv) c' = Some k'"
  shows "let sv' = disconnect c sv in get_peer (bs_signaling sv') p = None \<and> map_of (bs_connections sv') c' = Some k'"
proof -
  note ok = signaling_okD [OF reachable_beacon_ok(1) [OF assms(1)]]
  show ?thesis
    using assms(3,6,7) remove_peer_get(1) [OF ok(2)]
    by (simp add: Let_def disconnect_effect [OF assms(2)] get_peer_def hm.get_remove)
qed

lemma disconnect_evicts_other_connection_example:
  "get_peer (bs_signaling (disconnect 1 toy_server)) ''a'' = None \<and> map_of (bs_connections (disconnect 1 toy_server)) 2 \<noteq> None"
proof -
  obtain k k' where k: "bs_connections toy_server = [(1, k), (2, k')]" "conn_peer_id k = Some ''a''"
    using toy_server_state(2,3) by (auto simp: map_eq_Cons_conv)
  show ?thesis
    using disconnect_evicts_other_connection [OF toy_reachable, of 1 k "''a''" "toy_entry 2 ''a''" 2 k'] k
    by (simp add: toy_peer Let_def)
qed

text \<open>A connection that registers under two identities leaves the first one behind. After its end the first
  identity is still registered, with the channel of a connection that no longer exists.\<close>

lemma second_registration_leaks_first:
  assumes "signaling_ok (bs_signaling sv)" "map_of (bs_connections sv) c = Some k" "conn_peer_id k = Some p"
    and "get_peer (bs_signaling sv) p = Some e" "peer_tx e = c"
    and "validate_token L clock token = Ok q" "q \<noteq> p" "length (sig_peers (bs_signaling sv)) < MAX_PEERS"
  shows "let sv' = disconnect c (handle_message L clock now c (Register x hashes multiaddr token) sv) in
    map_of (bs_connections sv') c = None \<and> get_peer (bs_signaling sv') p = Some e \<and> peer_tx e = c"
proof -
  let ?e = "\<lparr>peer_id = q, peer_file_hashes = hashes, peer_multiaddr = multiaddr, peer_tx = c, peer_connected_at = now\<rparr>"
  obtain s where s: "register ?e (bs_signaling sv) = Some s"
    using assms(8) by (simp add: register_def Let_def)
  let ?sv = "handle_message L clock now c (Register x hashes multiaddr token) sv"
  have sv: "bs_signaling ?sv = s"
    "bs_connections ?sv = hm_adjust c (\<lambda>k. k\<lparr>conn_peer_id := Some q\<rparr>) (bs_connections sv)"
    using assms(6) s by (simp_all add: handle_message_def)
  then have "map_of (bs_connections ?sv) c = Some (k\<lparr>conn_peer_id := Some q\<rparr>)"
    using assms(2) by (simp add: hm.get_adjust)
  from disconnect_effect [OF this] show ?thesis
    using assms(4,5,7) remove_peer_get(1) [OF signaling_okD(2) [OF register_ok [OF s assms(1)]], of q p]
    by (simp add: Let_def sv hm.get_remove get_peer_def register_peers [OF s] hm.get_insert)
qed

lemma second_registration_leaks_first_example:
  "get_peer (bs_signaling (disconnect 2 (handle_message toy_libs 0 0 2
     (Register '''' [] None (''e.b.'' @ replicate 64 (CHR ''k''))) toy_server))) ''a'' = Some (toy_entry 2 ''a'')"
proof -
  obtain k k' where k: "bs_connections toy_server = [(1, k'), (2, k)]" "conn_peer_id k = Some ''a''"
    using toy_server_state(2,3) by (auto simp: map_eq_Cons_conv)
  have "validate_token toy_libs 0 (''e.b.'' @ replicate 64 (CHR ''k'')) = Ok ''b''" by code_simp
  then show ?thesis
    using second_registration_leaks_first [OF reachable_beacon_ok(1) [OF toy_reachable], of 2 k "''a''" "toy_entry 2 ''a''"
        toy_libs 0 "''e.b.'' @ replicate 64 (CHR ''k'')" "''b''" 0 "''''" "[]" None] k
    by (simp add: toy_peer Let_def)
qed

text \<open>What anyone with a key pair can do: \<open>k\<close> is a public key, \<open>enc\<close> the encoding of bytes, \<open>header\<close> and
  \<open>claims\<close> encode a JSON header naming the key and JSON claims naming a subject, and \<open>sign\<close> makes
  signatures that verify under the key.\<close>

definition can_sign :: "beacon_libs \<Rightarrow> string \<Rightarrow> (string \<Rightarrow> string) \<Rightarrow> string \<Rightarrow> (string \<Rightarrow> string) \<Rightarrow> (string \<Rightarrow> string) \<Rightarrow> bool" where
  "can_sign L k enc header claims sign \<longleftrightarrow>
     (\<forall>x. lib_b64_decode L (enc x) = Some x \<and> CHR ''.'' \<notin> set (enc x))
     \<and> lib_jwt_header L header = Some \<lparr>jwt_alg = ''EdDSA'', jwt_pubkey = enc k\<rparr>
     \<and> (\<forall>p. lib_jwt_claims L (claims p) = Some \<lparr>jwt_sub = Some p, jwt_exp = None\<rparr>)
     \<and> length k = 32 \<and> lib_is_verifying_key L k
     \<and> (\<forall>m. length (sign m) = 64 \<and> lib_verify L k m (sign m))"

lemma split_char_single: "c \<notin> set s \<Longrightarrow> split_char c s = [s]"
  by (induction s) auto

lemma split_char_append: "c \<notin> set s \<Longrightarrow> split_char c (s @ c # t) = s # split_char c t"
  by (induction s) auto

text \<open>C34: a token does not prove who sent it. The key that checks a token comes with the token and is not
  bound to the subject, so whoever holds any key pair gets a token accepted for every subject, at any time.\<close>

theorem self_signed_token_names_anyone:
  assumes "can_sign L k enc header claims sign"
  shows "\<exists>token. validate_token L now token = Ok p"
proof -
  let ?h = "enc header" and ?p = "enc (claims p)"
  let ?token = "?h @ CHR ''.'' # ?p @ CHR ''.'' # enc (sign (?h @ ''.'' @ ?p))"
  have "split_char (CHR ''.'') ?token = [?h, ?p, enc (sign (?h @ ''.'' @ ?p))]"
    using assms by (simp add: can_sign_def split_char_append split_char_single)
  then have "validate_token L now ?token = Ok p"
    using assms by (simp add: validate_token_def can_sign_def auth_opt_def)
  then show ?thesis by blast
qed

text \<open>An encoding that escapes the dot, for the witness.\<close>

definition dot_free :: "string \<Rightarrow> string" where
  "dot_free s = concat (map (\<lambda>c. if c = CHR ''.'' then [CHR ''-'', CHR ''d''] else if c = CHR ''-'' then [CHR ''-'', CHR ''-''] else [c]) s)"

fun undot :: "string \<Rightarrow> string option" where
  "undot [] = Some []"
| "undot [c] = (if c = CHR ''-'' then None else Some [c])"
| "undot (c # d # s) =
     (if c = CHR ''-'' then map_option (Cons (if d = CHR ''d'' then CHR ''.'' else d)) (undot s)
      else map_option (Cons c) (undot (d # s)))"

lemma undot_Cons: "c \<noteq> CHR ''-'' \<Longrightarrow> undot (c # s) = map_option (Cons c) (undot s)"
  by (cases s) auto

lemma undot_dot_free: "undot (dot_free s) = Some s" "CHR ''.'' \<notin> set (dot_free s)"
  by (induction s) (auto simp: dot_free_def undot_Cons)

theorem self_signed_token_names_anyone_witness:
  "\<exists>token. validate_token (toy_libs\<lparr>lib_b64_decode := undot,
     lib_jwt_header := (\<lambda>_. Some \<lparr>jwt_alg = ''EdDSA'', jwt_pubkey = dot_free (replicate 32 (CHR ''k''))\<rparr>)\<rparr>) 0 token = Ok ''victim''"
  by (rule self_signed_token_names_anyone [where k = "replicate 32 (CHR ''k'')" and enc = dot_free and header = "''e''"
        and claims = "\<lambda>s. s" and sign = "\<lambda>_. replicate 64 (CHR ''k'')"])
     (simp add: can_sign_def undot_dot_free toy_libs_def)

end
