(* ===== verification/Ratelimits.thy ===== *)
theory Ratelimits
  imports Prelude
begin

text \<open>
  The request rate limiter (\<open>crates/core/ratelimits/src/ratelimiter.rs\<close>) and the buckets of the API
  server, the file server and the GIF server (\<open>crates/delta/src/util/ratelimits.rs\<close>,
  \<open>crates/services/{autumn,gifbox}/src/ratelimits.rs\<close>).

  The hash of the identifier, bucket and resource is an argument, a function of the bytes written to the
  hasher. \<open>clk\<close> gives the successive readings of the clock in milliseconds during one request. Buckets
  live in a map from hashes to entries; a counter is 32 bits wide.
\<close>

section \<open>Buckets\<close>

record entry =
  entry_used :: u32
  entry_reset :: nat

type_synonym bucket_map = "(nat, entry) hash_map"

definition entry_from :: "nat \<Rightarrow> bucket_map \<Rightarrow> nat \<Rightarrow> entry" where
  "entry_from now bm key = (case map_of bm key of
     Some e \<Rightarrow> e | None \<Rightarrow> \<lparr>entry_used = 0, entry_reset = now + 10000\<rparr>)"

definition deduct :: "nat \<Rightarrow> nat \<Rightarrow> entry \<Rightarrow> entry" where
  "deduct current_time now e =
     (if current_time > entry_reset e then \<lparr>entry_used = 1, entry_reset = now + 10000\<rparr>
      else e\<lparr>entry_used := entry_used e + 1\<rparr>)"

definition save_entry :: "entry \<Rightarrow> bucket_map \<Rightarrow> nat \<Rightarrow> bucket_map" where
  "save_entry e bm key = AList.update key e bm"

definition get_remaining :: "nat \<Rightarrow> entry \<Rightarrow> u32 \<Rightarrow> u32" where
  "get_remaining now e limit = (if now > entry_reset e then limit else limit - entry_used e)"

definition left_until_reset :: "nat \<Rightarrow> entry \<Rightarrow> nat" where
  "left_until_reset now e = entry_reset e - now"

record ratelimiter =
  rl_key :: nat
  rl_limit :: u32
  rl_remaining :: u32
  rl_reset :: nat

definition bucket_key :: "(string \<Rightarrow> nat) \<Rightarrow> string \<Rightarrow> string \<times> string option \<Rightarrow> nat" where
  "bucket_key hash identifier b = hash (identifier @ fst b @ (case snd b of Some i \<Rightarrow> i | None \<Rightarrow> []))"

definition ratelimiter_from ::
  "(string \<Rightarrow> nat) \<Rightarrow> (nat \<Rightarrow> nat) \<Rightarrow> string \<Rightarrow> u32 \<Rightarrow> string \<times> string option \<Rightarrow> bucket_map
    \<Rightarrow> (ratelimiter, ratelimiter) res \<times> bucket_map" where
  "ratelimiter_from hash clk identifier limit b bm =
     (let key = bucket_key hash identifier b;
          entry = entry_from (clk 0) bm key;
          remaining = get_remaining (clk 1) entry limit;
          reset = left_until_reset (clk 2) entry;
          ratelimiter = \<lparr>rl_key = key, rl_limit = limit, rl_remaining = remaining, rl_reset = reset\<rparr>
      in if remaining = 0 then (Err ratelimiter, bm)
      else let entry = deduct (clk 3) (clk 4) entry
        in (Ok (ratelimiter\<lparr>rl_remaining := remaining - 1, rl_reset := left_until_reset (clk 5) entry\<rparr>),
            save_entry entry bm key))"

section \<open>Resolvers\<close>

datatype http_method = Get | Put | Post | Delete | Patch | OtherMethod

text \<open>A request as the resolver of the API server sees it: its method and the segments of its route.\<close>

definition routed_segment :: "string list \<Rightarrow> nat \<Rightarrow> string option" where
  "routed_segment segs n = (if n < length segs then Some (segs ! n) else None)"

definition delta_resolve_bucket :: "http_method \<Rightarrow> string list \<Rightarrow> string \<times> string option" where
  "delta_resolve_bucket method segs =
     (let base = (if routed_segment segs 0 = Some ''0.8'' then 1 else 0);
          segment = routed_segment segs base; resource = routed_segment segs (base + 1);
          extra = routed_segment segs (base + 2)
      in case segment of
        None \<Rightarrow> (''any'', None)
      | Some s \<Rightarrow>
          if s = ''users'' then
            (if method = Patch then (''user_edit'', resource)
             else if extra = Some ''default_avatar'' then (''default_avatar'', None) else (''users'', None))
          else if s = ''bots'' then (''bots'', None)
          else if s = ''channels'' \<and> resource \<noteq> None then
            (if method = Post \<and> extra = Some ''messages'' then (''messaging'', resource)
             else if method = Post \<and> extra = Some ''interactions'' then (''interactions'', resource)
             else (''channels'', resource))
          else if s = ''servers'' \<and> resource \<noteq> None then (''servers'', resource)
          else if s = ''auth'' then (if method = Delete then (''auth_delete'', None) else (''auth'', None))
          else if s = ''oauth'' \<and> resource = Some ''link-minecraft'' then (''oauth_link'', None)
          else if s = ''swagger'' then (''swagger'', None)
          else if s = ''safety'' \<and> resource = Some ''report'' then (''safety_report'', Some ''report'')
          else if s = ''safety'' then (''safety'', None)
          else (''any'', None))"

definition delta_bucket_limit :: "string \<Rightarrow> u32" where
  "delta_bucket_limit b =
     (if b = ''user_edit'' then 2 else if b = ''users'' then 20 else if b = ''bots'' then 10
      else if b = ''messaging'' then 10 else if b = ''interactions'' then 5 else if b = ''channels'' then 15
      else if b = ''servers'' then 5 else if b = ''auth'' then 15 else if b = ''auth_delete'' then 255
      else if b = ''oauth_link'' then 5 else if b = ''default_avatar'' then 255 else if b = ''swagger'' then 100
      else if b = ''safety'' then 15 else if b = ''safety_report'' then 3 else 20)"

text \<open>The path of a request to the other two servers, split as the code splits it; a limit of None is a
  panic.\<close>

definition autumn_resolve_bucket :: "http_method \<Rightarrow> string list \<Rightarrow> string \<times> string option" where
  "autumn_resolve_bucket method path =
     (case path of [file_tag] \<Rightarrow> if method = Post then (''upload'', Some file_tag) else (''any'', None) | _ \<Rightarrow> (''any'', None))"

definition autumn_bucket_limit :: "string \<Rightarrow> u32 option" where
  "autumn_bucket_limit b = (if b = ''upload'' then Some 10 else if b = ''any'' then Some (- 1) else None)"

definition gifbox_resolve_bucket :: "string list \<Rightarrow> string \<times> string option" where
  "gifbox_resolve_bucket path = (case path of
     p # _ \<Rightarrow> if p = ''categories'' \<or> p = ''trending'' \<or> p = ''search'' then (p, None) else (''any'', None)
   | [] \<Rightarrow> (''any'', None))"

definition gifbox_bucket_limit :: "string \<Rightarrow> u32 option" where
  "gifbox_bucket_limit b = (if b = ''categories'' then Some 2 else if b = ''trending'' then Some 5
     else if b = ''search'' then Some 10 else if b = ''any'' then Some (- 1) else None)"

lemma resolved_buckets_have_limits:
  "autumn_bucket_limit (fst (autumn_resolve_bucket method path)) \<noteq> None"
  "gifbox_bucket_limit (fst (gifbox_resolve_bucket path)) \<noteq> None"
  by (auto simp: autumn_resolve_bucket_def autumn_bucket_limit_def gifbox_resolve_bucket_def gifbox_bucket_limit_def
      split: list.split)

section \<open>The limit over a run of requests\<close>

record limited_request =
  lr_clock :: "nat \<Rightarrow> nat"
  lr_identifier :: string
  lr_bucket :: "string \<times> string option"

text \<open>The number of accepted requests with a given key in a run over one bucket map; \<open>limits\<close> is the
  resolver's limit of a bucket.\<close>

definition run_request :: "(string \<Rightarrow> nat) \<Rightarrow> (string \<Rightarrow> u32) \<Rightarrow> limited_request \<Rightarrow> bucket_map
    \<Rightarrow> (ratelimiter, ratelimiter) res \<times> bucket_map" where
  "run_request hash limits q = ratelimiter_from hash (lr_clock q) (lr_identifier q) (limits (fst (lr_bucket q))) (lr_bucket q)"

primrec accepted :: "(string \<Rightarrow> nat) \<Rightarrow> (string \<Rightarrow> u32) \<Rightarrow> nat \<Rightarrow> limited_request list \<Rightarrow> bucket_map \<Rightarrow> nat" where
  "accepted hash limits k [] bm = 0"
| "accepted hash limits k (q # qs) bm = (case run_request hash limits q bm of (r, bm') \<Rightarrow>
     (if bucket_key hash (lr_identifier q) (lr_bucket q) = k \<and> is_ok r then 1 else 0) + accepted hash limits k qs bm')"

text \<open>What an entry still allows until the time \<open>T\<close>: the rest of its window and full windows of ten
  seconds and a millisecond after it.\<close>

definition entry_ok :: "u32 \<Rightarrow> nat \<Rightarrow> entry \<Rightarrow> bool" where
  "entry_ok limit T e \<longleftrightarrow> entry_used e \<le> limit \<and> entry_reset e \<le> T + 10000"

definition potential :: "u32 \<Rightarrow> nat \<Rightarrow> entry \<Rightarrow> nat" where
  "potential limit T e = (unat limit - unat (entry_used e)) + unat limit * ((T + 10000 - entry_reset e) div 10001)"

definition in_time :: "nat \<Rightarrow> limited_request \<Rightarrow> bool" where
  "in_time T q \<longleftrightarrow> mono (lr_clock q) \<and> lr_clock q 5 \<le> T"

lemma new_window_potential:
  assumes "entry_reset e < c" "c \<le> T" "entry_ok limit T e" "limit \<noteq> 0"
  shows "Suc (potential limit T \<lparr>entry_used = 1, entry_reset = c + 10000\<rparr>) \<le> potential limit T e"
proof -
  have "unat limit \<noteq> 0" using assms(4) by (simp add: unat_eq_0)
  then have "Suc (unat limit - 1 + unat limit * ((T - c) div 10001)) = unat limit * Suc ((T - c) div 10001)"
    by simp
  also have "\<dots> \<le> unat limit * ((T + 10000 - entry_reset e) div 10001)"
  proof (rule mult_le_mono2)
    have "T - c + 10001 \<le> T + 10000 - entry_reset e" using assms(1,2) by simp
    then have "(T - c + 10001) div 10001 \<le> (T + 10000 - entry_reset e) div 10001" by (rule div_le_mono)
    then show "Suc ((T - c) div 10001) \<le> (T + 10000 - entry_reset e) div 10001" by simp
  qed
  finally show ?thesis using assms(2) by (simp add: potential_def)
qed

lemma same_window_potential:
  assumes "entry_ok limit T e" "limit - entry_used e \<noteq> 0"
  shows "entry_ok limit T (e\<lparr>entry_used := entry_used e + 1\<rparr>)"
    "Suc (potential limit T (e\<lparr>entry_used := entry_used e + 1\<rparr>)) = potential limit T e"
proof -
  have "entry_used e < limit" using assms by (auto simp: entry_ok_def order_less_le)
  then have less: "unat (entry_used e) < unat limit" by (simp add: word_less_nat_alt)
  have "unat limit < 2 ^ LENGTH(32)" by (rule unsigned_less)
  with less have "unat (entry_used e) + unat (1 :: u32) < 2 ^ LENGTH(32)" by simp
  then have "unat (entry_used e + 1) = Suc (unat (entry_used e))" by (subst (asm) unat_add_lem) simp
  then show "entry_ok limit T (e\<lparr>entry_used := entry_used e + 1\<rparr>)"
    "Suc (potential limit T (e\<lparr>entry_used := entry_used e + 1\<rparr>)) = potential limit T e"
    using less assms(1) by (auto simp: entry_ok_def potential_def word_le_nat_alt)
qed

text \<open>The effect of one request on the entry of a key.\<close>

lemma run_request_key:
  assumes "run_request hash limits q bm = (r, bm')" "bucket_key hash (lr_identifier q) (lr_bucket q) = k"
    and "in_time T q" "limit = limits (fst (lr_bucket q))" "entry_ok limit T (entry_from (lr_clock q 0) bm k)"
  shows "if is_ok r then map_of bm' k \<noteq> None \<and> entry_ok limit T (the (map_of bm' k))
      \<and> Suc (potential limit T (the (map_of bm' k))) \<le> potential limit T (entry_from (lr_clock q 0) bm k)
    else bm' = bm"
proof -
  let ?e = "entry_from (lr_clock q 0) bm k" and ?c = "lr_clock q"
  let ?d = "deduct (?c 3) (?c 4) ?e"
  have clock: "?c 1 \<le> ?c 3" "?c 3 \<le> ?c 4" "?c 4 \<le> T"
    using assms(3) by (auto simp: in_time_def mono_def intro: order_trans [of _ "?c 5"])
  show ?thesis
  proof (cases "get_remaining (?c 1) ?e limit = 0")
    case True
    then show ?thesis
      using assms(1,2,4) by (auto simp: run_request_def ratelimiter_from_def Let_def is_ok_iff)
  next
    case False
    then have limit: "limit \<noteq> 0" "?c 3 \<le> entry_reset ?e \<Longrightarrow> limit - entry_used ?e \<noteq> 0"
      using assms(5) clock by (auto simp: get_remaining_def entry_ok_def split: if_splits)
    have "entry_ok limit T ?d \<and> Suc (potential limit T ?d) \<le> potential limit T ?e"
    proof (cases "?c 3 > entry_reset ?e")
      case True
      then show ?thesis
        using new_window_potential [of ?e "?c 4" T limit] clock assms(5) limit(1)
        by (auto simp: deduct_def entry_ok_def word_le_nat_alt Suc_le_eq unat_gt_0)
    next
      case False
      then show ?thesis using same_window_potential [OF assms(5)] limit(2) by (simp add: deduct_def)
    qed
    moreover have "map_of bm' k = Some ?d" "is_ok r"
      using assms(1,2,4) False
      by (auto simp: run_request_def ratelimiter_from_def Let_def save_entry_def hm.get_insert is_ok_iff)
    ultimately show ?thesis by simp
  qed
qed

lemma run_request_other:
  assumes "run_request hash limits q bm = (r, bm')" "bucket_key hash (lr_identifier q) (lr_bucket q) \<noteq> k"
  shows "map_of bm' k = map_of bm k"
  using assms by (auto simp: run_request_def ratelimiter_from_def Let_def save_entry_def hm.get_insert split: if_splits)

lemma run_request_refused: "run_request hash limits q bm = (r, bm') \<Longrightarrow> \<not> is_ok r \<Longrightarrow> bm' = bm"
  by (auto simp: run_request_def ratelimiter_from_def Let_def is_ok_iff split: if_splits)

text \<open>The requests of a run come one after the other.\<close>

fun in_order :: "nat \<Rightarrow> limited_request list \<Rightarrow> bool" where
  "in_order t [] \<longleftrightarrow> True"
| "in_order t (q # qs) \<longleftrightarrow> t \<le> lr_clock q 0 \<and> mono (lr_clock q) \<and> in_order (lr_clock q 5) qs"

fun end_time :: "nat \<Rightarrow> limited_request list \<Rightarrow> nat" where
  "end_time t [] = t"
| "end_time t (q # qs) = end_time (lr_clock q 5) qs"

lemma end_time_ge: "in_order t qs \<Longrightarrow> t \<le> end_time t qs"
proof (induction t qs rule: in_order.induct)
  case (2 t q qs)
  then have "lr_clock q 0 \<le> lr_clock q 5" by (simp add: monoD)
  then show ?case using 2 by simp
qed simp

definition key_limit :: "(string \<Rightarrow> nat) \<Rightarrow> (string \<Rightarrow> u32) \<Rightarrow> nat \<Rightarrow> u32 \<Rightarrow> limited_request list \<Rightarrow> bool" where
  "key_limit hash limits k limit qs \<longleftrightarrow>
     (\<forall>q\<in>set qs. bucket_key hash (lr_identifier q) (lr_bucket q) = k \<longrightarrow> limits (fst (lr_bucket q)) = limit)"

lemma accepted_potential:
  assumes "map_of bm k = Some e" "entry_ok limit (end_time t qs) e" "in_order t qs" "key_limit hash limits k limit qs"
  shows "accepted hash limits k qs bm \<le> potential limit (end_time t qs) e"
  using assms
proof (induction qs arbitrary: bm e t)
  case (Cons q qs)
  let ?T = "end_time (lr_clock q 5) qs"
  obtain r bm' where run: "run_request hash limits q bm = (r, bm')" by fastforce
  have rest: "in_order (lr_clock q 5) qs" "key_limit hash limits k limit qs"
    using Cons.prems(3,4) by (auto simp: key_limit_def)
  have q: "in_time ?T q" using Cons.prems(3) end_time_ge [OF rest(1)] by (simp add: in_time_def)
  show ?case
  proof (cases "bucket_key hash (lr_identifier q) (lr_bucket q) = k")
    case True
    have e: "entry_from (lr_clock q 0) bm k = e" using Cons.prems(1) by (simp add: entry_from_def)
    have limit: "limit = limits (fst (lr_bucket q))" using Cons.prems(4) True by (simp add: key_limit_def)
    note step = run_request_key [OF run True q limit, unfolded e, simplified, OF Cons.prems(2) [simplified]]
    show ?thesis
    proof (cases "is_ok r")
      case ok: True
      then obtain e' where e': "map_of bm' k = Some e'" "entry_ok limit ?T e'"
          "Suc (potential limit ?T e') \<le> potential limit ?T e"
        using step by auto
      then show ?thesis using Cons.IH [OF e'(1,2) rest] run True ok by simp
    next
      case False
      then show ?thesis using step Cons.IH [OF Cons.prems(1) _ rest] Cons.prems(2) run by simp
    qed
  next
    case False
    then have "map_of bm' k = Some e" using run_request_other [OF run] Cons.prems(1) by simp
    then show ?thesis using Cons.IH [OF _ _ rest] Cons.prems(2) run False by simp
  qed
qed simp

lemma accepted_fresh:
  assumes "map_of bm k = None" "in_order t qs" "key_limit hash limits k limit qs"
  shows "accepted hash limits k qs bm \<le> unat limit * Suc ((end_time t qs - t) div 10001)"
  using assms
proof (induction qs arbitrary: bm t)
  case (Cons q qs)
  let ?T = "end_time (lr_clock q 5) qs" and ?c = "lr_clock q 0"
  obtain r bm' where run: "run_request hash limits q bm = (r, bm')" by fastforce
  have rest: "in_order (lr_clock q 5) qs" "key_limit hash limits k limit qs"
    using Cons.prems(2,3) by (auto simp: key_limit_def)
  have q: "in_time ?T q" using Cons.prems(2) end_time_ge [OF rest(1)] by (simp add: in_time_def)
  have times: "t \<le> ?c" "?c \<le> lr_clock q 5" "lr_clock q 5 \<le> ?T"
    using Cons.prems(2) end_time_ge [OF rest(1)] by (auto simp: monoD)
  then have "(?T - ?c) div 10001 \<le> (?T - t) div 10001" "(?T - lr_clock q 5) div 10001 \<le> (?T - t) div 10001"
    by (auto intro!: div_le_mono)
  then have later: "unat limit * Suc ((?T - ?c) div 10001) \<le> unat limit * Suc ((?T - t) div 10001)"
    "unat limit * Suc ((?T - lr_clock q 5) div 10001) \<le> unat limit * Suc ((?T - t) div 10001)"
    by (auto intro!: mult_le_mono2)
  have none: ?case if "map_of bm' k = None" "\<not> (bucket_key hash (lr_identifier q) (lr_bucket q) = k \<and> is_ok r)"
    using order_trans [OF Cons.IH [OF that(1) rest] later(2)] that(2) run
    by (auto simp del: mult_Suc_right)
  show ?case
  proof (cases "bucket_key hash (lr_identifier q) (lr_bucket q) = k \<and> is_ok r")
    case True
    let ?e = "\<lparr>entry_used = 0, entry_reset = ?c + 10000\<rparr>"
    have e: "entry_from ?c bm k = ?e" using Cons.prems(1) by (simp add: entry_from_def)
    have limit: "limit = limits (fst (lr_bucket q))" using Cons.prems(3) True by (simp add: key_limit_def)
    have "entry_ok limit ?T ?e" using times by (simp add: entry_ok_def)
    then obtain e' where e': "map_of bm' k = Some e'" "entry_ok limit ?T e'"
        "Suc (potential limit ?T e') \<le> potential limit ?T ?e"
      using run_request_key [OF run _ q limit, of k] True unfolding e by auto
    then have "accepted hash limits k (q # qs) bm \<le> potential limit ?T ?e"
      using accepted_potential [OF e'(1,2) rest] run True by simp
    also have "potential limit ?T ?e = unat limit * Suc ((?T - ?c) div 10001)" by (simp add: potential_def)
    finally show ?thesis using later(1) by (simp only: end_time.simps)
  next
    case False
    have "map_of bm' k = None"
      using run_request_other [OF run] run_request_refused [OF run] Cons.prems(1) False by auto
    then show ?thesis using none False by blast
  qed
qed simp

text \<open>C33: the rate limit holds over every run of requests. Starting from a map without the key, and whatever
  other requests come in between, the number of accepted requests of one key is at most its limit for
  every started period of ten seconds (and a millisecond). The requests come one after the other, the
  clock does not go backwards, and no request of another bucket with another limit hashes to the key. A
  refused request leaves the buckets as they were.\<close>

theorem ratelimit_bounds_requests:
  assumes "map_of bm k = None" "in_order t qs" "key_limit hash limits k limit qs"
  shows "accepted hash limits k qs bm \<le> unat limit * Suc ((end_time t qs - t) div 10001)
    \<and> (\<forall>q r bm'. run_request hash limits q bm = (Err r, bm') \<longrightarrow> bm' = bm)"
  using accepted_fresh [OF assms] run_request_refused by (fastforce simp: is_ok_iff)

text \<open>Three edits of the same user within ten seconds: the third is refused.\<close>

definition edit_request :: "nat \<Rightarrow> limited_request" where
  "edit_request t = \<lparr>lr_clock = (\<lambda>_. t), lr_identifier = ''me'', lr_bucket = delta_resolve_bucket Patch [''users'', ''me'']\<rparr>"

theorem ratelimit_bounds_requests_witness:
  "accepted length delta_bucket_limit (bucket_key length ''me'' (''user_edit'', Some ''me''))
     [edit_request 0, edit_request 5, edit_request 9000] [] \<le> 2"
proof -
  have b: "delta_resolve_bucket Patch [''users'', ''me''] = (''user_edit'', Some ''me'')"
    by (simp add: delta_resolve_bucket_def routed_segment_def)
  then have "in_order 0 [edit_request 0, edit_request 5, edit_request 9000]"
    "key_limit length delta_bucket_limit (bucket_key length ''me'' (''user_edit'', Some ''me'')) 2
       [edit_request 0, edit_request 5, edit_request 9000]"
    by (simp_all add: edit_request_def key_limit_def delta_bucket_limit_def mono_def)
  then show ?thesis
    using ratelimit_bounds_requests [of "[]" _ 0 _ length delta_bucket_limit 2]
    by (fastforce simp: edit_request_def)
qed

end
