(* ===== verification/Files.thy ===== *)
theory Files
  imports World
begin

text \<open>
  Uses of uploaded files (\<open>crates/core/database/src/models/files/model.rs\<close>): each marks a file of one tag
  as used for an object and gives it a new uploader.
\<close>

definition use_file :: "string \<Rightarrow> file_used_for_type \<Rightarrow> string \<Rightarrow> string \<Rightarrow> string \<Rightarrow> stored_file handler" where
  "use_file tag kind i parent uploader =
     on_db (find_and_use_attachment i tag \<lparr>used_object_type = kind, used_id = parent\<rparr> uploader)"

definition use_attachment :: "string \<Rightarrow> string \<Rightarrow> string \<Rightarrow> stored_file handler" where
  "use_attachment = use_file ''attachments'' ForMessage"

definition use_background :: "string \<Rightarrow> string \<Rightarrow> string \<Rightarrow> stored_file handler" where
  "use_background = use_file ''backgrounds'' ForUserProfileBackground"

definition use_user_avatar :: "string \<Rightarrow> string \<Rightarrow> string \<Rightarrow> stored_file handler" where
  "use_user_avatar = use_file ''avatars'' ForUserAvatar"

definition use_webhook_avatar :: "string \<Rightarrow> string \<Rightarrow> string \<Rightarrow> stored_file handler" where
  "use_webhook_avatar = use_file ''avatars'' ForWebhookAvatar"

definition use_server_icon :: "string \<Rightarrow> string \<Rightarrow> string \<Rightarrow> stored_file handler" where
  "use_server_icon = use_file ''icons'' ForServerIcon"

definition use_channel_icon :: "string \<Rightarrow> string \<Rightarrow> string \<Rightarrow> stored_file handler" where
  "use_channel_icon = use_file ''icons'' ForChannelIcon"

definition use_server_banner :: "string \<Rightarrow> string \<Rightarrow> string \<Rightarrow> stored_file handler" where
  "use_server_banner = use_file ''banners'' ForServerBanner"

definition use_emoji :: "string \<Rightarrow> string \<Rightarrow> string \<Rightarrow> stored_file handler" where
  "use_emoji = use_file ''emojis'' ForEmoji"

text \<open>A use changes the files and nothing else.\<close>

lemma use_file_effect:
  assumes "use_file tag kind i parent uploader w = (r, w')"
  shows "w' = w\<lparr>w_db := w_db w\<lparr>db_files := db_files (w_db w')\<rparr>\<rparr>"
  using assms by (auto simp: use_file_def on_db_def find_and_use_attachment_def Let_def split: option.splits if_splits)

end
