(* ===== verification/Message_Parser.thy ===== *)
theory Message_Parser
  imports Prelude
begin

text \<open>
  The mention parser of messages, \<open>crates/core/parser/src/lib.rs\<close>.

  The lexer is derived by the \<open>logos\<close> macro; it is the parameter \<open>lexer\<close>, which gives the tokens of a
  text in order, without the errors that \<open>flatten\<close> drops. The iterator over the tokens is written as
  in the source: its state is the rest of the lexer and the buffer \<open>temp\<close>, and \<open>next\<close> returns an
  item and the new state. The loop of \<open>parse_message\<close> runs the iterator to its end; that it ends is the
  termination proof of \<open>parser_items\<close>. The lemmas compare the iterator with a direct recursion over the
  tokens and with what the tests of the file say about code blocks and escapes.
\<close>

section \<open>Tokens and the iterator\<close>

datatype MessageToken =
    Escape
  | CodeblockMarker usize
  | UserMention string
  | RoleMention string
  | MentionEveryone
  | MentionOnline

record MessageResults =
  user_mentions :: "string set"
  role_mentions :: "string set"
  mentions_everyone :: bool
  mentions_online :: bool

definition default_results :: MessageResults where
  "default_results = \<lparr>user_mentions = {}, role_mentions = {}, mentions_everyone = False, mentions_online = False\<rparr>"

record MessageParserIterator =
  parser_inner :: "MessageToken list"
  parser_temp :: "MessageToken list"

text \<open>The inner loop: buffer tokens until the marker is found again or the lexer ends.\<close>

fun scan_codeblock :: "usize \<Rightarrow> MessageToken list \<Rightarrow> MessageToken list \<Rightarrow> MessageToken option \<times> MessageParserIterator" where
  "scan_codeblock ty [] temp = (Some (CodeblockMarker ty), \<lparr>parser_inner = [], parser_temp = temp\<rparr>)"
| "scan_codeblock ty (token # inner) temp =
     (if token = CodeblockMarker ty
      then (Some token, \<lparr>parser_inner = inner, parser_temp = [CodeblockMarker ty]\<rparr>)
      else scan_codeblock ty inner (temp @ [token]))"

definition parser_next :: "MessageParserIterator \<Rightarrow> MessageToken option \<times> MessageParserIterator" where
  "parser_next it =
     (case parser_temp it of
        token # temp \<Rightarrow> (Some token, it\<lparr>parser_temp := temp\<rparr>)
      | [] \<Rightarrow>
          (case parser_inner it of
             [] \<Rightarrow> (None, it)
           | Escape # inner \<Rightarrow> (Some Escape, it\<lparr>parser_inner := tl inner\<rparr>)
           | CodeblockMarker ty # inner \<Rightarrow> scan_codeblock ty inner []
           | token # inner \<Rightarrow> (Some token, it\<lparr>parser_inner := inner\<rparr>)))"

definition parse_message_iter :: "(string \<Rightarrow> MessageToken list) \<Rightarrow> string \<Rightarrow> MessageParserIterator" where
  "parse_message_iter lexer text = \<lparr>parser_inner = lexer text, parser_temp = []\<rparr>"

text \<open>Every item costs at least one unit: a token in the buffer counts one, a token of the lexer two.\<close>

definition iterator_size :: "MessageParserIterator \<Rightarrow> nat" where
  "iterator_size it = 2 * length (parser_inner it) + length (parser_temp it)"

lemma scan_codeblock_size:
  "scan_codeblock ty inner temp = (token, it) \<Longrightarrow> iterator_size it \<le> Suc (2 * length inner + length temp)"
  by (induction ty inner temp rule: scan_codeblock.induct) (auto simp: iterator_size_def split: if_splits)

lemma parser_next_size: "parser_next it = (Some token, it') \<Longrightarrow> iterator_size it' < iterator_size it"
  by (auto simp: parser_next_def iterator_size_def [of it] split: list.splits MessageToken.splits dest!: scan_codeblock_size)
     (auto simp: iterator_size_def)

function parser_items :: "MessageParserIterator \<Rightarrow> MessageToken list" where
  "parser_items it = (case parser_next it of (None, _) \<Rightarrow> [] | (Some token, it') \<Rightarrow> token # parser_items it')"
  by pat_completeness auto
termination
  by (relation "measure iterator_size") (auto dest: parser_next_size [OF sym])

declare parser_items.simps [simp del]

fun add_token :: "MessageToken \<Rightarrow> MessageResults \<Rightarrow> MessageResults" where
  "add_token Escape r = r"
| "add_token (CodeblockMarker _) r = r"
| "add_token (UserMention u) r = r\<lparr>user_mentions := insert u (user_mentions r)\<rparr>"
| "add_token (RoleMention u) r = r\<lparr>role_mentions := insert u (role_mentions r)\<rparr>"
| "add_token MentionEveryone r = r\<lparr>mentions_everyone := True\<rparr>"
| "add_token MentionOnline r = r\<lparr>mentions_online := True\<rparr>"

definition parse_message :: "(string \<Rightarrow> MessageToken list) \<Rightarrow> string \<Rightarrow> MessageResults" where
  "parse_message lexer text = fold add_token (parser_items (parse_message_iter lexer text)) default_results"

section \<open>What the iterator yields\<close>

definition mentioned :: "MessageToken set \<Rightarrow> MessageResults" where
  "mentioned ts = \<lparr>user_mentions = {u. UserMention u \<in> ts}, role_mentions = {u. RoleMention u \<in> ts},
     mentions_everyone = (MentionEveryone \<in> ts), mentions_online = (MentionOnline \<in> ts)\<rparr>"

lemma fold_add_token: "fold add_token ts (mentioned S) = mentioned (S \<union> set ts)"
proof (induction ts arbitrary: S)
  case (Cons t ts)
  have "add_token t (mentioned S) = mentioned (insert t S)"
    by (cases t) (auto simp: mentioned_def)
  then show ?case using Cons by simp
qed simp

lemma parse_message_mentioned: "parse_message lexer text = mentioned (set (parser_items (parse_message_iter lexer text)))"
  using fold_add_token [of _ "{}"] by (simp add: parse_message_def default_results_def mentioned_def)

text \<open>The tokens that count, by recursion over the tokens of the lexer.\<close>

fun drop_past :: "MessageToken \<Rightarrow> MessageToken list \<Rightarrow> MessageToken list" where
  "drop_past m [] = []"
| "drop_past m (t # ts) = (if t = m then ts else drop_past m ts)"

lemma length_drop_past: "length (drop_past m ts) \<le> length ts"
  by (induction ts) auto

function counted :: "MessageToken list \<Rightarrow> MessageToken list" where
  "counted [] = []"
| "counted (Escape # ts) = counted (tl ts)"
| "counted (CodeblockMarker ty # ts) =
     (if CodeblockMarker ty \<in> set ts then counted (drop_past (CodeblockMarker ty) ts) else ts)"
| "counted (UserMention u # ts) = UserMention u # counted ts"
| "counted (RoleMention u # ts) = RoleMention u # counted ts"
| "counted (MentionEveryone # ts) = MentionEveryone # counted ts"
| "counted (MentionOnline # ts) = MentionOnline # counted ts"
  by pat_completeness auto
termination
  by (relation "measure length") (auto simp: le_imp_less_Suc length_drop_past)

lemma scan_codeblock_eq:
  "scan_codeblock ty inner temp =
     (Some (CodeblockMarker ty),
      if CodeblockMarker ty \<in> set inner
      then \<lparr>parser_inner = drop_past (CodeblockMarker ty) inner, parser_temp = [CodeblockMarker ty]\<rparr>
      else \<lparr>parser_inner = [], parser_temp = temp @ inner\<rparr>)"
  by (induction ty inner temp rule: scan_codeblock.induct) auto

lemma parser_items_temp:
  "parser_items \<lparr>parser_inner = inner, parser_temp = temp\<rparr> =
   temp @ parser_items \<lparr>parser_inner = inner, parser_temp = []\<rparr>"
  by (induction temp) (subst parser_items.simps, simp add: parser_next_def)+

lemma parser_items_end: "parser_items \<lparr>parser_inner = [], parser_temp = temp\<rparr> = temp"
  by (induction temp) (subst parser_items.simps, simp add: parser_next_def)+

lemma mentioned_markers:
  "mentioned (insert Escape S) = mentioned S" "mentioned (insert (CodeblockMarker ty) S) = mentioned S"
  by (auto simp: mentioned_def)

lemma mentioned_insert: "mentioned S = mentioned T \<Longrightarrow> mentioned (insert t S) = mentioned (insert t T)"
  by (cases t) (auto simp: mentioned_def)

lemma parser_items_counted:
  "mentioned (set (parser_items \<lparr>parser_inner = ts, parser_temp = []\<rparr>)) = mentioned (set (counted ts))"
proof (induction ts rule: counted.induct)
  case (3 ty ts)
  then show ?case
    by (subst parser_items.simps)
       (simp add: parser_next_def scan_codeblock_eq parser_items_temp [of _ "[_]"] parser_items_end mentioned_markers)
qed (subst parser_items.simps, auto simp: parser_next_def mentioned_markers intro: mentioned_insert)+

fun marker :: "MessageToken \<Rightarrow> bool" where
  "marker Escape = True"
| "marker (CodeblockMarker _) = True"
| "marker (UserMention _) = False"
| "marker (RoleMention _) = False"
| "marker MentionEveryone = False"
| "marker MentionOnline = False"

lemma counted_plain: "\<forall>t\<in>set pre. \<not> marker t \<Longrightarrow> counted (pre @ ts) = pre @ counted ts"
proof (induction pre)
  case (Cons t pre)
  then show ?case by (cases t) auto
qed simp

lemma drop_past_append: "m \<notin> set mid \<Longrightarrow> drop_past m (mid @ m # post) = post"
  by (induction mid) auto

lemma parse_message_counted: "parse_message lexer text = mentioned (set (counted (lexer text)))"
  by (simp add: parse_message_mentioned parse_message_iter_def parser_items_counted)

section \<open>Properties\<close>

text \<open>C35: the mentions of a message are those of the tokens that count. The iterator ends on every message, and
  its buffered look-ahead gives the same mentions as the direct recursion over the tokens in which an
  escape drops the next token, a closed code block is dropped with its contents, and everything behind a
  code block that is never closed counts as it stands.\<close>

theorem parse_message_refines_counted:
  "parse_message lexer text =
     \<lparr>user_mentions = {u. UserMention u \<in> set (counted (lexer text))},
      role_mentions = {u. RoleMention u \<in> set (counted (lexer text))},
      mentions_everyone = (MentionEveryone \<in> set (counted (lexer text))),
      mentions_online = (MentionOnline \<in> set (counted (lexer text)))\<rparr>"
  by (simp add: parse_message_counted mentioned_def)

text \<open>Escapes and code blocks cut a message where they stand. Behind a prefix without markers, an escape
  removes exactly the token that follows, however much text lies between them; a closed block removes
  exactly its contents, whatever other markers and escapes these contain; and in a block that is never
  closed every later mention counts, even an escaped one.\<close>

lemma parse_message_markers:
  assumes "\<forall>t\<in>set pre. \<not> marker t"
  shows "(lexer text = pre @ Escape # t # post \<and> lexer rest = pre @ post
            \<longrightarrow> parse_message lexer text = parse_message lexer rest)
    \<and> (lexer text = pre @ CodeblockMarker n # mid @ CodeblockMarker n # post \<and> CodeblockMarker n \<notin> set mid
         \<and> lexer rest = pre @ post \<longrightarrow> parse_message lexer text = parse_message lexer rest)
    \<and> (lexer text = pre @ CodeblockMarker n # mid \<and> CodeblockMarker n \<notin> set mid
         \<longrightarrow> user_mentions (parse_message lexer text) = {u. UserMention u \<in> set (pre @ mid)}
             \<and> (mentions_everyone (parse_message lexer text) \<longleftrightarrow> MentionEveryone \<in> set (pre @ mid)))"
  using assms
  by (auto simp: parse_message_counted counted_plain drop_past_append mentioned_def)

text \<open>A lexer with three texts: an escaped mention far behind its backslash, an unclosed block, and both removed.\<close>

definition toy_lexer :: "string \<Rightarrow> MessageToken list" where
  "toy_lexer text =
     (if text = CHR 0x5C # ''dir @online @everyone'' then [Escape, MentionOnline, MentionEveryone]
      else if text = CHR 0x60 # CHR 0x5C # ''@everyone'' then [CodeblockMarker 1, Escape, MentionEveryone]
      else if text = ''@everyone'' then [MentionEveryone] else [])"

lemma parse_message_markers_example:
  "parse_message toy_lexer (CHR 0x5C # ''dir @online @everyone'') = parse_message toy_lexer ''@everyone''
   \<and> mentions_everyone (parse_message toy_lexer (CHR 0x60 # CHR 0x5C # ''@everyone''))"
  using parse_message_markers [of "[]" toy_lexer "CHR 0x5C # ''dir @online @everyone''" MentionOnline "[MentionEveryone]" "''@everyone''" 1 "[]"]
    parse_message_markers [of "[]" toy_lexer "CHR 0x60 # CHR 0x5C # ''@everyone''" Escape "[]" "[]" 1 "[Escape, MentionEveryone]"]
  by (simp add: toy_lexer_def)

end
