(* ===== verification/Idempotency.thy ===== *)
theory Idempotency
  imports Result_Errors
begin

text \<open>
  Idempotency keys, \<open>crates/core/database/src/util/idempotency.rs\<close>.

  The cache of seen keys is an \<open>LruCache\<close> of the \<open>lru\<close> crate, shared by all requests behind a mutex.
  The crate is a parameter: \<open>lru\<close> has the two operations the code calls, and \<open>lru_laws\<close> states their
  documented behaviour over the keys of the cache, most recently used first. The request guard
  \<open>from_request\<close> and \<open>consume_nonce\<close> pass the cache along; each holds the lock from its lookup to its
  insertion, so requests are a sequence of these operations. The lemmas show how long a key is remembered.
\<close>

section \<open>The cache\<close>

record 'c lru =
  lru_get :: "string \<Rightarrow> 'c \<Rightarrow> bool \<times> 'c"
  lru_put :: "string \<Rightarrow> 'c \<Rightarrow> 'c"

definition touched :: "'a \<Rightarrow> 'a list \<Rightarrow> 'a list" where
  "touched k xs = k # remove1 k xs"

definition lru_laws :: "'c lru \<Rightarrow> ('c \<Rightarrow> bool) \<Rightarrow> ('c \<Rightarrow> string list) \<Rightarrow> usize \<Rightarrow> bool" where
  "lru_laws L valid contents cap \<longleftrightarrow>
     (\<forall>c k. valid c \<longrightarrow> distinct (contents c) \<and> valid (snd (lru_get L k c)) \<and> valid (lru_put L k c)
        \<and> fst (lru_get L k c) = (k \<in> set (contents c))
        \<and> contents (snd (lru_get L k c)) = (if k \<in> set (contents c) then touched k (contents c) else contents c)
        \<and> contents (lru_put L k c) = take cap (touched k (contents c)))"

section \<open>Keys of requests\<close>

record IdempotencyKey =
  idempotency_key :: string

text \<open>\<open>TOKEN_CACHE\<close> is created with this capacity.\<close>

definition TOKEN_CACHE_SIZE :: usize where
  "TOKEN_CACHE_SIZE = 1000"

definition unchecked_from_string :: "string \<Rightarrow> IdempotencyKey" where
  "unchecked_from_string key = \<lparr>idempotency_key = key\<rparr>"

definition consume_nonce :: "'c lru \<Rightarrow> string option \<Rightarrow> IdempotencyKey \<Rightarrow> 'c \<Rightarrow> unit result \<times> IdempotencyKey \<times> 'c" where
  "consume_nonce L v self cache =
     (case v of
        None \<Rightarrow> (Ok (), self, cache)
      | Some v \<Rightarrow>
          let (seen, cache) = lru_get L v cache in
          if seen then (Err DuplicateNonce, self, cache)
          else (Ok (), self\<lparr>idempotency_key := v\<rparr>, lru_put L v cache))"

definition into_key :: "IdempotencyKey \<Rightarrow> string" where
  "into_key self = idempotency_key self"

text \<open>\<open>headers\<close> are the values of the header Idempotency-Key, \<open>ulid\<close> is the identifier that is generated
  when there is none. A failure comes with the status the guard sets itself.\<close>

definition from_request :: "'c lru \<Rightarrow> string \<Rightarrow> string list \<Rightarrow> 'c \<Rightarrow> (status_code \<times> error_type, IdempotencyKey) res \<times> 'c" where
  "from_request L ulid headers cache =
     (case headers of
        [] \<Rightarrow> (Ok \<lparr>idempotency_key = ulid\<rparr>, cache)
      | key # _ \<Rightarrow>
          if length key > 64 then (Err (BAD_REQUEST, FailedValidation ''idempotency key too long''), cache)
          else
            let (seen, cache) = lru_get L key cache in
            if seen then (Err (CONFLICT, DuplicateNonce), cache)
            else (Ok \<lparr>idempotency_key = key\<rparr>, lru_put L key cache))"

section \<open>Sequences of requests\<close>

datatype idempotent_call = Guard string "string list" | Nonce "string option" IdempotencyKey

fun run_call :: "'c lru \<Rightarrow> idempotent_call \<Rightarrow> 'c \<Rightarrow> 'c" where
  "run_call L (Guard ulid headers) cache = snd (from_request L ulid headers cache)"
| "run_call L (Nonce v self) cache = snd (snd (consume_nonce L v self cache))"

fun call_key :: "idempotent_call \<Rightarrow> string set" where
  "call_key (Guard ulid headers) = (case headers of [] \<Rightarrow> {} | key # _ \<Rightarrow> {key})"
| "call_key (Nonce v self) = (case v of None \<Rightarrow> {} | Some v \<Rightarrow> {v})"

text \<open>A call leaves the cache, or looks its key up and then perhaps inserts it.\<close>

lemma run_call_cases:
  "run_call L q c = c \<or> (\<exists>k\<in>call_key q. run_call L q c \<in> {snd (lru_get L k c), lru_put L k (snd (lru_get L k c))})"
  by (cases q) (auto simp: from_request_def consume_nonce_def Let_def split: list.splits option.splits prod.splits)

text \<open>The key \<open>k\<close> is remembered, and only keys of \<open>S\<close> were used after it.\<close>

definition remembered :: "'a set \<Rightarrow> 'a \<Rightarrow> 'a list \<Rightarrow> bool" where
  "remembered S k xs \<longleftrightarrow> (\<exists>pre post. xs = pre @ k # post \<and> set pre \<subseteq> S)"

lemma rememberedI: "xs = pre @ k # post \<Longrightarrow> set pre \<subseteq> S \<Longrightarrow> remembered S k xs"
  by (auto simp: remembered_def)

lemma remembered_touched:
  assumes "remembered S k xs" "distinct xs" "j \<in> insert k S"
  shows "remembered S k (touched j xs)"
proof -
  obtain pre post where xs: "xs = pre @ k # post" "set pre \<subseteq> S" using assms(1) by (auto simp: remembered_def)
  consider "j = k" | "j \<noteq> k" "j \<in> set pre" | "j \<noteq> k" "j \<notin> set pre" by blast
  then show ?thesis
  proof cases
    case 1
    then show ?thesis by (intro rememberedI [of _ "[]" _ "remove1 k xs"]) (auto simp: touched_def)
  next
    case 2
    then show ?thesis
      using xs assms(3) set_remove1_subset [of j pre]
      by (intro rememberedI [of _ "j # remove1 j pre" _ post]) (auto simp: touched_def remove1_append)
  next
    case 3
    then show ?thesis
      using xs assms(3) by (intro rememberedI [of _ "j # pre" _ "remove1 j post"]) (auto simp: touched_def remove1_append)
  qed
qed

lemma distinct_touched: "distinct xs \<Longrightarrow> distinct (touched k xs)"
  by (simp add: touched_def)

lemma remembered_take:
  assumes "remembered S k xs" "distinct xs" "finite S" "card S < n"
  shows "remembered S k (take n xs)"
proof -
  obtain pre post where xs: "xs = pre @ k # post" "set pre \<subseteq> S" using assms(1) by (auto simp: remembered_def)
  then have "length pre \<le> card S" using assms(2,3) card_mono [of S "set pre"] by (simp add: distinct_card)
  then have "take n xs = pre @ k # take (n - Suc (length pre)) post" using xs(1) assms(4) by (simp add: take_Cons')
  then show ?thesis using xs(2) by (auto simp: remembered_def)
qed

lemma run_call_remembered:
  assumes "lru_laws L valid contents n" "valid c" "remembered S k (contents c)"
    and "call_key q \<subseteq> insert k S" "finite S" "card S < n"
  shows "valid (run_call L q c) \<and> remembered S k (contents (run_call L q c))"
proof -
  have laws: "distinct (contents c)" "valid (snd (lru_get L j c))" "valid (lru_put L j c)"
    "contents (snd (lru_get L j c)) = (if j \<in> set (contents c) then touched j (contents c) else contents c)"
    "contents (lru_put L j c) = take n (touched j (contents c))" if "valid c" for c j
    using assms(1) that by (auto simp: lru_laws_def)
  have get: "valid (snd (lru_get L j c)) \<and> remembered S k (contents (snd (lru_get L j c)))" if "j \<in> call_key q" for j
    using laws [OF assms(2)] assms(3,4) that by (auto intro: remembered_touched)
  have put: "valid (lru_put L j d) \<and> remembered S k (contents (lru_put L j d))"
    if "valid d" "remembered S k (contents d)" "j \<in> call_key q" for j d
    using laws [OF that(1)] that(2,3) assms(4-6)
    by (auto intro!: remembered_take remembered_touched distinct_touched)
  show ?thesis using run_call_cases [of L q c] assms(2,3) get put by auto
qed

lemma fold_run_call_remembered:
  assumes "lru_laws L valid contents n" "finite S" "card S < n"
  shows "valid c \<Longrightarrow> remembered S k (contents c) \<Longrightarrow> \<Union> (call_key ` set qs) \<subseteq> insert k S \<Longrightarrow>
    valid (fold (run_call L) qs c) \<and> remembered S k (contents (fold (run_call L) qs c))"
proof (induction qs arbitrary: c)
  case (Cons q qs)
  then show ?case using run_call_remembered [OF assms(1) Cons.prems(1,2) _ assms(2,3), of q] by auto
qed simp

section \<open>Properties\<close>

text \<open>C36: an accepted idempotency key is not accepted again while it is remembered. After the guard has accepted
  a key, and whatever requests come after it, a second use as a header is refused with 409 and a second
  use as a nonce with DuplicateNonce, as long as these requests used fewer than a thousand other keys.
  The guard answers a key of more than 64 bytes with 400 and does not remember it.\<close>

theorem idempotency_key_accepted_once:
  assumes "lru_laws L valid contents TOKEN_CACHE_SIZE" "valid c"
    and "from_request L ulid (k # hs) c = (Ok key, c')"
    and "card (\<Union> (call_key ` set qs) - {k}) < TOKEN_CACHE_SIZE"
  shows "into_key key = k \<and> length k \<le> 64
    \<and> fst (from_request L ulid' (k # hs') (fold (run_call L) qs c')) = Err (CONFLICT, DuplicateNonce)
    \<and> fst (consume_nonce L (Some k) self (fold (run_call L) qs c')) = Err DuplicateNonce
    \<and> (length big > 64 \<longrightarrow> from_request L ulid' (big # hs') c =
          (Err (BAD_REQUEST, FailedValidation ''idempotency key too long''), c))"
proof -
  let ?S = "\<Union> (call_key ` set qs) - {k}" and ?d = "fold (run_call L) qs c'"
  have key: "into_key key = k" "length k \<le> 64" and c': "c' = lru_put L k (snd (lru_get L k c))"
    using assms(3) by (auto simp: from_request_def into_key_def split: if_splits prod.splits)
  have "finite (call_key q)" for q by (cases q) (auto split: list.splits option.splits)
  then have fin: "finite ?S" by simp
  have "valid c'" "remembered ?S k (contents c')"
    using assms(1,2) by (auto simp: c' lru_laws_def touched_def TOKEN_CACHE_SIZE_def intro!: rememberedI [of _ "[]"])
  then have "valid ?d" "remembered ?S k (contents ?d)"
    using fold_run_call_remembered [OF assms(1) fin assms(4)] by blast+
  then have "fst (lru_get L k ?d)" using assms(1) by (auto simp: lru_laws_def remembered_def)
  then show ?thesis
    using key by (auto simp: from_request_def consume_nonce_def split: prod.splits)
qed

text \<open>A cache that is the list of its keys.\<close>

definition list_lru :: "string list lru" where
  "list_lru = \<lparr>lru_get = (\<lambda>k xs. (k \<in> set xs, if k \<in> set xs then touched k xs else xs)),
     lru_put = (\<lambda>k xs. take TOKEN_CACHE_SIZE (touched k xs))\<rparr>"

lemma list_lru_laws: "lru_laws list_lru distinct (\<lambda>xs. xs) TOKEN_CACHE_SIZE"
  by (auto simp: lru_laws_def list_lru_def distinct_touched)

theorem idempotency_key_accepted_once_witness:
  "fst (from_request list_lru '''' [''a''] (run_call list_lru (Guard '''' [''b'']) (snd (from_request list_lru '''' [''a''] []))))
     = Err (CONFLICT, DuplicateNonce)"
proof -
  have "from_request list_lru '''' [''a''] [] = (Ok \<lparr>idempotency_key = ''a''\<rparr>, [''a''])"
    by (simp add: from_request_def list_lru_def touched_def TOKEN_CACHE_SIZE_def)
  then show ?thesis
    using idempotency_key_accepted_once [OF list_lru_laws, of "[]" _ "''a''" "[]" _ _ "[Guard '''' [''b'']]"]
    by (simp add: TOKEN_CACHE_SIZE_def)
qed

end
