(* ===== verification/Messages.thy ===== *)
theory Messages
  imports Files Bulk_Permissions Message_Parser Idempotency
begin

unbundle bit_operations_syntax

text \<open>
  Messages (\<open>crates/core/database/src/models/messages/model.rs\<close>), the emoji they react with
  (\<open>emojis/model.rs\<close>) and the route that sends them (\<open>crates/delta/src/routes/channels/message_send.rs\<close>).

  What the code takes from outside is the record \<open>message_env\<close>: the configuration it reads, the clock, the
  lexer of the mention parser, the ULID parser, the list of unicode emoji, and the order in which a
  \<open>HashSet\<close> is iterated. A message that is published carries the message itself; the user and member
  that accompany it and the contents of push notifications are left out.
\<close>

section \<open>Data\<close>

record sendable_embed =
  se_icon_url :: "string option"
  se_url :: "string option"
  se_title :: "string option"
  se_description :: "string option"
  se_media :: "string option"
  se_colour :: "string option"

record reply_intent =
  reply_id :: string
  reply_mention :: bool
  reply_fail_if_not_exists :: "bool option"

record data_message_send =
  dms_nonce :: "string option"
  dms_content :: "string option"
  dms_attachments :: "string list option"
  dms_replies :: "reply_intent list option"
  dms_embeds :: "sendable_embed list option"
  dms_masquerade :: "masquerade option"
  dms_interactions :: "interactions option"
  dms_flags :: "u32 option"

record author_webhook =
  aw_id :: string
  aw_name :: string
  aw_avatar :: "string option"

datatype (plugins only: ) message_author =
    AuthorUser user
  | AuthorWebhook author_webhook
  | AuthorSystem string "string option"

fun author_id :: "message_author \<Rightarrow> string" where
  "author_id (AuthorUser u) = user_id u"
| "author_id (AuthorWebhook h) = aw_id h"
| "author_id (AuthorSystem _ _) = system_author"

record message_env =
  env_limits :: global_limits
  env_mass_mentions_enabled :: bool
  env_now :: timestamp
  env_lexer :: "string \<Rightarrow> MessageToken list"
  env_is_ulid :: "string \<Rightarrow> bool"
  env_permissible_emojis :: "string set"
  env_order :: "string set \<Rightarrow> string list"

text \<open>The author of a message is a user of the API; turned back into a user of the database it has lost its
  relations and its profile.\<close>

definition user_from_api :: "user \<Rightarrow> user" where
  "user_from_api u = u\<lparr>user_relations := None, user_profile := None, user_suspended_until := None,
     user_last_acknowledged_policy_change := 0\<rparr>"

section \<open>Emoji\<close>

definition emoji_create :: "emoji \<Rightarrow> unit handler" where
  "emoji_create e = io_then (on_db (insert_emoji e)) (publish (emoji_parent_id (emoji_parent e)) (EvEmojiCreate e))"

definition emoji_delete :: "emoji \<Rightarrow> unit handler" where
  "emoji_delete e = io_then (publish (emoji_parent_id (emoji_parent e)) (EvEmojiDelete (emoji_id e)))
     (on_db (detach_emoji e))"

definition emoji_can_use :: "message_env \<Rightarrow> reference_db \<Rightarrow> string \<Rightarrow> bool result" where
  "emoji_can_use env db emoji =
     (if env_is_ulid env emoji then res_bind (fetch_emoji db emoji) (\<lambda>_. Ok True)
      else Ok (emoji \<in> env_permissible_emojis env))"

fun all_emoji_usable :: "message_env \<Rightarrow> reference_db \<Rightarrow> string list \<Rightarrow> unit result" where
  "all_emoji_usable env db [] = Ok ()"
| "all_emoji_usable env db (e # es) =
     res_bind (emoji_can_use env db e) (\<lambda>ok. if ok then all_emoji_usable env db es else Err InvalidOperation)"

definition interactions_validate :: "message_env \<Rightarrow> reference_db \<Rightarrow> permission_value \<Rightarrow> interactions \<Rightarrow> unit result" where
  "interactions_validate env db permissions i =
     (case int_reactions i of
        None \<Rightarrow> Ok ()
      | Some reactions \<Rightarrow>
          res_bind (throw_if_lacking_channel_permission permissions React) (\<lambda>_.
            if length reactions > lim_message_reactions (env_limits env) then Err InvalidOperation
            else all_emoji_usable env db reactions))"

section \<open>Sending\<close>

text \<open>The lengths are those of the UTF-8 encodings.\<close>

definition validate_sum :: "string option \<Rightarrow> sendable_embed list \<Rightarrow> usize \<Rightarrow> unit result" where
  "validate_sum content embeds max_length =
     (let total = (case content of None \<Rightarrow> 0 | Some c \<Rightarrow> length c)
            + (\<Sum>e\<leftarrow>embeds. case se_description e of None \<Rightarrow> 0 | Some d \<Rightarrow> length d)
      in if total \<le> max_length then Ok () else Err PayloadTooLarge)"

definition send_without_notifications :: "message \<Rightarrow> bool \<Rightarrow> bool \<Rightarrow> unit handler" where
  "send_without_notifications m is_dm mentions_elsewhere =
     io_then
       (if is_dm then publish (msg_channel m) (EvMessage m)
        else io_then (on_db (insert_message m)) (publish (msg_channel m) (EvMessage m)))
     (io_then (queue_task (QueueLastMessageId (msg_channel m) (msg_id m) is_dm))
       (if mentions_elsewhere then io_return ()
        else (case msg_mentions m of
          None \<Rightarrow> io_return ()
        | Some us \<Rightarrow>
            queue_task (QueueProcessMessage (msg_channel m) m us (has_suppressed_notifications m)))))"

definition notified_users :: "channel \<Rightarrow> message \<Rightarrow> string list" where
  "notified_users c m =
     (case c of
        DirectMessage d \<Rightarrow> dm_recipients d
      | Group g \<Rightarrow> group_recipients g
      | TextChannel t \<Rightarrow> (case msg_mentions m of None \<Rightarrow> [] | Some ms \<Rightarrow> ms)
      | SavedMessages s \<Rightarrow> [])"

definition send :: "message \<Rightarrow> channel \<Rightarrow> unit handler" where
  "send m c =
     io_then (send_without_notifications m (is_direct_dm c) True)
       (if \<not> has_suppressed_notifications m \<and> (msg_mentions m \<noteq> None \<or> contains_mass_push_mention m)
        then queue_task (QueueProcessMessage (msg_channel m) m (notified_users c m) False)
        else io_return ())"

definition text_embed_of :: "sendable_embed \<Rightarrow> stored_file option \<Rightarrow> embed" where
  "text_embed_of e media = EmbedText \<lparr>te_icon_url = se_icon_url e, te_url = se_url e, te_title = se_title e,
     te_description = se_description e, te_media = media, te_colour = se_colour e\<rparr>"

definition use_embed_media :: "sendable_embed \<Rightarrow> message \<Rightarrow> stored_file option handler" where
  "use_embed_media e m =
     (case se_media e of
        None \<Rightarrow> io_return None
      | Some i \<Rightarrow> io_bind (use_attachment i (msg_id m) (msg_author m)) (\<lambda>f. io_return (Some f)))"

text \<open>\<open>create_embed\<close> checks the embed first; the checks are derived by the validator crate.\<close>

definition create_embed :: "(sendable_embed \<Rightarrow> string option) \<Rightarrow> message \<Rightarrow> sendable_embed \<Rightarrow> embed handler" where
  "create_embed validate m e =
     (case validate e of
        Some error \<Rightarrow> io_fail (FailedValidation error)
      | None \<Rightarrow> io_bind (use_embed_media e m) (\<lambda>media. io_return (text_embed_of e media)))"

definition attach_sendable_embed :: "message \<Rightarrow> sendable_embed \<Rightarrow> message handler" where
  "attach_sendable_embed m e =
     io_bind (use_embed_media e m) (\<lambda>media.
       io_return (m\<lparr>msg_embeds := Some (case msg_embeds m of
           Some embeds \<Rightarrow> embeds @ [text_embed_of e media] | None \<Rightarrow> [text_embed_of e media])\<rparr>))"

subsection \<open>Mentions\<close>

text \<open>The flags a sender sets: suppress notifications, mention everyone, mention who is online.\<close>

definition requested_flags :: "bool \<Rightarrow> user option \<Rightarrow> u32 option \<Rightarrow> (bool \<times> bool \<times> bool) result" where
  "requested_flags allow_mentions u flags =
     (case flags of
        None \<Rightarrow> Ok (False, False, False)
      | Some raw \<Rightarrow>
          if raw > 7 then Err InvalidProperty
          else let suppress = flags_has raw SuppressNotifications;
                 everyone = (allow_mentions \<and> flags_has raw MentionsEveryone);
                 online = (allow_mentions \<and> flags_has raw MentionsOnline)
               in if (case u of Some u \<Rightarrow> user_bot u = None | None \<Rightarrow> False) \<and> (everyone \<or> online) then Err IsNotBot
                  else if everyone \<and> online then Err InvalidFlagValue
                  else Ok (suppress, everyone, online))"

definition known_roles :: "reference_db \<Rightarrow> string option \<Rightarrow> string set \<Rightarrow> string set result" where
  "known_roles db sid roles =
     (case sid of
        None \<Rightarrow> Ok roles
      | Some s \<Rightarrow> (case fetch_server db s of
            Ok server \<Rightarrow> Ok {r \<in> roles. hm_contains (server_roles server) r}
          | _ \<Rightarrow> Panic))"

definition mentioned_roles :: "reference_db \<Rightarrow> string option \<Rightarrow> bool \<Rightarrow> string set \<Rightarrow> string set result" where
  "mentioned_roles db sid allow_mass roles =
     (if allow_mass \<and> sid \<noteq> None \<and> roles \<noteq> {} then known_roles db sid roles else Ok roles)"


definition author_permissions :: "message_env \<Rightarrow> reference_db \<Rightarrow> user \<Rightarrow> channel \<Rightarrow> permission_value result" where
  "author_permissions env db u c =
     (case calculate_channel_permissions (db_query (env_now env)) (with_channel c (new_query (reference_database db) u)) of
        Some (p, _) \<Rightarrow> Ok p
      | None \<Rightarrow> Panic)"

text \<open>Whether the author may mention everyone, the online users and these roles; when mass mentions are
  switched off they are dropped silently.\<close>

definition allowed_mass_mentions :: "message_env \<Rightarrow> reference_db \<Rightarrow> message_author \<Rightarrow> channel \<Rightarrow> bool \<Rightarrow> bool \<Rightarrow> string set
    \<Rightarrow> (bool \<times> bool \<times> string set) result" where
  "allowed_mass_mentions env db author c everyone online roles =
     (if \<not> env_mass_mentions_enabled env \<and> (everyone \<or> online \<or> roles \<noteq> {}) then Ok (False, False, {})
      else if everyone \<or> online \<or> roles \<noteq> {} then
        (case author of
           AuthorSystem _ _ \<Rightarrow> Err InvalidProperty
         | AuthorWebhook _ \<Rightarrow> Ok (everyone, online, roles)
         | AuthorUser u \<Rightarrow>
             res_bind (author_permissions env db (user_from_api u) c) (\<lambda>perms.
               if (everyone \<or> online) \<and> \<not> has_channel_permission perms channel_permission.MentionEveryone
               then Err (MissingPermission (channel_permission_name channel_permission.MentionEveryone))
               else if roles \<noteq> {} \<and> \<not> has_channel_permission perms MentionRoles
               then Err (MissingPermission (channel_permission_name MentionRoles))
               else Ok (everyone, online, roles)))
      else Ok (everyone, online, roles))"

fun resolve_replies :: "bool \<Rightarrow> reference_db \<Rightarrow> reply_intent list \<Rightarrow> string set \<Rightarrow> string list \<Rightarrow> (string set \<times> string list) result" where
  "resolve_replies allow_mentions db [] us replies = Ok (us, replies)"
| "resolve_replies allow_mentions db (e # es) us replies =
     (case fetch_message db (reply_id e) of
        Ok m \<Rightarrow> resolve_replies allow_mentions db es
          (if reply_mention e \<and> allow_mentions then insert (msg_author m) us else us)
          (set_insert (msg_id m) replies)
      | Err err \<Rightarrow>
          if err \<noteq> NotFound \<or> (case reply_fail_if_not_exists e of None \<Rightarrow> True | Some f \<Rightarrow> f) then Err err
          else resolve_replies allow_mentions db es us replies
      | Panic \<Rightarrow> Panic)"

definition message_replies :: "message_env \<Rightarrow> bool \<Rightarrow> reference_db \<Rightarrow> reply_intent list option \<Rightarrow> string set \<Rightarrow> (string set \<times> string list) result" where
  "message_replies env allow_mentions db entries us =
     (case entries of
        None \<Rightarrow> Ok (us, [])
      | Some es \<Rightarrow>
          if length es > lim_message_replies (env_limits env) then Err (TooManyReplies (lim_message_replies (env_limits env)))
          else resolve_replies allow_mentions db es us [])"

definition reference_bulk :: "reference_db \<Rightarrow> bulk_database" where
  "reference_bulk db = \<lparr>bdb_fetch_users = fetch_users db, bdb_fetch_members = fetch_members db\<rparr>"

text \<open>Who of the mentioned users can see the channel.\<close>

definition visible_mentions :: "message_env \<Rightarrow> reference_db \<Rightarrow> channel \<Rightarrow> string \<Rightarrow> string set \<Rightarrow> string set result" where
  "visible_mentions env db c sid us =
     (case fetch_members db sid (env_order env us) of
        Ok members \<Rightarrow>
          let us = {u \<in> us. u \<in> (\<lambda>m. key_user (member_id m)) ` set members} in
          if us = {} then Ok {}
          else (case fetch_server db sid of
              Ok s \<Rightarrow> (case members_can_see_channel (env_now env)
                         (bulk_with_members members (bulk_with_channel c (new_bulk (reference_bulk db) s))) of
                  Some (seen, _) \<Rightarrow> Ok {u \<in> us. map_of seen u = Some True}
                | None \<Rightarrow> Panic)
            | _ \<Rightarrow> Panic)
      | _ \<Rightarrow> Err InternalError)"

definition valid_mentions :: "message_env \<Rightarrow> reference_db \<Rightarrow> channel \<Rightarrow> string set \<Rightarrow> string set \<Rightarrow> (string set \<times> string set) result" where
  "valid_mentions env db c us roles =
     (if us = {} then Ok (us, roles)
      else case c of
        DirectMessage d \<Rightarrow> Ok ({u \<in> us. u \<in> set (dm_recipients d)}, {})
      | Group g \<Rightarrow> Ok ({u \<in> us. u \<in> set (group_recipients g)}, {})
      | TextChannel t \<Rightarrow>
          res_bind (visible_mentions env db c (text_server t) us) (\<lambda>us. Ok (us, roles))
      | SavedMessages s \<Rightarrow> Ok ({}, roles))"

definition non_empty :: "'a list \<Rightarrow> 'a list option" where
  "non_empty xs = (if xs = [] then None else Some xs)"

definition collected :: "message_env \<Rightarrow> string set \<Rightarrow> string list option" where
  "collected env xs = (if xs = {} then None else Some (env_order env xs))"

subsection \<open>\<open>create_from_api\<close>\<close>

definition is_empty_option :: "'a list option \<Rightarrow> bool" where
  "is_empty_option x \<longleftrightarrow> (case x of None \<Rightarrow> True | Some xs \<Rightarrow> xs = [])"

definition bad_interactions :: "interactions option \<Rightarrow> bool" where
  "bad_interactions i \<longleftrightarrow> (case i of
     None \<Rightarrow> False
   | Some i \<Rightarrow> int_restrict_reactions i \<and> is_empty_option (int_reactions i))"

text \<open>The checks up to the files: the mentions, roles, replies and flags of the message.\<close>

record message_plan =
  plan_mentions :: "string set"
  plan_roles :: "string set"
  plan_replies :: "string list"
  plan_flags :: u32

definition plan_message :: "message_env \<Rightarrow> reference_db \<Rightarrow> channel \<Rightarrow> data_message_send \<Rightarrow> message_author \<Rightarrow> user option \<Rightarrow> bool
    \<Rightarrow> message_plan result" where
  "plan_message env db c data author u allow_mentions =
     (if is_empty_option (dms_content data) \<and> is_empty_option (dms_attachments data) \<and> is_empty_option (dms_embeds data)
      then Err EmptyMessage
      else
      res_bind (requested_flags allow_mentions u (dms_flags data)) (\<lambda>(suppress, everyone, online).
      if bad_interactions (dms_interactions data) then Err InvalidProperty
      else let
        found = (case dms_content data of Some text \<Rightarrow> parse_message (env_lexer env) text | None \<Rightarrow> default_results);
        allow_mass = (allow_mentions \<and> env_mass_mentions_enabled env)
      in
      res_bind (mentioned_roles db (channel_server c) allow_mass (role_mentions found)) (\<lambda>roles.
      res_bind (allowed_mass_mentions env db author c (mentions_everyone found \<or> everyone) (mentions_online found \<or> online) roles)
        (\<lambda>(everyone, online, roles).
      res_bind (message_replies env allow_mentions db (dms_replies data) (user_mentions found)) (\<lambda>(us, replies).
      res_bind (valid_mentions env db c us roles) (\<lambda>(us, roles).
        Ok \<lparr>plan_mentions = us, plan_roles = roles, plan_replies = replies,
            plan_flags = final_message_flags suppress everyone online\<rparr>))))))"

definition planned_message :: "message_env \<Rightarrow> string \<Rightarrow> channel \<Rightarrow> data_message_send \<Rightarrow> message_author \<Rightarrow> message_plan \<Rightarrow> message" where
  "planned_message env ulid c data author plan = default_message\<lparr>msg_id := ulid, msg_channel := channel_id c,
     msg_author := author_id author,
     msg_webhook := (case author of AuthorWebhook h \<Rightarrow> Some \<lparr>mw_name = aw_name h, mw_avatar = aw_avatar h\<rparr> | _ \<Rightarrow> None),
     msg_mentions := collected env (plan_mentions plan),
     msg_role_mentions := collected env (plan_roles plan),
     msg_replies := non_empty (plan_replies plan),
     msg_interactions := (case dms_interactions data of Some i \<Rightarrow> i | None \<Rightarrow> default_interactions),
     msg_masquerade := dms_masquerade data, msg_flags := Some (plan_flags plan)\<rparr>"

fun use_attachments :: "string \<Rightarrow> string \<Rightarrow> string list \<Rightarrow> stored_file list handler" where
  "use_attachments message_id uploader [] = io_return []"
| "use_attachments message_id uploader (i # ids) =
     io_bind (use_attachment i message_id uploader) (\<lambda>f.
     io_bind (use_attachments message_id uploader ids) (\<lambda>fs. io_return (f # fs)))"

fun attach_embeds :: "message \<Rightarrow> sendable_embed list \<Rightarrow> message handler" where
  "attach_embeds m [] = io_return m"
| "attach_embeds m (e # es) = io_bind (attach_sendable_embed m e) (\<lambda>m. attach_embeds m es)"

definition option_list :: "'a list option \<Rightarrow> 'a list" where
  "option_list x = (case x of None \<Rightarrow> [] | Some xs \<Rightarrow> xs)"

text \<open>The files and embeds, and the message is sent; \<open>key\<close> is the idempotency key.\<close>

definition complete_message :: "message_env \<Rightarrow> features_limits \<Rightarrow> channel \<Rightarrow> data_message_send \<Rightarrow> message_author \<Rightarrow> string \<Rightarrow> message
    \<Rightarrow> message handler" where
  "complete_message env limits c data author key m =
     (if length (option_list (dms_attachments data)) > lim_message_attachments limits
      then io_fail (TooManyAttachments (lim_message_attachments limits))
      else if length (option_list (dms_embeds data)) > lim_message_embeds (env_limits env)
      then io_fail (TooManyEmbeds (lim_message_embeds (env_limits env)))
      else
      io_bind (use_attachments (msg_id m) (author_id author) (option_list (dms_attachments data))) (\<lambda>files.
      io_bind (attach_embeds (m\<lparr>msg_attachments := non_empty files\<rparr>) (option_list (dms_embeds data))) (\<lambda>m.
      let m = m\<lparr>msg_content := dms_content data, msg_nonce := Some key\<rparr> in
      io_then (send m c) (io_return m))))"

definition create_checked :: "message_env \<Rightarrow> features_limits \<Rightarrow> string \<Rightarrow> channel \<Rightarrow> data_message_send \<Rightarrow> message_author \<Rightarrow> user option \<Rightarrow> bool
    \<Rightarrow> string \<Rightarrow> message handler" where
  "create_checked env limits ulid c data author u allow_mentions key =
     io_bind (read_db (\<lambda>db. plan_message env db c data author u allow_mentions)) (\<lambda>plan.
       complete_message env limits c data author key (planned_message env ulid c data author plan))"

definition create_from_api :: "'c lru \<Rightarrow> message_env \<Rightarrow> features_limits \<Rightarrow> string \<Rightarrow> channel \<Rightarrow> data_message_send \<Rightarrow> message_author
    \<Rightarrow> user option \<Rightarrow> bool \<Rightarrow> IdempotencyKey \<Rightarrow> 'c \<times> world \<Rightarrow> message result \<times> 'c \<times> world" where
  "create_from_api L env limits ulid c data author u allow_mentions idempotency = (\<lambda>(cache, w).
     case validate_sum (dms_content data) (option_list (dms_embeds data)) (lim_message_length limits) of
       Err e \<Rightarrow> (Err e, cache, w)
     | Panic \<Rightarrow> (Panic, cache, w)
     | Ok _ \<Rightarrow>
         (case consume_nonce L (dms_nonce data) idempotency cache of
            (Ok _, key, cache) \<Rightarrow>
              (case create_checked env limits ulid c data author u allow_mentions (into_key key) w of
                 (r, w) \<Rightarrow> (r, cache, w))
          | (Err _, key, cache) \<Rightarrow> (Err InvalidOperation, cache, w)
          | (Panic, key, cache) \<Rightarrow> (Panic, cache, w)))"

section \<open>Changes to a message\<close>

definition message_update :: "optional_structs \<Rightarrow> message \<Rightarrow> partial_message \<Rightarrow> fields_message list \<Rightarrow> message handler" where
  "message_update opt m partial remove =
     (let m = fold message_remove_field remove (apply_message opt partial m) in
      io_then (on_db (update_message opt (msg_id m) partial remove))
      (io_then (publish (msg_channel m) (EvMessageUpdate (msg_id m) (msg_channel m) partial remove))
      (io_return m)))"

definition message_append :: "string \<Rightarrow> string \<Rightarrow> append_message \<Rightarrow> unit handler" where
  "message_append i c a = io_then (on_db (db_append_message i a)) (publish c (EvMessageAppend i c a))"

definition add_reaction :: "message_env \<Rightarrow> message \<Rightarrow> user \<Rightarrow> string \<Rightarrow> unit handler" where
  "add_reaction env m u emoji =
     (if length (msg_reactions m) \<ge> lim_message_reactions (env_limits env) \<and> \<not> hm_contains (msg_reactions m) emoji
      then io_fail InvalidOperation
      else if \<not> interactions_can_use (msg_interactions m) emoji then io_fail InvalidOperation
      else io_bind (read_db (\<lambda>db. emoji_can_use env db emoji)) (\<lambda>ok.
        if \<not> ok then io_fail InvalidOperation
        else io_then (publish (msg_channel m) (EvMessageReact (msg_id m) (msg_channel m) (user_id u) emoji))
          (on_db (db_add_reaction (msg_id m) emoji (user_id u)))))"

definition remove_reaction :: "message \<Rightarrow> string \<Rightarrow> string \<Rightarrow> unit handler" where
  "remove_reaction m uid emoji =
     (case map_of (msg_reactions m) emoji of
        None \<Rightarrow> io_fail NotFound
      | Some us \<Rightarrow>
          if uid \<notin> set us then io_fail NotFound
          else io_then (publish (msg_channel m) (EvMessageUnreact (msg_id m) (msg_channel m) uid emoji))
            (if length us = 1 then on_db (db_clear_reaction (msg_id m) emoji)
             else on_db (db_remove_reaction (msg_id m) emoji uid)))"

definition clear_reaction :: "message \<Rightarrow> string \<Rightarrow> unit handler" where
  "clear_reaction m emoji =
     io_then (publish (msg_channel m) (EvMessageRemoveReaction (msg_id m) (msg_channel m) emoji))
       (on_db (db_clear_reaction (msg_id m) emoji))"

definition message_delete :: "message \<Rightarrow> unit handler" where
  "message_delete m =
     (let ids = map file_id (option_list (msg_attachments m)) in
      io_then (if ids = [] then io_return () else on_db (mark_attachments_as_deleted ids))
      (io_then (on_db (delete_message (msg_id m)))
        (publish (msg_channel m) (EvMessageDelete (msg_id m) (msg_channel m)))))"

definition bulk_delete :: "string \<Rightarrow> string list \<Rightarrow> unit handler" where
  "bulk_delete c ids =
     io_bind (read_db (\<lambda>db. fetch_messages_by_id db ids)) (\<lambda>ms.
     let valid = map msg_id (filter (\<lambda>m. msg_channel m = c) ms) in
     io_then (on_db (delete_messages c valid)) (publish c (EvBulkMessageDelete c valid)))"

section \<open>The route\<close>

text \<open>\<open>validate\<close> is the check the validator crate derives for the request, \<open>age\<close> the time since a ULID was
  drawn in seconds, None where it cannot be decoded and the code panics. Only what the query finds out
  about the server is used after the permissions are calculated.\<close>

record message_route_env =
  mre_env :: message_env
  mre_validate :: "data_message_send \<Rightarrow> string option"
  mre_limits :: "user \<Rightarrow> features_limits result"
  mre_age :: "string \<Rightarrow> nat option"

definition mentions_allowed :: "(string \<Rightarrow> nat option) \<Rightarrow> server option \<Rightarrow> user \<Rightarrow> bool result" where
  "mentions_allowed age s u =
     (case s of
        Some s \<Rightarrow>
          if server_discoverable s
          then (case age (user_id u) of None \<Rightarrow> Panic | Some secs \<Rightarrow> Ok (secs \<ge> 12 * 3600))
          else Ok True
      | None \<Rightarrow> Ok True)"

definition require :: "bool \<Rightarrow> permission_value \<Rightarrow> channel_permission \<Rightarrow> unit result" where
  "require needed p x = (if needed then throw_if_lacking_channel_permission p x else Ok ())"

definition check_message_permissions :: "message_env \<Rightarrow> reference_db \<Rightarrow> permission_value \<Rightarrow> data_message_send \<Rightarrow> unit result" where
  "check_message_permissions env db p data =
     res_bind (throw_if_lacking_channel_permission p SendMessage) (\<lambda>_.
     res_bind (require (dms_masquerade data \<noteq> None) p Masquerade) (\<lambda>_.
     res_bind (require (case dms_masquerade data of Some m \<Rightarrow> masq_colour m \<noteq> None | None \<Rightarrow> False) p ManageRole) (\<lambda>_.
     res_bind (require (\<not> is_empty_option (dms_embeds data)) p SendEmbeds) (\<lambda>_.
     res_bind (require (\<not> is_empty_option (dms_attachments data)) p UploadFiles) (\<lambda>_.
       case dms_interactions data of None \<Rightarrow> Ok () | Some i \<Rightarrow> interactions_validate env db p i)))))"

definition message_send_checks :: "message_route_env \<Rightarrow> reference_db \<Rightarrow> user \<Rightarrow> string \<Rightarrow> data_message_send
    \<Rightarrow> (channel \<times> bool \<times> features_limits) result" where
  "message_send_checks R db u target data =
     (case mre_validate R data of
        Some error \<Rightarrow> Err (FailedValidation error)
      | None \<Rightarrow>
          res_bind (fetch_channel db target) (\<lambda>c.
          case calculate_channel_permissions (db_query (env_now (mre_env R))) (with_channel c (new_query (reference_database db) u)) of
            None \<Rightarrow> Panic
          | Some (p, q) \<Rightarrow>
              res_bind (check_message_permissions (mre_env R) db p data) (\<lambda>_.
              res_bind (mentions_allowed (mre_age R) (q_server q) u) (\<lambda>allow_mentions.
              res_bind (mre_limits R u) (\<lambda>limits. Ok (c, allow_mentions, limits))))))"

definition message_send :: "'c lru \<Rightarrow> message_route_env \<Rightarrow> string \<Rightarrow> user \<Rightarrow> string \<Rightarrow> data_message_send \<Rightarrow> IdempotencyKey
    \<Rightarrow> 'c \<times> world \<Rightarrow> message result \<times> 'c \<times> world" where
  "message_send L R ulid u target data idempotency = (\<lambda>(cache, w).
     case message_send_checks R (w_db w) u target data of
       Err e \<Rightarrow> (Err e, cache, w)
     | Panic \<Rightarrow> (Panic, cache, w)
     | Ok (c, allow_mentions, limits) \<Rightarrow>
         create_from_api L (mre_env R) limits ulid c data (AuthorUser u) (Some u) allow_mentions idempotency (cache, w))"

end
