(* ===== verification/Message_Properties.thy ===== *)
theory Message_Properties
  imports Messages "HOL-Library.List_Lexorder" "HOL-Library.Char_ord"
begin

unbundle bit_operations_syntax

text \<open>
  Properties of sending messages: who is mentioned, who may mention everyone, what a refused message
  leaves behind, and what becomes of the flag that suppresses notifications.

  A sent message is a plan, made by the checks, completed with files and content; the lemmas of the first
  sections say what the plan contains and what completing it does to the world.
\<close>

section \<open>Outcomes\<close>

lemma collect_res_Ok: "collect_res (map f xs) = Ok ys \<Longrightarrow> y \<in> set ys \<Longrightarrow> \<exists>x\<in>set xs. f x = Ok y"
  by (induction xs arbitrary: ys) (force simp: res_bind_Ok)+

section \<open>The plan\<close>

lemma plan_messageE:
  assumes "plan_message env db c data author u am = Ok plan"
  obtains suppress everyone online roles us e0 o0 r0 where
    "plan_flags plan = final_message_flags suppress everyone online"
    "allowed_mass_mentions env db author c e0 o0 r0 = Ok (everyone, online, roles)"
    "valid_mentions env db c us roles = Ok (plan_mentions plan, plan_roles plan)"
  using assms by (auto simp: plan_message_def res_bind_Ok Let_def split: if_splits intro: that)

lemma allowed_mass_mentions_permission:
  assumes "allowed_mass_mentions env db (AuthorUser u) c e0 o0 r0 = Ok (everyone, online, roles)"
    and "everyone \<or> online \<or> roles \<noteq> {}"
  shows "env_mass_mentions_enabled env \<and> (\<exists>p. author_permissions env db (user_from_api u) c = Ok p
    \<and> (everyone \<or> online \<longrightarrow> has_channel_permission p channel_permission.MentionEveryone)
    \<and> (roles \<noteq> {} \<longrightarrow> has_channel_permission p MentionRoles))"
  using assms by (auto simp: allowed_mass_mentions_def res_bind_Ok split: if_splits)

lemma valid_mentions_roles: "valid_mentions env db c us roles = Ok (us', roles') \<Longrightarrow> roles' \<subseteq> roles"
  by (auto simp: valid_mentions_def res_bind_Ok split: if_splits channel.splits)

section \<open>Completing a message\<close>

definition files_only :: "world \<Rightarrow> world \<Rightarrow> bool" where
  "files_only w w' \<longleftrightarrow> (\<exists>files. w' = w\<lparr>w_db := w_db w\<lparr>db_files := files\<rparr>\<rparr>)"

lemma files_only_refl: "files_only w w"
  unfolding files_only_def by (rule exI [of _ "db_files (w_db w)"]) simp

lemma files_only_trans: "files_only w w' \<Longrightarrow> files_only w' w'' \<Longrightarrow> files_only w w''"
  by (auto simp: files_only_def)

lemma use_file_files: "use_file i t s uploader kind w = (r, w') \<Longrightarrow> files_only w w'"
  unfolding files_only_def by (drule use_file_effect) (rule exI)

lemma use_attachments_files: "use_attachments i uploader ids w = (r, w') \<Longrightarrow> files_only w w'"
proof (induction ids arbitrary: w r w')
  case (Cons j ids)
  obtain r1 w1 where one: "use_attachment j i uploader w = (r1, w1)" by fastforce
  then have "files_only w w1" unfolding use_attachment_def by (rule use_file_files)
  moreover obtain r2 w2 where rest: "use_attachments i uploader ids w1 = (r2, w2)" by fastforce
  moreover have "files_only w1 w2" using Cons.IH rest .
  ultimately show ?case
    using Cons.prems one by (auto simp: io_bind_def io_return_def intro: files_only_trans split: res.splits)
qed (simp add: io_return_def files_only_refl)

lemma attach_sendable_embed_effect:
  assumes "attach_sendable_embed m e w = (r, w')"
  shows "files_only w w' \<and> (\<forall>m'. r = Ok m' \<longrightarrow> (\<exists>es. m' = m\<lparr>msg_embeds := es\<rparr>))"
proof -
  have "files_only w w1" if "use_embed_media e m w = (r1, w1)" for r1 w1
    using that
    by (auto simp: use_embed_media_def use_attachment_def io_bind_def io_return_def files_only_refl
        intro: use_file_files split: option.splits prod.splits res.splits)
  then show ?thesis
    using assms by (auto simp: attach_sendable_embed_def io_bind_def io_return_def split: prod.splits res.splits)
qed

lemma attach_embeds_effect:
  "attach_embeds m es w = (r, w') \<Longrightarrow> files_only w w' \<and> (\<forall>m'. r = Ok m' \<longrightarrow> (\<exists>es. m' = m\<lparr>msg_embeds := es\<rparr>))"
proof (induction es arbitrary: m w)
  case (Cons e es)
  obtain r1 w1 where one: "attach_sendable_embed m e w = (r1, w1)" by fastforce
  note effect = attach_sendable_embed_effect [OF this]
  show ?case
  proof (cases r1)
    case (Ok m1)
    then have "attach_embeds m1 es w1 = (r, w')" using Cons.prems one by (simp add: io_bind_def)
    from Cons.IH [OF this] effect Ok show ?thesis
      by (auto intro: files_only_trans)
  qed (use Cons.prems one effect in \<open>auto simp: io_bind_def\<close>)
next
  case (Nil m w)
  have "\<exists>es. m = m\<lparr>msg_embeds := es\<rparr>" by (rule exI [of _ "msg_embeds m"]) simp
  with Nil show ?case by (auto simp: io_return_def files_only_refl)
qed

text \<open>What sending a message does: it is stored unless it goes to a direct message, published once, and
  tasks are queued; the only failure is that its identifier is taken.\<close>

definition sent :: "message \<Rightarrow> bool \<Rightarrow> world \<Rightarrow> world \<Rightarrow> bool" where
  "sent m is_dm w w' \<longleftrightarrow>
     w_published w' = w_published w @ [(msg_channel m, EvMessage m)] \<and> w_broker w' = w_broker w
     \<and> (if is_dm then w_db w' = w_db w
        else map_of (db_messages (w_db w)) (msg_id m) = None
          \<and> w_db w' = w_db w\<lparr>db_messages := AList.update (msg_id m) m (db_messages (w_db w))\<rparr>)"

lemma send_effect:
  assumes "send m c w = (r, w')"
  shows "(r = Ok () \<and> sent m (is_direct_dm c) w w') \<or> (\<exists>e. r = Err e \<and> w' = w)"
  using assms
  by (auto simp: send_def send_without_notifications_def sent_def insert_message_def hm_contains_def outcome_simps
      split: if_splits)

lemma complete_message_effect:
  assumes "complete_message env limits c data author key m0 w = (r, w')"
  shows "(\<exists>m w1 a e. r = Ok m \<and> files_only w w1 \<and> sent m (is_direct_dm c) w1 w'
      \<and> m = m0\<lparr>msg_attachments := a, msg_embeds := e, msg_content := dms_content data, msg_nonce := Some key\<rparr>)
    \<or> ((\<forall>m. r \<noteq> Ok m) \<and> files_only w w')"
proof (cases "length (option_list (dms_attachments data)) > lim_message_attachments limits
    \<or> length (option_list (dms_embeds data)) > lim_message_embeds (env_limits env)")
  case True
  then show ?thesis using assms by (auto simp: complete_message_def io_fail_def files_only_refl split: if_splits)
next
  case False
  obtain r1 w1 where files: "use_attachments (msg_id m0) (author_id author) (option_list (dms_attachments data)) w = (r1, w1)"
    by fastforce
  note w1 = use_attachments_files [OF files]
  show ?thesis
  proof (cases r1)
    case (Ok fs)
    obtain r2 w2 where embeds: "attach_embeds (m0\<lparr>msg_attachments := non_empty fs\<rparr>) (option_list (dms_embeds data)) w1 = (r2, w2)"
      by fastforce
    note w2 = attach_embeds_effect [OF embeds]
    then have w2_files: "files_only w w2" using w1 files_only_trans by blast
    show ?thesis
    proof (cases r2)
      case Ok2: (Ok m2)
      let ?m = "m2\<lparr>msg_content := dms_content data, msg_nonce := Some key\<rparr>"
      obtain r3 w3 where sends: "send ?m c w2 = (r3, w3)" by fastforce
      have out: "(r, w') = (case r3 of Ok _ \<Rightarrow> (Ok ?m, w3) | Err e \<Rightarrow> (Err e, w3) | Panic \<Rightarrow> (Panic, w3))"
        using assms False files embeds sends Ok Ok2
        by (simp add: complete_message_def io_bind_def io_then_def io_return_def Let_def split: res.splits)
      obtain es where es: "m2 = m0\<lparr>msg_attachments := non_empty fs, msg_embeds := es\<rparr>"
        using w2 Ok2 by auto
      from send_effect [OF sends] show ?thesis
      proof (elim disjE)
        assume s: "r3 = Ok () \<and> sent ?m (is_direct_dm c) w2 w3"
        with out have "r = Ok ?m" "w' = w3" by auto
        with s w2_files es show ?thesis
          by (intro disjI1 exI [of _ ?m] exI [of _ w2] exI [of _ "non_empty fs"] exI [of _ es]) simp
      qed (use out w2_files in auto)
    qed (use assms False files embeds Ok w2_files in \<open>auto simp: complete_message_def io_bind_def\<close>)
  qed (use assms False files w1 in \<open>auto simp: complete_message_def io_bind_def\<close>)
qed

lemma create_from_api_effect:
  assumes "create_from_api L env limits ulid c data author u am idem (cache, w) = (r, cache', w')"
  shows "(\<exists>m plan w1 a e key. r = Ok m \<and> plan_message env (w_db w) c data author u am = Ok plan
      \<and> files_only w w1 \<and> sent m (is_direct_dm c) w1 w'
      \<and> m = (planned_message env ulid c data author plan)\<lparr>msg_attachments := a, msg_embeds := e,
          msg_content := dms_content data, msg_nonce := Some key\<rparr>)
    \<or> ((\<forall>m. r \<noteq> Ok m) \<and> files_only w w')"
proof -
  consider key where "create_checked env limits ulid c data author u am key w = (r, w')"
    | "(\<forall>m. r \<noteq> Ok m) \<and> w' = w"
    using assms by (auto simp: create_from_api_def split: res.splits prod.splits)
  then show ?thesis
  proof cases
    case 1
    show ?thesis
    proof (cases "plan_message env (w_db w) c data author u am")
      case (Ok plan)
      with 1 have "complete_message env limits c data author key (planned_message env ulid c data author plan) w = (r, w')"
        by (simp add: create_checked_def io_bind_read_db)
      from complete_message_effect [OF this] Ok show ?thesis by blast
    qed (use 1 in \<open>auto simp: create_checked_def io_bind_read_db files_only_refl\<close>)
  qed (auto simp: files_only_refl)
qed

section \<open>Mentions\<close>

lemma fetch_members_Some:
  assumes "db_wf db" "fetch_members db sid ids = Ok ms" "m \<in> set ms"
  shows "fetch_member db sid (key_user (member_id m)) = Ok m"
  using assms by (auto simp: fetch_members_def fetch_member_def ok_or_def db_wf_def table_ok_def
      List.map_filter_def image_iff split: option.splits)

lemma fetch_users_Some:
  assumes "db_wf db" "fetch_users db ids = Ok us" "u \<in> set us"
  shows "fetch_user db (user_id u) = Ok u"
proof -
  obtain i where "ok_or (map_of (db_users db) i) NotFound = Ok u"
    using assms collect_res_Ok unfolding fetch_users_def by metis
  with assms(1) show ?thesis
    by (auto simp: fetch_user_def ok_or_def db_wf_def table_ok_def split: option.splits)
qed

lemma bulk_seen_users:
  assumes "members_can_see_channel now (bulk_with_members ms (bulk_with_channel (TextChannel t) (new_bulk bdb s))) = Some (seen, q')"
    and "map_of seen v = Some b"
  obtains us u where "bdb_fetch_users bdb (map (\<lambda>m. key_user (member_id m)) ms) = Ok us" "u \<in> set us" "user_id u = v"
    "b = has_channel_permission (bulk_user_permission now s t u
       (map_of (fold (\<lambda>m. AList.update (key_user (member_id m)) m) ms []) v)) ViewChannel"
  using assms map_of_fold_update_Some [where acc = "[]"]
  by (fastforce simp: members_can_see_channel_def calculate_members_permissions_def bulk_with_members_def
      bulk_with_channel_def new_bulk_def Let_def map_of_map split: res.splits)

lemma visible_mentions_view:
  assumes "db_wf db" "visible_mentions env db (TextChannel t) (text_server t) us = Ok vs" "v \<in> vs"
  shows "\<exists>s usr member p q. fetch_server db (text_server t) = Ok s \<and> fetch_user db v = Ok usr
    \<and> fetch_member db (text_server t) v = Ok member
    \<and> calculate_channel_permissions (db_query (env_now env)) (single_query (reference_database db) s t usr) = Some (p, q)
    \<and> has_channel_permission p ViewChannel"
proof -
  obtain ms where ms: "fetch_members db (text_server t) (env_order env us) = Ok ms"
    by (simp add: fetch_members_def)
  obtain s seen q where s: "fetch_server db (text_server t) = Ok s"
    and seen: "members_can_see_channel (env_now env)
      (bulk_with_members ms (bulk_with_channel (TextChannel t) (new_bulk (reference_bulk db) s))) = Some (seen, q)"
    and v: "map_of seen v = Some True" "v \<in> (\<lambda>m. key_user (member_id m)) ` set ms"
    using assms(2,3) by (auto simp: visible_mentions_def ms Let_def split: if_splits res.splits option.splits)
  from seen v(1) obtain usrs usr where usr: "fetch_users db (map (\<lambda>m. key_user (member_id m)) ms) = Ok usrs"
      "usr \<in> set usrs" "user_id usr = v" "has_channel_permission (bulk_user_permission (env_now env) s t usr
       (map_of (fold (\<lambda>m. AList.update (key_user (member_id m)) m) ms []) v)) ViewChannel"
    by (rule bulk_seen_users) (auto simp: reference_bulk_def)
  obtain member where member: "map_of (fold (\<lambda>m. AList.update (key_user (member_id m)) m) ms []) v = Some member"
    using map_of_fold_update_dom [of "[]" v "\<lambda>m. key_user (member_id m)" ms "\<lambda>m. m"] v(2) by auto
  then have "member \<in> set ms" "key_user (member_id member) = v"
    using map_of_fold_update_Some [of "\<lambda>m. key_user (member_id m)" "\<lambda>m. m" ms "[]" v member] by auto
  then have stored: "fetch_member db (text_server t) v = Ok member"
    using fetch_members_Some [OF assms(1) ms] by auto
  have server: "text_server t = server_id s"
    using assms(1) s by (auto simp: fetch_server_def ok_or_def db_wf_def table_ok_def split: option.splits)
  obtain p q' where p: "calculate_channel_permissions (db_query (env_now env)) (single_query (reference_database db) s t usr) = Some (p, q')"
    using single_permission_view [OF reference_reads_answer] by metis
  have "adb_fetch_member (reference_database db) (server_id s) (user_id usr) = Ok member"
    using stored server usr(3) by (simp add: reference_database_def)
  from bulk_view_of_member [OF reference_reads_answer server this p] usr(4) member
  have "has_channel_permission p ViewChannel" by simp
  with s stored p fetch_users_Some [OF assms(1) usr(1,2)] usr(3) show ?thesis by blast
qed

section \<open>Flags\<close>

lemma final_flags:
  "flags_has (final_message_flags suppress everyone online) MentionsEveryone \<longleftrightarrow> everyone"
  "flags_has (final_message_flags suppress everyone online) MentionsOnline \<longleftrightarrow> online"
  "flags_has (final_message_flags suppress everyone online) SuppressNotifications \<longleftrightarrow> suppress"
  by (cases suppress; cases everyone; cases online;
      simp add: final_message_flags_def flags_has_def flags_has_value_def flags_set_def flags_set_value_def)+

lemma final_flags_bit0: "final_message_flags suppress everyone online AND 1 \<noteq> 1"
  by (cases suppress; cases everyone; cases online;
      simp add: final_message_flags_def flags_set_def flags_set_value_def)

lemma small_flags: "\<not> flags_has raw MentionsOnline" if "raw \<le> (7 :: u32)"
proof
  assume "flags_has raw MentionsOnline"
  then have "8 = raw AND 8" by (simp add: flags_has_def flags_has_value_def)
  also have "\<dots> \<le> raw" by (simp add: word_and_le1 word_and_le2)
  finally have "8 \<le> raw" .
  with that have "8 \<le> (7 :: u32)" by (rule order_trans [rotated])
  then show False by simp
qed

section \<open>A world with one server\<close>

definition chat_server :: server where
  "chat_server = example_server\<lparr>server_owner := ''U''\<rparr>"

definition chat_world :: world where
  "chat_world = \<lparr>w_db = empty_db\<lparr>db_users := [(''U'', example_user)], db_servers := [(''S'', chat_server)],
       db_channels := [(''C'', TextChannel example_text)],
       db_server_members := [(\<lparr>key_server = ''S'', key_user = ''U''\<rparr>, example_member None)]\<rparr>,
     w_published = [], w_broker = [], w_tasks = []\<rparr>"

definition chat_limits :: global_limits where
  "chat_limits = \<lparr>lim_group_size = 100, lim_message_embeds = 5, lim_message_replies = 5,
     lim_message_reactions = 20, lim_server_emoji = 100, lim_server_roles = 200, lim_server_channels = 200,
     lim_new_user_hours = 72, lim_body_limit_size = 20000000\<rparr>"

definition chat_features :: features_limits where
  "chat_features = \<lparr>lim_outgoing_friend_requests = 2, lim_bots = 5, lim_message_length = 2000,
     lim_message_attachments = 5, lim_servers = 100, lim_voice_quality = 16000, lim_max_voice_bitrate = 128000,
     lim_video = True, lim_video_resolution = (1920, 1080), lim_file_upload_size_limit = [],
     lim_max_stream_viewers = 10, lim_max_server_members = 100\<rparr>"

text \<open>The lexer finds a mention of everyone and one of the user U.\<close>

definition chat_env :: message_env where
  "chat_env = \<lparr>env_limits = chat_limits, env_mass_mentions_enabled = True, env_now = 0,
     env_lexer = (\<lambda>_. [MessageToken.MentionEveryone, UserMention ''U'']), env_is_ulid = (\<lambda>_. True),
     env_permissible_emojis = {}, env_order = sorted_list_of_set\<rparr>"

definition chat_route :: message_route_env where
  "chat_route = \<lparr>mre_env = chat_env, mre_validate = (\<lambda>_. None), mre_limits = (\<lambda>_. Ok chat_features), mre_age = (\<lambda>_. Some 0)\<rparr>"

definition chat_data :: data_message_send where
  "chat_data = \<lparr>dms_nonce = None, dms_content = Some ''hello'', dms_attachments = None, dms_replies = None,
     dms_embeds = None, dms_masquerade = None, dms_interactions = None, dms_flags = Some 2\<rparr>"

lemmas chat_defs = chat_server_def chat_world_def chat_limits_def chat_features_def chat_env_def chat_route_def
  chat_data_def example_server_def example_user_def example_text_def example_member_def example_role_def
  default_user_def default_member_def empty_db_def

lemma chat_values [simp]:
  "dms_nonce chat_data = None" "dms_content chat_data = Some ''hello''" "dms_attachments chat_data = None"
  "dms_replies chat_data = None" "dms_embeds chat_data = None" "dms_masquerade chat_data = None"
  "dms_interactions chat_data = None" "dms_flags chat_data = Some 2"
  "lim_message_length chat_features = 2000" "lim_message_attachments chat_features = 5"
  "lim_message_embeds (env_limits chat_env) = 5" "db_messages (w_db chat_world) = []"
  "env_order chat_env = sorted_list_of_set"
  by (simp_all add: chat_defs)

lemma chat_world_wf: "db_wf (w_db chat_world)"
  by (simp add: db_wf_def table_ok_def hm_wf_def chat_defs)

lemma chat_parse: "parse_message (env_lexer chat_env) x =
  \<lparr>user_mentions = {''U''}, role_mentions = {}, mentions_everyone = True, mentions_online = False\<rparr>"
  by (simp add: parse_message_def parse_message_iter_def chat_env_def parser_items.simps parser_next_def default_results_def)

lemma chat_permissions: "author_permissions chat_env (w_db chat_world) (user_from_api example_user) (TextChannel example_text)
  = Ok (channel_permission_value GrantAllSafe)"
  by (simp add: author_permissions_def calculate_channel_permissions_def chat_defs query_ops db_query_def with_channel_def
      new_query_def reference_database_def fetch_server_def ok_or_def user_from_api_def owns_server_def kind_of_channel_def query_or_def
      q_set_server_from_channel_def)

lemma chat_flags: "requested_flags True u (Some 2) = Ok (True, False, False)"
  by (simp add: requested_flags_def flags_has_def flags_has_value_def)

lemma chat_visible: "visible_mentions chat_env (w_db chat_world) (TextChannel example_text) ''S'' {''U''} = Ok {''U''}"
  by (simp add: visible_mentions_def chat_defs fetch_members_def List.map_filter_def fetch_server_def ok_or_def
      members_can_see_channel_def calculate_members_permissions_def bulk_with_members_def bulk_with_channel_def
      new_bulk_def reference_bulk_def fetch_users_def bulk_user_permission_def has_ViewChannel bit_facts Collect_conv_if)

lemma chat_plan:
  "plan_message chat_env (w_db chat_world) (TextChannel example_text) chat_data (AuthorUser example_user) (Some example_user) True
   = Ok \<lparr>plan_mentions = {''U''}, plan_roles = {}, plan_replies = [], plan_flags = final_message_flags True True False\<rparr>"
proof -
  have "has_channel_permission (channel_permission_value GrantAllSafe) channel_permission.MentionEveryone"
    by (simp add: has_channel_permission_def pv_has_def channel_permission_value.simps)
  then have "allowed_mass_mentions chat_env (w_db chat_world) (AuthorUser example_user) (TextChannel example_text) True False {}
      = Ok (True, False, {})"
    by (simp add: allowed_mass_mentions_def chat_permissions) (simp add: chat_env_def)
  moreover have "valid_mentions chat_env (w_db chat_world) (TextChannel example_text) {''U''} {} = Ok ({''U''}, {})"
    using chat_visible by (simp add: valid_mentions_def example_text_def)
  ultimately show ?thesis
    by (simp add: plan_message_def is_empty_option_def bad_interactions_def chat_flags chat_parse
        mentioned_roles_def message_replies_def Let_def)
qed

definition chat_message :: message where
  "chat_message = (planned_message chat_env ''M'' (TextChannel example_text) chat_data (AuthorUser example_user)
     \<lparr>plan_mentions = {''U''}, plan_roles = {}, plan_replies = [], plan_flags = final_message_flags True True False\<rparr>)
     \<lparr>msg_content := Some ''hello'', msg_nonce := Some ''K''\<rparr>"

lemma chat_create:
  "\<exists>w'. create_from_api list_lru chat_env chat_features ''M'' (TextChannel example_text) chat_data (AuthorUser example_user)
     (Some example_user) True (unchecked_from_string ''K'') ([], chat_world) = (Ok chat_message, [], w')"
  using chat_plan
  by (simp add: create_from_api_def create_checked_def complete_message_def validate_sum_def consume_nonce_def
      into_key_def unchecked_from_string_def io_bind_read_db option_list_def chat_message_def
      send_def send_without_notifications_def insert_message_def is_direct_dm_def
      outcome_simps hm_contains_def non_empty_def planned_message_def Let_def default_message_def)

section \<open>Properties\<close>

text \<open>C6: a message in a server channel mentions only users who can see the channel: every user in the mentions
  of a created message is stored, is a member of the server, and the calculation of their permissions
  grants \<open>ViewChannel\<close>. The order in which a set is listed only has to list elements of the set.\<close>

theorem mentions_reach_only_viewers:
  assumes "create_from_api L env limits ulid (TextChannel t) data author u am idem (cache, w) = (Ok m, cache', w')"
    and "db_wf (w_db w)" "\<forall>S. set (env_order env S) \<subseteq> S" "msg_mentions m = Some us" "v \<in> set us"
  shows "\<exists>s usr member p q. fetch_server (w_db w) (text_server t) = Ok s \<and> fetch_user (w_db w) v = Ok usr
    \<and> fetch_member (w_db w) (text_server t) v = Ok member
    \<and> calculate_channel_permissions (db_query (env_now env)) (single_query (reference_database (w_db w)) s t usr) = Some (p, q)
    \<and> has_channel_permission p ViewChannel"
proof -
  obtain plan where plan: "plan_message env (w_db w) (TextChannel t) data author u am = Ok plan"
    and "msg_mentions m = collected env (plan_mentions plan)"
    using create_from_api_effect [OF assms(1)] by (auto simp: planned_message_def)
  with assms(3,4,5) have v: "v \<in> plan_mentions plan"
    by (auto simp: collected_def split: if_splits)
  from plan obtain us0 roles where "valid_mentions env (w_db w) (TextChannel t) us0 roles = Ok (plan_mentions plan, plan_roles plan)"
    by (rule plan_messageE)
  with v have "visible_mentions env (w_db w) (TextChannel t) (text_server t) us0 = Ok (plan_mentions plan)"
    by (auto simp: valid_mentions_def res_bind_Ok split: if_splits)
  with assms(2) show ?thesis using v by (rule visible_mentions_view)
qed

theorem mentions_reach_only_viewers_witness:
  "\<exists>s usr member p q. fetch_server (w_db chat_world) (text_server example_text) = Ok s
    \<and> fetch_user (w_db chat_world) ''U'' = Ok usr \<and> fetch_member (w_db chat_world) (text_server example_text) ''U'' = Ok member
    \<and> calculate_channel_permissions (db_query (env_now chat_env))
        (single_query (reference_database (w_db chat_world)) s example_text usr) = Some (p, q)
    \<and> has_channel_permission p ViewChannel"
proof -
  obtain w' where w': "create_from_api list_lru chat_env chat_features ''M'' (TextChannel example_text) chat_data
      (AuthorUser example_user) (Some example_user) True (unchecked_from_string ''K'') ([], chat_world) = (Ok chat_message, [], w')"
    using chat_create by blast
  have order: "\<forall>S. set (env_order chat_env S) \<subseteq> S" by (metis chat_values(13) order_refl set_sorted_list_of_set
      sorted_list_of_set.fold_insort_key.infinite list.set(1) empty_subsetI)
  have "msg_mentions chat_message = Some [''U'']"
    by (simp add: chat_message_def planned_message_def collected_def)
  from mentions_reach_only_viewers [OF w' chat_world_wf order this, of "''U''"] show ?thesis by simp
qed

text \<open>C8: mass mentions need the permission for them: when a user's message mentions everyone, those online or
  roles, mass mentions are switched on and the permissions calculated for the author on the channel contain
  \<open>MentionEveryone\<close> and \<open>MentionRoles\<close> respectively.\<close>

theorem mass_mentions_need_permission:
  assumes "create_from_api L env limits ulid c data (AuthorUser author) u am idem (cache, w) = (Ok m, cache', w')"
    and "msg_flags m = Some flags"
    and "flags_has flags MentionsEveryone \<or> flags_has flags MentionsOnline \<or> msg_role_mentions m \<noteq> None"
  shows "env_mass_mentions_enabled env \<and> (\<exists>p. author_permissions env (w_db w) (user_from_api author) c = Ok p
    \<and> (flags_has flags MentionsEveryone \<or> flags_has flags MentionsOnline \<longrightarrow> has_channel_permission p channel_permission.MentionEveryone)
    \<and> (msg_role_mentions m \<noteq> None \<longrightarrow> has_channel_permission p MentionRoles))"
proof -
  obtain plan where plan: "plan_message env (w_db w) c data (AuthorUser author) u am = Ok plan"
    and m: "msg_role_mentions m = collected env (plan_roles plan)" "flags = plan_flags plan"
    using create_from_api_effect [OF assms(1)] assms(2) by (auto simp: planned_message_def)
  from plan obtain suppress everyone online roles us e0 o0 r0 where
    flags: "plan_flags plan = final_message_flags suppress everyone online" and
    allowed: "allowed_mass_mentions env (w_db w) (AuthorUser author) c e0 o0 r0 = Ok (everyone, online, roles)" and
    valid: "valid_mentions env (w_db w) c us roles = Ok (plan_mentions plan, plan_roles plan)"
    by (rule plan_messageE)
  have roles: "msg_role_mentions m \<noteq> None \<longrightarrow> roles \<noteq> {}"
    using m(1) valid_mentions_roles [OF valid] by (auto simp: collected_def)
  with assms(3) m(2) flags have "everyone \<or> online \<or> roles \<noteq> {}" by (auto simp: final_flags)
  from allowed_mass_mentions_permission [OF allowed this] show ?thesis
    using roles m(2) flags by (auto simp: final_flags)
qed

theorem mass_mentions_need_permission_witness:
  "\<exists>p. author_permissions chat_env (w_db chat_world) (user_from_api example_user) (TextChannel example_text) = Ok p
     \<and> has_channel_permission p channel_permission.MentionEveryone"
proof -
  obtain w' where w': "create_from_api list_lru chat_env chat_features ''M'' (TextChannel example_text) chat_data
      (AuthorUser example_user) (Some example_user) True (unchecked_from_string ''K'') ([], chat_world) = (Ok chat_message, [], w')"
    using chat_create by blast
  have "msg_flags chat_message = Some (final_message_flags True True False)"
    by (simp add: chat_message_def planned_message_def)
  from mass_mentions_need_permission [OF w' this] show ?thesis by (auto simp: final_flags)
qed

text \<open>The flag that suppresses notifications has no effect: it is stored as bit 1, but the message is tested
  with the number of the bit as a mask, which is bit 0. So no created message ever counts as suppressed, even
  when the flag was set; and the flag for a mention of those online, bit 3, is refused with every value
  that contains it.\<close>

lemma suppression_flag_is_ignored:
  assumes "create_from_api L env limits ulid c data author u am idem (cache, w) = (Ok m, cache', w')"
  shows "\<not> has_suppressed_notifications m
    \<and> (dms_flags data = Some raw \<longrightarrow> msg_flags m = Some flags \<longrightarrow>
        flags_has flags SuppressNotifications = flags_has raw SuppressNotifications \<and> \<not> flags_has raw MentionsOnline)"
proof -
  obtain plan where plan: "plan_message env (w_db w) c data author u am = Ok plan"
    and flags: "msg_flags m = Some (plan_flags plan)"
    using create_from_api_effect [OF assms] by (auto simp: planned_message_def)
  from plan obtain suppress everyone online e1 o1 where final: "plan_flags plan = final_message_flags suppress everyone online"
    and requested: "requested_flags am u (dms_flags data) = Ok (suppress, e1, o1)"
    by (auto simp: plan_message_def res_bind_Ok Let_def split: if_splits)
  have "\<not> flags_has raw MentionsOnline" if "raw \<le> 7" for raw :: u32
    using that small_flags by blast
  with flags final requested show ?thesis
    by (auto simp: has_suppressed_notifications_def final_flags final_flags_bit0 requested_flags_def Let_def not_less
        split: if_splits)
qed

lemma suppression_flag_is_ignored_example:
  "\<not> has_suppressed_notifications chat_message \<and> flags_has (final_message_flags True True False) SuppressNotifications"
proof -
  obtain w' where w': "create_from_api list_lru chat_env chat_features ''M'' (TextChannel example_text) chat_data
      (AuthorUser example_user) (Some example_user) True (unchecked_from_string ''K'') ([], chat_world) = (Ok chat_message, [], w')"
    using chat_create by blast
  from suppression_flag_is_ignored [OF w'] show ?thesis by (simp add: final_flags)
qed

lemma throw_Ok [simp]: "throw_if_lacking_channel_permission p x = Ok () \<longleftrightarrow> has_channel_permission p x"
  by (simp add: throw_if_lacking_channel_permission_def)

lemma require_Ok [simp]: "require needed p x = Ok () \<longleftrightarrow> (needed \<longrightarrow> has_channel_permission p x)"
  by (simp add: require_def)

lemma message_send_checksE:
  assumes "message_send_checks R db u target data = Ok (c, am, limits)"
  obtains p q where "fetch_channel db target = Ok c"
    "calculate_channel_permissions (db_query (env_now (mre_env R))) (with_channel c (new_query (reference_database db) u)) = Some (p, q)"
    "check_message_permissions (mre_env R) db p data = Ok ()"
  using assms by (auto simp: message_send_checks_def res_bind_Ok split: option.splits)


lemma chat_checks:
  "message_send_checks chat_route (w_db chat_world) example_user ''C'' chat_data = Ok (TextChannel example_text, True, chat_features)"
proof -
  have "fetch_channel (w_db chat_world) ''C'' = Ok (TextChannel example_text)"
    by (simp add: chat_world_def empty_db_def fetch_channel_def ok_or_def)
  moreover have "\<exists>q. calculate_channel_permissions (db_query 0) (with_channel (TextChannel example_text)
      (new_query (reference_database (w_db chat_world)) example_user)) = Some (channel_permission_value GrantAllSafe, q)
      \<and> q_server q = Some chat_server"
    by (simp add: calculate_channel_permissions_def chat_defs query_ops db_query_def with_channel_def
      new_query_def reference_database_def fetch_server_def ok_or_def owns_server_def kind_of_channel_def query_or_def
      q_set_server_from_channel_def)
  moreover have "has_channel_permission (channel_permission_value GrantAllSafe) SendMessage"
    by (simp add: has_channel_permission_def pv_has_def channel_permission_value.simps)
  ultimately show ?thesis
    by (auto simp: message_send_checks_def chat_route_def check_message_permissions_def is_empty_option_def
        throw_if_lacking_channel_permission_def require_def mentions_allowed_def chat_server_def example_server_def chat_env_def)
qed


end
