(* ===== verification/Coalesced.thy ===== *)
theory Coalesced
  imports Prelude
begin

text \<open>
  The coalescion service, \<open>crates/core/coalesced/src\<close>, with the feature \<open>queue\<close> and without the feature
  \<open>cache\<close>, as the GIF service builds it.

  Concurrent calls of \<open>execute\<close> share the maps \<open>watchers\<close> and \<open>queue\<close>, each behind its own lock, and
  the watch channels whose receivers these maps hold. A call is the identifier and the result type it was
  made with and a program counter, and \<open>execute_step\<close> is what it does in one section between two awaits:
  lock, use and release a map, or wait for a channel. Calls interleave in every way: a step of the system
  is a new call, a step of one call, or the cancellation of one, which drops the future and with it the
  senders it owns. Values are \<open>Any\<close>; they carry the type they were made with, and \<open>downcast\<close> compares
  it with the type the caller wants. The function a call would run is \<open>func\<close>: the values it may give.
\<close>

section \<open>Configuration and errors\<close>

record CoalescionServiceConfig =
  max_concurrent :: "usize option"
  queue_requests :: bool
  max_queue :: "usize option"

definition default_config :: CoalescionServiceConfig where
  "default_config = \<lparr>max_concurrent = Some 100, queue_requests = True, max_queue = Some 100\<rparr>"

text \<open>The service the GIF service builds in \<open>Tenor::new\<close>: its queue has no bound.\<close>

definition tenor_config :: CoalescionServiceConfig where
  "tenor_config = \<lparr>max_concurrent = Some 100, queue_requests = True, max_queue = None\<rparr>"

datatype coalescion_error = RecvError | MaxConcurrent | MaxQueue | DowncastError

section \<open>Shared state\<close>

type_synonym channel_no = nat
type_synonym type_id = nat

text \<open>A watch channel: nothing sent yet, a result, or the sender dropped before it sent one.\<close>

datatype 'v watch = Pending | Sent "(coalescion_error, type_id \<times> 'v) res" | Closed

record ('id, 'v) CoalescionService =
  watchers :: "('id \<times> channel_no) list"
  queue :: "('id \<times> channel_no) list"
  channels :: "'v watch list"

definition from_config :: "('id, 'v) CoalescionService" where
  "from_config = \<lparr>watchers = [], queue = [], channels = []\<rparr>"

definition watch_channel :: "('id, 'v) CoalescionService \<Rightarrow> channel_no \<times> ('id, 'v) CoalescionService" where
  "watch_channel s = (length (channels s), s\<lparr>channels := channels s @ [Pending]\<rparr>)"

definition send_modify :: "channel_no \<Rightarrow> (coalescion_error, type_id \<times> 'v) res \<Rightarrow> ('id, 'v) CoalescionService \<Rightarrow> ('id, 'v) CoalescionService" where
  "send_modify c r s = s\<lparr>channels := (channels s)[c := Sent r]\<rparr>"

fun downcast :: "type_id \<Rightarrow> (coalescion_error, type_id \<times> 'v) res \<Rightarrow> (coalescion_error, 'v) res" where
  "downcast ty (Ok (ty', v)) = (if ty' = ty then Ok v else Err DowncastError)"
| "downcast ty (Err e) = Err e"
| "downcast ty Panic = Panic"

section \<open>A call of \<open>execute\<close>\<close>

text \<open>Where a call stands. \<open>Insert\<close>, \<open>Run\<close> and \<open>Cleanup\<close> are inside \<open>insert_and_execute\<close>; their last
  argument but the value is the sender of the queue, if the call came through it.\<close>

datatype 'v execute_pc =
    Called
  | Looked "channel_no option" usize
  | WaitOn channel_no
  | QueueRead
  | QueueInsert
  | QueueLoop channel_no
  | QueueHead channel_no
  | QueueRemove channel_no
  | Insert "channel_no option"
  | Run channel_no "channel_no option"
  | Cleanup "channel_no option" 'v
  | Done "(coalescion_error, 'v) res"
  | Cancelled

definition wait_for :: "type_id \<Rightarrow> channel_no \<Rightarrow> ('id, 'v) CoalescionService \<Rightarrow> 'v execute_pc option" where
  "wait_for ty c s =
     (case channels s ! c of
        Pending \<Rightarrow> None
      | Sent r \<Rightarrow> Some (Done (downcast ty r))
      | Closed \<Rightarrow> Some (Done (Err RecvError)))"

text \<open>\<open>insert_and_execute\<close>: enter the map, run the function to its value \<open>out\<close>, then send it, leave the
  map, and send it to those who found the call in the queue.\<close>

fun insert_and_execute :: "'v \<Rightarrow> 'id \<Rightarrow> type_id \<Rightarrow> 'v execute_pc \<Rightarrow> ('id, 'v) CoalescionService \<Rightarrow> 'v execute_pc \<times> ('id, 'v) CoalescionService" where
  "insert_and_execute out i ty (Insert q) s =
     (let (c, s) = watch_channel s in (Run c q, s\<lparr>watchers := AList.update i c (watchers s)\<rparr>))"
| "insert_and_execute out i ty (Run c q) s = (Cleanup q out, send_modify c (Ok (ty, out)) s)"
| "insert_and_execute out i ty (Cleanup q v) s =
     (let s = s\<lparr>watchers := AList.delete i (watchers s)\<rparr> in
      (Done (Ok v), case q of None \<Rightarrow> s | Some c \<Rightarrow> send_modify c (Ok (ty, v)) s))"
| "insert_and_execute out i ty pc s = (pc, s)"

fun execute_step :: "CoalescionServiceConfig \<Rightarrow> 'v \<Rightarrow> 'id \<Rightarrow> type_id \<Rightarrow> 'v execute_pc \<Rightarrow> ('id, 'v) CoalescionService
    \<Rightarrow> ('v execute_pc \<times> ('id, 'v) CoalescionService) option" where
  "execute_step cfg out i ty Called s = Some (Looked (map_of (watchers s) i) (length (watchers s)), s)"
| "execute_step cfg out i ty (Looked (Some c) n) s = Some (WaitOn c, s)"
| "execute_step cfg out i ty (Looked None n) s =
     (case max_concurrent cfg of
        Some m \<Rightarrow>
          if n \<ge> m then
            if queue_requests cfg then Some (QueueRead, s) else Some (Done (Err MaxConcurrent), s)
          else Some (Insert None, s)
      | None \<Rightarrow> Some (Insert None, s))"
| "execute_step cfg out i ty (WaitOn c) s = map_option (\<lambda>pc. (pc, s)) (wait_for ty c s)"
| "execute_step cfg out i ty QueueRead s =
     (case map_of (queue s) i of
        Some c \<Rightarrow> Some (WaitOn c, s)
      | None \<Rightarrow>
          (case max_queue cfg of
             Some n \<Rightarrow> if n \<ge> length (queue s) then Some (Done (Err MaxQueue), s) else Some (QueueInsert, s)
           | None \<Rightarrow> Some (QueueInsert, s)))"
| "execute_step cfg out i ty QueueInsert s =
     (let (c, s) = watch_channel s in Some (QueueLoop c, s\<lparr>queue := AList.update i c (queue s)\<rparr>))"
| "execute_step cfg out i ty (QueueLoop c) s =
     Some (if \<exists>m. max_concurrent cfg = Some m \<and> length (watchers s) < m then QueueHead c else QueueLoop c, s)"
| "execute_step cfg out i ty (QueueHead c) s =
     Some (if queue s \<noteq> [] \<and> fst (hd (queue s)) = i then QueueRemove c else QueueLoop c, s)"
| "execute_step cfg out i ty (QueueRemove c) s = Some (Insert (Some c), s\<lparr>queue := AList.delete i (queue s)\<rparr>)"
| "execute_step cfg out i ty (Done r) s = None"
| "execute_step cfg out i ty Cancelled s = None"
| "execute_step cfg out i ty pc s = Some (insert_and_execute out i ty pc s)"

definition current_task_count :: "('id, 'v) CoalescionService \<Rightarrow> usize" where
  "current_task_count s = length (watchers s)"

definition current_queue_len :: "('id, 'v) CoalescionService \<Rightarrow> usize" where
  "current_queue_len s = length (queue s)"

section \<open>Concurrent calls\<close>

text \<open>The senders a call owns; they are dropped, and their channels closed, when its future is.\<close>

fun owned :: "'v execute_pc \<Rightarrow> channel_no set" where
  "owned (QueueLoop c) = {c}"
| "owned (QueueHead c) = {c}"
| "owned (QueueRemove c) = {c}"
| "owned (Insert q) = set_option q"
| "owned (Run c q) = insert c (set_option q)"
| "owned (Cleanup q v) = set_option q"
| "owned pc = {}"

definition close_channels :: "channel_no set \<Rightarrow> 'v watch list \<Rightarrow> 'v watch list" where
  "close_channels cs ws = map (\<lambda>c. if c \<in> cs \<and> ws ! c = Pending then Closed else ws ! c) [0..<length ws]"

fun finished :: "'v execute_pc \<Rightarrow> bool" where
  "finished (Done r) = True"
| "finished Cancelled = True"
| "finished pc = False"

type_synonym ('id, 'v) call = "'id \<times> type_id \<times> 'v execute_pc"

inductive coalescion_step :: "CoalescionServiceConfig \<Rightarrow> ('id \<Rightarrow> type_id \<Rightarrow> 'v set)
    \<Rightarrow> ('id, 'v) CoalescionService \<times> ('id, 'v) call list \<Rightarrow> ('id, 'v) CoalescionService \<times> ('id, 'v) call list \<Rightarrow> bool"
  for cfg func where
  call: "coalescion_step cfg func (s, calls) (s, calls @ [(i, ty, Called)])"
| step: "n < length calls \<Longrightarrow> calls ! n = (i, ty, pc) \<Longrightarrow> out \<in> func i ty \<Longrightarrow> execute_step cfg out i ty pc s = Some (pc', s') \<Longrightarrow>
    coalescion_step cfg func (s, calls) (s', calls[n := (i, ty, pc')])"
| cancel: "n < length calls \<Longrightarrow> calls ! n = (i, ty, pc) \<Longrightarrow> \<not> finished pc \<Longrightarrow>
    coalescion_step cfg func (s, calls) (s\<lparr>channels := close_channels (owned pc) (channels s)\<rparr>, calls[n := (i, ty, Cancelled)])"

abbreviation coalescion_reachable :: "CoalescionServiceConfig \<Rightarrow> ('id \<Rightarrow> type_id \<Rightarrow> 'v set)
    \<Rightarrow> ('id, 'v) CoalescionService \<times> ('id, 'v) call list \<Rightarrow> bool" where
  "coalescion_reachable cfg func \<equiv> (coalescion_step cfg func)\<^sup>*\<^sup>* (from_config, [])"


section \<open>Invariants\<close>

text \<open>The channels a call refers to and the value it holds.\<close>

fun refs :: "'v execute_pc \<Rightarrow> channel_no set" where
  "refs (Looked c n) = set_option c"
| "refs (WaitOn c) = {c}"
| "refs pc = owned pc"

fun held :: "'v execute_pc \<Rightarrow> 'v set" where
  "held (Cleanup q v) = {v}"
| "held (Done (Ok v)) = {v}"
| "held pc = {}"

text \<open>Each channel belongs to an identifier, \<open>lab\<close>, and carries only values made for it.\<close>

definition service_ok :: "('id \<Rightarrow> type_id \<Rightarrow> 'v set) \<Rightarrow> (channel_no \<Rightarrow> 'id) \<Rightarrow> ('id, 'v) CoalescionService \<Rightarrow> bool" where
  "service_ok func lab s \<longleftrightarrow>
     (\<forall>i c. map_of (watchers s) i = Some c \<or> map_of (queue s) i = Some c \<longrightarrow> c < length (channels s) \<and> lab c = i) \<and>
     (\<forall>c ty v. c < length (channels s) \<and> channels s ! c = Sent (Ok (ty, v)) \<longrightarrow> v \<in> func (lab c) ty)"

fun call_ok :: "('id \<Rightarrow> type_id \<Rightarrow> 'v set) \<Rightarrow> (channel_no \<Rightarrow> 'id) \<Rightarrow> nat \<Rightarrow> ('id, 'v) call \<Rightarrow> bool" where
  "call_ok func lab n (i, ty, pc) \<longleftrightarrow> (\<forall>c\<in>refs pc. c < n \<and> lab c = i) \<and> held pc \<subseteq> func i ty"

lemma downcast_Ok: "downcast ty r = Ok v \<longleftrightarrow> r = Ok (ty, v)"
  by (cases "(ty, r)" rule: downcast.cases) auto

lemma held_Done: "v \<in> held (Done r) \<longleftrightarrow> r = Ok v"
  by (cases r) auto

lemma held_wait: "wait_for ty c s = Some pc \<Longrightarrow> v \<in> held pc \<Longrightarrow> channels s ! c = Sent (Ok (ty, v))"
  by (auto simp: wait_for_def held_Done downcast_Ok split: watch.splits)

lemma wait_for_finished: "wait_for ty c s = Some pc \<Longrightarrow> finished pc"
  by (auto simp: wait_for_def split: watch.splits)

lemma finished_refs: "finished pc \<Longrightarrow> refs pc = {}"
  by (cases pc) auto

lemma wait_for_ok:
  assumes "wait_for ty c s = Some pc" "service_ok func lab s" "c < length (channels s)" "lab c = i"
  shows "call_ok func lab n (i, ty, pc)"
  using held_wait [OF assms(1)] finished_refs [OF wait_for_finished [OF assms(1)]] assms(2-4)
  by (auto simp: service_ok_def)

lemma execute_step_grows:
  "execute_step cfg out i ty pc s = Some (pc', s') \<Longrightarrow> length (channels s) \<le> length (channels s')"
  by (cases "(cfg, out, i, ty, pc, s)" rule: execute_step.cases)
     (auto simp: Let_def watch_channel_def send_modify_def split: if_splits option.splits)

lemma call_ok_mono: "call_ok func lab n x \<Longrightarrow> n \<le> m \<Longrightarrow> call_ok func (lab(n := i)) m x"
  by (cases x) fastforce

lemma service_ok_mono: "service_ok func lab s \<Longrightarrow> service_ok func (lab(length (channels s) := i)) s"
  by (auto simp: service_ok_def)

lemma service_ok_channel:
  "service_ok func lab s \<Longrightarrow> service_ok func (lab(length (channels s) := i)) (s\<lparr>channels := channels s @ [Pending]\<rparr>)"
  by (auto simp: service_ok_def nth_append less_Suc_eq)

lemma service_ok_insert:
  assumes "service_ok func lab s" "c < length (channels s)" "lab c = i"
  shows "service_ok func lab (s\<lparr>watchers := AList.update i c (watchers s)\<rparr>)"
    and "service_ok func lab (s\<lparr>queue := AList.update i c (queue s)\<rparr>)"
  using assms by (auto simp: service_ok_def hm.get_insert)

lemma service_ok_delete:
  assumes "service_ok func lab s"
  shows "service_ok func lab (s\<lparr>watchers := AList.delete i (watchers s)\<rparr>)"
    and "service_ok func lab (s\<lparr>queue := AList.delete i (queue s)\<rparr>)"
  using assms by (auto simp: service_ok_def hm.get_remove)

lemma service_ok_send:
  "service_ok func lab s \<Longrightarrow> v \<in> func (lab c) ty \<Longrightarrow> service_ok func lab (send_modify c (Ok (ty, v)) s)"
  by (auto simp: service_ok_def send_modify_def)
     (metis nth_list_update_eq nth_list_update_neq watch.inject res.inject(1) prod.inject)

lemma service_ok_known:
  assumes "service_ok func lab s"
  shows "map_of (watchers s) i = Some c \<Longrightarrow> c < length (channels s) \<and> lab c = i"
    and "map_of (queue s) i = Some c \<Longrightarrow> c < length (channels s) \<and> lab c = i"
  using assms by (auto simp: service_ok_def)

lemma insert_and_execute_ok:
  assumes "insert_and_execute out i ty pc s = (pc', s')" "out \<in> func i ty"
    and "service_ok func lab s" "call_ok func lab (length (channels s)) (i, ty, pc)"
  shows "service_ok func (lab(length (channels s) := i)) s' \<and>
    call_ok func (lab(length (channels s) := i)) (length (channels s')) (i, ty, pc')"
proof (cases pc)
  case (Insert q)
  then show ?thesis
    using assms service_ok_insert(1) [OF service_ok_channel [OF assms(3), of i], of "length (channels s)" i]
    by (auto simp: watch_channel_def)
next
  case (Run c q)
  then show ?thesis
    using assms service_ok_send [OF service_ok_mono [OF assms(3), of i], of out c ty]
    by (auto simp: send_modify_def)
next
  case (Cleanup q v)
  have "service_ok func (lab(length (channels s) := i)) (s\<lparr>watchers := AList.delete i (watchers s)\<rparr>)"
    by (intro service_ok_delete service_ok_mono assms(3))
  then show ?thesis
    using assms(1,4) Cleanup service_ok_send [of func "lab(length (channels s) := i)" _ v _ ty]
    by (fastforce simp: Let_def split: option.splits)
qed (use assms service_ok_mono [OF assms(3)] in \<open>auto dest: call_ok_mono\<close>)

lemma execute_step_ok:
  assumes "execute_step cfg out i ty pc s = Some (pc', s')" "out \<in> func i ty"
    and "service_ok func lab s" "call_ok func lab (length (channels s)) (i, ty, pc)"
  shows "service_ok func (lab(length (channels s) := i)) s' \<and>
    call_ok func (lab(length (channels s) := i)) (length (channels s')) (i, ty, pc')"
proof (cases pc)
  case (WaitOn c)
  then show ?thesis
    using assms(1,3,4) wait_for_ok [of ty c s pc' func lab i "length (channels s)"] service_ok_mono [OF assms(3)]
    by (auto simp del: call_ok.simps intro: call_ok_mono) (auto)
next
  case QueueInsert
  then show ?thesis
    using assms(1) service_ok_insert(2) [OF service_ok_channel [OF assms(3), of i], of "length (channels s)" i]
    by (auto simp: watch_channel_def)
next
  case (QueueRemove c)
  then show ?thesis
    using assms(1,4) service_ok_delete(2) [OF service_ok_mono [OF assms(3), of i]] by auto
next
  case (Looked c n)
  then show ?thesis
    using assms(1,4) service_ok_mono [OF assms(3), of i] by (cases c) (auto split: option.splits if_splits)
next
  case (Insert q)
  then show ?thesis using assms(1) by (intro insert_and_execute_ok [OF _ assms(2-4)]) simp
next
  case (Run c q)
  then show ?thesis using assms(1) by (intro insert_and_execute_ok [OF _ assms(2-4)]) simp
next
  case (Cleanup q v)
  then show ?thesis using assms(1) by (intro insert_and_execute_ok [OF _ assms(2-4)]) simp
next
  case Called
  then have "pc' = Looked (map_of (watchers s) i) (length (watchers s))" "s' = s" using assms(1) by auto
  then show ?thesis
    using service_ok_mono [OF assms(3), of i] service_ok_known(1) [OF assms(3), of i]
    by (cases "map_of (watchers s) i") auto
next
  case QueueRead
  then show ?thesis
    using assms(1) service_ok_mono [OF assms(3), of i] service_ok_known(2) [OF assms(3), of i]
    by (cases "map_of (queue s) i") (fastforce split: option.splits if_splits)+
qed (use assms(1,4) service_ok_mono [OF assms(3), of i] in \<open>auto split: if_splits\<close>)

lemma length_close_channels [simp]: "length (close_channels cs ws) = length ws"
  by (simp add: close_channels_def)

lemma nth_close_channels:
  "c < length ws \<Longrightarrow> close_channels cs ws ! c = (if c \<in> cs \<and> ws ! c = Pending then Closed else ws ! c)"
  by (simp add: close_channels_def)

definition labels_ok :: "('id \<Rightarrow> type_id \<Rightarrow> 'v set) \<Rightarrow> ('id, 'v) CoalescionService \<times> ('id, 'v) call list \<Rightarrow> bool" where
  "labels_ok func x \<longleftrightarrow>
     (\<exists>lab. service_ok func lab (fst x) \<and> (\<forall>k\<in>set (snd x). call_ok func lab (length (channels (fst x))) k))"

lemma labels_ok_step:
  assumes "coalescion_step cfg func x y" "labels_ok func x"
  shows "labels_ok func y"
  using assms(1)
proof cases
  case (call s calls i ty)
  then show ?thesis using assms(2) by (auto simp: labels_ok_def)
next
  case (step n calls i ty pc out s pc' s')
  obtain lab where lab: "service_ok func lab s" "\<forall>k\<in>set calls. call_ok func lab (length (channels s)) k"
    using assms(2) step(1) by (auto simp: labels_ok_def simp del: call_ok.simps)
  let ?lab = "lab(length (channels s) := i)"
  have "call_ok func lab (length (channels s)) (i, ty, pc)" using lab(2) nth_mem [OF step(3)] unfolding step(4) by blast
  note ok = conjunct1 [OF execute_step_ok [OF step(6,5) lab(1) this]] conjunct2 [OF execute_step_ok [OF step(6,5) lab(1) this]]
  have "call_ok func ?lab (length (channels s')) k" if k: "k \<in> set (calls[n := (i, ty, pc')])" for k
  proof (cases "k = (i, ty, pc')")
    case True
    then show ?thesis using ok(2) by (simp only:)
  next
    case False
    then have "k \<in> set calls" using set_update_subset_insert [of calls n "(i, ty, pc')"] k by blast
    then have "call_ok func lab (length (channels s)) k" using lab(2) by blast
    then show ?thesis by (rule call_ok_mono [OF _ execute_step_grows [OF step(6)]])
  qed
  then show ?thesis
    unfolding labels_ok_def step(2) fst_conv snd_conv using ok(1) by blast

next
  case (cancel n calls i ty pc s)
  obtain lab where lab: "service_ok func lab s" "\<forall>k\<in>set calls. call_ok func lab (length (channels s)) k"
    using assms(2) cancel(1) by (auto simp: labels_ok_def simp del: call_ok.simps)
  have "service_ok func lab (s\<lparr>channels := close_channels (owned pc) (channels s)\<rparr>)"
    using lab(1) by (auto simp: service_ok_def nth_close_channels split: if_splits)
  moreover have "call_ok func lab (length (channels s)) k" if "k \<in> set (calls[n := (i, ty, Cancelled)])" for k
  proof (cases "k = (i, ty, Cancelled)")
    case False
    then show ?thesis using set_update_subset_insert [of calls n "(i, ty, Cancelled)"] that lab(2) by blast
  qed simp
  ultimately show ?thesis
    unfolding labels_ok_def using cancel(2) by (intro exI [of _ lab]) (simp del: call_ok.simps)
qed

lemma reachable_labels_ok: "coalescion_reachable cfg func x \<Longrightarrow> labels_ok func x"
proof (induction rule: rtranclp_induct)
  case base
  then show ?case by (simp add: labels_ok_def service_ok_def from_config_def)
qed (rule labels_ok_step)

text \<open>Every channel without a result has a call that will send one or drop it.\<close>

definition owners_ok :: "('id, 'v) CoalescionService \<times> ('id, 'v) call list \<Rightarrow> bool" where
  "owners_ok x \<longleftrightarrow> (\<forall>c < length (channels (fst x)). channels (fst x) ! c = Pending \<longrightarrow>
     (\<exists>n < length (snd x). c \<in> owned (snd (snd (snd x ! n)))))"

lemma nth_sent_pending: "xs[d := Sent r] ! c = Pending \<Longrightarrow> c < length xs \<Longrightarrow> xs ! c = Pending \<and> c \<noteq> d"
  by (cases "c = d") auto

lemma execute_step_pending:
  assumes "execute_step cfg out i ty pc s = Some (pc', s')" "c < length (channels s')" "channels s' ! c = Pending"
  shows "c \<in> owned pc' \<or> (c < length (channels s) \<and> channels s ! c = Pending \<and> c \<notin> owned pc)"
proof (cases pc)
  case (Looked q n)
  then show ?thesis using assms by (cases q) (auto split: option.splits if_splits)
next
  case (Run d q)
  then show ?thesis using assms by (auto simp: send_modify_def dest: nth_sent_pending)
next
  case (Cleanup q v)
  then show ?thesis using assms by (auto simp: Let_def send_modify_def dest: nth_sent_pending split: option.splits)
qed (use assms in \<open>auto simp: watch_channel_def nth_append split: option.splits if_splits\<close>)

lemma owners_ok_step:
  assumes "coalescion_step cfg func x y" "owners_ok x"
  shows "owners_ok y"
  using assms(1)
proof cases
  case (call s calls i ty)
  have "\<exists>n<length (calls @ [(i, ty, Called)]). c \<in> owned (snd (snd ((calls @ [(i, ty, Called)]) ! n)))"
    if "m < length calls" "c \<in> owned (snd (snd (calls ! m)))" for m c
    using that by (intro exI [of _ m]) (simp add: nth_append)
  then show ?thesis using assms(2) call by (simp add: owners_ok_def) blast
next
  case (step n calls i ty pc out s pc' s')
  show ?thesis
    unfolding owners_ok_def
  proof (intro allI impI)
    fix c assume "c < length (channels (fst y))" "channels (fst y) ! c = Pending"
    then consider "c \<in> owned pc'" | "c < length (channels s)" "channels s ! c = Pending" "c \<notin> owned pc"
      using execute_step_pending [OF step(6)] step(2) by auto
    then show "\<exists>n<length (snd y). c \<in> owned (snd (snd (snd y ! n)))"
    proof cases
      case 1
      then show ?thesis using step(2,3) by (auto intro!: exI [of _ n])
    next
      case 2
      then obtain m where "m < length calls" "c \<in> owned (snd (snd (calls ! m)))" "m \<noteq> n"
        using assms(2) step(1,4) by (fastforce simp: owners_ok_def)
      then show ?thesis using step(2) by (auto intro!: exI [of _ m])
    qed
  qed
next
  case (cancel n calls i ty pc s)
  show ?thesis
    unfolding owners_ok_def
  proof (intro allI impI)
    fix c assume "c < length (channels (fst y))" "channels (fst y) ! c = Pending"
    then have "c < length (channels s)" "channels s ! c = Pending" "c \<notin> owned pc"
      using cancel(2) by (auto simp: nth_close_channels split: if_splits)
    then obtain m where "m < length calls" "c \<in> owned (snd (snd (calls ! m)))" "m \<noteq> n"
      using assms(2) cancel(1,4) by (fastforce simp: owners_ok_def)
    then show "\<exists>n<length (snd y). c \<in> owned (snd (snd (snd y ! n)))" using cancel(2) by (auto intro!: exI [of _ m])
  qed
qed

lemma reachable_owners_ok: "coalescion_reachable cfg func x \<Longrightarrow> owners_ok x"
proof (induction rule: rtranclp_induct)
  case base
  then show ?case by (simp add: owners_ok_def from_config_def)
qed (rule owners_ok_step)

text \<open>An owner can always go on.\<close>

lemma owner_steps: "c \<in> owned pc \<Longrightarrow> execute_step cfg out i ty pc s \<noteq> None"
  by (cases pc) (auto simp: Let_def watch_channel_def)

text \<open>With a bound on the queue, no call ever enters it.\<close>

lemma execute_step_unqueued:
  assumes "execute_step cfg out i ty pc s = Some (pc', s')" "max_queue cfg = Some k" "queue s = []"
    and "pc \<noteq> QueueInsert" "\<forall>c. pc \<noteq> QueueLoop c" "\<forall>c. pc \<noteq> QueueHead c"
  shows "queue s' = []" "pc' \<noteq> QueueInsert" "pc' \<noteq> QueueLoop c" "pc' \<noteq> QueueHead c"
  using assms
  by (cases "(cfg, out, i, ty, pc, s)" rule: execute_step.cases;
      auto simp: Let_def watch_channel_def send_modify_def wait_for_def split: option.splits if_splits watch.splits)+

lemma reachable_unqueued:
  assumes "coalescion_reachable cfg func x" "max_queue cfg = Some k"
  shows "queue (fst x) = [] \<and> (\<forall>(i, ty, pc)\<in>set (snd x). pc \<noteq> QueueInsert \<and> (\<forall>c. pc \<noteq> QueueLoop c) \<and> (\<forall>c. pc \<noteq> QueueHead c))"
  using assms(1)
proof (induction rule: rtranclp_induct)
  case (step x y)
  from step.hyps(2) show ?case
  proof cases
    case (step n calls i ty pc out s pc' s')
    have pc: "pc \<noteq> QueueInsert" "\<forall>c. pc \<noteq> QueueLoop c" "\<forall>c. pc \<noteq> QueueHead c" "queue s = []"
      using step.IH nth_mem [OF step(3)] step(1,4) by auto
    note new = execute_step_unqueued [OF step(6) assms(2) pc(4,1-3)]
    show ?thesis
      using step.IH new step(1,2) set_update_subset_insert [of calls n "(i, ty, pc')"] by fastforce
  next
    case (cancel n calls i ty pc s)
    then show ?thesis
      using step.IH set_update_subset_insert [of calls n "(i, ty, Cancelled)"] by fastforce
  qed (use step.IH in auto)
qed (simp add: from_config_def)

text \<open>The entry of \<open>i\<close> leads to a closed channel, and no call can remove it: the first \<open>N\<close> calls of \<open>i\<close>
  are over, and the later ones only wait for the channel.\<close>

fun only_waits :: "channel_no \<Rightarrow> 'v execute_pc \<Rightarrow> bool" where
  "only_waits c Called = True"
| "only_waits c (Looked r n) = (r = Some c)"
| "only_waits c (WaitOn d) = (d = c)"
| "only_waits c (Done r) = (r = Err RecvError)"
| "only_waits c Cancelled = True"
| "only_waits c pc = False"

fun quiet :: "'id \<Rightarrow> channel_no \<Rightarrow> bool \<Rightarrow> ('id, 'v) call \<Rightarrow> bool" where
  "quiet i c old (j, ty, pc) \<longleftrightarrow> c \<notin> owned pc \<and> (j = i \<longrightarrow> (if old then finished pc else only_waits c pc))"

definition poisoned :: "'id \<Rightarrow> channel_no \<Rightarrow> nat \<Rightarrow> ('id, 'v) CoalescionService \<times> ('id, 'v) call list \<Rightarrow> bool" where
  "poisoned i c N x \<longleftrightarrow> map_of (watchers (fst x)) i = Some c \<and> c < length (channels (fst x)) \<and> channels (fst x) ! c = Closed
     \<and> N \<le> length (snd x) \<and> (\<forall>n < length (snd x). quiet i c (n < N) (snd x ! n))"

lemma execute_step_elsewhere:
  assumes "execute_step cfg out j ty pc s = Some (pc', s')" "c < length (channels s)" "c \<notin> owned pc"
  shows "channels s' ! c = channels s ! c \<and> c \<notin> owned pc' \<and> (i \<noteq> j \<longrightarrow> map_of (watchers s') i = map_of (watchers s) i)"
  using assms
  by (cases "(cfg, out, j, ty, pc, s)" rule: execute_step.cases)
     (auto simp: Let_def watch_channel_def send_modify_def nth_append wait_for_def hm.get_insert hm.get_remove
       split: option.splits if_splits watch.splits)

lemma execute_step_waits:
  assumes "execute_step cfg out i ty pc s = Some (pc', s')" "only_waits c pc"
    and "map_of (watchers s) i = Some c" "channels s ! c = Closed"
  shows "s' = s \<and> only_waits c pc'"
  using assms by (cases "(cfg, out, i, ty, pc, s)" rule: execute_step.cases) (auto simp: wait_for_def)

lemma quiet_update:
  assumes "\<forall>n < length calls. quiet i c (n < N) (calls ! n)" "quiet i c (m < N) k"
  shows "\<forall>n < length (calls[m := k]). quiet i c (n < N) (calls[m := k] ! n)"
proof (intro allI impI)
  fix n assume "n < length (calls[m := k])"
  then show "quiet i c (n < N) (calls[m := k] ! n)" using assms by (cases "n = m") auto
qed

lemma poisoned_step:
  assumes "coalescion_step cfg func x y" "poisoned i c N x"
  shows "poisoned i c N y"
  using assms(1)
proof cases
  case (call s calls j ty)
  then show ?thesis using assms(2) by (auto simp: poisoned_def nth_append less_Suc_eq)
next
  case (step n calls j ty pc out s pc' s')
  have x: "c < length (channels s)" "map_of (watchers s) i = Some c" "channels s ! c = Closed" "N \<le> length calls"
    "\<forall>n < length calls. quiet i c (n < N) (calls ! n)"
    using assms(2) step(1) by (auto simp: poisoned_def)
  then have pc: "quiet i c (n < N) (j, ty, pc)" using step(3,4) by metis
  have "\<not> finished pc" using step(6) by (cases pc) auto
  then have j: "s' = s \<and> \<not> n < N \<and> only_waits c pc'" if "j = i"
    using execute_step_waits [OF step(6) [unfolded that] _ x(2,3)] pc that by (auto split: if_splits)
  have new: "channels s' ! c = Closed" "c \<notin> owned pc'" "i \<noteq> j \<Longrightarrow> map_of (watchers s') i = Some c"
    using execute_step_elsewhere [OF step(6) x(1)] pc x(2,3) by auto
  have "quiet i c (n < N) (j, ty, pc')" using new(2) j by auto
  then show ?thesis
    using quiet_update [OF x(5)] new(1,3) j x(1,2,4) execute_step_grows [OF step(6)]
    unfolding poisoned_def step(2) by (cases "i = j") auto
next
  case (cancel n calls j ty pc s)
  have "quiet i c (n < N) (j, ty, Cancelled)" by simp
  then show ?thesis
    using assms(2) quiet_update [of calls i c N] unfolding cancel(1,2) poisoned_def
    by (auto simp: nth_close_channels)
qed

lemma poisoned_steps: "(coalescion_step cfg func)\<^sup>*\<^sup>* x y \<Longrightarrow> poisoned i c N x \<Longrightarrow> poisoned i c N y"
  by (induction rule: rtranclp_induct) (auto intro: poisoned_step)

lemma owned_refs: "owned pc \<subseteq> refs pc"
  by (cases pc) auto

lemma reachable_call_labels:
  assumes "coalescion_reachable cfg func (s, calls)"
  shows "\<exists>lab. (\<forall>(j, ty, pc)\<in>set calls. (\<forall>c \<in> refs pc \<union> owned pc. c < length (channels s) \<and> lab c = j) \<and> held pc \<subseteq> func j ty)"
proof -
  obtain lab where lab: "\<forall>k\<in>set calls. call_ok func lab (length (channels s)) k"
    using reachable_labels_ok [OF assms] by (auto simp: labels_ok_def simp del: call_ok.simps)
  have "(\<forall>c \<in> refs pc \<union> owned pc. c < length (channels s) \<and> lab c = j) \<and> held pc \<subseteq> func j ty"
    if "(j, ty, pc) \<in> set calls" for j ty pc
    using bspec [OF lab that] owned_refs [of pc] by auto
  then show ?thesis by blast
qed

lemma reach_call:
  "(coalescion_step cfg func)\<^sup>*\<^sup>* x (s, calls) \<Longrightarrow> (coalescion_step cfg func)\<^sup>*\<^sup>* x (s, calls @ [(i, ty, Called)])"
  by (erule rtranclp.rtrancl_into_rtrancl) (rule coalescion_step.call)

lemma reach_step:
  "(coalescion_step cfg func)\<^sup>*\<^sup>* x (s, calls) \<Longrightarrow> n < length calls \<Longrightarrow> calls ! n = (i, ty, pc) \<Longrightarrow> v \<in> func i ty \<Longrightarrow>
   map_option (\<lambda>(pc', s'). (s', calls[n := (i, ty, pc')])) (execute_step cfg v i ty pc s) = Some y \<Longrightarrow>
   (coalescion_step cfg func)\<^sup>*\<^sup>* x y"
  by (erule rtranclp.rtrancl_into_rtrancl) (auto intro: coalescion_step.step)

text \<open>Every channel has at most one sender, and a call that came through the queue has two different ones.\<close>

fun senders_differ :: "'v execute_pc \<Rightarrow> bool" where
  "senders_differ (Run c q) = (c \<notin> set_option q)"
| "senders_differ pc = True"

definition senders_apart :: "nat \<Rightarrow> 'v execute_pc list \<Rightarrow> bool" where
  "senders_apart N ps \<longleftrightarrow> (\<forall>n < length ps. senders_differ (ps ! n) \<and> (\<forall>c \<in> owned (ps ! n). c < N)) \<and>
     (\<forall>n < length ps. \<forall>m < length ps. m \<noteq> n \<longrightarrow> owned (ps ! n) \<inter> owned (ps ! m) = {})"

definition senders_ok :: "('id, 'v) CoalescionService \<times> ('id, 'v) call list \<Rightarrow> bool" where
  "senders_ok x \<longleftrightarrow> senders_apart (length (channels (fst x))) (map (snd \<circ> snd) (snd x))"

lemma senders_apart_snoc:
  assumes "senders_apart N ps" "owned p = {}" "senders_differ p"
  shows "senders_apart N (ps @ [p])"
  using assms by (auto simp: senders_apart_def nth_append less_Suc_eq)

lemma senders_apart_update:
  assumes "senders_apart N ps" "N \<le> M" "k < length ps" "senders_differ p"
    and "\<forall>c \<in> owned p. c < M \<and> (c \<in> owned (ps ! k) \<or> N \<le> c)"
  shows "senders_apart M (ps[k := p])"
proof -
  have old: "c < N" if "n < length ps" "c \<in> owned (ps ! n)" for n c
    using assms(1) that by (auto simp: senders_apart_def)
  have "owned p \<inter> owned (ps ! m) = {}" if "m < length ps" "m \<noteq> k" for m
  proof -
    have "owned (ps ! k) \<inter> owned (ps ! m) = {}" using assms(1,3) that by (auto simp: senders_apart_def)
    then show ?thesis using assms(5) old [OF that(1)] by fastforce
  qed
  then have "owned (ps[k := p] ! n) \<inter> owned (ps[k := p] ! m) = {}" if "n < length ps" "m < length ps" "m \<noteq> n" for n m
    using assms(1,3) that by (cases "n = k"; cases "m = k") (auto simp: senders_apart_def)
  moreover have "senders_differ (ps[k := p] ! n) \<and> (\<forall>c \<in> owned (ps[k := p] ! n). c < M)" if "n < length ps" for n
    using assms(1,2,4,5) old that by (cases "n = k") (auto simp: senders_apart_def dest: less_le_trans)
  ultimately show ?thesis by (simp add: senders_apart_def)
qed

lemma senders_okD:
  assumes "senders_ok (s, calls)" "n < length calls" "calls ! n = (i, ty, pc)"
  shows "senders_differ pc" "c \<in> owned pc \<Longrightarrow> c < length (channels s)"
    and "c \<in> owned pc \<Longrightarrow> m < length calls \<Longrightarrow> m \<noteq> n \<Longrightarrow> c \<notin> owned (snd (snd (calls ! m)))"
  using assms by (fastforce simp: senders_ok_def senders_apart_def)+

lemma execute_step_owned:
  assumes "execute_step cfg out i ty pc s = Some (pc', s')" "\<And>c. c \<in> owned pc \<Longrightarrow> c < length (channels s)"
  shows "(\<forall>c \<in> owned pc'. c < length (channels s') \<and> (c \<in> owned pc \<or> length (channels s) \<le> c)) \<and> senders_differ pc'"
  using assms
  by (cases "(cfg, out, i, ty, pc, s)" rule: execute_step.cases)
     (auto simp: Let_def watch_channel_def send_modify_def wait_for_def less_Suc_eq
       split: option.splits if_splits watch.splits)

lemma senders_ok_step:
  assumes "coalescion_step cfg func x y" "senders_ok x"
  shows "senders_ok y"
  using assms(1)
proof cases
  case (call s calls i ty)
  then show ?thesis using assms(2) by (simp add: senders_ok_def senders_apart_snoc)
next
  case (step n calls i ty pc out s pc' s')
  note own = senders_okD(2) [OF assms(2) [unfolded step(1)] step(3,4)]
  have "senders_apart (length (channels s)) (map (snd \<circ> snd) calls)" using assms(2) step(1) by (simp add: senders_ok_def)
  then show ?thesis
    using senders_apart_update [OF _ execute_step_grows [OF step(6)], of "map (snd \<circ> snd) calls" n pc']
      execute_step_owned [OF step(6) own] step(2-4) by (simp add: senders_ok_def map_update)
next
  case (cancel n calls i ty pc s)
  have "senders_apart (length (channels s)) (map (snd \<circ> snd) calls)" using assms(2) cancel(1) by (simp add: senders_ok_def)
  then show ?thesis
    using senders_apart_update [OF _ order_refl, of "length (channels s)" "map (snd \<circ> snd) calls" n Cancelled] cancel(2,3)
    by (simp add: senders_ok_def map_update)
qed

lemma reachable_senders_ok: "coalescion_reachable cfg func x \<Longrightarrow> senders_ok x"
proof (induction rule: rtranclp_induct)
  case base
  then show ?case by (simp add: senders_ok_def senders_apart_def)
qed (rule senders_ok_step)

text \<open>What call \<open>m\<close> does with a channel it owns: it keeps the sender, or it has sent its own value, or it was
  cancelled before that.\<close>

definition serves :: "nat \<Rightarrow> 'id \<Rightarrow> type_id \<Rightarrow> channel_no \<Rightarrow> ('id, 'v) CoalescionService \<times> ('id, 'v) call list \<Rightarrow> bool" where
  "serves m i ty c x \<longleftrightarrow> m < length (snd x) \<and> c < length (channels (fst x)) \<and>
     (\<forall>n < length (snd x). n \<noteq> m \<longrightarrow> c \<notin> owned (snd (snd (snd x ! n)))) \<and>
     (\<exists>pc. snd x ! m = (i, ty, pc) \<and>
       (channels (fst x) ! c = Pending \<and> c \<in> owned pc
        \<or> channels (fst x) ! c = Closed \<and> pc = Cancelled
        \<or> (\<exists>v. channels (fst x) ! c = Sent (Ok (ty, v)) \<and> c \<notin> owned pc \<and> ((\<exists>q. pc = Cleanup q v) \<or> pc = Done (Ok v) \<or> pc = Cancelled))))"

lemma execute_step_serves:
  assumes "execute_step cfg out i ty pc s = Some (pc', s')" "senders_differ pc" "c < length (channels s)"
    "channels s ! c = Pending \<and> c \<in> owned pc
     \<or> (\<exists>v. channels s ! c = Sent (Ok (ty, v)) \<and> c \<notin> owned pc \<and> (\<exists>q. pc = Cleanup q v))"
  shows "channels s' ! c = Pending \<and> c \<in> owned pc'
     \<or> (\<exists>v. channels s' ! c = Sent (Ok (ty, v)) \<and> c \<notin> owned pc' \<and> ((\<exists>q. pc' = Cleanup q v) \<or> pc' = Done (Ok v)))"
  using assms(4)
proof (elim disjE exE conjE)
  assume "channels s ! c = Pending" "c \<in> owned pc"
  then show ?thesis
    using assms(1-3) by (cases pc) (auto simp: Let_def watch_channel_def send_modify_def nth_append nth_list_update
      split: option.splits if_splits)
next
  fix v q assume "channels s ! c = Sent (Ok (ty, v))" "c \<notin> owned pc" "pc = Cleanup q v"
  then show ?thesis using assms(1-3) by (auto simp: Let_def send_modify_def split: option.splits)
qed

lemma serves_step:
  assumes "coalescion_step cfg func x y" "senders_ok x" "serves m i ty c x"
  shows "serves m i ty c y"
  using assms(1)
proof cases
  case (call s calls j ty')
  then show ?thesis using assms(3) by (auto simp: serves_def nth_append less_Suc_eq)
next
  case (step n calls j ty' pc out s pc' s')
  have x: "m < length calls" "c < length (channels s)"
    "\<And>n. n < length calls \<Longrightarrow> n \<noteq> m \<Longrightarrow> c \<notin> owned (snd (snd (calls ! n)))"
    using assms(3) step(1) by (auto simp: serves_def)
  have c': "c < length (channels s')" using x(2) execute_step_grows [OF step(6)] by simp
  show ?thesis
  proof (cases "m = n")
    case True
    then have j: "j = i" "ty' = ty" using assms(3) step(1,4) by (auto simp: serves_def)
    have "\<not> finished pc" using step(6) by (cases pc) auto
    then have before: "channels s ! c = Pending \<and> c \<in> owned pc
     \<or> (\<exists>v. channels s ! c = Sent (Ok (ty, v)) \<and> c \<notin> owned pc \<and> (\<exists>q. pc = Cleanup q v))"
      using assms(3) step(1,4) True by (auto simp: serves_def)
    have "senders_differ pc" using senders_okD(1) [OF assms(2) [unfolded step(1)] step(3,4)] .
    from execute_step_serves [OF step(6) [unfolded j] this x(2) before] show ?thesis
      using x(3) step(2,3) True j c' by (auto simp: serves_def)
  next
    case False
    then have "c \<notin> owned pc" using x(3) [OF step(3)] step(4) by simp
    note new = execute_step_elsewhere [OF step(6) x(2) this]
    have "\<forall>k < length calls. k \<noteq> m \<longrightarrow> c \<notin> owned (snd (snd (calls[n := (j, ty', pc')] ! k)))"
      using x(3) new step(3) by (auto simp: nth_list_update)
    then show ?thesis
      using assms(3) new step(1,2) False c' by (simp add: serves_def)
  qed
next
  case (cancel n calls j ty' pc s)
  then show ?thesis
    using assms(3) by (cases "m = n") (auto simp: serves_def nth_close_channels nth_list_update)
qed

lemma serves_steps:
  assumes "(coalescion_step cfg func)\<^sup>*\<^sup>* x y" "senders_ok x" "serves m i ty c x"
  shows "serves m i ty c y"
proof -
  from assms have "senders_ok y \<and> serves m i ty c y"
    by (induction rule: rtranclp_induct) (auto intro: senders_ok_step serves_step)
  then show ?thesis ..
qed

lemma owner_serves:
  assumes "senders_ok (s, calls)" "m < length calls" "calls ! m = (i, ty, pc)" "c \<in> owned pc" "channels s ! c = Pending"
  shows "serves m i ty c (s, calls)"
proof -
  have "c < length (channels s) \<and> (\<forall>n < length calls. n \<noteq> m \<longrightarrow> c \<notin> owned (snd (snd (calls ! n))))"
    using senders_okD [OF assms(1-3)] assms(4) by blast
  then show ?thesis using assms(2-5) by (simp add: serves_def)
qed

text \<open>What a call that waited for another one may answer when that one is over.\<close>

definition answer_of :: "type_id \<Rightarrow> 'v execute_pc \<Rightarrow> type_id \<Rightarrow> (coalescion_error, 'v) res \<Rightarrow> bool" where
  "answer_of ty' pc' ty r \<longleftrightarrow> (case pc' of
     Done a \<Rightarrow> \<exists>v. a = Ok v \<and> r = downcast ty (Ok (ty', v))
   | _ \<Rightarrow> r = Err RecvError \<or> (\<exists>v. r = downcast ty (Ok (ty', v))))"

text \<open>Once the call is over, whoever waits for the channel gets its answer with the next step.\<close>

lemma served_answer:
  assumes "serves m i ty' c (s, calls)" "finished (snd (snd (calls ! m)))"
  shows "\<exists>r. execute_step cfg out i ty (WaitOn c) s = Some (Done r, s) \<and> answer_of ty' (snd (snd (calls ! m))) ty r"
proof -
  obtain pc where pc: "snd (snd (calls ! m)) = pc" "finished pc" using assms(2) by simp
  have "channels s ! c = Pending \<and> c \<in> owned pc \<or> channels s ! c = Closed \<and> pc = Cancelled
      \<or> (\<exists>v. channels s ! c = Sent (Ok (ty', v)) \<and> ((\<exists>q. pc = Cleanup q v) \<or> pc = Done (Ok v) \<or> pc = Cancelled))"
    using assms(1) pc(1) by (auto simp: serves_def)
  moreover have "owned pc = {}" "\<And>q v. pc \<noteq> Cleanup q v" using pc(2) by (cases pc; simp)+
  ultimately consider "channels s ! c = Closed" "pc = Cancelled"
    | v where "channels s ! c = Sent (Ok (ty', v))" "pc = Done (Ok v) \<or> pc = Cancelled" by auto
  then show ?thesis unfolding pc(1) by cases (auto simp: wait_for_def answer_of_def)
qed

text \<open>A bound on the steps of a call that is not sent back to the start of the queue loop.\<close>

fun steps_left :: "'v execute_pc \<Rightarrow> nat" where
  "steps_left Called = 10"
| "steps_left (Looked c n) = 9"
| "steps_left QueueRead = 8"
| "steps_left QueueInsert = 7"
| "steps_left (QueueLoop c) = 6"
| "steps_left (QueueHead c) = 5"
| "steps_left (QueueRemove c) = 4"
| "steps_left (Insert q) = 3"
| "steps_left (Run c q) = 2"
| "steps_left (Cleanup q v) = 1"
| "steps_left (WaitOn c) = 1"
| "steps_left pc = 0"

lemma execute_step_decreases:
  assumes "execute_step cfg out i ty pc s = Some (pc', s')"
  shows "steps_left pc' < steps_left pc \<or> (\<exists>c. (pc = QueueLoop c \<or> pc = QueueHead c) \<and> pc' = QueueLoop c)"
proof (cases pc)
  case (Looked c n)
  then show ?thesis using assms by (cases c) (simp_all split: option.splits if_splits, auto)
next
  case (WaitOn c)
  then show ?thesis using assms by (auto simp: wait_for_def split: watch.splits)
next
  case QueueRead
  then show ?thesis using assms by (auto split: option.splits if_splits)
next
  case (QueueLoop c)
  then show ?thesis using assms by (auto split: if_splits)
next
  case (QueueHead c)
  then show ?thesis using assms by (auto split: if_splits)
qed (use assms in \<open>auto simp: Let_def watch_channel_def\<close>)

text \<open>The entry of \<open>i\<close> heads the queue, and no call for \<open>i\<close> can take it out.\<close>

fun outside_queue :: "'v execute_pc \<Rightarrow> bool" where
  "outside_queue QueueInsert = False"
| "outside_queue (QueueLoop c) = False"
| "outside_queue (QueueHead c) = False"
| "outside_queue (QueueRemove c) = False"
| "outside_queue pc = True"

definition blocked :: "'id \<Rightarrow> ('id, 'v) CoalescionService \<times> ('id, 'v) call list \<Rightarrow> bool" where
  "blocked i x \<longleftrightarrow> queue (fst x) \<noteq> [] \<and> fst (hd (queue (fst x))) = i \<and> (\<forall>(j, ty, pc)\<in>set (snd x). j = i \<longrightarrow> outside_queue pc)"

lemma execute_step_blocked:
  assumes "execute_step cfg out j ty pc s = Some (pc', s')" "queue s \<noteq> []" "fst (hd (queue s)) = i"
    and "j = i \<longrightarrow> outside_queue pc"
  shows "queue s' \<noteq> [] \<and> fst (hd (queue s')) = i \<and> (j = i \<longrightarrow> outside_queue pc')
    \<and> (j \<noteq> i \<and> (pc = QueueLoop c \<or> pc = QueueHead c) \<longrightarrow> pc' = QueueLoop c \<or> pc' = QueueHead c)"
proof -
  obtain e es where q: "queue s = (i, e) # es" using assms(2,3) by (cases "queue s") auto
  show ?thesis
    using assms(1,4) q
    by (cases "(cfg, out, j, ty, pc, s)" rule: execute_step.cases)
       (auto simp: Let_def watch_channel_def send_modify_def wait_for_def split: option.splits if_splits watch.splits)
qed

lemma blocked_step:
  assumes "coalescion_step cfg func x y" "blocked i x" "k < length (snd x)" "snd x ! k = (j, ty, pc)" "j \<noteq> i"
    and "pc = QueueLoop c \<or> pc = QueueHead c \<or> pc = Cancelled"
  shows "blocked i y \<and> k < length (snd y) \<and> (\<exists>pc'. snd y ! k = (j, ty, pc') \<and> (pc' = QueueLoop c \<or> pc' = QueueHead c \<or> pc' = Cancelled))"
  using assms(1)
proof cases
  case (call s calls i' ty')
  then show ?thesis using assms(2-6) by (auto simp: blocked_def nth_append)
next
  case (step n calls i' ty' p out s p' s')
  have p: "i' = i \<longrightarrow> outside_queue p" using assms(2) step(1,4) nth_mem [OF step(3)] by (auto simp: blocked_def)
  have head: "queue s \<noteq> []" "fst (hd (queue s)) = i" using assms(2) step(1) by (auto simp: blocked_def)
  note new = execute_step_blocked [OF step(6) head p]
  have "blocked i y"
    using assms(2) new step(1,2) set_update_subset_insert [of calls n "(i', ty', p')"] by (fastforce simp: blocked_def)
  moreover have "p \<noteq> Cancelled" using step(6) by auto
  ultimately show ?thesis
    using assms(3-6) new [of c] step(1-4) by (cases "k = n") auto
next
  case (cancel n calls i' ty' p s)
  have "blocked i y"
    using assms(2) cancel(1,2) set_update_subset_insert [of calls n "(i', ty', Cancelled)"] by (fastforce simp: blocked_def)
  then show ?thesis using assms(3-6) cancel(1-4) by (cases "k = n") auto
qed

lemma blocked_steps:
  assumes "(coalescion_step cfg func)\<^sup>*\<^sup>* x y" "blocked i x" "k < length (snd x)" "snd x ! k = (j, ty, pc)" "j \<noteq> i"
    and "pc = QueueLoop c \<or> pc = QueueHead c \<or> pc = Cancelled"
  shows "blocked i y \<and> k < length (snd y) \<and> (\<exists>pc'. snd y ! k = (j, ty, pc') \<and> (pc' = QueueLoop c \<or> pc' = QueueHead c \<or> pc' = Cancelled))"
  using assms(1)
proof (induction rule: rtranclp_induct)
  case base
  then show ?case using assms(2-6) by auto
next
  case (step y z)
  from step.IH obtain pc' where "blocked i y" "k < length (snd y)" "snd y ! k = (j, ty, pc')"
      "pc' = QueueLoop c \<or> pc' = QueueHead c \<or> pc' = Cancelled" by blast
  then show ?case by (rule blocked_step [OF step.hyps(2) _ _ _ assms(5)])
qed

text \<open>A call that cannot go on waits for a call of the same identifier that can.\<close>

lemma stuck_call_served:
  assumes "coalescion_reachable cfg func (s, calls)" "n < length calls" "calls ! n = (i, ty, pc)"
    and "\<not> finished pc" "execute_step cfg out i ty pc s = None"
  obtains c m ty' pc' where "pc = WaitOn c" "m < length calls" "calls ! m = (i, ty', pc')" "c \<in> owned pc'"
    "\<And>out. execute_step cfg out i ty' pc' s \<noteq> None" "serves m i ty' c (s, calls)"
proof -
  obtain lab where lab: "\<And>c j ty' pc'. (j, ty', pc') \<in> set calls \<Longrightarrow> c \<in> refs pc' \<union> owned pc' \<Longrightarrow> c < length (channels s) \<and> lab c = j"
    using reachable_call_labels [OF assms(1)] by blast
  have n: "(i, ty, pc) \<in> set calls" using nth_mem [OF assms(2)] assms(3) by simp
  obtain c where c: "pc = WaitOn c" "channels s ! c = Pending"
    using assms(4,5) by (cases "(cfg, out, i, ty, pc, s)" rule: execute_step.cases)
      (auto simp: wait_for_def Let_def watch_channel_def split: watch.splits option.splits if_splits)
  have label: "c < length (channels s)" "lab c = i" using lab [OF n] c(1) by auto
  then obtain m where m: "m < length calls" "c \<in> owned (snd (snd (calls ! m)))"
    using reachable_owners_ok [OF assms(1)] c(2) by (auto simp: owners_ok_def)
  obtain j ty' pc' where k: "calls ! m = (j, ty', pc')" by (cases "calls ! m")
  then have j: "j = i" using lab [of j ty' pc' c] nth_mem [OF m(1)] m(2) label(2) by simp
  have own: "c \<in> owned pc'" using m(2) k by simp
  show ?thesis
    using that [OF c(1) m(1) k [unfolded j] own owner_steps [OF own]]
      owner_serves [OF reachable_senders_ok [OF assms(1)] m(1) k [unfolded j] own c(2)] by blast
qed

section \<open>Properties\<close>


text \<open>A cancelled call at the head of the queue blocks the queue. When a call that heads the queue is dropped
  while it waits there, and no other call for its identifier is in the queue, its entry stays at the head:
  every call for another identifier that waits in the queue waits for ever, however many calls end.\<close>

lemma cancelled_queue_head_blocks:
  assumes "n < length calls" "calls ! n = (i, ty, QueueLoop c)" "queue s \<noteq> []" "fst (hd (queue s)) = i"
    and "\<forall>m < length calls. m \<noteq> n \<and> fst (calls ! m) = i \<longrightarrow> outside_queue (snd (snd (calls ! m)))"
    and "k < length calls" "calls ! k = (j, ty', QueueLoop d)" "j \<noteq> i"
    and "(coalescion_step cfg func)\<^sup>*\<^sup>*
           (s\<lparr>channels := close_channels {c} (channels s)\<rparr>, calls[n := (i, ty, Cancelled)]) (s', calls')"
  shows "\<exists>pc. calls' ! k = (j, ty', pc) \<and> pc \<in> {QueueLoop d, QueueHead d, Cancelled}"
proof -
  have "k \<noteq> n" using assms(2,7,8) by auto
  have "outside_queue pc'" if "(i, ty1, pc') \<in> set (calls[n := (i, ty, Cancelled)])" for ty1 pc'
  proof -
    obtain m where "m < length calls" "calls[n := (i, ty, Cancelled)] ! m = (i, ty1, pc')"
      using \<open>(i, ty1, pc') \<in> _\<close> by (auto simp: in_set_conv_nth)
    then show ?thesis using assms(1,5) by (cases "m = n") auto
  qed
  then have "blocked i (s\<lparr>channels := close_channels {c} (channels s)\<rparr>, calls[n := (i, ty, Cancelled)])"
    using assms(3,4) by (auto simp: blocked_def)
  from blocked_steps [OF assms(9) this, of k j ty' "QueueLoop d" d] show ?thesis
    using assms(6-8) \<open>k \<noteq> n\<close> by auto
qed

text \<open>A bound on the queue switches the queue off. When \<open>max_queue\<close> is set, whatever to, nothing is ever
  queued, and a call over the limit of concurrent calls is refused with MaxQueue at once.\<close>

lemma bounded_queue_stays_empty:
  assumes "coalescion_reachable cfg func (s, calls)" "max_queue cfg = Some k"
  shows "current_queue_len s = 0 \<and> execute_step cfg out i ty QueueRead s = Some (Done (Err MaxQueue), s)
    \<and> (\<forall>c ty. (i, ty, QueueLoop c) \<notin> set calls)"
  using reachable_unqueued [OF assms] assms(2) by (auto simp: current_queue_len_def)

text \<open>A cancelled call poisons its identifier. When the call that runs the function for an identifier is
  dropped, and no other call for it is under way, its entry stays in the map with a closed channel: in
  everything that happens afterwards each new call for this identifier can only end with RecvError.\<close>

lemma cancelled_call_poisons_identifier:
  assumes "coalescion_reachable cfg func (s, calls)" "n < length calls" "calls ! n = (i, ty, Run c q)"
    and "map_of (watchers s) i = Some c" "channels s ! c = Pending"
    and "\<forall>m < length calls. m \<noteq> n \<and> fst (calls ! m) = i \<longrightarrow> finished (snd (snd (calls ! m)))"
    and "(coalescion_step cfg func)\<^sup>*\<^sup>*
           (s\<lparr>channels := close_channels (owned (snd (snd (calls ! n)))) (channels s)\<rparr>, calls[n := (i, ty, Cancelled)]) (s', calls')"
    and "length calls \<le> m" "m < length calls'" "calls' ! m = (i, ty', Done r)"
  shows "r = Err RecvError \<and> map_of (watchers s') i = Some c"
proof -
  let ?s = "s\<lparr>channels := close_channels (owned (snd (snd (calls ! n)))) (channels s)\<rparr>" and ?calls = "calls[n := (i, ty, Cancelled)]"
  obtain lab where lab: "\<And>c j ty' pc'. (j, ty', pc') \<in> set calls \<Longrightarrow> c \<in> refs pc' \<union> owned pc' \<Longrightarrow> c < length (channels s) \<and> lab c = j"
      "\<And>j ty' pc'. (j, ty', pc') \<in> set calls \<Longrightarrow> held pc' \<subseteq> func j ty'"
    using reachable_call_labels [OF assms(1)] by blast
  have n: "(i, ty, Run c q) \<in> set calls" using nth_mem [OF assms(2)] assms(3) by simp
  have c: "c < length (channels s)" "lab c = i" using lab(1) [OF n, of c] by simp_all
  have "quiet i c True k" if "m < length calls" "m \<noteq> n" "calls ! m = k" for m k
  proof (cases k)
    case (fields j ty' pc')
    have "owned pc' = {}" if "finished pc'" using that by (cases pc') auto
    then show ?thesis using lab(1) [of j ty' pc' c] nth_mem [OF that(1)] fields that assms(6) c(2) by auto
  qed
  then have "quiet i c (m < length calls) (?calls ! m)" if "m < length ?calls" for m
    using that by (cases "m = n") (simp_all del: quiet.simps, simp)
  then have "poisoned i c (length calls) (?s, ?calls)"
    using assms(3-5) c(1) by (simp add: poisoned_def nth_close_channels)
  then have "poisoned i c (length calls) (s', calls')" by (rule poisoned_steps [OF assms(7)])
  then show ?thesis using assms(8-10) by (auto simp: poisoned_def)
qed

text \<open>The limit of concurrent calls and the promise to run the function once per identifier hold only for calls
  that do not overlap. Looking into the map and entering it are two sections, so two simultaneous calls
  for the same identifier both run the function, also when at most one call may run.\<close>

lemma simultaneous_calls_both_run:
  assumes "max_concurrent cfg = Some 1" "v \<in> func i ty"
  shows "\<exists>s. coalescion_reachable cfg func (s, [(i, ty, Run 0 None), (i, ty, Run 1 None)]) \<and> current_task_count s = 1"
proof -
  have "coalescion_reachable cfg func (from_config, [(i, ty, Called)])"
    using reach_call [of cfg func "(from_config, [])" from_config "[]" i ty] by simp
  then have "coalescion_reachable cfg func (from_config, [(i, ty, Called), (i, ty, Called)])"
    using reach_call [of cfg func "(from_config, [])" from_config "[(i, ty, Called)]" i ty] by simp
  then have "coalescion_reachable cfg func (from_config, [(i, ty, Looked None 0), (i, ty, Called)])"
    by (rule reach_step [of _ _ _ _ _ 0 i ty Called v]) (simp_all add: from_config_def assms)
  then have "coalescion_reachable cfg func (from_config, [(i, ty, Looked None 0), (i, ty, Looked None 0)])"
    by (rule reach_step [of _ _ _ _ _ 1 i ty Called v]) (simp_all add: from_config_def assms)
  then have "coalescion_reachable cfg func (from_config, [(i, ty, Insert None), (i, ty, Looked None 0)])"
    by (rule reach_step [of _ _ _ _ _ 0 i ty "Looked None 0" v]) (simp_all add: assms)
  then have "coalescion_reachable cfg func (from_config, [(i, ty, Insert None), (i, ty, Insert None)])"
    by (rule reach_step [of _ _ _ _ _ 1 i ty "Looked None 0" v]) (simp_all add: assms)
  then have "coalescion_reachable cfg func (\<lparr>watchers = [(i, 0)], queue = [], channels = [Pending]\<rparr>, [(i, ty, Run 0 None), (i, ty, Insert None)])"
    by (rule reach_step [of _ _ _ _ _ 0 i ty "Insert None" v]) (simp_all add: assms from_config_def watch_channel_def)
  then have "coalescion_reachable cfg func (\<lparr>watchers = [(i, 1)], queue = [], channels = [Pending, Pending]\<rparr>, [(i, ty, Run 0 None), (i, ty, Run 1 None)])"
    by (rule reach_step [of _ _ _ _ _ 1 i ty "Insert None" v]) (simp_all add: assms watch_channel_def)
  then show ?thesis by (auto simp: current_task_count_def)
qed

text \<open>One call of the service runs; it is joined by a second one, dropped, or done.\<close>

lemma one_running:
  assumes "v \<in> func i ty" "max_concurrent cfg = Some 100"
  shows "coalescion_reachable cfg func (\<lparr>watchers = [(i, 0)], queue = [], channels = [Pending]\<rparr>, [(i, ty, Run 0 None)])"
proof -
  have "coalescion_reachable cfg func (from_config, [(i, ty, Called)])"
    using reach_call [of cfg func "(from_config, [])" from_config "[]" i ty] by simp
  then have "coalescion_reachable cfg func (from_config, [(i, ty, Looked None 0)])"
    by (rule reach_step [of _ _ _ _ _ 0 i ty Called v]) (simp_all add: from_config_def assms)
  then have "coalescion_reachable cfg func (from_config, [(i, ty, Insert None)])"
    by (rule reach_step [of _ _ _ _ _ 0 i ty "Looked None 0" v]) (simp_all add: assms)
  then show ?thesis
    by (rule reach_step [of _ _ _ _ _ 0 i ty "Insert None" v]) (simp_all add: from_config_def watch_channel_def assms)
qed

definition tenor_answer :: "string \<Rightarrow> type_id \<Rightarrow> nat set" where
  "tenor_answer i ty = {length i}"

lemma one_joined:
  "coalescion_reachable tenor_config tenor_answer (\<lparr>watchers = [(''cats'', 0)], queue = [], channels = [Pending]\<rparr>,
     [(''cats'', 1, Run 0 None), (''cats'', 1, WaitOn 0)])"
proof -
  let ?s = "\<lparr>watchers = [(''cats'', 0)], queue = [], channels = [Pending :: nat watch]\<rparr>"
  have "coalescion_reachable tenor_config tenor_answer (?s, [(''cats'', 1, Run 0 None), (''cats'', 1, Called)])"
    using reach_call [OF one_running [of 4 tenor_answer "''cats''" 1 tenor_config], of "''cats''" 1]
    by (simp add: tenor_answer_def tenor_config_def)
  then have "coalescion_reachable tenor_config tenor_answer (?s, [(''cats'', 1, Run 0 None), (''cats'', 1, Looked (Some 0) 1)])"
    by (rule reach_step [of _ _ _ _ _ 1 "''cats''" 1 Called 4]) (simp_all add: tenor_answer_def)
  then show ?thesis
    by (rule reach_step [of _ _ _ _ _ 1 "''cats''" 1 "Looked (Some 0) 1" 4]) (simp_all add: tenor_answer_def)
qed


lemma bounded_queue_stays_empty_example:
  "execute_step default_config (0 :: nat) ''dogs'' 1 QueueRead \<lparr>watchers = [(''cats'', 0)], queue = [], channels = [Pending]\<rparr>
     = Some (Done (Err MaxQueue), \<lparr>watchers = [(''cats'', 0)], queue = [], channels = [Pending]\<rparr>)"
  using bounded_queue_stays_empty [OF one_running [of 4 tenor_answer "''cats''" 1 default_config], of 100 0 "''dogs''" 1]
  by (simp add: default_config_def tenor_answer_def)

lemma simultaneous_calls_both_run_example:
  "\<exists>s. coalescion_reachable \<lparr>max_concurrent = Some 1, queue_requests = True, max_queue = None\<rparr> tenor_answer
     (s, [(''cats'', 1, Run 0 None), (''cats'', 1, Run 1 None)]) \<and> current_task_count s = 1"
  by (rule simultaneous_calls_both_run [of _ 4]) (simp_all add: tenor_answer_def)

lemma cancelled_call_poisons_identifier_example:
  "let t = \<lparr>watchers = [(''cats'', 0)], queue = [], channels = [Closed :: nat watch]\<rparr>; x = (''cats'', 1, Cancelled) in
   (coalescion_step default_config tenor_answer)\<^sup>*\<^sup>* (t, [x]) (t, [x, (''cats'', 1, Done (Err RecvError))])
   \<and> \<not> (\<exists>s v. (coalescion_step default_config tenor_answer)\<^sup>*\<^sup>* (t, [x]) (s, [x, (''cats'', 1, Done (Ok v))]))"
proof -
  let ?s = "\<lparr>watchers = [(''cats'', 0)], queue = [], channels = [Pending :: nat watch]\<rparr>"
    and ?t = "\<lparr>watchers = [(''cats'', 0)], queue = [], channels = [Closed :: nat watch]\<rparr>"
    and ?x = "(''cats'', 1, Cancelled) :: (string, nat) call"
  have closed: "?s\<lparr>channels := close_channels (owned (snd (snd ([(''cats'', 1, Run 0 None) :: (string, nat) call] ! 0)))) (channels ?s)\<rparr> = ?t"
    by (simp add: close_channels_def)
  have "(coalescion_step default_config tenor_answer)\<^sup>*\<^sup>* (?t, [?x]) (?t, [?x, (''cats'', 1, Called)])"
    using reach_call [of default_config tenor_answer "(?t, [?x])" ?t "[?x]" "''cats''" 1] by simp
  then have "(coalescion_step default_config tenor_answer)\<^sup>*\<^sup>* (?t, [?x]) (?t, [?x, (''cats'', 1, Looked (Some 0) 1)])"
    by (rule reach_step [of _ _ _ _ _ 1 "''cats''" 1 Called 4]) (simp_all add: tenor_answer_def)
  then have "(coalescion_step default_config tenor_answer)\<^sup>*\<^sup>* (?t, [?x]) (?t, [?x, (''cats'', 1, WaitOn 0)])"
    by (rule reach_step [of _ _ _ _ _ 1 "''cats''" 1 "Looked (Some 0) 1" 4]) (simp_all add: tenor_answer_def)
  then have "(coalescion_step default_config tenor_answer)\<^sup>*\<^sup>* (?t, [?x]) (?t, [?x, (''cats'', 1, Done (Err RecvError))])"
    by (rule reach_step [of _ _ _ _ _ 1 "''cats''" 1 "WaitOn 0" 4]) (simp_all add: tenor_answer_def wait_for_def)
  moreover have "r = Err RecvError"
    if "(coalescion_step default_config tenor_answer)\<^sup>*\<^sup>* (?t, [?x]) (s, [?x, (''cats'', 1, Done r)])" for s r
    using cancelled_call_poisons_identifier [OF one_running [of 4 tenor_answer "''cats''" 1 default_config], of 0 "''cats''" 1 0 None
        s "[?x, (''cats'', 1, Done r)]" 1 1 r] that
    unfolding closed by (simp add: tenor_answer_def default_config_def)
  ultimately show ?thesis unfolding Let_def by blast
qed

end
