(* ===== verification/Voice.thy ===== *)
theory Voice
  imports World Permission_Query
begin

unbundle bit_operations_syntax

text \<open>
  Voice calls (\<open>crates/core/database/src/voice/mod.rs\<close> and \<open>voice_client.rs\<close>): who is in which call is
  kept in Redis, the media server (LiveKit) is told about permissions and removals.

  Redis is an explicit store. A key is a constructor for each key format of the code; \<open>redis_key_text\<close> is
  the text that is sent, and distinct keys have distinct texts as long as the identifiers are ULIDs.
  A value is a text, a number, a truth value or a set; a command on a value of another kind fails, and a
  set that becomes empty is removed, as Redis documents. Obtaining a connection or running a command can
  fail at any time: the state carries the list of coming faults, each connection and each command takes
  one entry. A pipeline is one command. Expiry of keys is not modelled.

  The media server answers through \<open>ve_answers\<close>; the calls made to it are logged.
\<close>

section \<open>Redis\<close>

datatype redis_key =
    KNode string
  | KUserChannels string
  | KMembers string
  | KUnique string string
  | KJoinedAt string string
  | KIsPublishing string string
  | KIsReceiving string string
  | KScreensharing string string
  | KCamera string string
  | KActiveVoiceChannels
  | KMovedFrom string string
  | KMovedTo string string
  | KCallStarted string
  | KCallRecipients string string
  | KConnectionType string string
  | KViewers string
  | KDashMembers string

fun redis_key_text :: "redis_key \<Rightarrow> string" where
  "redis_key_text (KNode c) = ''node:'' @ c"
| "redis_key_text (KUserChannels u) = ''vc:'' @ u"
| "redis_key_text (KMembers c) = ''vc_members:'' @ c"
| "redis_key_text (KUnique u p) = u @ '':'' @ p"
| "redis_key_text (KJoinedAt u p) = ''joined_at:'' @ u @ '':'' @ p"
| "redis_key_text (KIsPublishing u p) = ''is_publishing:'' @ u @ '':'' @ p"
| "redis_key_text (KIsReceiving u p) = ''is_receiving:'' @ u @ '':'' @ p"
| "redis_key_text (KScreensharing u p) = ''screensharing:'' @ u @ '':'' @ p"
| "redis_key_text (KCamera u p) = ''camera:'' @ u @ '':'' @ p"
| "redis_key_text KActiveVoiceChannels = ''active_voice_channels''"
| "redis_key_text (KMovedFrom u c) = ''moved_from:'' @ u @ '':'' @ c"
| "redis_key_text (KMovedTo u c) = ''moved_to:'' @ u @ '':'' @ c"
| "redis_key_text (KCallStarted c) = ''call_started_message:'' @ c"
| "redis_key_text (KCallRecipients c u) = ''call_notification_recipients:'' @ c @ ''-'' @ u"
| "redis_key_text (KConnectionType u c) = ''vc_connection_type:'' @ u @ '':'' @ c"
| "redis_key_text (KViewers c) = ''vc_viewers:'' @ c"
| "redis_key_text (KDashMembers c) = ''vc-members-'' @ c"

text \<open>The recipients of a call are stored as one JSON text, kept here as the list.\<close>

datatype redis_value = RText string | RInt i64 | RBool bool | RJson "string list" | RSet "string list"

type_synonym redis_store = "(redis_key, redis_value) hash_map"

record redis =
  rd_store :: redis_store
  rd_faults :: "bool list"

datatype redis_command = RdSet redis_key redis_value | RdSadd redis_key string | RdSrem redis_key string
  | RdDel "redis_key list"

fun redis_exec :: "redis_command \<Rightarrow> redis_store \<Rightarrow> bool \<times> redis_store" where
  "redis_exec (RdSet k v) st = (True, AList.update k v st)"
| "redis_exec (RdSadd k x) st = (case map_of st k of
     None \<Rightarrow> (True, AList.update k (RSet [x]) st)
   | Some (RSet xs) \<Rightarrow> (True, AList.update k (RSet (set_insert x xs)) st)
   | Some _ \<Rightarrow> (False, st))"
| "redis_exec (RdSrem k x) st = (case map_of st k of
     None \<Rightarrow> (True, st)
   | Some (RSet xs) \<Rightarrow>
       (let ys = filter (\<lambda>y. y \<noteq> x) xs
        in (True, if ys = [] then AList.delete k st else AList.update k (RSet ys) st))
   | Some _ \<Rightarrow> (False, st))"
| "redis_exec (RdDel ks) st = (True, fold AList.delete ks st)"

fun redis_pipeline :: "redis_command list \<Rightarrow> redis_store \<Rightarrow> unit result \<times> redis_store" where
  "redis_pipeline [] st = (Ok (), st)"
| "redis_pipeline (c # cs) st = (case redis_exec c st of (ok, st) \<Rightarrow>
     (case redis_pipeline cs st of (r, st) \<Rightarrow> (if ok then r else Err InternalError, st)))"

fun redis_text :: "redis_key \<Rightarrow> redis_store \<Rightarrow> string option result" where
  "redis_text k st = (case map_of st k of None \<Rightarrow> Ok None | Some (RText s) \<Rightarrow> Ok (Some s) | Some _ \<Rightarrow> Err InternalError)"

fun redis_int :: "redis_key \<Rightarrow> redis_store \<Rightarrow> i64 option result" where
  "redis_int k st = (case map_of st k of None \<Rightarrow> Ok None | Some (RInt i) \<Rightarrow> Ok (Some i) | Some _ \<Rightarrow> Err InternalError)"

fun redis_bool :: "redis_key \<Rightarrow> redis_store \<Rightarrow> bool option result" where
  "redis_bool k st = (case map_of st k of None \<Rightarrow> Ok None | Some (RBool b) \<Rightarrow> Ok (Some b) | Some _ \<Rightarrow> Err InternalError)"

fun redis_json :: "redis_key \<Rightarrow> redis_store \<Rightarrow> string list option result" where
  "redis_json k st = (case map_of st k of None \<Rightarrow> Ok None | Some (RJson xs) \<Rightarrow> Ok (Some xs) | Some _ \<Rightarrow> Err InternalError)"

fun redis_smembers :: "redis_key \<Rightarrow> redis_store \<Rightarrow> string list result" where
  "redis_smembers k st = (case map_of st k of None \<Rightarrow> Ok [] | Some (RSet xs) \<Rightarrow> Ok xs | Some _ \<Rightarrow> Err InternalError)"

section \<open>The platform\<close>

record participant_permission =
  part_can_subscribe :: bool
  part_can_publish :: bool
  part_can_publish_data :: bool

datatype livekit_call =
    LkCreateRoom string string
  | LkUpdateParticipant string string string participant_permission
  | LkRemoveParticipant string string string
  | LkDeleteRoom string string

record video_grants =
  grant_room_join :: bool
  grant_can_publish :: bool
  grant_can_publish_data :: bool
  grant_can_publish_sources :: "string list"
  grant_can_subscribe :: bool
  grant_hidden :: bool
  grant_room :: string

record access_token =
  token_node :: string
  token_identity :: string
  token_grants :: video_grants

text \<open>What is outside: the configured nodes and hosts, the answers of the media server, the number of
  participants of a room it reports, the signing of tokens, the limits of a user, the clock.\<close>

record voice_env =
  ve_nodes :: "string list"
  ve_hosts :: "(string, string) hash_map"
  ve_answers :: "livekit_call \<Rightarrow> bool"
  ve_participants :: "string \<Rightarrow> string \<Rightarrow> nat"
  ve_jwt :: "access_token \<Rightarrow> string option"
  ve_limits :: "user \<Rightarrow> features_limits result"
  ve_now :: timestamp
  ve_unix_now :: i64

record platform =
  pl_world :: world
  pl_redis :: redis
  pl_livekit :: "livekit_call list"

type_synonym 'a voice = "(platform, error_type, 'a) io"

definition on_world :: "'a handler \<Rightarrow> 'a voice" where
  "on_world m s = (case m (pl_world s) of (r, w) \<Rightarrow> (r, s\<lparr>pl_world := w\<rparr>))"

definition read_database :: "(reference_db \<Rightarrow> 'a result) \<Rightarrow> 'a voice" where
  "read_database f s = (f (w_db (pl_world s)), s)"

text \<open>One attempt to reach Redis: it fails if a fault is due.\<close>

definition redis_attempt :: "(redis_store \<Rightarrow> 'a result \<times> redis_store) \<Rightarrow> 'a voice" where
  "redis_attempt f s = (let rd = pl_redis s; rest = rd\<lparr>rd_faults := tl (rd_faults rd)\<rparr> in
     if rd_faults rd \<noteq> [] \<and> hd (rd_faults rd) then (Err InternalError, s\<lparr>pl_redis := rest\<rparr>)
     else (case f (rd_store rd) of (r, st) \<Rightarrow> (r, s\<lparr>pl_redis := rest\<lparr>rd_store := st\<rparr>\<rparr>)))"

definition get_connection :: "unit voice" where
  "get_connection = redis_attempt (\<lambda>st. (Ok (), st))"

definition redis_read :: "(redis_store \<Rightarrow> 'a result) \<Rightarrow> 'a voice" where
  "redis_read f = redis_attempt (\<lambda>st. (f st, st))"

definition redis_write :: "redis_command list \<Rightarrow> unit voice" where
  "redis_write cs = redis_attempt (redis_pipeline cs)"

text \<open>\<open>GETDEL\<close>.\<close>

definition redis_take :: "redis_key \<Rightarrow> (redis_store \<Rightarrow> 'a result) \<Rightarrow> 'a voice" where
  "redis_take k f = redis_attempt (\<lambda>st. case f st of Ok v \<Rightarrow> (Ok v, AList.delete k st) | r \<Rightarrow> (r, st))"

text \<open>\<open>unwrap_or\<close> on the result of a step.\<close>

definition io_unwrap_or :: "'a \<Rightarrow> ('s, 'e, 'a) io \<Rightarrow> ('s, 'e, 'a) io" where
  "io_unwrap_or d m s = (case m s of (Err e, s') \<Rightarrow> (Ok d, s') | r \<Rightarrow> r)"

section \<open>Voice state\<close>

definition get_active_voice_channel_ids :: "string list voice" where
  "get_active_voice_channel_ids = io_then get_connection
     (io_bind (redis_read (redis_smembers KActiveVoiceChannels)) (\<lambda>v. io_return (filter (\<lambda>s. s \<noteq> []) v)))"

definition raise_if_in_voice :: "user \<Rightarrow> string \<Rightarrow> unit voice" where
  "raise_if_in_voice u c = io_then get_connection
     (io_bind
       (if user_bot u \<noteq> None
        then io_bind (redis_read (redis_smembers (KUserChannels (user_id u)))) (\<lambda>xs. io_return (c \<in> set xs))
        else io_return False) (\<lambda>there.
      if there then io_fail AlreadyConnected
      else io_bind (redis_read (redis_smembers (KUserChannels (user_id u)))) (\<lambda>xs.
        if length xs > 0 then io_fail AlreadyConnected else io_return ())))"

definition set_channel_node :: "string \<Rightarrow> string \<Rightarrow> unit voice" where
  "set_channel_node c node = io_then get_connection (redis_write [RdSet (KNode c) (RText node)])"

definition get_channel_node :: "string \<Rightarrow> string option voice" where
  "get_channel_node c = io_then get_connection (redis_read (redis_text (KNode c)))"

definition get_user_voice_channels :: "string \<Rightarrow> string list voice" where
  "get_user_voice_channels u = io_then get_connection (redis_read (redis_smembers (KUserChannels u)))"

definition set_user_moved_from_voice :: "string \<Rightarrow> string \<Rightarrow> string \<Rightarrow> unit voice" where
  "set_user_moved_from_voice old new u = io_then get_connection (redis_write [RdSet (KMovedFrom u old) (RText new)])"

definition get_user_moved_from_voice :: "string \<Rightarrow> string \<Rightarrow> string option voice" where
  "get_user_moved_from_voice c u = io_then get_connection (redis_take (KMovedFrom u c) (redis_text (KMovedFrom u c)))"

definition set_user_moved_to_voice :: "string \<Rightarrow> string \<Rightarrow> string \<Rightarrow> unit voice" where
  "set_user_moved_to_voice new old u = io_then get_connection (redis_write [RdSet (KMovedTo u new) (RText old)])"

definition get_user_moved_to_voice :: "string \<Rightarrow> string \<Rightarrow> string option voice" where
  "get_user_moved_to_voice c u = io_then get_connection (redis_take (KMovedTo u c) (redis_text (KMovedTo u c)))"

definition is_in_voice_channel :: "string \<Rightarrow> string \<Rightarrow> bool voice" where
  "is_in_voice_channel u c = io_then get_connection
     (io_bind (redis_read (redis_smembers (KUserChannels u))) (\<lambda>xs. io_return (c \<in> set xs)))"

definition get_user_voice_channel_in_server :: "string \<Rightarrow> string \<Rightarrow> string option voice" where
  "get_user_voice_channel_in_server u s = io_then get_connection (redis_read (redis_text (KUnique u s)))"

definition get_allowed_sources :: "features_limits \<Rightarrow> permission_value \<Rightarrow> string list" where
  "get_allowed_sources limits p =
     (if pv_has p (channel_permission_value Speak) then [''microphone''] else [])
     @ (if pv_has p (channel_permission_value Video) \<and> lim_video limits
        then [''camera'', ''screen_share'', ''screen_share_audio''] else [])"

definition voice_parent :: "string \<Rightarrow> string option \<Rightarrow> string" where
  "voice_parent c s = (case s of Some sid \<Rightarrow> sid | None \<Rightarrow> c)"

definition create_voice_state :: "string \<Rightarrow> string option \<Rightarrow> string \<Rightarrow> timestamp \<Rightarrow> user_voice_state voice" where
  "create_voice_state c s u joined_at =
     (let p = voice_parent c s;
          state = \<lparr>uvs_id = u, uvs_joined_at = joined_at, uvs_is_receiving = True, uvs_is_publishing = False,
            uvs_screensharing = False, uvs_camera = False\<rparr>
      in io_then get_connection
        (io_then (redis_write
           [RdSadd (KMembers c) u, RdSadd (KUserChannels u) c, RdSet (KUnique u p) (RText c),
            RdSet (KJoinedAt u p) (RInt joined_at),
            RdSet (KIsPublishing u p) (RBool (uvs_is_publishing state)),
            RdSet (KIsReceiving u p) (RBool (uvs_is_receiving state)),
            RdSet (KScreensharing u p) (RBool (uvs_screensharing state)),
            RdSet (KCamera u p) (RBool (uvs_camera state))])
        (io_then get_connection
          (io_then (io_discard (redis_write [RdSadd KActiveVoiceChannels c])) (io_return state)))))"

definition state_keys :: "string \<Rightarrow> string \<Rightarrow> redis_key list" where
  "state_keys u p = [KJoinedAt u p, KIsPublishing u p, KIsReceiving u p, KScreensharing u p, KCamera u p, KUnique u p]"

definition delete_voice_state :: "string \<Rightarrow> string option \<Rightarrow> string \<Rightarrow> unit voice" where
  "delete_voice_state c s u =
     io_then get_connection
       (io_then (redis_write [RdSrem (KMembers c) u, RdSrem (KUserChannels u) c, RdDel (state_keys u (voice_parent c s))])
       (io_then get_connection
         (io_bind (io_unwrap_or 0 (io_bind (redis_read (redis_smembers (KMembers c))) (\<lambda>xs. io_return (length xs)))) (\<lambda>remaining.
          if remaining = 0
          then io_then get_connection (io_discard (redis_write [RdSrem KActiveVoiceChannels c]))
          else io_return ()))))"

definition delete_channel_voice_state :: "string \<Rightarrow> string option \<Rightarrow> string list \<Rightarrow> unit voice" where
  "delete_channel_voice_state c s us =
     io_then get_connection
       (io_then (redis_write (RdDel [KMembers c]
          # concat (map (\<lambda>u. [RdSrem (KUserChannels u) c, RdDel (state_keys u (voice_parent c s))]) us)))
       (io_then get_connection (io_discard (redis_write [RdSrem KActiveVoiceChannels c]))))"

definition empty_partial_voice_state :: partial_user_voice_state where
  "empty_partial_voice_state = \<lparr>puv_id = None, puv_joined_at = None, puv_is_receiving = None,
     puv_is_publishing = None, puv_screensharing = None, puv_camera = None\<rparr>"

definition set_if :: "redis_key \<Rightarrow> bool option \<Rightarrow> redis_command list" where
  "set_if k x = (case x of Some b \<Rightarrow> [RdSet k (RBool b)] | None \<Rightarrow> [])"

definition update_voice_state :: "string \<Rightarrow> string option \<Rightarrow> string \<Rightarrow> partial_user_voice_state \<Rightarrow> unit voice" where
  "update_voice_state c s u partial =
     (let p = voice_parent c s in io_then get_connection (redis_write
        (set_if (KCamera u p) (puv_camera partial) @ set_if (KIsPublishing u p) (puv_is_publishing partial)
         @ set_if (KIsReceiving u p) (puv_is_receiving partial)
         @ set_if (KScreensharing u p) (puv_screensharing partial))))"

definition track_partial :: "bool \<Rightarrow> i32 \<Rightarrow> partial_user_voice_state result" where
  "track_partial added track =
     (if track = 0 then Ok empty_partial_voice_state
      else if track = 1 then Ok (empty_partial_voice_state\<lparr>puv_camera := Some added\<rparr>)
      else if track = 2 then Ok (empty_partial_voice_state\<lparr>puv_is_publishing := Some added\<rparr>)
      else if track = 3 \<or> track = 4 then Ok (empty_partial_voice_state\<lparr>puv_screensharing := Some added\<rparr>)
      else Panic)"

definition update_voice_state_tracks ::
  "string \<Rightarrow> string option \<Rightarrow> string \<Rightarrow> bool \<Rightarrow> i32 \<Rightarrow> partial_user_voice_state voice" where
  "update_voice_state_tracks c s u added track =
     io_bind (io_read (\<lambda>_. track_partial added track)) (\<lambda>partial.
     io_then (update_voice_state c s u partial) (io_return partial))"

definition get_voice_channel_members :: "string \<Rightarrow> string list option voice" where
  "get_voice_channel_members c = io_then get_connection
     (io_bind (redis_read (redis_smembers (KMembers c))) (\<lambda>v. io_return (if v = [] then None else Some v)))"

text \<open>The range of \<open>Timestamp\<close>, in milliseconds.\<close>

definition timestamp_of_millis :: "i64 \<Rightarrow> timestamp result" where
  "timestamp_of_millis ms = (if - 377705116800000 \<le> ms \<and> ms \<le> 253402300799999 then Ok ms else Panic)"

definition stored_voice_state :: "string \<Rightarrow> string \<Rightarrow> redis_store \<Rightarrow> user_voice_state option result" where
  "stored_voice_state u p st =
     res_bind (redis_int (KJoinedAt u p) st) (\<lambda>joined_at.
     res_bind (redis_bool (KIsPublishing u p) st) (\<lambda>is_publishing.
     res_bind (redis_bool (KIsReceiving u p) st) (\<lambda>is_receiving.
     res_bind (redis_bool (KScreensharing u p) st) (\<lambda>screensharing.
     res_bind (redis_bool (KCamera u p) st) (\<lambda>camera.
       case (joined_at, is_publishing, is_receiving, screensharing, camera) of
         (Some joined_at, Some is_publishing, Some is_receiving, Some screensharing, Some camera) \<Rightarrow>
           res_bind (timestamp_of_millis joined_at) (\<lambda>joined_at.
             Ok (Some \<lparr>uvs_id = u, uvs_joined_at = joined_at, uvs_is_receiving = is_receiving,
               uvs_is_publishing = is_publishing, uvs_screensharing = screensharing, uvs_camera = camera\<rparr>))
       | _ \<Rightarrow> Ok None)))))"

definition get_voice_state :: "string \<Rightarrow> string option \<Rightarrow> string \<Rightarrow> user_voice_state option voice" where
  "get_voice_state c s u = io_then get_connection (redis_read (stored_voice_state u (voice_parent c s)))"

fun voice_participants :: "string \<Rightarrow> string option \<Rightarrow> string list \<Rightarrow> user_voice_state list voice" where
  "voice_participants c s [] = io_return []"
| "voice_participants c s (u # us) =
     io_bind (get_voice_state c s u) (\<lambda>state. case state of
       Some state \<Rightarrow> io_bind (voice_participants c s us) (\<lambda>states. io_return (state # states))
     | None \<Rightarrow> io_then (delete_voice_state c s u) (voice_participants c s us))"

definition get_channel_voice_state :: "channel \<Rightarrow> (string \<times> user_voice_state list) option voice" where
  "get_channel_voice_state c =
     io_bind (get_voice_channel_members (channel_id c)) (\<lambda>members. case members of
       Some us \<Rightarrow> io_bind (voice_participants (channel_id c) (channel_server c) us)
         (\<lambda>participants. io_return (Some (channel_id c, participants)))
     | None \<Rightarrow> io_return None)"

text \<open>\<open>SMOVE\<close> moves the member only if the source set has it.\<close>

definition move_user :: "string \<Rightarrow> string \<Rightarrow> string \<Rightarrow> unit voice" where
  "move_user u from to = io_then get_connection (redis_attempt (\<lambda>st.
     case redis_smembers (KDashMembers from) st of
       Ok xs \<Rightarrow> if u \<in> set xs then redis_pipeline [RdSrem (KDashMembers from) u, RdSadd (KDashMembers to) u] st
         else (Ok (), st)
     | _ \<Rightarrow> (Err InternalError, st)))"

section \<open>The media server\<close>

definition voice_is_enabled :: "voice_env \<Rightarrow> bool" where
  "voice_is_enabled E \<longleftrightarrow> ve_nodes E \<noteq> []"

definition get_node :: "voice_env \<Rightarrow> string \<Rightarrow> unit result" where
  "get_node E node = (if node \<in> set (ve_nodes E) then Ok () else Err UnknownNode)"

definition livekit :: "voice_env \<Rightarrow> string \<Rightarrow> livekit_call \<Rightarrow> unit voice" where
  "livekit E node call = io_then (io_read (\<lambda>_. get_node E node)) (\<lambda>s.
     (if ve_answers E call then Ok () else Err InternalError, s\<lparr>pl_livekit := pl_livekit s @ [call]\<rparr>))"

text \<open>The name and the metadata of a token, made from the user, are left out.\<close>

definition create_token :: "voice_env \<Rightarrow> string \<Rightarrow> user \<Rightarrow> permission_value \<Rightarrow> channel \<Rightarrow> string result" where
  "create_token E node u p c =
     res_bind (get_node E node) (\<lambda>_.
     res_bind (ve_limits E u) (\<lambda>limits.
       ok_or (ve_jwt E \<lparr>token_node = node, token_identity = user_id u, token_grants =
         \<lparr>grant_room_join = True, grant_can_publish = True, grant_can_publish_data = False,
          grant_can_publish_sources = get_allowed_sources limits p,
          grant_can_subscribe = has_channel_permission p Listen, grant_hidden = False,
          grant_room = channel_id c\<rparr>\<rparr>) InternalError))"

definition create_viewer_token :: "voice_env \<Rightarrow> string \<Rightarrow> user \<Rightarrow> channel \<Rightarrow> string result" where
  "create_viewer_token E node u c =
     res_bind (get_node E node) (\<lambda>_.
       ok_or (ve_jwt E \<lparr>token_node = node, token_identity = user_id u, token_grants =
         \<lparr>grant_room_join = True, grant_can_publish = False, grant_can_publish_data = False,
          grant_can_publish_sources = [], grant_can_subscribe = True, grant_hidden = True,
          grant_room = channel_id c\<rparr>\<rparr>) InternalError)"

definition create_room :: "voice_env \<Rightarrow> string \<Rightarrow> channel \<Rightarrow> nat voice" where
  "create_room E node c = io_then (livekit E node (LkCreateRoom node (channel_id c)))
     (io_return (ve_participants E node (channel_id c)))"

definition update_permissions :: "voice_env \<Rightarrow> string \<Rightarrow> user \<Rightarrow> string \<Rightarrow> participant_permission \<Rightarrow> unit voice" where
  "update_permissions E node u c new = livekit E node (LkUpdateParticipant node c (user_id u) new)"

definition voice_remove_user :: "voice_env \<Rightarrow> string \<Rightarrow> string \<Rightarrow> string \<Rightarrow> unit voice" where
  "voice_remove_user E node u c = livekit E node (LkRemoveParticipant node c u)"

definition delete_room :: "voice_env \<Rightarrow> string \<Rightarrow> string \<Rightarrow> unit voice" where
  "delete_room E node c = livekit E node (LkDeleteRoom node c)"

section \<open>Permissions of those in a call\<close>

text \<open>\<open>calculate_channel_permissions\<close> over the database of the platform.\<close>

definition voice_query :: "platform \<Rightarrow> user \<Rightarrow> db_permission_query" where
  "voice_query s u = new_query (reference_database (w_db (pl_world s))) u"

definition calculated :: "voice_env \<Rightarrow> (platform \<Rightarrow> db_permission_query) \<Rightarrow> permission_value voice" where
  "calculated E query s = (case calculate_channel_permissions (db_query (ve_now E)) (query s) of
     Some (p, _) \<Rightarrow> (Ok p, s) | None \<Rightarrow> (Panic, s))"

definition then_some :: "bool \<Rightarrow> 'a \<Rightarrow> 'a option" where
  "then_some b x = (if b then Some x else None)"

definition voice_permission_update :: "string \<Rightarrow> user_voice_state \<Rightarrow> features_limits \<Rightarrow> permission_value \<Rightarrow> partial_user_voice_state" where
  "voice_permission_update uid state limits p =
     (let can_video = (lim_video limits \<and> has_channel_permission p Video);
          can_speak = has_channel_permission p Speak
      in empty_partial_voice_state\<lparr>puv_id := Some uid, puv_camera := then_some (uvs_camera state) can_video,
           puv_screensharing := then_some (uvs_screensharing state) can_video,
           puv_is_publishing := then_some (uvs_is_publishing state) can_speak\<rparr>)"

definition sync_member :: "string option \<Rightarrow> user \<Rightarrow> member option voice" where
  "sync_member s u = (case s of
     Some sid \<Rightarrow> io_bind (read_database (\<lambda>db. fetch_member db sid (user_id u))) (\<lambda>m. io_return (Some m))
   | None \<Rightarrow> io_return None)"

definition sync_query :: "channel \<Rightarrow> server option \<Rightarrow> member option \<Rightarrow> user \<Rightarrow> platform \<Rightarrow> db_permission_query" where
  "sync_query c s m u pl =
     (let query = with_user u (with_channel c (voice_query pl u))
      in case (s, m) of (Some s, Some m) \<Rightarrow> with_server s (with_member m query) | _ \<Rightarrow> query)"

definition sync_user_voice_permissions ::
  "voice_env \<Rightarrow> string \<Rightarrow> user \<Rightarrow> channel \<Rightarrow> server option \<Rightarrow> string option \<Rightarrow> unit voice" where
  "sync_user_voice_permissions E node u c s role =
     io_bind (sync_member (map_option server_id s) u) (\<lambda>m.
     if (case role of None \<Rightarrow> True | Some r \<Rightarrow> (case m of None \<Rightarrow> True | Some m \<Rightarrow> r \<in> set (member_roles m))) then
       io_bind (get_voice_state (channel_id c) (map_option server_id s) (user_id u)) (\<lambda>state.
       case state of
         None \<Rightarrow> io_return ()
       | Some state \<Rightarrow>
           io_bind (calculated E (sync_query c s m u)) (\<lambda>p.
           io_bind (io_read (\<lambda>_. ve_limits E u)) (\<lambda>limits.
           let update_event = voice_permission_update (user_id u) state limits p in
           io_then (update_voice_state (channel_id c) (map_option server_id s) (user_id u) update_event)
           (io_then (update_permissions E node u (channel_id c)
              \<lparr>part_can_subscribe = has_channel_permission p Listen,
               part_can_publish = has_channel_permission p Speak,
               part_can_publish_data = has_channel_permission p Speak\<rparr>)
             (if update_event \<noteq> empty_partial_voice_state\<lparr>puv_id := Some (user_id u)\<rparr>
              then on_world (publish (channel_id c) (EvUserVoiceStateUpdate (user_id u) (channel_id c) update_event))
              else io_return ())))))
     else io_return ())"

fun sync_all :: "voice_env \<Rightarrow> string \<Rightarrow> channel \<Rightarrow> server option \<Rightarrow> string option \<Rightarrow> string list \<Rightarrow> unit voice" where
  "sync_all E node c s role [] = io_return ()"
| "sync_all E node c s role (i # ids) =
     io_bind (read_database (\<lambda>db. fetch_user db i)) (\<lambda>u.
     io_then (sync_user_voice_permissions E node u c s role) (sync_all E node c s role ids))"

definition sync_voice_permissions :: "voice_env \<Rightarrow> channel \<Rightarrow> server option \<Rightarrow> string option \<Rightarrow> unit voice" where
  "sync_voice_permissions E c s role =
     io_bind (get_channel_node (channel_id c)) (\<lambda>node. case node of
       None \<Rightarrow> io_return ()
     | Some node \<Rightarrow> io_bind (get_voice_channel_members (channel_id c)) (\<lambda>members.
         sync_all E node c s role (case members of Some us \<Rightarrow> us | None \<Rightarrow> [])))"

section \<open>Calls\<close>

definition set_channel_call_started_system_message :: "string \<Rightarrow> string \<Rightarrow> unit voice" where
  "set_channel_call_started_system_message c m = io_then get_connection (redis_write [RdSet (KCallStarted c) (RText m)])"

definition take_channel_call_started_system_message :: "string \<Rightarrow> string option voice" where
  "take_channel_call_started_system_message c =
     io_then get_connection (redis_take (KCallStarted c) (redis_text (KCallStarted c)))"

definition set_call_notification_recipients :: "string \<Rightarrow> string \<Rightarrow> string list \<Rightarrow> unit voice" where
  "set_call_notification_recipients c u recipients =
     io_then get_connection (redis_write [RdSet (KCallRecipients c u) (RJson recipients)])"

definition get_call_notification_recipients :: "string \<Rightarrow> string \<Rightarrow> string list option voice" where
  "get_call_notification_recipients c u =
     io_then get_connection (redis_take (KCallRecipients c u) (redis_json (KCallRecipients c u)))"

definition set_voice_connection_type :: "string \<Rightarrow> string \<Rightarrow> string \<Rightarrow> unit voice" where
  "set_voice_connection_type c u t = io_then get_connection (redis_write [RdSet (KConnectionType u c) (RText t)])"

definition get_voice_connection_type :: "string \<Rightarrow> string \<Rightarrow> string option voice" where
  "get_voice_connection_type c u = io_then get_connection (redis_read (redis_text (KConnectionType u c)))"

definition delete_voice_connection_type :: "string \<Rightarrow> string \<Rightarrow> unit voice" where
  "delete_voice_connection_type c u = io_then get_connection (redis_write [RdDel [KConnectionType u c]])"

definition create_viewer_state :: "string \<Rightarrow> string \<Rightarrow> unit voice" where
  "create_viewer_state c u = io_then get_connection (redis_write [RdSadd (KViewers c) u])"

definition delete_viewer_state :: "string \<Rightarrow> string \<Rightarrow> unit voice" where
  "delete_viewer_state c u = io_then get_connection (redis_write [RdSrem (KViewers c) u])"

definition get_viewer_count :: "string \<Rightarrow> nat voice" where
  "get_viewer_count c = io_then get_connection
     (io_bind (redis_read (redis_smembers (KViewers c))) (\<lambda>xs. io_return (length xs)))"

definition get_viewer_list :: "string \<Rightarrow> string list voice" where
  "get_viewer_list c = io_then get_connection (redis_read (redis_smembers (KViewers c)))"

definition delete_channel_viewer_state :: "string \<Rightarrow> unit voice" where
  "delete_channel_viewer_state c = io_then get_connection (redis_write [RdDel [KViewers c]])"

definition remove_user_from_voice_channel :: "voice_env \<Rightarrow> string \<Rightarrow> string \<Rightarrow> unit voice" where
  "remove_user_from_voice_channel E c u =
     io_bind (get_channel_node c) (\<lambda>node.
     io_then (case node of Some node \<Rightarrow> io_discard (voice_remove_user E node u c) | None \<Rightarrow> io_return ())
     (io_bind (read_database (\<lambda>db. fetch_channel db c)) (\<lambda>channel.
       delete_voice_state c (channel_server channel) u)))"

fun remove_from_each :: "voice_env \<Rightarrow> string \<Rightarrow> string list \<Rightarrow> unit voice" where
  "remove_from_each E u [] = io_return ()"
| "remove_from_each E u (c # cs) = io_then (remove_user_from_voice_channel E c u) (remove_from_each E u cs)"

definition remove_user_from_voice_channels :: "voice_env \<Rightarrow> string \<Rightarrow> unit voice" where
  "remove_user_from_voice_channels E u = io_bind (get_user_voice_channels u) (remove_from_each E u)"

definition disconnect_from :: "string \<Rightarrow> string \<Rightarrow> unit voice" where
  "disconnect_from u c s =
     (let sid = (case fetch_channel (w_db (pl_world s)) c of Ok channel \<Rightarrow> channel_server channel | _ \<Rightarrow> None)
      in io_then (io_discard (delete_voice_state c sid u))
        (io_then (io_discard (delete_voice_connection_type c u))
          (on_world (publish c (EvVoiceChannelLeave c u)))) s)"

fun disconnect_each :: "string \<Rightarrow> string list \<Rightarrow> unit voice" where
  "disconnect_each u [] = io_return ()"
| "disconnect_each u (c # cs) = io_then (disconnect_from u c) (disconnect_each u cs)"

definition cleanup_user_voice_on_disconnect :: "string \<Rightarrow> unit voice" where
  "cleanup_user_voice_on_disconnect u = io_bind (get_user_voice_channels u) (disconnect_each u)"

definition delete_voice_channel :: "voice_env \<Rightarrow> string \<Rightarrow> string option \<Rightarrow> unit voice" where
  "delete_voice_channel E c s =
     io_then (io_bind (get_voice_channel_members c) (\<lambda>members. case members of
         None \<Rightarrow> io_return ()
       | Some us \<Rightarrow> io_bind (get_channel_node c) (\<lambda>node. case node of
             None \<Rightarrow> io_panic
           | Some node \<Rightarrow> io_then (delete_room E node c) (delete_channel_voice_state c s us))))
     (delete_channel_viewer_state c)"

end
