(* ===== verification/Voice_Calls.thy ===== *)
theory Voice_Calls
  imports Voice
begin

text \<open>
  Joining and leaving a call (\<open>crates/delta/src/routes/channels/voice_join.rs\<close>, \<open>voice_leave.rs\<close>) and the
  daemon that receives the webhooks of the media server (\<open>crates/daemons/voice-ingress/src/api.rs\<close>).

  A webhook arrives here verified and decoded. The analytics the daemon records, whose failures it
  discards, are not modelled. The test of the aspect ratio, on floats, is the argument \<open>aspect_ok\<close>.
\<close>

section \<open>Joining\<close>

record data_join_call =
  join_node :: "string option"
  join_force_disconnect :: "bool option"
  join_recipients :: "string list option"

record create_voice_user_response =
  cvr_token :: string
  cvr_url :: string
  cvr_connection_type :: string

primrec tier_name :: "subscription_tier \<Rightarrow> string" where
  "tier_name TierFree = ''Free''"
| "tier_name TierBasic = ''Basic''"
| "tier_name TierPro = ''Pro''"
| "tier_name TierUltra = ''Ultra''"

primrec upgrade_hint :: "subscription_tier \<Rightarrow> string" where
  "upgrade_hint TierFree = ''Upgrade to Basic ($5/mo) for 50 viewers with LiveKit SFU.''"
| "upgrade_hint TierBasic = ''Upgrade to Pro ($10/mo) for 200 viewers + stream recording.''"
| "upgrade_hint TierPro = ''Upgrade to Ultra ($20/mo) for unlimited viewers + priority routing.''"
| "upgrade_hint TierUltra = ''Contact support for higher limits.''"

text \<open>The tier of the owner of the channel's server.\<close>

definition streamer_tier :: "voice_env \<Rightarrow> string \<Rightarrow> subscription_tier voice" where
  "streamer_tier E sid =
     io_bind (read_database (\<lambda>db. fetch_server db sid)) (\<lambda>s.
     io_bind (read_database (\<lambda>db. fetch_user db (server_owner s))) (\<lambda>owner.
       io_return (active_subscription_tier (ve_unix_now E) owner)))"

definition check_room_for :: "voice_information \<Rightarrow> permission_value \<Rightarrow> string \<Rightarrow> unit voice" where
  "check_room_for info p c =
     io_bind (get_voice_channel_members c) (\<lambda>members.
       if (case (members, voice_max_users info) of (Some ms, Some max_users) \<Rightarrow> length ms \<ge> max_users | _ \<Rightarrow> False)
         \<and> \<not> pv_has p (channel_permission_value ManageChannel)
       then io_fail CannotJoinCall else io_return ())"

definition check_viewer_limit :: "voice_env \<Rightarrow> channel \<Rightarrow> unit voice" where
  "check_viewer_limit E c = (case channel_server c of
     None \<Rightarrow> io_return ()
   | Some sid \<Rightarrow> io_bind (streamer_tier E sid) (\<lambda>tier.
       let max_viewers = stream_viewer_limit tier in
       if max_viewers > 0 then io_bind (get_viewer_count (channel_id c)) (\<lambda>current.
         if current \<ge> max_viewers
         then io_fail (ViewerLimitReached max_viewers (''This stream has reached its '' @ tier_name tier
           @ '' tier limit of '' @ decimal max_viewers @ '' viewers. '' @ upgrade_hint tier))
         else io_return ())
       else io_return ()))"

definition uses_livekit :: "voice_env \<Rightarrow> channel \<Rightarrow> voice_information \<Rightarrow> bool voice" where
  "uses_livekit E c info =
     (if \<not> voice_is_stream_public info then io_return False
      else case channel_server c of
        None \<Rightarrow> io_return False
      | Some sid \<Rightarrow> io_bind (streamer_tier E sid) (\<lambda>tier. io_return (uses_livekit_for_public_streams tier)))"

definition connection_name :: "bool \<Rightarrow> string" where
  "connection_name is_viewer = (if is_viewer then ''viewer'' else ''participant'')"

definition store_recipients :: "bool \<Rightarrow> string \<Rightarrow> string \<Rightarrow> string list option \<Rightarrow> unit voice" where
  "store_recipients wanted c u recipients = (case recipients of
     Some rs \<Rightarrow> if wanted \<and> rs \<noteq> [] then set_call_notification_recipients c u rs else io_return ()
   | None \<Rightarrow> io_return ())"

definition join_peer_to_peer ::
  "voice_env \<Rightarrow> user \<Rightarrow> channel \<Rightarrow> bool \<Rightarrow> string list option \<Rightarrow> create_voice_user_response voice" where
  "join_peer_to_peer E u c is_viewer recipients =
     io_then (set_voice_connection_type (channel_id c) (user_id u) (connection_name is_viewer))
     (io_then
       (if is_viewer then io_return ()
        else io_then (raise_if_in_voice u (channel_id c))
          (io_bind (create_voice_state (channel_id c) (channel_server c) (user_id u) (ve_now E)) (\<lambda>state.
           io_then (on_world (publish (channel_id c) (EvVoiceChannelJoin (channel_id c) state)))
             (store_recipients True (channel_id c) (user_id u) recipients))))
       (io_return \<lparr>cvr_token = '''', cvr_url = '''', cvr_connection_type = ''p2p''\<rparr>))"

fun force_disconnect_from :: "voice_env \<Rightarrow> user \<Rightarrow> string list \<Rightarrow> unit voice" where
  "force_disconnect_from E u [] = io_return ()"
| "force_disconnect_from E u (c # cs) =
     io_bind (get_channel_node c) (\<lambda>node.
     io_then (case node of Some node \<Rightarrow> io_discard (voice_remove_user E node (user_id u) c) | None \<Rightarrow> io_return ())
     (io_bind (read_database (\<lambda>db. fetch_channel db c)) (\<lambda>channel.
      io_then (delete_voice_state c (channel_server channel) (user_id u)) (force_disconnect_from E u cs))))"

definition join_livekit :: "voice_env \<Rightarrow> user \<Rightarrow> channel \<Rightarrow> bool \<Rightarrow> permission_value \<Rightarrow> data_join_call
    \<Rightarrow> create_voice_user_response voice" where
  "join_livekit E u c is_viewer p data =
     io_bind (get_channel_node (channel_id c)) (\<lambda>existing.
     io_bind (io_read (\<lambda>_. ok_or (case existing of Some n \<Rightarrow> Some n | None \<Rightarrow> join_node data) UnknownNode)) (\<lambda>node.
     io_bind (io_read (\<lambda>_. ok_or (map_of (ve_hosts E) node) UnknownNode)) (\<lambda>host.
     io_then (if join_force_disconnect data = Some True
        then io_bind (get_user_voice_channels (user_id u)) (force_disconnect_from E u)
        else raise_if_in_voice u (channel_id c))
     (io_bind (io_read (\<lambda>_. if is_viewer then create_viewer_token E node u c else create_token E node u p c)) (\<lambda>token.
      io_bind (create_room E node c) (\<lambda>participants.
      io_then (set_voice_connection_type (channel_id c) (user_id u) (connection_name is_viewer))
      (io_then (if is_viewer then io_return ()
          else store_recipients (participants = 0) (channel_id c) (user_id u) (join_recipients data))
        (io_return \<lparr>cvr_token = token, cvr_url = host, cvr_connection_type = connection_name is_viewer\<rparr>))))))))"

definition join_call :: "voice_env \<Rightarrow> user \<Rightarrow> string \<Rightarrow> data_join_call \<Rightarrow> create_voice_user_response voice" where
  "join_call E u target data =
     (if \<not> voice_is_enabled E then io_fail LiveKitUnavailable
      else if user_bot u \<noteq> None \<and> join_force_disconnect data = Some True then io_fail IsBot
      else io_bind (read_database (\<lambda>db. fetch_channel db target)) (\<lambda>c.
        case channel_voice c of
          None \<Rightarrow> io_fail NotAVoiceChannel
        | Some info \<Rightarrow>
            io_bind (calculated E (\<lambda>s. with_channel c (voice_query s u))) (\<lambda>p.
            if \<not> has_channel_permission p Connect \<and> \<not> voice_is_stream_public info
            then io_fail (MissingPermission ''Connect'')
            else let is_viewer = (\<not> has_channel_permission p Connect) in
              io_then (if is_viewer then io_return () else check_room_for info p (channel_id c))
              (io_then (if is_viewer then check_viewer_limit E c else io_return ())
              (io_bind (uses_livekit E c info) (\<lambda>lk.
                if lk then join_livekit E u c is_viewer p data
                else join_peer_to_peer E u c is_viewer (join_recipients data)))))))"

section \<open>Leaving\<close>

definition leave_call :: "voice_env \<Rightarrow> user \<Rightarrow> string \<Rightarrow> unit voice" where
  "leave_call E u target =
     io_bind (read_database (\<lambda>db. fetch_channel db target)) (\<lambda>c.
     io_bind (get_voice_state (channel_id c) (channel_server c) (user_id u)) (\<lambda>state.
     if state = None then io_fail NoEffect
     else io_bind (get_voice_connection_type (channel_id c) (user_id u)) (\<lambda>t.
       io_bind (get_channel_node (channel_id c)) (\<lambda>node.
       io_then (case node of Some node \<Rightarrow> io_discard (voice_remove_user E node (user_id u) (channel_id c)) | None \<Rightarrow> io_return ())
       (if t = Some ''viewer''
        then io_then (delete_viewer_state (channel_id c) (user_id u))
          (delete_voice_connection_type (channel_id c) (user_id u))
        else io_then (delete_voice_state (channel_id c) (channel_server c) (user_id u))
          (io_then (delete_voice_connection_type (channel_id c) (user_id u))
            (on_world (publish (channel_id c) (EvVoiceChannelLeave (channel_id c) (user_id u))))))))))"

section \<open>Webhooks\<close>

record track_info =
  track_type :: i32
  track_source :: i32
  track_width :: u32
  track_height :: u32

datatype webhook_kind = ParticipantJoined | ParticipantLeft | TrackPublished | TrackUnpublished | TrackUnmuted | TrackMuted
  | OtherWebhook

record webhook_event =
  hook_kind :: webhook_kind
  hook_room :: "string option"
  hook_participant :: "string option"
  hook_created_at :: i64
  hook_track :: "track_info option"

definition viewer_count_update :: "string \<Rightarrow> unit voice" where
  "viewer_count_update c = io_bind (get_viewer_count c) (\<lambda>n.
     on_world (publish c (EvViewerCountUpdate c (word_of_nat n))))"

definition participant_joined :: "channel \<Rightarrow> string \<Rightarrow> string \<Rightarrow> i64 \<Rightarrow> unit voice" where
  "participant_joined channel c u created_at =
     io_bind (get_voice_connection_type c u) (\<lambda>t.
     if t = Some ''viewer'' then io_then (create_viewer_state c u) (viewer_count_update c)
     else io_bind (io_read (\<lambda>_. timestamp_of_millis (1000 * created_at))) (\<lambda>joined_at.
       io_bind (create_voice_state c (channel_server channel) u joined_at) (\<lambda>state.
       io_bind (get_user_moved_to_voice c u) (\<lambda>moved. case moved of
         Some from \<Rightarrow> on_world (publish c (EvVoiceChannelMove u from c state))
       | None \<Rightarrow> on_world (publish c (EvVoiceChannelJoin c state))))))"

definition participant_left :: "channel \<Rightarrow> string \<Rightarrow> string \<Rightarrow> unit voice" where
  "participant_left channel c u =
     io_bind (get_voice_connection_type c u) (\<lambda>t.
     if t = Some ''viewer''
     then io_then (delete_viewer_state c u) (io_then (delete_voice_connection_type c u) (viewer_count_update c))
     else io_then (delete_voice_state c (channel_server channel) u)
       (io_then (delete_voice_connection_type c u)
         (io_bind (get_user_moved_from_voice c u) (\<lambda>moved.
           if moved = None then on_world (publish c (EvVoiceChannelLeave c u)) else io_return ()))))"

text \<open>Whether a published track is forbidden; the product of the sides is computed in 32 bits.\<close>

definition forbidden_track :: "(features_limits \<Rightarrow> track_info \<Rightarrow> bool) \<Rightarrow> features_limits \<Rightarrow> track_info \<Rightarrow> bool" where
  "forbidden_track aspect_ok limits t \<longleftrightarrow>
     track_type t = 2
     \<or> (track_type t = 1 \<and> track_source t = 1
        \<and> ((fst (lim_video_resolution limits) \<noteq> 0 \<and> snd (lim_video_resolution limits) \<noteq> 0
            \<and> track_width t * track_height t > fst (lim_video_resolution limits) * snd (lim_video_resolution limits))
           \<or> \<not> aspect_ok limits t))"

definition track_changed :: "voice_env \<Rightarrow> (features_limits \<Rightarrow> track_info \<Rightarrow> bool) \<Rightarrow> string \<Rightarrow> webhook_kind \<Rightarrow> string \<Rightarrow> string
    \<Rightarrow> track_info \<Rightarrow> unit voice" where
  "track_changed E aspect_ok node kind c u t =
     io_bind (get_voice_connection_type c u) (\<lambda>ct.
     if ct = Some ''viewer'' \<and> kind = TrackPublished
     then io_then (io_discard (voice_remove_user E node u c))
       (io_then (delete_viewer_state c u) (io_then (delete_voice_connection_type c u) (viewer_count_update c)))
     else io_bind (read_database (\<lambda>db. fetch_channel db c)) (\<lambda>channel.
       io_bind (read_database (\<lambda>db. fetch_user db u)) (\<lambda>user.
       io_bind (io_read (\<lambda>_. ve_limits E user)) (\<lambda>limits.
       if kind = TrackPublished \<and> forbidden_track aspect_ok limits t
       then io_then (io_discard (voice_remove_user E node u c)) (delete_voice_state c (channel_server channel) u)
       else io_bind (update_voice_state_tracks c (channel_server channel) u
           (kind = TrackPublished \<or> kind = TrackUnmuted) (track_source t)) (\<lambda>partial.
         on_world (publish c (EvUserVoiceStateUpdate u c partial)))))))"

definition ingress :: "voice_env \<Rightarrow> (features_limits \<Rightarrow> track_info \<Rightarrow> bool) \<Rightarrow> string \<Rightarrow> webhook_event \<Rightarrow> unit voice" where
  "ingress E aspect_ok node e =
     (if node \<notin> set (ve_nodes E) then io_fail InternalError
      else if hook_kind e = OtherWebhook then io_return ()
      else io_bind (io_read (\<lambda>_. ok_or (hook_room e) InternalError)) (\<lambda>c.
        io_bind (io_read (\<lambda>_. ok_or (hook_participant e) InternalError)) (\<lambda>u.
        case hook_kind e of
          ParticipantJoined \<Rightarrow> io_bind (read_database (\<lambda>db. fetch_channel db c)) (\<lambda>channel.
            participant_joined channel c u (hook_created_at e))
        | ParticipantLeft \<Rightarrow> io_bind (read_database (\<lambda>db. fetch_channel db c)) (\<lambda>channel. participant_left channel c u)
        | _ \<Rightarrow> io_bind (io_read (\<lambda>_. ok_or (hook_track e) InternalError)) (\<lambda>t.
            track_changed E aspect_ok node (hook_kind e) c u t))))"

end
