(* ===== verification/Steps.thy ===== *)
theory Steps
  imports Voice
begin

text \<open>
  Triples for the steps of the handlers. \<open>triple view I P m Q\<close> looks at the state through \<open>view\<close> (the
  database, the Redis store): from a view with \<open>P\<close> the step \<open>m\<close> reaches a view with \<open>Q\<close> when it returns a
  value and one with \<open>I\<close> when it fails.

  \<open>from_db I db m Q\<close> runs \<open>m\<close> from one database, which turns a proof about a route into a symbolic
  execution: reads are evaluated in \<open>db\<close>, checks become assumptions, and steps that leave the database
  alone (collection \<open>frame_rules\<close>) are skipped.
\<close>

named_theorems frame_rules \<open>steps that leave the database alone\<close>
named_theorems db_steps \<open>symbolic execution of routes on a database\<close>

section \<open>Triples\<close>

definition triple :: "('s \<Rightarrow> 'v) \<Rightarrow> ('v \<Rightarrow> bool) \<Rightarrow> ('v \<Rightarrow> bool) \<Rightarrow> ('s, 'e, 'a) io \<Rightarrow> ('a \<Rightarrow> 'v \<Rightarrow> bool) \<Rightarrow> bool" where
  "triple view I P m Q \<longleftrightarrow> (\<forall>s r s'. m s = (r, s') \<longrightarrow> P (view s) \<longrightarrow>
     (case r of Ok x \<Rightarrow> Q x (view s') | _ \<Rightarrow> I (view s')))"

lemma tripleD:
  "triple view I P m Q \<Longrightarrow> m s = (r, s') \<Longrightarrow> P (view s) \<Longrightarrow> (case r of Ok x \<Rightarrow> Q x (view s') | _ \<Rightarrow> I (view s'))"
  by (simp add: triple_def)

lemma triple_all: "triple view I I m (\<lambda>_. I) \<Longrightarrow> m s = (r, s') \<Longrightarrow> I (view s) \<Longrightarrow> I (view s')"
  by (drule (1) tripleD) (auto split: res.splits)

lemma triple_conseq:
  "triple view I P' m Q' \<Longrightarrow> (\<And>v. P v \<Longrightarrow> P' v) \<Longrightarrow> (\<And>x v. Q' x v \<Longrightarrow> Q x v) \<Longrightarrow> triple view I P m Q"
  unfolding triple_def by (fastforce split: res.splits)

lemma triple_bind:
  assumes "triple view I P m R" "\<And>x. triple view I (R x) (k x) Q"
  shows "triple view I P (io_bind m k) Q"
  unfolding triple_def
proof (intro allI impI)
  fix s r s'
  assume run: "io_bind m k s = (r, s')" and P: "P (view s)"
  obtain r1 s1 where one: "m s = (r1, s1)" by fastforce
  note first = tripleD [OF assms(1) one P]
  show "case r of Ok x \<Rightarrow> Q x (view s') | _ \<Rightarrow> I (view s')"
  proof (cases r1)
    case (Ok x)
    with run one have "k x s1 = (r, s')" by (simp add: io_bind_def)
    from tripleD [OF assms(2) this] first Ok show ?thesis by simp
  qed (use run one first in \<open>auto simp: io_bind_def\<close>)
qed

lemma triple_then: "triple view I P m (\<lambda>_. R) \<Longrightarrow> triple view I R k Q \<Longrightarrow> triple view I P (io_then m k) Q"
  unfolding io_then_def by (rule triple_bind)

lemma triple_return: "(\<And>v. P v \<Longrightarrow> Q x v) \<Longrightarrow> triple view I P (io_return x) Q"
  by (simp add: triple_def io_return_def)

lemma triple_fail: "(\<And>v. P v \<Longrightarrow> I v) \<Longrightarrow> triple view I P (io_fail e) Q"
  by (simp add: triple_def io_fail_def)

lemma triple_panic: "(\<And>v. P v \<Longrightarrow> I v) \<Longrightarrow> triple view I P io_panic Q"
  by (simp add: triple_def io_panic_def)

lemma triple_discard: "triple view I P m (\<lambda>_. I) \<Longrightarrow> triple view I P (io_discard m) (\<lambda>_. I)"
  unfolding triple_def by (auto simp: io_discard_def split: prod.splits res.splits) (metis res.simps)+

lemma triple_unwrap_or: "triple view I P m (\<lambda>_. I) \<Longrightarrow> triple view I P (io_unwrap_or d m) (\<lambda>_. I)"
  unfolding triple_def by (auto simp: io_unwrap_or_def split: prod.splits res.splits) (metis res.simps)+

lemma triple_read: "(\<And>v. P v \<Longrightarrow> I v) \<Longrightarrow> triple view I P (io_read f) (\<lambda>_. P)"
  by (auto simp: triple_def io_read_def split: res.splits)

section \<open>Steps that leave the database alone\<close>

abbreviation db_of :: "platform \<Rightarrow> reference_db" where
  "db_of pl \<equiv> w_db (pl_world pl)"

definition unchanged :: "('s \<Rightarrow> 'v) \<Rightarrow> ('s, 'e, 'a) io \<Rightarrow> bool" where
  "unchanged view m \<longleftrightarrow> (\<forall>s. view (snd (m s)) = view s)"

abbreviation frame :: "'a voice \<Rightarrow> bool" where
  "frame \<equiv> unchanged db_of"

lemma unchangedD: "unchanged view m \<Longrightarrow> m s = (r, s') \<Longrightarrow> view s' = view s"
  by (metis unchanged_def snd_conv)

lemma unchanged_bind [frame_rules]: "unchanged v m \<Longrightarrow> (\<And>x. unchanged v (k x)) \<Longrightarrow> unchanged v (io_bind m k)"
  by (auto simp: unchanged_def io_bind_def split: res.splits prod.splits) (metis snd_conv)+

lemma unchanged_then [frame_rules]: "unchanged v m \<Longrightarrow> unchanged v k \<Longrightarrow> unchanged v (io_then m k)"
  by (simp add: io_then_def unchanged_bind)

lemma unchanged_basic [frame_rules]:
  "unchanged v (io_return x)" "unchanged v (io_fail e)" "unchanged v io_panic" "unchanged v (io_read f)"
  by (simp_all add: unchanged_def io_return_def io_fail_def io_panic_def io_read_def)

lemma unchanged_discard [frame_rules]: "unchanged v m \<Longrightarrow> unchanged v (io_discard m)"
  by (auto simp: unchanged_def io_discard_def split: res.splits prod.splits) (metis snd_conv)+

lemma unchanged_unwrap_or [frame_rules]: "unchanged v m \<Longrightarrow> unchanged v (io_unwrap_or d m)"
  by (auto simp: unchanged_def io_unwrap_or_def split: res.splits prod.splits) (metis snd_conv)+

lemma unchanged_if [frame_rules]: "unchanged v m \<Longrightarrow> unchanged v m' \<Longrightarrow> unchanged v (if b then m else m')"
  by simp

lemma unchanged_option [frame_rules]:
  "unchanged v m \<Longrightarrow> (\<And>x. unchanged v (k x)) \<Longrightarrow> unchanged v (case y of None \<Rightarrow> m | Some x \<Rightarrow> k x)"
  by (cases y) simp_all

lemma unchanged_let [frame_rules]: "(\<And>x. unchanged v (k x)) \<Longrightarrow> unchanged v (let x = y in k x)"
  by simp

lemma unchanged_prod [frame_rules]: "(\<And>x y. unchanged v (k x y)) \<Longrightarrow> unchanged v (case z of (x, y) \<Rightarrow> k x y)"
  by (cases z) simp

lemma frame_basic [frame_rules]:
  "unchanged v (read_database g)" "unchanged v (calculated E query)" "frame (livekit E node call)" "frame (redis_attempt h)"
  by (auto simp: unchanged_def read_database_def calculated_def livekit_def outcome_simps get_node_def
      redis_attempt_def Let_def split: option.splits prod.splits res.splits)

lemma unchanged_publish [frame_rules]:
  "unchanged (\<lambda>w. f (w_db w)) (publish t e)" "unchanged (\<lambda>w. f (w_db w)) (publish_private t e)"
  "unchanged (\<lambda>w. f (w_db w)) (queue_task j)"
  by (simp_all add: unchanged_def publish_def publish_private_def queue_task_def)

lemma frame_publish [frame_rules]:
  "frame (on_world (publish t e))" "frame (on_world (publish_private i e))" "frame (on_world (queue_task k))"
  by (simp_all add: unchanged_def on_world_def publish_def publish_private_def queue_task_def)

lemmas redis_step_defs = get_connection_def redis_read_def redis_write_def redis_take_def

lemmas voice_step_defs = get_channel_node_def get_user_voice_channel_in_server_def get_voice_channel_members_def
  get_voice_state_def update_voice_state_def update_permissions_def sync_member_def voice_remove_user_def
  delete_voice_state_def delete_room_def delete_channel_voice_state_def delete_channel_viewer_state_def
  set_channel_node_def set_user_moved_from_voice_def set_user_moved_to_voice_def create_room_def

lemma frame_sync_user [frame_rules]: "frame (sync_user_voice_permissions E node u c s role)"
  unfolding sync_user_voice_permissions_def voice_step_defs redis_step_defs by (intro frame_rules)

lemma frame_sync_all [frame_rules]: "frame (sync_all E node c s role ids)"
  by (induction ids) (simp_all add: frame_rules)

lemma frame_sync [frame_rules]: "frame (sync_voice_permissions E c s role)"
  unfolding sync_voice_permissions_def voice_step_defs redis_step_defs by (intro frame_rules)

lemma frame_voice [frame_rules]:
  "frame (get_user_voice_channel_in_server u sid)" "frame (get_channel_node c)" "frame (set_channel_node c n)"
  "frame (set_user_moved_from_voice a b u)" "frame (set_user_moved_to_voice a b u)" "frame (create_room E n ch)"
  "frame (voice_remove_user E n u c)" "frame (delete_voice_state c s u)" "frame (get_voice_state c s u)"
  "frame (get_voice_channel_members c)" "frame (remove_user_from_voice_channel E c u)" "frame (delete_voice_channel E c s)"
  unfolding remove_user_from_voice_channel_def delete_voice_channel_def voice_step_defs redis_step_defs Let_def
  by (intro frame_rules)+

lemma frame_participants [frame_rules]: "frame (voice_participants c s us)"
  by (induction us) (simp_all add: frame_rules)

lemma frame_channel_voice_state [frame_rules]: "frame (get_channel_voice_state c)"
  unfolding get_channel_voice_state_def by (intro frame_rules)

section \<open>Running a step from one database\<close>

definition from_db :: "(reference_db \<Rightarrow> bool) \<Rightarrow> reference_db \<Rightarrow> 'a voice \<Rightarrow> ('a \<Rightarrow> reference_db \<Rightarrow> bool) \<Rightarrow> bool" where
  "from_db I db m Q \<longleftrightarrow> triple db_of I (\<lambda>db'. db' = db) m Q"

lemma from_dbD:
  "from_db I (db_of s) m Q \<Longrightarrow> m s = (r, s') \<Longrightarrow> (case r of Ok x \<Rightarrow> Q x (db_of s') | _ \<Rightarrow> I (db_of s'))"
  unfolding from_db_def by (drule (1) tripleD) simp_all

lemma from_bind: "from_db I db m R \<Longrightarrow> (\<And>x db'. R x db' \<Longrightarrow> from_db I db' (k x) Q) \<Longrightarrow> from_db I db (io_bind m k) Q"
  unfolding from_db_def by (rule triple_bind, assumption) (auto simp: triple_def)

lemma from_then: "from_db I db m (\<lambda>_. R) \<Longrightarrow> (\<And>db'. R db' \<Longrightarrow> from_db I db' k Q) \<Longrightarrow> from_db I db (io_then m k) Q"
  unfolding io_then_def by (rule from_bind)

lemma from_frame: "frame m \<Longrightarrow> I db \<Longrightarrow> from_db I db m (\<lambda>_ db'. db' = db)"
  by (auto simp: from_db_def triple_def dest: unchangedD split: res.splits)

lemma from_bind_read [db_steps]:
  "I db \<Longrightarrow> (\<And>x. f db = Ok x \<Longrightarrow> from_db I db (k x) Q) \<Longrightarrow> from_db I db (io_bind (read_database f) k) Q"
  by (rule from_bind [where R = "\<lambda>x db'. db' = db \<and> f db = Ok x"])
     (auto simp: from_db_def triple_def read_database_def split: res.splits)

lemma from_bind_attempt [db_steps]:
  "I db \<Longrightarrow> (\<And>x. r = Ok x \<Longrightarrow> from_db I db (k x) Q) \<Longrightarrow> from_db I db (io_bind (io_read (\<lambda>_. r)) k) Q"
  by (rule from_bind [where R = "\<lambda>x db'. db' = db \<and> r = Ok x"])
     (auto simp: from_db_def triple_def io_read_def split: res.splits)

lemma from_then_attempt [db_steps]:
  "I db \<Longrightarrow> (\<And>x. r = Ok x \<Longrightarrow> from_db I db k Q) \<Longrightarrow> from_db I db (io_then (io_read (\<lambda>_. r)) k) Q"
  unfolding io_then_def by (rule from_bind_attempt)

lemma from_then_read [db_steps]:
  "I db \<Longrightarrow> (\<And>x. f db = Ok x \<Longrightarrow> from_db I db k Q) \<Longrightarrow> from_db I db (io_then (read_database f) k) Q"
  unfolding io_then_def by (rule from_bind_read)

lemma from_returns [db_steps]: "Q x db \<Longrightarrow> from_db I db (io_return x) Q"
  by (simp add: from_db_def triple_def io_return_def)

lemma from_fails [db_steps]: "I db \<Longrightarrow> from_db I db (io_fail e) Q" "I db \<Longrightarrow> from_db I db io_panic Q"
  by (simp_all add: from_db_def triple_def io_fail_def io_panic_def)

lemma from_if [db_steps]:
  "(b \<Longrightarrow> from_db I db m Q) \<Longrightarrow> (\<not> b \<Longrightarrow> from_db I db m' Q) \<Longrightarrow> from_db I db (if b then m else m') Q"
  by simp

lemma from_option [db_steps]:
  "(y = None \<Longrightarrow> from_db I db m Q) \<Longrightarrow> (\<And>x. y = Some x \<Longrightarrow> from_db I db (k x) Q)
     \<Longrightarrow> from_db I db (case y of None \<Rightarrow> m | Some x \<Rightarrow> k x) Q"
  by (cases y) simp_all

lemma from_prod [db_steps]: "(\<And>x y. z = (x, y) \<Longrightarrow> from_db I db (k x y) Q) \<Longrightarrow> from_db I db (case z of (x, y) \<Rightarrow> k x y) Q"
  by (cases z) simp

lemma from_let [db_steps]: "(\<And>x. x = y \<Longrightarrow> from_db I db (k x) Q) \<Longrightarrow> from_db I db (let x = y in k x) Q"
  by simp

text \<open>A step whose result is not looked at.\<close>

definition void :: "('s, 'e, 'a) io \<Rightarrow> ('s, 'e, unit) io" where
  "void m = io_bind m (\<lambda>_. io_return ())"

lemma from_void: "from_db I db m (\<lambda>_. I) \<Longrightarrow> from_db I db (void m) (\<lambda>_. I)"
  unfolding void_def by (erule from_bind) (rule from_returns)

text \<open>Steps of a handler, and writes of the database.\<close>

definition handled :: "(reference_db \<Rightarrow> bool) \<Rightarrow> reference_db \<Rightarrow> 'a handler \<Rightarrow> ('a \<Rightarrow> reference_db \<Rightarrow> bool) \<Rightarrow> bool" where
  "handled I db m Q \<longleftrightarrow> triple w_db I (\<lambda>db'. db' = db) m Q"

lemma handledD: "handled I (w_db w) m Q \<Longrightarrow> m w = (r, w') \<Longrightarrow> (case r of Ok x \<Rightarrow> Q x (w_db w') | _ \<Rightarrow> I (w_db w'))"
  unfolding handled_def by (drule (1) tripleD) simp_all

lemma from_world: "handled I db m Q \<Longrightarrow> from_db I db (on_world m) Q"
  by (auto simp: handled_def from_db_def triple_def on_world_def split: prod.splits)

lemma handled_bind: "handled I db m R \<Longrightarrow> (\<And>x db'. R x db' \<Longrightarrow> handled I db' (k x) Q) \<Longrightarrow> handled I db (io_bind m k) Q"
  unfolding handled_def by (rule triple_bind, assumption) (auto simp: triple_def)

lemma handled_then: "handled I db m (\<lambda>_. R) \<Longrightarrow> (\<And>db'. R db' \<Longrightarrow> handled I db' k Q) \<Longrightarrow> handled I db (io_then m k) Q"
  unfolding io_then_def by (rule handled_bind)

lemma handled_on_db:
  "(case op db of (Ok x, db') \<Rightarrow> Q x db' | (_, db') \<Rightarrow> I db') \<Longrightarrow> handled I db (on_db op) Q"
  by (auto simp: handled_def triple_def on_db_def split: prod.splits res.splits)

lemma handled_then_db:
  "(case op db of (Ok x, db') \<Rightarrow> handled I db' k Q | (_, db') \<Rightarrow> I db') \<Longrightarrow> handled I db (io_then (on_db op) k) Q"
  by (rule handled_then [where R = "\<lambda>db'. handled I db' k Q"]) (auto intro!: handled_on_db split: prod.splits res.splits)

lemma handled_bind_db:
  "(case op db of (Ok x, db') \<Rightarrow> handled I db' (k x) Q | (_, db') \<Rightarrow> I db') \<Longrightarrow> handled I db (io_bind (on_db op) k) Q"
  by (rule handled_bind [where R = "\<lambda>x db'. handled I db' (k x) Q"]) (auto intro!: handled_on_db split: prod.splits res.splits)

lemma handled_publish:
  "handled I db k Q \<Longrightarrow> handled I db (io_then (publish t e) k) Q"
  "handled I db k Q \<Longrightarrow> handled I db (io_then (publish_private t e) k) Q"
  "handled I db k Q \<Longrightarrow> handled I db (io_then (queue_task j) k) Q"
  by (rule handled_then [where R = "\<lambda>db'. db' = db"];
      simp add: handled_def triple_def publish_def publish_private_def queue_task_def)+

lemma handled_returns: "Q x db \<Longrightarrow> handled I db (io_return x) Q" "I db \<Longrightarrow> handled I db (io_fail e) Q"
  "R () db \<Longrightarrow> handled I db (publish t ev) R" "R () db \<Longrightarrow> handled I db (queue_task j) R"
  by (auto simp: handled_def triple_def io_return_def io_fail_def publish_def queue_task_def)

lemma handled_bind_attempt:
  "I db \<Longrightarrow> (\<And>x. r = Ok x \<Longrightarrow> handled I db (k x) Q) \<Longrightarrow> handled I db (io_bind (io_read (\<lambda>_. r)) k) Q"
  by (rule handled_bind [where R = "\<lambda>x db'. db' = db \<and> r = Ok x"])
     (auto simp: handled_def triple_def io_read_def split: res.splits)

lemma handled_unchanged: "unchanged (\<lambda>w. f (w_db w)) m \<Longrightarrow> (\<And>db'. f db' = f db \<Longrightarrow> I db') \<Longrightarrow> handled I db m (\<lambda>_. I)"
  unfolding handled_def triple_def
proof (intro allI impI)
  fix w r w'
  assume same: "unchanged (\<lambda>w. f (w_db w)) m" and I: "\<And>db'. f db' = f db \<Longrightarrow> I db'" and "m w = (r, w')" "w_db w = db"
  then have "I (w_db w')" using unchangedD [OF same] by metis
  then show "case r of Ok x \<Rightarrow> I (w_db w') | _ \<Rightarrow> I (w_db w')" by (simp split: res.splits)
qed

lemma handled_discard: "handled I db m (\<lambda>_. I) \<Longrightarrow> handled I db (io_discard m) (\<lambda>_. I)"
  unfolding handled_def by (rule triple_discard)

end
