(* ===== verification/Voice_Laws.thy ===== *)
theory Voice_Laws
  imports Voice_Calls Steps
begin

text \<open>
  How the voice operations act on the Redis store. A triple \<open>keeps I P m Q\<close> (see \<open>Steps\<close>) says that from a store with
  \<open>P\<close> the step \<open>m\<close> reaches a store with \<open>Q\<close> when it returns a value, and one with \<open>I\<close> when it fails,
  whichever connections and commands fail on the way. The invariant \<open>voice_ok\<close> says that every key holds
  its kind of value and that the two directions of the membership relation agree.
\<close>

named_theorems voice_rules \<open>steps that keep an invariant of the store\<close>
named_theorems voice_ops \<open>definitions of the voice operations\<close>

section \<open>Triples\<close>

abbreviation store :: "platform \<Rightarrow> redis_store" where
  "store s \<equiv> rd_store (pl_redis s)"

text \<open>Triples over the store; the rules that do not mention the store are those of \<open>Steps\<close>.\<close>

abbreviation keeps :: "(redis_store \<Rightarrow> bool) \<Rightarrow> (redis_store \<Rightarrow> bool) \<Rightarrow> 'a voice \<Rightarrow> ('a \<Rightarrow> redis_store \<Rightarrow> bool) \<Rightarrow> bool" where
  "keeps \<equiv> triple store"

lemmas keeps_conseq = triple_conseq [where view = store]
lemmas keeps_bind = triple_bind [where view = store]
lemmas keeps_then = triple_then [where view = store]
lemmas keeps_return = triple_return [where view = store]
lemmas keeps_fail = triple_fail [where view = store]
lemmas keeps_panic = triple_panic [where view = store]
lemmas keeps_discard = triple_discard [where view = store]
lemmas keeps_unwrap_or = triple_unwrap_or [where view = store]
lemmas keeps_io_read = triple_read [where view = store]

lemma keeps_read_database: "(\<And>st. P st \<Longrightarrow> I st) \<Longrightarrow> keeps I P (read_database f) (\<lambda>_. P)"
  by (auto simp: triple_def read_database_def split: res.splits)

lemma keeps_on_world: "(\<And>st. P st \<Longrightarrow> I st) \<Longrightarrow> keeps I P (on_world m) (\<lambda>_. P)"
  by (auto simp: triple_def on_world_def split: res.splits prod.splits)

lemma keeps_calculated: "(\<And>st. P st \<Longrightarrow> I st) \<Longrightarrow> keeps I P (calculated E query) (\<lambda>_. P)"
  by (auto simp: triple_def calculated_def split: res.splits option.splits)

lemma keeps_livekit: "(\<And>st. P st \<Longrightarrow> I st) \<Longrightarrow> keeps I P (livekit E node call) (\<lambda>_. P)"
  by (auto simp: triple_def livekit_def outcome_simps get_node_def split: res.splits if_splits)

lemma keeps_attempt:
  assumes "\<And>st. P st \<Longrightarrow> I st"
    and "\<And>st r st'. f st = (r, st') \<Longrightarrow> P st \<Longrightarrow> (case r of Ok x \<Rightarrow> Q x st' | _ \<Rightarrow> I st')"
  shows "keeps I P (redis_attempt f) Q"
  unfolding triple_def
proof (intro allI impI)
  fix s r s'
  assume run: "redis_attempt f s = (r, s')" and P: "P (store s)"
  obtain r1 st where f: "f (store s) = (r1, st)" by fastforce
  from run f assms(1) [OF P] assms(2) [OF f P]
  show "case r of Ok x \<Rightarrow> Q x (store s') | _ \<Rightarrow> I (store s')"
    by (auto simp: redis_attempt_def Let_def split: if_splits res.splits)
qed

lemma keeps_connection: "(\<And>st. P st \<Longrightarrow> I st) \<Longrightarrow> keeps I P get_connection (\<lambda>_. P)"
  unfolding get_connection_def by (rule keeps_attempt) auto

lemma keeps_redis_read: "(\<And>st. P st \<Longrightarrow> I st) \<Longrightarrow> keeps I P (redis_read f) (\<lambda>x st. P st \<and> f st = Ok x)"
  unfolding redis_read_def by (rule keeps_attempt) (auto split: res.splits)

lemma keeps_write:
  "(\<And>st. P st \<Longrightarrow> I st) \<Longrightarrow> (\<And>st. P st \<Longrightarrow> I (snd (redis_pipeline cs st))) \<Longrightarrow> keeps I P (redis_write cs) (\<lambda>_. I)"
  unfolding redis_write_def by (rule keeps_attempt) (metis (no_types, lifting) res.case res.exhaust snd_conv)+

lemma keeps_take:
  "(\<And>st. P st \<Longrightarrow> I st) \<Longrightarrow> (\<And>st. P st \<Longrightarrow> I (AList.delete k st)) \<Longrightarrow> keeps I P (redis_take k f) (\<lambda>_. I)"
  unfolding redis_take_def by (rule keeps_attempt) (auto split: res.splits)

text \<open>A step that keeps an invariant, whatever its outcome.\<close>

definition kept :: "(redis_store \<Rightarrow> bool) \<Rightarrow> 'a voice \<Rightarrow> bool" where
  "kept I m \<longleftrightarrow> keeps I I m (\<lambda>_. I)"

lemma keptD: "kept I m \<Longrightarrow> m s = (r, s') \<Longrightarrow> I (store s) \<Longrightarrow> I (store s')"
  unfolding kept_def by (rule triple_all)

lemma kept_bind [voice_rules]: "kept I m \<Longrightarrow> (\<And>x. kept I (k x)) \<Longrightarrow> kept I (io_bind m k)"
  unfolding kept_def by (rule keeps_bind)

lemma kept_then [voice_rules]: "kept I m \<Longrightarrow> kept I k \<Longrightarrow> kept I (io_then m k)"
  unfolding kept_def by (rule keeps_then)

lemma kept_basic [voice_rules]:
  "kept I (io_return x)" "kept I (io_fail e)" "kept I io_panic" "kept I (io_read f)" "kept I (read_database g)"
  "kept I (on_world w)" "kept I (calculated E query)" "kept I (livekit E node call)" "kept I get_connection"
  unfolding kept_def
  by (intro keeps_return keeps_fail keeps_panic keeps_io_read keeps_read_database keeps_on_world keeps_calculated
      keeps_livekit keeps_connection; assumption)+

lemma kept_redis_read [voice_rules]: "kept I (redis_read f)"
  unfolding kept_def by (rule keeps_conseq [where P' = I, OF keeps_redis_read]) auto

lemma kept_discard [voice_rules]: "kept I m \<Longrightarrow> kept I (io_discard m)"
  unfolding kept_def by (rule keeps_discard)

lemma kept_unwrap_or [voice_rules]: "kept I m \<Longrightarrow> kept I (io_unwrap_or d m)"
  unfolding kept_def by (rule keeps_unwrap_or)

lemma kept_if [voice_rules]: "(b \<Longrightarrow> kept I m) \<Longrightarrow> (\<not> b \<Longrightarrow> kept I m') \<Longrightarrow> kept I (if b then m else m')"
  by simp

lemma kept_option [voice_rules]: "kept I m \<Longrightarrow> (\<And>x. kept I (k x)) \<Longrightarrow> kept I (case y of None \<Rightarrow> m | Some x \<Rightarrow> k x)"
  by (cases y) simp_all

lemma kept_let [voice_rules]: "(\<And>x. kept I (k x)) \<Longrightarrow> kept I (let x = y in k x)"
  by simp

lemma kept_write: "(\<And>st. I st \<Longrightarrow> I (snd (redis_pipeline cs st))) \<Longrightarrow> kept I (redis_write cs)"
  unfolding kept_def by (rule keeps_write)

lemma kept_take: "(\<And>st. I st \<Longrightarrow> I (AList.delete k st)) \<Longrightarrow> kept I (redis_take k f)"
  unfolding kept_def by (rule keeps_take)

section \<open>The store\<close>

fun well_kinded :: "redis_key \<Rightarrow> redis_value \<Rightarrow> bool" where
  "well_kinded (KUserChannels _) v = (case v of RSet xs \<Rightarrow> xs \<noteq> [] \<and> distinct xs | _ \<Rightarrow> False)"
| "well_kinded (KMembers _) v = (case v of RSet xs \<Rightarrow> xs \<noteq> [] \<and> distinct xs | _ \<Rightarrow> False)"
| "well_kinded KActiveVoiceChannels v = (case v of RSet xs \<Rightarrow> xs \<noteq> [] \<and> distinct xs | _ \<Rightarrow> False)"
| "well_kinded (KViewers _) v = (case v of RSet xs \<Rightarrow> xs \<noteq> [] \<and> distinct xs | _ \<Rightarrow> False)"
| "well_kinded (KDashMembers _) v = (case v of RSet xs \<Rightarrow> xs \<noteq> [] \<and> distinct xs | _ \<Rightarrow> False)"
| "well_kinded (KJoinedAt _ _) v = (case v of RInt _ \<Rightarrow> True | _ \<Rightarrow> False)"
| "well_kinded (KIsPublishing _ _) v = (case v of RBool _ \<Rightarrow> True | _ \<Rightarrow> False)"
| "well_kinded (KIsReceiving _ _) v = (case v of RBool _ \<Rightarrow> True | _ \<Rightarrow> False)"
| "well_kinded (KScreensharing _ _) v = (case v of RBool _ \<Rightarrow> True | _ \<Rightarrow> False)"
| "well_kinded (KCamera _ _) v = (case v of RBool _ \<Rightarrow> True | _ \<Rightarrow> False)"
| "well_kinded (KCallRecipients _ _) v = (case v of RJson _ \<Rightarrow> True | _ \<Rightarrow> False)"
| "well_kinded _ v = (case v of RText _ \<Rightarrow> True | _ \<Rightarrow> False)"

definition set_key :: "redis_key \<Rightarrow> bool" where
  "set_key k \<longleftrightarrow> well_kinded k = (\<lambda>v. case v of RSet xs \<Rightarrow> xs \<noteq> [] \<and> distinct xs | _ \<Rightarrow> False)"

lemma set_keys [simp]:
  "set_key (KUserChannels u)" "set_key (KMembers c)" "set_key KActiveVoiceChannels" "set_key (KViewers c)" "set_key (KDashMembers c)"
  by (simp_all add: set_key_def fun_eq_iff)

definition store_typed :: "redis_store \<Rightarrow> bool" where
  "store_typed st \<longleftrightarrow> hm_wf st \<and> (\<forall>k v. map_of st k = Some v \<longrightarrow> well_kinded k v)"

definition rset :: "redis_store \<Rightarrow> redis_key \<Rightarrow> string set" where
  "rset st k = (case map_of st k of Some (RSet xs) \<Rightarrow> set xs | _ \<Rightarrow> {})"

lemma rset_cong: "map_of st k = map_of st' k \<Longrightarrow> rset st k = rset st' k"
  by (simp add: rset_def)

text \<open>In a typed store a key for sets is missing or holds a non-empty set.\<close>

lemma set_key_cases:
  assumes "store_typed st" "set_key k"
  obtains "map_of st k = None" "rset st k = {}"
    | xs where "map_of st k = Some (RSet xs)" "xs \<noteq> []" "distinct xs" "rset st k = set xs"
proof (cases "map_of st k")
  case (Some v)
  then have "well_kinded k v" using assms(1) by (auto simp: store_typed_def)
  then obtain xs where "v = RSet xs" "xs \<noteq> []" "distinct xs"
    using assms(2) by (auto simp: set_key_def split: redis_value.splits)
  with Some that(2) show ?thesis by (simp add: rset_def)
qed (use that(1) in \<open>simp add: rset_def\<close>)

lemma smembers_set_key:
  assumes "store_typed st" "set_key k"
  shows "\<exists>xs. redis_smembers k st = Ok xs \<and> set xs = rset st k \<and> distinct xs"
  using assms by (rule set_key_cases) auto

lemma exec_sadd:
  assumes "store_typed st" "set_key k" "redis_exec (RdSadd k x) st = (ok, st')"
  shows "ok" "store_typed st'" "rset st' k = insert x (rset st k)" "\<And>j. j \<noteq> k \<Longrightarrow> map_of st' j = map_of st j"
    "\<And>j. j \<noteq> k \<Longrightarrow> rset st' j = rset st j"
proof -
  have kind: "well_kinded k (RSet xs) \<longleftrightarrow> xs \<noteq> [] \<and> distinct xs" for xs
    using assms(2) by (simp add: set_key_def)
  have "ok \<and> store_typed st' \<and> rset st' k = insert x (rset st k) \<and> (\<forall>j. j \<noteq> k \<longrightarrow> map_of st' j = map_of st j)"
    using assms(1,2)
  proof (rule set_key_cases)
    assume "map_of st k = None" "rset st k = {}"
    with assms(1,3) kind show ?thesis
      by (auto simp: store_typed_def rset_def hm.wf_insert hm.get_insert split: if_splits)
  next
    fix xs
    assume "map_of st k = Some (RSet xs)" "xs \<noteq> []" "distinct xs" "rset st k = set xs"
    with assms(1,3) kind show ?thesis
      by (auto simp: store_typed_def rset_def hm.wf_insert hm.get_insert set_insert_def split: if_splits)
  qed
  then show "ok" "store_typed st'" "rset st' k = insert x (rset st k)" "\<And>j. j \<noteq> k \<Longrightarrow> map_of st' j = map_of st j"
    "\<And>j. j \<noteq> k \<Longrightarrow> rset st' j = rset st j"
    by (simp_all add: rset_def)
qed

lemma exec_srem:
  assumes "store_typed st" "set_key k" "redis_exec (RdSrem k x) st = (ok, st')"
  shows "ok" "store_typed st'" "rset st' k = rset st k - {x}" "\<And>j. j \<noteq> k \<Longrightarrow> map_of st' j = map_of st j"
    "\<And>j. j \<noteq> k \<Longrightarrow> rset st' j = rset st j"
proof -
  have kind: "well_kinded k (RSet xs) \<longleftrightarrow> xs \<noteq> [] \<and> distinct xs" for xs
    using assms(2) by (simp add: set_key_def)
  have "ok \<and> store_typed st' \<and> rset st' k = rset st k - {x} \<and> (\<forall>j. j \<noteq> k \<longrightarrow> map_of st' j = map_of st j)"
    using assms(1,2)
  proof (rule set_key_cases)
    fix xs
    assume xs: "map_of st k = Some (RSet xs)" "xs \<noteq> []" "distinct xs" "rset st k = set xs"
    show ?thesis
    proof (cases "filter (\<lambda>y. y \<noteq> x) xs = []")
      case True
      with xs assms(1,3) show ?thesis
        by (auto simp: store_typed_def rset_def hm.wf_remove hm.get_remove filter_empty_conv split: if_splits)
    next
      case False
      with xs assms(1,3) kind show ?thesis
        by (auto simp: store_typed_def rset_def hm.wf_insert hm.get_insert split: if_splits)
    qed
  qed (use assms(1,3) in \<open>auto simp: rset_def\<close>)
  then show "ok" "store_typed st'" "rset st' k = rset st k - {x}" "\<And>j. j \<noteq> k \<Longrightarrow> map_of st' j = map_of st j"
    "\<And>j. j \<noteq> k \<Longrightarrow> rset st' j = rset st j"
    by (simp_all add: rset_def)
qed

lemma exec_set:
  assumes "store_typed st" "well_kinded k v"
  shows "store_typed (AList.update k v st)" "map_of (AList.update k v st) j = (if j = k then Some v else map_of st j)"
  using assms by (auto simp: store_typed_def hm.wf_insert hm.get_insert)

lemma fold_delete:
  assumes "store_typed st"
  shows "store_typed (fold AList.delete ks st)"
    "map_of (fold AList.delete ks st) j = (if j \<in> set ks then None else map_of st j)"
proof -
  have "store_typed (fold AList.delete ks st) \<and> map_of (fold AList.delete ks st) j = (if j \<in> set ks then None else map_of st j)"
    using assms
  proof (induction ks arbitrary: st)
    case (Cons k ks)
    have "store_typed (AList.delete k st)"
      using Cons.prems by (auto simp: store_typed_def hm.wf_remove hm.get_remove split: if_splits)
    from Cons.IH [OF this] show ?case by (auto simp: hm.get_remove)
  qed simp
  then show "store_typed (fold AList.delete ks st)"
    "map_of (fold AList.delete ks st) j = (if j \<in> set ks then None else map_of st j)" by simp_all
qed

section \<open>The invariant\<close>

definition voice_ok :: "redis_store \<Rightarrow> bool" where
  "voice_ok st \<longleftrightarrow> store_typed st \<and> (\<forall>u c. u \<in> rset st (KMembers c) \<longleftrightarrow> c \<in> rset st (KUserChannels u))"

lemma voice_okD: "voice_ok st \<Longrightarrow> store_typed st" "voice_ok st \<Longrightarrow> u \<in> rset st (KMembers c) \<longleftrightarrow> c \<in> rset st (KUserChannels u)"
  by (simp_all add: voice_ok_def)

abbreviation run_commands :: "redis_command list \<Rightarrow> redis_store \<Rightarrow> redis_store" where
  "run_commands cs st \<equiv> fold (\<lambda>c st. snd (redis_exec c st)) cs st"

lemma snd_pipeline: "snd (redis_pipeline cs st) = run_commands cs st"
  by (induction cs arbitrary: st) (simp_all add: split_def)

definition member_key :: "redis_key \<Rightarrow> bool" where
  "member_key k \<longleftrightarrow> (\<exists>x. k = KMembers x \<or> k = KUserChannels x)"

text \<open>Commands that leave the membership alone.\<close>

fun harmless :: "redis_command \<Rightarrow> bool" where
  "harmless (RdSet k v) \<longleftrightarrow> well_kinded k v \<and> \<not> member_key k"
| "harmless (RdSadd k x) \<longleftrightarrow> set_key k \<and> \<not> member_key k"
| "harmless (RdSrem k x) \<longleftrightarrow> set_key k \<and> \<not> member_key k"
| "harmless (RdDel ks) \<longleftrightarrow> (\<forall>k\<in>set ks. \<not> member_key k)"

lemma harmless_typed:
  assumes "harmless c" "store_typed st"
  shows "store_typed (snd (redis_exec c st)) \<and> (\<forall>k. member_key k \<longrightarrow> map_of (snd (redis_exec c st)) k = map_of st k)"
proof (cases c)
  case (RdSadd k x)
  obtain ok st' where "redis_exec (RdSadd k x) st = (ok, st')" by fastforce
  with exec_sadd [OF assms(2) _ this] RdSadd assms(1) show ?thesis by fastforce
next
  case (RdSrem k x)
  obtain ok st' where "redis_exec (RdSrem k x) st = (ok, st')" by fastforce
  with exec_srem [OF assms(2) _ this] RdSrem assms(1) show ?thesis by fastforce
qed (use assms in \<open>auto simp: exec_set fold_delete\<close>)

lemma voice_ok_same:
  assumes "voice_ok st" "store_typed st'" "\<And>k. member_key k \<Longrightarrow> map_of st' k = map_of st k"
  shows "voice_ok st'"
proof -
  have "rset st' (KMembers c) = rset st (KMembers c)" "rset st' (KUserChannels c) = rset st (KUserChannels c)" for c
    by (rule rset_cong, rule assms(3), simp add: member_key_def)+
  with assms(1,2) show ?thesis by (simp add: voice_ok_def)
qed

lemma harmless_ok: "harmless c \<Longrightarrow> voice_ok st \<Longrightarrow> voice_ok (snd (redis_exec c st))"
  using harmless_typed [of c st] voice_ok_same [of st "snd (redis_exec c st)"] voice_okD(1) by blast

lemma harmless_commands: "\<forall>c\<in>set cs. harmless c \<Longrightarrow> voice_ok st \<Longrightarrow> voice_ok (run_commands cs st)"
  by (induction cs arbitrary: st) (simp_all add: harmless_ok)

text \<open>Adding, removing and clearing members in both directions.\<close>

lemma add_member_ok:
  assumes "voice_ok st"
  shows "voice_ok (run_commands [RdSadd (KMembers c) u, RdSadd (KUserChannels u) c] st)"
proof -
  obtain ok1 st1 where one: "redis_exec (RdSadd (KMembers c) u) st = (ok1, st1)" by fastforce
  note e1 = exec_sadd [OF voice_okD(1) [OF assms] _ one, simplified]
  obtain ok2 st2 where two: "redis_exec (RdSadd (KUserChannels u) c) st1 = (ok2, st2)" by fastforce
  note e2 = exec_sadd [OF e1(2) _ two, simplified]
  have m: "rset st2 (KMembers d) = (if d = c then insert u (rset st (KMembers c)) else rset st (KMembers d))" for d
    using e1(3,5) e2(5) by simp
  have v: "rset st2 (KUserChannels w) = (if w = u then insert c (rset st (KUserChannels u)) else rset st (KUserChannels w))" for w
    using e2(3,5) e1(5) by simp
  show ?thesis
    using e2(2) voice_okD(2) [OF assms] m v by (auto simp: voice_ok_def one two simp del: redis_exec.simps)
qed

lemma remove_member_ok:
  assumes "voice_ok st"
  shows "voice_ok (run_commands [RdSrem (KMembers c) u, RdSrem (KUserChannels u) c] st)"
proof -
  obtain ok1 st1 where one: "redis_exec (RdSrem (KMembers c) u) st = (ok1, st1)" by fastforce
  note e1 = exec_srem [OF voice_okD(1) [OF assms] _ one, simplified]
  obtain ok2 st2 where two: "redis_exec (RdSrem (KUserChannels u) c) st1 = (ok2, st2)" by fastforce
  note e2 = exec_srem [OF e1(2) _ two, simplified]
  have m: "rset st2 (KMembers d) = (if d = c then rset st (KMembers c) - {u} else rset st (KMembers d))" for d
    using e1(3,5) e2(5) by simp
  have v: "rset st2 (KUserChannels w) = (if w = u then rset st (KUserChannels u) - {c} else rset st (KUserChannels w))" for w
    using e2(3,5) e1(5) by simp
  show ?thesis
    using e2(2) voice_okD(2) [OF assms] m v by (auto simp: voice_ok_def one two simp del: redis_exec.simps)
qed

text \<open>While a channel is being cleared its members are gone and \<open>us\<close> are the users that may still list it.\<close>

definition clearing :: "string \<Rightarrow> string set \<Rightarrow> redis_store \<Rightarrow> bool" where
  "clearing c us st \<longleftrightarrow> store_typed st \<and> rset st (KMembers c) = {}
     \<and> (\<forall>u d. d \<noteq> c \<longrightarrow> (u \<in> rset st (KMembers d) \<longleftrightarrow> d \<in> rset st (KUserChannels u)))
     \<and> (\<forall>u. c \<in> rset st (KUserChannels u) \<longrightarrow> u \<in> us)"

lemma clearing_done: "clearing c {} st \<Longrightarrow> voice_ok st"
  unfolding clearing_def voice_ok_def by (metis empty_iff)

lemma state_keys_harmless [simp]: "harmless (RdDel (state_keys u p))"
  by (simp add: state_keys_def member_key_def)

lemma clearing_step:
  assumes "clearing c (insert u us) st"
  shows "clearing c us (run_commands [RdSrem (KUserChannels u) c, RdDel (state_keys u p)] st)"
proof -
  have typed: "store_typed st" using assms by (simp add: clearing_def)
  obtain ok1 st1 where one: "redis_exec (RdSrem (KUserChannels u) c) st = (ok1, st1)" by fastforce
  note e1 = exec_srem [OF typed _ one, simplified]
  let ?st = "snd (redis_exec (RdDel (state_keys u p)) st1)"
  have same: "store_typed ?st" "member_key k \<Longrightarrow> rset ?st k = rset st1 k" for k
    using harmless_typed [OF state_keys_harmless e1(2), of u p] by (simp_all add: rset_def del: redis_exec.simps)
  have m: "rset ?st (KMembers d) = rset st (KMembers d)" for d
    using same(2) [of "KMembers d"] e1(5) by (simp add: member_key_def del: redis_exec.simps)
  have v: "rset ?st (KUserChannels w) = (if w = u then rset st (KUserChannels u) - {c} else rset st (KUserChannels w))" for w
    using same(2) [of "KUserChannels w"] e1(3,5) by (simp add: member_key_def del: redis_exec.simps)
  from assms m v same(1) show ?thesis by (auto simp: clearing_def one simp del: redis_exec.simps)
qed

lemma clearing_commands:
  "clearing c (set us) st \<Longrightarrow>
   voice_ok (run_commands (concat (map (\<lambda>u. [RdSrem (KUserChannels u) c, RdDel (state_keys u p)]) us)) st)"
proof (induction us arbitrary: st)
  case (Cons u us)
  from Cons.IH [OF clearing_step [where p = p], of u] Cons.prems show ?case by (simp del: redis_exec.simps)
qed (simp add: clearing_done)

lemma clear_channel_ok:
  assumes "voice_ok st" "rset st (KMembers c) \<subseteq> set us"
  shows "voice_ok (run_commands (RdDel [KMembers c]
    # concat (map (\<lambda>u. [RdSrem (KUserChannels u) c, RdDel (state_keys u p)]) us)) st)"
proof -
  let ?st = "snd (redis_exec (RdDel [KMembers c]) st)"
  note typed = fold_delete [OF voice_okD(1) [OF assms(1)], of "[KMembers c]"]
  have "rset ?st k = (if k = KMembers c then {} else rset st k)" for k
    using typed(2) [of k] by (simp add: rset_def)
  then have "clearing c (set us) ?st"
    using typed(1) assms voice_okD(2) [OF assms(1)] by (auto simp: clearing_def)
  from clearing_commands [OF this] show ?thesis by simp
qed

section \<open>Operations and invariants\<close>

text \<open>An invariant that the commands on other keys keep, one that also allows members to go, and one that also
  allows members to come.\<close>

lemmas [voice_ops] = raise_if_in_voice_def set_channel_node_def get_channel_node_def get_user_voice_channels_def
  set_user_moved_from_voice_def set_user_moved_to_voice_def
  get_user_voice_channel_in_server_def update_voice_state_def get_voice_channel_members_def get_voice_state_def
  set_call_notification_recipients_def set_voice_connection_type_def get_voice_connection_type_def
  delete_voice_connection_type_def create_viewer_state_def delete_viewer_state_def get_viewer_count_def
  delete_channel_viewer_state_def update_voice_state_tracks_def sync_member_def update_permissions_def
  voice_remove_user_def delete_room_def create_room_def

lemma set_if_harmless [simp]: "c \<in> set (set_if k x) \<Longrightarrow> (\<And>b. harmless (RdSet k (RBool b))) \<Longrightarrow> harmless c"
  by (auto simp: set_if_def split: option.splits)

locale store_invariant =
  fixes I :: "redis_store \<Rightarrow> bool"
  assumes other_keys: "harmless c \<Longrightarrow> I st \<Longrightarrow> I (snd (redis_exec c st))"
begin

lemma other_commands: "\<forall>c\<in>set cs. harmless c \<Longrightarrow> I st \<Longrightarrow> I (run_commands cs st)"
  by (induction cs arbitrary: st) (simp_all add: other_keys)

lemma kept_harmless: "\<forall>c\<in>set cs. harmless c \<Longrightarrow> kept I (redis_write cs)"
  by (rule kept_write) (simp add: snd_pipeline other_commands)

lemma kept_take_other: "\<not> member_key k \<Longrightarrow> kept I (redis_take k f)"
  using other_keys [of "RdDel [k]"] by (intro kept_take) simp

lemma kept_ops [voice_rules]:
  "kept I (raise_if_in_voice u c)" "kept I (set_channel_node c n)" "kept I (get_channel_node c)"
  "kept I (get_user_voice_channels v)" "kept I (set_user_moved_from_voice c d v)"
  "kept I (set_user_moved_to_voice c d v)" "kept I (get_user_voice_channel_in_server v n)"
  "kept I (update_voice_state c p v partial)" "kept I (get_voice_channel_members c)"
  "kept I (get_voice_state c p v)" "kept I (set_call_notification_recipients c v rs)"
  "kept I (set_voice_connection_type c v n)" "kept I (get_voice_connection_type c v)"
  "kept I (delete_voice_connection_type c v)" "kept I (create_viewer_state c v)"
  "kept I (delete_viewer_state c v)" "kept I (get_viewer_count c)"
  "kept I (delete_channel_viewer_state c)" "kept I (update_voice_state_tracks c p v added track)"
  "kept I (sync_member p u)" "kept I (update_permissions E n u c q)"
  "kept I (voice_remove_user E n v c)" "kept I (delete_room E n c)" "kept I (create_room E n ch)"
  unfolding voice_ops by (intro voice_rules kept_harmless; auto simp: member_key_def)+

lemma kept_moved [voice_rules]:
  "kept I (get_user_moved_from_voice c u)" "kept I (get_user_moved_to_voice c u)"
  unfolding get_user_moved_from_voice_def get_user_moved_to_voice_def
  by (intro voice_rules kept_take_other; simp add: member_key_def)+

lemma kept_sync_user [voice_rules]: "kept I (sync_user_voice_permissions E node u c s role)"
  unfolding sync_user_voice_permissions_def by (intro voice_rules)

lemma kept_sync_all [voice_rules]: "kept I (sync_all E node c s role ids)"
  by (induction ids) (auto intro!: voice_rules)

lemma kept_sync [voice_rules]: "kept I (sync_voice_permissions E c s role)"
  unfolding sync_voice_permissions_def by (intro voice_rules)

lemma kept_checks [voice_rules]:
  "kept I (check_room_for info p c)" "kept I (check_viewer_limit E ch)" "kept I (uses_livekit E ch info)"
  "kept I (store_recipients wanted c u rs)" "kept I (viewer_count_update c)"
  unfolding check_room_for_def check_viewer_limit_def uses_livekit_def streamer_tier_def store_recipients_def
    viewer_count_update_def
  by (intro voice_rules)+

end

locale shrinking_invariant = store_invariant +
  assumes members_go: "I st \<Longrightarrow> I (run_commands [RdSrem (KMembers c) u, RdSrem (KUserChannels u) c] st)"
begin

lemma kept_delete_voice_state [voice_rules]: "kept I (delete_voice_state c s u)"
proof -
  have writes: "kept I (redis_write [RdSrem (KMembers c) u, RdSrem (KUserChannels u) c, RdDel (state_keys u p)])" for p
  proof (rule kept_write)
    fix st assume "I st"
    from other_keys [OF state_keys_harmless members_go [OF this]]
    show "I (snd (redis_pipeline [RdSrem (KMembers c) u, RdSrem (KUserChannels u) c, RdDel (state_keys u p)] st))"
      unfolding snd_pipeline by (simp del: redis_exec.simps)
  qed
  show ?thesis
    unfolding delete_voice_state_def by (intro voice_rules writes kept_harmless) (simp_all add: member_key_def)
qed

lemma kept_remove_user [voice_rules]: "kept I (remove_user_from_voice_channel E c u)"
  unfolding remove_user_from_voice_channel_def by (intro voice_rules)

lemma kept_remove_from_each [voice_rules]: "kept I (remove_from_each E u cs)"
  by (induction cs) (auto intro!: voice_rules)

lemma kept_remove_user_everywhere [voice_rules]: "kept I (remove_user_from_voice_channels E u)"
  unfolding remove_user_from_voice_channels_def by (intro voice_rules)

lemma kept_disconnect_from [voice_rules]: "kept I (disconnect_from u c)"
proof -
  have "kept I (io_then (io_discard (delete_voice_state c sid u)) (io_then (io_discard (delete_voice_connection_type c u))
          (on_world (publish c (EvVoiceChannelLeave c u)))))" for sid
    by (intro voice_rules)
  then show ?thesis by (simp add: kept_def triple_def disconnect_from_def Let_def)
qed

lemma kept_disconnect_each [voice_rules]: "kept I (disconnect_each u cs)"
  by (induction cs) (auto intro!: voice_rules)

lemma kept_cleanup [voice_rules]: "kept I (cleanup_user_voice_on_disconnect u)"
  unfolding cleanup_user_voice_on_disconnect_def by (intro voice_rules)

lemma kept_participants [voice_rules]: "kept I (voice_participants c s us)"
  by (induction us) (auto intro!: voice_rules)

lemma kept_channel_voice_state [voice_rules]: "kept I (get_channel_voice_state c)"
  unfolding get_channel_voice_state_def by (intro voice_rules)

lemma kept_force_disconnect [voice_rules]: "kept I (force_disconnect_from E u cs)"
  by (induction cs) (auto intro!: voice_rules)

lemma kept_join_livekit [voice_rules]: "kept I (join_livekit E u c is_viewer p data)"
  unfolding join_livekit_def by (intro voice_rules)

lemma kept_viewer_joins [voice_rules]: "kept I (join_peer_to_peer E u c True recipients)"
  unfolding join_peer_to_peer_def by (simp, intro voice_rules)

lemma kept_leave_call [voice_rules]: "kept I (leave_call E u target)"
  unfolding leave_call_def by (intro voice_rules)

lemma kept_hooks [voice_rules]:
  "kept I (participant_left channel c u)" "kept I (track_changed E aspect_ok node kind c u t)"
  unfolding participant_left_def track_changed_def by (intro voice_rules)+

end

locale membership_invariant = shrinking_invariant +
  assumes members_come: "I st \<Longrightarrow> I (run_commands [RdSadd (KMembers c) u, RdSadd (KUserChannels u) c] st)"
begin

lemma kept_create_voice_state [voice_rules]: "kept I (create_voice_state c s u t)"
proof -
  have "kept I (redis_write (RdSadd (KMembers c) u # RdSadd (KUserChannels u) c # cs))" if "\<forall>c\<in>set cs. harmless c" for cs
  proof (rule kept_write)
    fix st assume "I st"
    from other_commands [OF that members_come [OF this]]
    show "I (snd (redis_pipeline (RdSadd (KMembers c) u # RdSadd (KUserChannels u) c # cs) st))"
      unfolding snd_pipeline by (simp del: redis_exec.simps)
  qed
  note writes = this
  show ?thesis
    unfolding create_voice_state_def Let_def
    by (intro voice_rules writes kept_harmless) (simp_all add: member_key_def)
qed

lemma kept_join_peer_to_peer [voice_rules]: "kept I (join_peer_to_peer E u c is_viewer recipients)"
  unfolding join_peer_to_peer_def by (intro voice_rules)

lemma kept_join_call [voice_rules]: "kept I (join_call E u target data)"
  unfolding join_call_def by (intro voice_rules)

lemma kept_joined [voice_rules]: "kept I (participant_joined channel c u created_at)"
  unfolding participant_joined_def by (intro voice_rules)

lemma kept_ingress [voice_rules]: "kept I (ingress E aspect_ok node e)"
  unfolding ingress_def by (cases "hook_kind e"; simp only: webhook_kind.case; intro voice_rules)

end

interpretation vok: membership_invariant voice_ok
  by unfold_locales (fact harmless_ok remove_member_ok add_member_ok)+

text \<open>In one channel nobody comes.\<close>

definition members_within :: "string \<Rightarrow> string set \<Rightarrow> redis_store \<Rightarrow> bool" where
  "members_within c us st \<longleftrightarrow> store_typed st \<and> rset st (KMembers c) \<subseteq> us"

interpretation within: shrinking_invariant "members_within c us" for c us
proof unfold_locales
  fix cmd st
  assume "harmless cmd" "members_within c us st"
  with harmless_typed [of cmd st] rset_cong [of "snd (redis_exec cmd st)" "KMembers c" st]
  show "members_within c us (snd (redis_exec cmd st))" by (simp add: members_within_def member_key_def)
next
  fix st d u
  assume st: "members_within c us st"
  obtain ok1 st1 where one: "redis_exec (RdSrem (KMembers d) u) st = (ok1, st1)" by fastforce
  note e1 = exec_srem [OF _ _ one, simplified]
  obtain ok2 st2 where two: "redis_exec (RdSrem (KUserChannels u) d) st1 = (ok2, st2)" by fastforce
  note e2 = exec_srem [OF _ _ two, simplified]
  have "store_typed st" "rset st (KMembers c) \<subseteq> us" using st by (simp_all add: members_within_def)
  moreover from this have "store_typed st1" using e1(2) by simp
  ultimately have "store_typed st2" "rset st2 (KMembers c) \<subseteq> rset st (KMembers c)"
    using e1(3,5) e2(2,5) by (cases "c = d"; auto)+
  then show "members_within c us (run_commands [RdSrem (KMembers d) u, RdSrem (KUserChannels u) d] st)"
    using st by (auto simp: members_within_def one two simp del: redis_exec.simps)
qed

section \<open>Deleting a channel\<close>

lemma keeps_clear:
  "keeps voice_ok (\<lambda>st. voice_ok st \<and> rset st (KMembers c) \<subseteq> set us) (delete_channel_voice_state c s us) (\<lambda>_. voice_ok)"
proof -
  let ?P = "\<lambda>st. voice_ok st \<and> rset st (KMembers c) \<subseteq> set us"
  let ?cs = "RdDel [KMembers c]
    # concat (map (\<lambda>u. [RdSrem (KUserChannels u) c, RdDel (state_keys u (voice_parent c s))]) us)"
  have "keeps voice_ok ?P (redis_write ?cs) (\<lambda>_. voice_ok)"
    using clear_channel_ok by (intro keeps_write) (simp_all only: snd_pipeline)
  moreover have "kept voice_ok (io_then get_connection (io_discard (redis_write [RdSrem KActiveVoiceChannels c])))"
    by (intro voice_rules vok.kept_harmless) (simp add: member_key_def)
  ultimately show ?thesis
    unfolding delete_channel_voice_state_def kept_def
    by (intro keeps_then [OF keeps_connection [where P = ?P] keeps_then [where R = voice_ok]]) simp_all
qed

lemma kept_delete_voice_channel [voice_rules]: "kept voice_ok (delete_voice_channel E c s)"
proof -
  let ?Q = "\<lambda>members st. voice_ok st \<and> (\<forall>us. members = Some us \<longrightarrow> rset st (KMembers c) \<subseteq> set us)"
  have members: "keeps voice_ok voice_ok (get_voice_channel_members c) ?Q"
    unfolding get_voice_channel_members_def
  proof (rule keeps_then [OF keeps_connection [where P = voice_ok]], assumption,
      rule keeps_bind [OF keeps_redis_read [where P = voice_ok]], assumption, rule keeps_return)
    fix xs st
    assume "voice_ok st \<and> redis_smembers (KMembers c) st = Ok xs"
    with smembers_set_key [OF voice_okD(1) set_keys(2), of st c] show "?Q (if xs = [] then None else Some xs) st"
      by auto
  qed
  have node: "keeps voice_ok P (get_channel_node c) (\<lambda>_. P)" if "\<And>st. P st \<Longrightarrow> voice_ok st" for P
    unfolding get_channel_node_def
    by (rule keeps_then [OF keeps_connection [OF that]], assumption)
       (rule keeps_conseq [OF keeps_redis_read [where P = P]], auto intro: that)
  have room: "keeps voice_ok P (delete_room E n c) (\<lambda>_. P)" if "\<And>st. P st \<Longrightarrow> voice_ok st" for P n
    unfolding delete_room_def by (rule keeps_livekit) (rule that)
  let ?P = "\<lambda>us st. voice_ok st \<and> rset st (KMembers c) \<subseteq> set us"
  have "keeps voice_ok (?P us) (io_bind (get_channel_node c) (\<lambda>node. case node of None \<Rightarrow> io_panic
      | Some node \<Rightarrow> io_then (delete_room E node c) (delete_channel_voice_state c s us))) (\<lambda>_. voice_ok)" for us
    by (rule keeps_bind [OF node [where P = "?P us"]])
       (auto intro!: keeps_panic keeps_then [OF room [where P = "?P us"] keeps_clear] split: option.splits)
  then have "keeps voice_ok voice_ok (io_bind (get_voice_channel_members c) (\<lambda>members. case members of
         None \<Rightarrow> io_return ()
       | Some us \<Rightarrow> io_bind (get_channel_node c) (\<lambda>node. case node of
             None \<Rightarrow> io_panic
           | Some node \<Rightarrow> io_then (delete_room E node c) (delete_channel_voice_state c s us)))) (\<lambda>_. voice_ok)"
    by (intro keeps_bind [OF members]) (auto intro!: keeps_return split: option.splits)
  then show ?thesis
    unfolding kept_def delete_voice_channel_def
    by (rule keeps_then) (rule vok.kept_ops(18) [unfolded kept_def])
qed

section \<open>Without faults\<close>

abbreviation fault_free :: "platform \<Rightarrow> bool" where
  "fault_free s \<equiv> rd_faults (pl_redis s) = []"

definition with_store :: "redis_store \<Rightarrow> platform \<Rightarrow> platform" where
  "with_store st s = s\<lparr>pl_redis := (pl_redis s)\<lparr>rd_store := st\<rparr>\<rparr>"

lemma with_store_simps [simp]:
  "store (with_store st s) = st" "fault_free (with_store st s) = fault_free s" "pl_world (with_store st s) = pl_world s"
  "with_store st (with_store st' s) = with_store st s" "with_store (store s) s = s" "pl_livekit (with_store st s) = pl_livekit s"
  by (simp_all add: with_store_def)

lemma attempt_fault_free: "fault_free s \<Longrightarrow> redis_attempt f s = (fst (f (store s)), with_store (snd (f (store s))) s)"
  by (auto simp: redis_attempt_def Let_def with_store_def split: prod.splits)

lemma fault_free_ops:
  assumes "fault_free s"
  shows "get_connection s = (Ok (), s)" "redis_read g s = (g (store s), s)"
    "redis_write cs s = (case redis_pipeline cs (store s) of (r, st) \<Rightarrow> (r, with_store st s))"
  using assms by (simp_all add: get_connection_def redis_read_def redis_write_def attempt_fault_free split: prod.splits)

end
