(* ===== verification/Voice_Properties.thy ===== *)
theory Voice_Properties
  imports Voice_Laws
begin

text \<open>
  Properties of voice calls: the membership relation that Redis keeps in two directions stays consistent
  over all requests and webhooks, joining needs the permission and room, a disconnect cleans up, and the
  media state follows the permissions. Three properties state defects: bots are refused although the
  comment lets them join several calls, viewers cannot leave, and a deleted channel leaves a stale entry.
\<close>

section \<open>Distinct keys have distinct texts\<close>

text \<open>A ULID has 26 characters and no colon.\<close>

definition ulid_shaped :: "string \<Rightarrow> bool" where
  "ulid_shaped i \<longleftrightarrow> length i = 26 \<and> CHR '':'' \<notin> set i"

fun key_ids :: "redis_key \<Rightarrow> string list" where
  "key_ids (KNode c) = [c]" | "key_ids (KUserChannels u) = [u]" | "key_ids (KMembers c) = [c]"
| "key_ids (KUnique u p) = [u, p]" | "key_ids (KJoinedAt u p) = [u, p]" | "key_ids (KIsPublishing u p) = [u, p]"
| "key_ids (KIsReceiving u p) = [u, p]" | "key_ids (KScreensharing u p) = [u, p]" | "key_ids (KCamera u p) = [u, p]"
| "key_ids KActiveVoiceChannels = []" | "key_ids (KMovedFrom u c) = [u, c]" | "key_ids (KMovedTo u c) = [u, c]"
| "key_ids (KCallStarted c) = [c]" | "key_ids (KCallRecipients c u) = [c, u]" | "key_ids (KConnectionType u c) = [u, c]"
| "key_ids (KViewers c) = [c]" | "key_ids (KDashMembers c) = [c]"

text \<open>The text up to the first colon, and the number of the format.\<close>

fun key_tag :: "redis_key \<Rightarrow> string" where
  "key_tag (KNode c) = ''node''" | "key_tag (KUserChannels u) = ''vc''" | "key_tag (KMembers c) = ''vc_members''"
| "key_tag (KUnique u p) = u" | "key_tag (KJoinedAt u p) = ''joined_at''" | "key_tag (KIsPublishing u p) = ''is_publishing''"
| "key_tag (KIsReceiving u p) = ''is_receiving''" | "key_tag (KScreensharing u p) = ''screensharing''" | "key_tag (KCamera u p) = ''camera''"
| "key_tag KActiveVoiceChannels = ''active_voice_channels''" | "key_tag (KMovedFrom u c) = ''moved_from''" | "key_tag (KMovedTo u c) = ''moved_to''"
| "key_tag (KCallStarted c) = ''call_started_message''" | "key_tag (KCallRecipients c u) = ''call_notification_recipients''" | "key_tag (KConnectionType u c) = ''vc_connection_type''"
| "key_tag (KViewers c) = ''vc_viewers''" | "key_tag (KDashMembers c) = ''vc-members-'' @ c"

fun key_index :: "redis_key \<Rightarrow> nat" where
  "key_index (KNode c) = 0" | "key_index (KUserChannels u) = 1" | "key_index (KMembers c) = 2"
| "key_index (KUnique u p) = 3" | "key_index (KJoinedAt u p) = 4" | "key_index (KIsPublishing u p) = 5"
| "key_index (KIsReceiving u p) = 6" | "key_index (KScreensharing u p) = 7" | "key_index (KCamera u p) = 8"
| "key_index KActiveVoiceChannels = 9" | "key_index (KMovedFrom u c) = 10" | "key_index (KMovedTo u c) = 11"
| "key_index (KCallStarted c) = 12" | "key_index (KCallRecipients c u) = 13" | "key_index (KConnectionType u c) = 14"
| "key_index (KViewers c) = 15" | "key_index (KDashMembers c) = 16"

lemma takeWhile_id: "CHR '':'' \<notin> set i \<Longrightarrow> takeWhile (\<lambda>x. x \<noteq> CHR '':'') (i @ CHR '':'' # rest) = i"
  by (subst takeWhile_append2) auto

lemma takeWhile_colon: "CHR '':'' \<notin> set i \<Longrightarrow> takeWhile (\<lambda>x. x \<noteq> CHR '':'') i = i"
  by (simp add: takeWhile_eq_all_conv) metis

lemma key_tag_text:
  "\<forall>i\<in>set (key_ids k). ulid_shaped i \<Longrightarrow> takeWhile (\<lambda>x. x \<noteq> CHR '':'') (redis_key_text k) = key_tag k"
  by (cases k) (simp_all add: ulid_shaped_def takeWhile_id takeWhile_colon)

lemma key_tag_index:
  assumes "\<forall>i\<in>set (key_ids k). ulid_shaped i" "\<forall>i\<in>set (key_ids k'). ulid_shaped i" "key_tag k = key_tag k'"
  shows "key_index k = key_index k'"
proof -
  have "length (key_tag k) = length (key_tag k')" using assms(3) by simp
  then show ?thesis
    using assms by (cases k; simp only: key_tag.simps key_ids.simps key_index.simps; cases k'; simp add: ulid_shaped_def; force)
qed

lemma redis_key_text_inj:
  assumes "\<forall>i\<in>set (key_ids k). ulid_shaped i" "\<forall>i\<in>set (key_ids k'). ulid_shaped i" "redis_key_text k = redis_key_text k'"
  shows "k = k'"
proof -
  have "key_index k = key_index k'"
    using key_tag_index [OF assms(1,2)] key_tag_text [OF assms(1)] key_tag_text [OF assms(2)] assms(3) by simp
  then show ?thesis
    using assms by (cases k; simp only: key_index.simps; cases k'; simp add: ulid_shaped_def)
qed

section \<open>Steps\<close>

text \<open>One request, webhook or internal operation; between them the database, the media server and the coming
  faults change freely.\<close>

inductive voice_step :: "voice_env \<Rightarrow> (features_limits \<Rightarrow> track_info \<Rightarrow> bool) \<Rightarrow> platform \<Rightarrow> platform \<Rightarrow> bool"
  for E aspect_ok where
  join: "voice_step E aspect_ok s (snd (join_call E u target data s))"
| leave: "voice_step E aspect_ok s (snd (leave_call E u target s))"
| hook: "voice_step E aspect_ok s (snd (ingress E aspect_ok node e s))"
| cleanup: "voice_step E aspect_ok s (snd (cleanup_user_voice_on_disconnect u s))"
| remove: "voice_step E aspect_ok s (snd (remove_user_from_voice_channels E u s))"
| delete_channel: "voice_step E aspect_ok s (snd (delete_voice_channel E c sid s))"
| sync: "voice_step E aspect_ok s (snd (sync_voice_permissions E ch srv role s))"
| show_state: "voice_step E aspect_ok s (snd (get_channel_voice_state ch s))"
| environment: "voice_step E aspect_ok s (s\<lparr>pl_world := w, pl_redis := (pl_redis s)\<lparr>rd_faults := faults\<rparr>, pl_livekit := calls\<rparr>)"

inductive reachable_voice :: "voice_env \<Rightarrow> (features_limits \<Rightarrow> track_info \<Rightarrow> bool) \<Rightarrow> platform \<Rightarrow> bool" for E aspect_ok where
  start: "store s = [] \<Longrightarrow> reachable_voice E aspect_ok s"
| step: "reachable_voice E aspect_ok s \<Longrightarrow> voice_step E aspect_ok s s' \<Longrightarrow> reachable_voice E aspect_ok s'"

lemma kept_snd: "kept I m \<Longrightarrow> I (store s) \<Longrightarrow> I (store (snd (m s)))"
  by (metis keptD prod.collapse)

lemma voice_step_ok: "voice_step E aspect_ok s s' \<Longrightarrow> voice_ok (store s) \<Longrightarrow> voice_ok (store s')"
  by (induction rule: voice_step.induct) (auto intro!: kept_snd voice_rules)

lemma empty_store_ok: "voice_ok []"
  by (simp add: voice_ok_def store_typed_def rset_def hm_wf_def)

lemma reachable_voice_ok: "reachable_voice E aspect_ok s \<Longrightarrow> voice_ok (store s)"
  by (induction rule: reachable_voice.induct) (auto simp: empty_store_ok intro: voice_step_ok)

section \<open>Effects without faults\<close>

lemma delete_voice_state_effect:
  assumes "fault_free s" "store_typed (store s)"
  obtains st where "delete_voice_state c p u s = (Ok (), with_store st s)" "store_typed st"
    "rset st (KMembers c) = rset (store s) (KMembers c) - {u}"
    "rset st (KUserChannels u) = rset (store s) (KUserChannels u) - {c}"
    "\<And>k. k \<notin> {KMembers c, KUserChannels u, KActiveVoiceChannels} \<union> set (state_keys u (voice_parent c p)) \<Longrightarrow>
      map_of st k = map_of (store s) k"
proof -
  obtain ok1 st1 where one: "redis_exec (RdSrem (KMembers c) u) (store s) = (ok1, st1)" by fastforce
  note e1 = exec_srem [OF assms(2) _ one, simplified]
  obtain ok2 st2 where two: "redis_exec (RdSrem (KUserChannels u) c) st1 = (ok2, st2)" by fastforce
  note e2 = exec_srem [OF e1(2) _ two, simplified]
  let ?st3 = "fold AList.delete (state_keys u (voice_parent c p)) st2"
  note e3 = fold_delete [OF e2(2), of "state_keys u (voice_parent c p)"]
  obtain ok4 st4 where four: "redis_exec (RdSrem KActiveVoiceChannels c) ?st3 = (ok4, st4)" by fastforce
  note e4 = exec_srem [OF e3(1) _ four, simplified]
  have keys: "rset ?st3 k = rset st2 k" if "member_key k" for k
    using e3(2) [of k] that by (auto simp: rset_def state_keys_def member_key_def)
  obtain xs where xs: "redis_smembers (KMembers c) ?st3 = Ok xs" "set xs = rset ?st3 (KMembers c)"
    using smembers_set_key [OF e3(1) set_keys(2)] by blast
  have run: "redis_pipeline [RdSrem (KMembers c) u, RdSrem (KUserChannels u) c, RdDel (state_keys u (voice_parent c p))] (store s)
      = (Ok (), ?st3)"
    using e1(1) e2(1) one two by (simp del: redis_exec.simps(1-3))
  let ?fin = "if xs = [] then st4 else ?st3"
  have "delete_voice_state c p u s = (Ok (), with_store ?fin s)"
    using assms(1) run xs(1) four e4(1)
    by (simp add: delete_voice_state_def io_then_def io_bind_def io_return_def io_discard_def io_unwrap_or_def fault_free_ops
        del: redis_exec.simps redis_smembers.simps)
  moreover have "rset ?fin (KMembers c) = rset (store s) (KMembers c) - {u}"
    "rset ?fin (KUserChannels u) = rset (store s) (KUserChannels u) - {c}"
    using keys [of "KMembers c"] keys [of "KUserChannels u"] e1(3,5) e2(3,5) e4(5) by (simp_all add: member_key_def)
  moreover have "map_of ?fin k = map_of (store s) k"
    if "k \<notin> {KMembers c, KUserChannels u, KActiveVoiceChannels} \<union> set (state_keys u (voice_parent c p))" for k
    using that e1(4) e2(4) e3(2) [of k] e4(4) by simp
  ultimately show thesis
    using that e3(1) e4(2) by simp
qed

text \<open>Steps that neither panic nor touch the database and the published events.\<close>

definition quiet :: "'a voice \<Rightarrow> bool" where
  "quiet m \<longleftrightarrow> (\<forall>s. fst (m s) \<noteq> Panic \<and> pl_world (snd (m s)) = pl_world s)"

lemma quiet_bind: "quiet m \<Longrightarrow> (\<And>x. quiet (k x)) \<Longrightarrow> quiet (io_bind m k)"
  unfolding quiet_def io_bind_def by (auto split: prod.splits res.splits) (metis fst_conv snd_conv)+

lemma quiet_then: "quiet m \<Longrightarrow> quiet k \<Longrightarrow> quiet (io_then m k)"
  unfolding io_then_def by (rule quiet_bind)

lemma quiet_attempt: "(\<And>st. fst (f st) \<noteq> Panic) \<Longrightarrow> quiet (redis_attempt f)"
  unfolding quiet_def redis_attempt_def by (auto simp: Let_def split: prod.splits) (metis fst_conv)+

lemma pipeline_not_panic: "fst (redis_pipeline cs st) \<noteq> Panic"
  by (induction cs arbitrary: st) (auto split: prod.splits, metis fst_conv)

lemma quiet_basic:
  "quiet (io_return x)" "quiet get_connection" "quiet (redis_write cs)" "quiet (redis_read (redis_smembers k))"
  unfolding get_connection_def redis_write_def redis_read_def
  by (simp add: quiet_def io_return_def)
     (rule quiet_attempt, simp add: pipeline_not_panic split: option.splits redis_value.splits)+

lemma quiet_discard: "quiet m \<Longrightarrow> quiet (io_discard m)"
  unfolding quiet_def io_discard_def by (auto split: prod.splits res.splits) (metis fst_conv snd_conv)+

lemma quiet_unwrap_or: "quiet m \<Longrightarrow> quiet (io_unwrap_or d m)"
  unfolding quiet_def io_unwrap_or_def by (auto split: prod.splits res.splits) (metis fst_conv snd_conv)+

lemma quiet_if: "quiet m \<Longrightarrow> quiet k \<Longrightarrow> quiet (if b then m else k)"
  by simp

lemmas quiet_rules = quiet_bind quiet_then quiet_basic quiet_discard quiet_unwrap_or quiet_if

lemma quiet_delete_voice_state: "quiet (delete_voice_state c p u)"
  unfolding delete_voice_state_def by (intro quiet_rules)

lemma quiet_discarded: "quiet m \<Longrightarrow> \<exists>s'. io_discard m s = (Ok (), s') \<and> pl_world s' = pl_world s"
  unfolding quiet_def io_discard_def by (auto split: prod.splits res.splits) (metis fst_conv snd_conv)+

definition leave_events :: "string \<Rightarrow> string list \<Rightarrow> (string \<times> event) list" where
  "leave_events u cs = map (\<lambda>c. (c, EvVoiceChannelLeave c u)) cs"

lemma disconnect_from_announces:
  "\<exists>s'. disconnect_from u c s = (Ok (), s')
     \<and> pl_world s' = (pl_world s)\<lparr>w_published := w_published (pl_world s) @ leave_events u [c]\<rparr>"
proof -
  let ?sid = "case fetch_channel (w_db (pl_world s)) c of Ok channel \<Rightarrow> channel_server channel | _ \<Rightarrow> None"
  obtain s1 where s1: "io_discard (delete_voice_state c ?sid u) s = (Ok (), s1)" "pl_world s1 = pl_world s"
    using quiet_discarded [OF quiet_delete_voice_state] by blast
  have "quiet (delete_voice_connection_type c u)"
    unfolding delete_voice_connection_type_def by (intro quiet_rules)
  then obtain s2 where s2: "io_discard (delete_voice_connection_type c u) s1 = (Ok (), s2)" "pl_world s2 = pl_world s1"
    using quiet_discarded by blast
  show ?thesis
    using s1 s2 by (auto simp: disconnect_from_def Let_def io_then_def io_bind_def on_world_def publish_def leave_events_def)
qed

lemma disconnect_each_announces:
  "\<exists>s'. disconnect_each u cs s = (Ok (), s')
     \<and> pl_world s' = (pl_world s)\<lparr>w_published := w_published (pl_world s) @ leave_events u cs\<rparr>"
proof (induction cs arbitrary: s)
  case (Cons c cs)
  obtain s1 where s1: "disconnect_from u c s = (Ok (), s1)"
      "pl_world s1 = (pl_world s)\<lparr>w_published := w_published (pl_world s) @ leave_events u [c]\<rparr>"
    using disconnect_from_announces by blast
  from Cons.IH [of s1] s1 show ?case by (auto simp: io_then_def io_bind_def leave_events_def)
qed (simp add: io_return_def leave_events_def)

text \<open>The keys a disconnect leaves alone.\<close>

lemma disconnect_from_effect:
  assumes "fault_free s" "store_typed (store s)" "disconnect_from u c s = (r, s')"
  shows "fault_free s'" "store_typed (store s')"
    "rset (store s') (KUserChannels u) = rset (store s) (KUserChannels u) - {c}"
    "fetch_channel (w_db (pl_world s)) c = Err e \<Longrightarrow> p \<noteq> c \<Longrightarrow> map_of (store s') (KUnique u p) = map_of (store s) (KUnique u p)"
proof -
  let ?sid = "case fetch_channel (w_db (pl_world s)) c of Ok channel \<Rightarrow> channel_server channel | _ \<Rightarrow> None"
  obtain st where st: "delete_voice_state c ?sid u s = (Ok (), with_store st s)" "store_typed st"
    "rset st (KUserChannels u) = rset (store s) (KUserChannels u) - {c}"
    "\<And>k. k \<notin> {KMembers c, KUserChannels u, KActiveVoiceChannels} \<union> set (state_keys u (voice_parent c ?sid)) \<Longrightarrow>
      map_of st k = map_of (store s) k"
    using delete_voice_state_effect [OF assms(1,2)] by metis
  note del = fold_delete [OF st(2), of "[KConnectionType u c]", simplified]
  have s': "store s' = AList.delete (KConnectionType u c) st" "fault_free s'"
    using assms(1,3) st(1)
    by (auto simp: disconnect_from_def Let_def io_then_def io_bind_def io_discard_def delete_voice_connection_type_def
        fault_free_ops on_world_def publish_def)
  show "fault_free s'" "store_typed (store s')" using s' del(1) by simp_all
  show "rset (store s') (KUserChannels u) = rset (store s) (KUserChannels u) - {c}"
    using st(3) del(2) [of "KUserChannels u"] s'(1) by (simp add: rset_def)
  show "map_of (store s') (KUnique u p) = map_of (store s) (KUnique u p)"
    if "fetch_channel (w_db (pl_world s)) c = Err e" "p \<noteq> c"
    using st(4) [of "KUnique u p"] del(2) [of "KUnique u p"] s'(1) that by (simp add: state_keys_def voice_parent_def)
qed

lemma disconnect_each_effect:
  assumes "fault_free s" "store_typed (store s)" "disconnect_each u cs s = (r, s')"
  shows "rset (store s') (KUserChannels u) = rset (store s) (KUserChannels u) - set cs \<and>
    ((\<forall>c\<in>set cs. fetch_channel (w_db (pl_world s)) c = Err NotFound) \<longrightarrow> p \<notin> set cs \<longrightarrow>
       map_of (store s') (KUnique u p) = map_of (store s) (KUnique u p)) \<and> fault_free s'"
  using assms
proof (induction cs arbitrary: s)
  case (Cons c cs)
  obtain s1 where s1: "disconnect_from u c s = (Ok (), s1)"
      "pl_world s1 = (pl_world s)\<lparr>w_published := w_published (pl_world s) @ leave_events u [c]\<rparr>"
    using disconnect_from_announces by blast
  note e = disconnect_from_effect [OF Cons.prems(1,2) s1(1)]
  have "disconnect_each u cs s1 = (r, s')"
    using Cons.prems(3) s1(1) by (simp add: io_then_def io_bind_def)
  from Cons.IH [OF e(1,2) this] e(3) e(4) [of NotFound p] s1(2) show ?case by auto
qed (simp add: io_return_def)

section \<open>Joining\<close>

lemma kept_create_within:
  assumes "u \<in> us \<or> d \<noteq> c"
  shows "kept (members_within c us) (create_voice_state d p u t)"
proof -
  have writes: "kept (members_within c us) (redis_write (RdSadd (KMembers d) u # RdSadd (KUserChannels u) d # cs))"
    if "\<forall>c\<in>set cs. harmless c" for cs
  proof (rule kept_write)
    fix st assume st: "members_within c us st"
    then have typed: "store_typed st" by (simp add: members_within_def)
    obtain ok1 st1 where one: "redis_exec (RdSadd (KMembers d) u) st = (ok1, st1)" by fastforce
    note e1 = exec_sadd [OF typed _ one, simplified]
    obtain ok2 st2 where two: "redis_exec (RdSadd (KUserChannels u) d) st1 = (ok2, st2)" by fastforce
    note e2 = exec_sadd [OF e1(2) _ two, simplified]
    have "rset st2 (KMembers c) \<subseteq> us"
      using assms st e1(3,5) e2(5) by (cases "c = d") (auto simp: members_within_def)
    with e2(2) have "members_within c us st2" by (simp add: members_within_def)
    from within.other_commands [OF that this]
    show "members_within c us (snd (redis_pipeline (RdSadd (KMembers d) u # RdSadd (KUserChannels u) d # cs) st))"
      unfolding snd_pipeline by (simp add: one two del: redis_exec.simps)
  qed
  show ?thesis
    unfolding create_voice_state_def Let_def
    by (intro voice_rules writes within.kept_harmless) (simp_all add: member_key_def)
qed

lemma kept_join_within:
  assumes "user_id u \<in> us \<or> channel_id ch \<noteq> c"
  shows "kept (members_within c us) (join_peer_to_peer E u ch is_viewer recipients)"
  unfolding join_peer_to_peer_def by (intro voice_rules kept_create_within assms)

lemma check_room_for_effect:
  assumes "check_room_for info p c s = (r, s')" "store_typed (store s)"
  shows "store s' = store s \<and> (r = Ok () \<longrightarrow> (\<forall>n. voice_max_users info = Some n \<longrightarrow>
    \<not> pv_has p (channel_permission_value ManageChannel) \<longrightarrow> rset (store s) (KMembers c) = {} \<or> card (rset (store s) (KMembers c)) < n))"
proof -
  obtain xs where xs: "redis_smembers (KMembers c) (store s) = Ok xs" "set xs = rset (store s) (KMembers c)" "distinct xs"
    using smembers_set_key [OF assms(2) set_keys(2)] by blast
  have "store s0 = store s \<and> (r0 = Err InternalError \<or> r0 = Ok (if xs = [] then None else Some xs))"
    if "get_voice_channel_members c s = (r0, s0)" for r0 s0
    using that xs(1)
    by (auto simp: get_voice_channel_members_def io_then_def io_bind_def io_return_def get_connection_def redis_read_def
        redis_attempt_def Let_def split: if_splits)
  moreover obtain r0 s0 where members: "get_voice_channel_members c s = (r0, s0)" by fastforce
  ultimately have r0: "store s0 = store s" "r0 = Err InternalError \<or> r0 = Ok (if xs = [] then None else Some xs)" by blast+
  moreover have "card (rset (store s) (KMembers c)) = length xs" "xs = [] \<longleftrightarrow> rset (store s) (KMembers c) = {}"
    using xs(2,3) by (auto simp: distinct_card [symmetric])
  ultimately show ?thesis
    using assms(1) members
    by (auto simp: check_room_for_def io_bind_def io_return_def io_fail_def split: if_splits option.splits)
qed

text \<open>What a join goes through before anything is stored.\<close>

lemma join_callE:
  assumes "join_call E u target data s = (r, s')" "store s' \<noteq> store s"
  obtains ch info p q where "fetch_channel (w_db (pl_world s)) target = Ok ch" "channel_voice ch = Some info"
    "calculate_channel_permissions (db_query (ve_now E)) (with_channel ch (voice_query s u)) = Some (p, q)"
    "io_then (if \<not> has_channel_permission p Connect then io_return () else check_room_for info p (channel_id ch))
      (io_then (if \<not> has_channel_permission p Connect then check_viewer_limit E ch else io_return ())
        (io_bind (uses_livekit E ch info) (\<lambda>lk.
          if lk then join_livekit E u ch (\<not> has_channel_permission p Connect) p data
          else join_peer_to_peer E u ch (\<not> has_channel_permission p Connect) (join_recipients data)))) s = (r, s')"
proof -
  obtain ch where ch: "fetch_channel (w_db (pl_world s)) target = Ok ch"
    using assms by (auto simp: join_call_def io_fail_def io_bind_def read_database_def split: if_splits res.splits)
  obtain info where info: "channel_voice ch = Some info"
    using assms ch by (auto simp: join_call_def io_fail_def io_bind_def read_database_def split: if_splits option.splits)
  obtain p q where pq: "calculate_channel_permissions (db_query (ve_now E)) (with_channel ch (voice_query s u)) = Some (p, q)"
    using assms ch info
    by (auto simp: join_call_def io_fail_def io_bind_def read_database_def calculated_def split: if_splits option.splits)
  show thesis
    using that [OF ch info pq] assms ch info pq
    by (auto simp: join_call_def io_fail_def io_bind_def [of "read_database f" for f] io_bind_def [of "calculated E f" for E f]
        read_database_def calculated_def Let_def split: if_splits)
qed

text \<open>C16: joining a call needs the permission and room. Whoever becomes a member of a call through a request to join is
  the requesting user, the call is the one of the named channel, the permissions calculated for the user contain
  \<open>Connect\<close>, and unless they contain \<open>ManageChannel\<close> the number of members stays within the limit of the
  channel (an empty call always lets one user in). This holds whichever Redis commands fail.\<close>

theorem joining_needs_connect_and_room:
  assumes "join_call E u target data s = (r, s')" "store_typed (store s)"
    and "v \<in> rset (store s') (KMembers c)" "v \<notin> rset (store s) (KMembers c)"
  shows "v = user_id u \<and> (\<exists>ch info p q. fetch_channel (w_db (pl_world s)) target = Ok ch \<and> channel_id ch = c
    \<and> channel_voice ch = Some info
    \<and> calculate_channel_permissions (db_query (ve_now E)) (with_channel ch (voice_query s u)) = Some (p, q)
    \<and> has_channel_permission p Connect
    \<and> (\<forall>n. voice_max_users info = Some n \<longrightarrow> \<not> pv_has p (channel_permission_value ManageChannel) \<longrightarrow>
        card (rset (store s') (KMembers c)) \<le> max 1 n))"
proof -
  let ?old = "rset (store s) (KMembers c)"
  have "store s' \<noteq> store s" using assms(3,4) by auto
  with assms(1) obtain ch info p q where found: "fetch_channel (w_db (pl_world s)) target = Ok ch"
    "channel_voice ch = Some info"
    "calculate_channel_permissions (db_query (ve_now E)) (with_channel ch (voice_query s u)) = Some (p, q)"
    and run: "io_then (if \<not> has_channel_permission p Connect then io_return () else check_room_for info p (channel_id ch))
      (io_then (if \<not> has_channel_permission p Connect then check_viewer_limit E ch else io_return ())
        (io_bind (uses_livekit E ch info) (\<lambda>lk.
          if lk then join_livekit E u ch (\<not> has_channel_permission p Connect) p data
          else join_peer_to_peer E u ch (\<not> has_channel_permission p Connect) (join_recipients data)))) s = (r, s')"
    by (rule join_callE)
  have start: "members_within c us (store s)" if "?old \<subseteq> us" for us
    using assms(2) that by (simp add: members_within_def)
  have connect: "has_channel_permission p Connect"
  proof (rule ccontr)
    assume "\<not> has_channel_permission p Connect"
    with run have "io_then (io_return ()) (io_then (check_viewer_limit E ch) (io_bind (uses_livekit E ch info) (\<lambda>lk.
        if lk then join_livekit E u ch True p data else join_peer_to_peer E u ch True (join_recipients data)))) s = (r, s')"
      (is "?all s = _") by (simp cong: if_cong)
    moreover have "kept (members_within c ?old) ?all" by (intro voice_rules)
    ultimately have "members_within c ?old (store s')" using start keptD by blast
    with assms(3,4) show False by (auto simp: members_within_def)
  qed
  let ?rest = "io_then (io_return ()) (io_bind (uses_livekit E ch info) (\<lambda>lk.
    if lk then join_livekit E u ch False p data else join_peer_to_peer E u ch False (join_recipients data)))"
  obtain r1 s1 where room: "check_room_for info p (channel_id ch) s = (r1, s1)" by fastforce
  note effect = check_room_for_effect [OF room assms(2)]
  have rest: "r1 = Ok ()" "?rest s1 = (r, s')"
    using run connect room effect \<open>store s' \<noteq> store s\<close>
    by (auto simp: io_then_def io_bind_def split: res.splits cong: if_cong)
  have kept_rest: "members_within c us (store s')" if "user_id u \<in> us \<or> channel_id ch \<noteq> c" "?old \<subseteq> us" for us
  proof -
    have "kept (members_within c us) ?rest" by (intro voice_rules kept_join_within that(1))
    with rest(2) start [OF that(2)] effect show ?thesis using keptD by metis
  qed
  have here: "channel_id ch = c"
    using kept_rest [of ?old] assms(3,4) by (auto simp: members_within_def)
  have new: "rset (store s') (KMembers c) \<subseteq> insert (user_id u) ?old"
    using kept_rest [of "insert (user_id u) ?old"] by (auto simp: members_within_def)
  then have v: "v = user_id u" using assms(3,4) by blast
  have "card (rset (store s') (KMembers c)) \<le> max 1 n"
    if "voice_max_users info = Some n" "\<not> pv_has p (channel_permission_value ManageChannel)" for n
  proof -
    have "finite ?old" by (simp add: rset_def split: option.splits redis_value.splits)
    then have "card (rset (store s') (KMembers c)) \<le> Suc (card ?old)"
      using card_mono [OF _ new] card_insert_le_m1 by (simp add: card_insert_if split: if_splits)
    moreover have "?old = {} \<or> card ?old < n" using effect rest(1) that here by auto
    ultimately show ?thesis by auto
  qed
  with v here found connect show ?thesis by blast
qed

section \<open>A stage for the witnesses\<close>

definition stage_limits :: features_limits where
  "stage_limits = \<lparr>lim_outgoing_friend_requests = 2, lim_bots = 5, lim_message_length = 2000,
     lim_message_attachments = 5, lim_servers = 100, lim_voice_quality = 16000, lim_max_voice_bitrate = 128000,
     lim_video = False, lim_video_resolution = (1920, 1080), lim_file_upload_size_limit = [],
     lim_max_stream_viewers = 10, lim_max_server_members = 100\<rparr>"

definition stage_env :: voice_env where
  "stage_env = \<lparr>ve_nodes = [''n''], ve_hosts = [(''n'', ''h'')], ve_answers = (\<lambda>_. True), ve_participants = (\<lambda>_ _. 0),
     ve_jwt = (\<lambda>_. Some ''t''), ve_limits = (\<lambda>_. Ok stage_limits), ve_now = 0, ve_unix_now = 0\<rparr>"

definition stage_channel :: channel where
  "stage_channel = Group \<lparr>group_id = ''G'', group_name = ''g'', group_owner = ''U'', group_description = None,
     group_recipients = [''U''], group_icon = None, group_last_message_id = None, group_permissions = None,
     group_moderators = [], group_nsfw = False, group_encrypted = False\<rparr>"

definition stage :: "redis_store \<Rightarrow> platform" where
  "stage st = \<lparr>pl_world = \<lparr>w_db = empty_db\<lparr>db_channels := [(''G'', stage_channel)], db_users := [(''U'', example_user)]\<rparr>,
       w_published = [], w_broker = [], w_tasks = []\<rparr>,
     pl_redis = \<lparr>rd_store = st, rd_faults = []\<rparr>, pl_livekit = []\<rparr>"

definition stage_join :: data_join_call where
  "stage_join = \<lparr>join_node = None, join_force_disconnect = None, join_recipients = None\<rparr>"

lemmas stage_defs = stage_limits_def stage_env_def stage_channel_def stage_def stage_join_def empty_db_def
  example_user_def default_user_def

lemma stage_simps [simp]: "store (stage st) = st" "fault_free (stage st)"
  by (simp_all add: stage_def)

lemma stage_permissions: "calculate_channel_permissions (db_query 0) (with_channel stage_channel (voice_query (stage st) example_user))
  = Some (channel_permission_value GrantAllSafe, with_channel stage_channel (voice_query (stage st) example_user))"
  by (simp add: calculate_channel_permissions_def query_ops db_query_def with_channel_def voice_query_def new_query_def
      stage_channel_def kind_of_channel_def owns_channel_def example_user_def default_user_def)

lemma stage_joined:
  "\<exists>r s'. join_call stage_env example_user ''G'' stage_join (stage []) = (r, s') \<and> rset (store s') (KMembers ''G'') = {''U''}"
proof -
  have "has_channel_permission (channel_permission_value GrantAllSafe) Connect"
    by (simp add: has_channel_permission_def pv_has_def channel_permission_value.simps)
  moreover have "fetch_channel (w_db (pl_world (stage []))) ''G'' = Ok stage_channel"
    by (simp add: stage_def fetch_channel_def empty_db_def ok_or_def)
  moreover have "channel_voice stage_channel = Some default_voice_information" "channel_id stage_channel = ''G''"
    "channel_server stage_channel = None"
    by (simp_all add: stage_channel_def channel_voice_def channel_server_def)
  moreover have "voice_is_enabled stage_env" "ve_now stage_env = 0" "join_recipients stage_join = None" "user_bot example_user = None"
    "user_id example_user = ''U''"
    by (simp_all add: stage_defs voice_is_enabled_def)
  ultimately show ?thesis
    using stage_permissions [of "[]"]
    by (simp add: join_call_def io_bind_def io_then_def io_return_def read_database_def calculated_def fault_free_ops
        check_room_for_def get_voice_channel_members_def uses_livekit_def default_voice_information_def
        join_peer_to_peer_def set_voice_connection_type_def connection_name_def raise_if_in_voice_def
        create_voice_state_def Let_def voice_parent_def on_world_def publish_def store_recipients_def io_discard_def
        rset_def hm.get_simps)
qed

theorem joining_needs_connect_and_room_witness:
  "\<exists>r s'. join_call stage_env example_user ''G'' stage_join (stage []) = (r, s')
     \<and> (\<exists>ch p q. fetch_channel (w_db (pl_world (stage []))) ''G'' = Ok ch
        \<and> calculate_channel_permissions (db_query (ve_now stage_env)) (with_channel ch (voice_query (stage []) example_user)) = Some (p, q)
        \<and> has_channel_permission p Connect)"
proof -
  obtain r s' where run: "join_call stage_env example_user ''G'' stage_join (stage []) = (r, s')"
    "rset (store s') (KMembers ''G'') = {''U''}"
    using stage_joined by blast
  have "store_typed (store (stage []))" "''U'' \<notin> rset (store (stage [])) (KMembers ''G'')" "''U'' \<in> rset (store s') (KMembers ''G'')"
    using run(2) empty_store_ok by (simp_all add: voice_ok_def rset_def)
  from joining_needs_connect_and_room [OF run(1) this(1,3,2)] run(1) show ?thesis by blast
qed

section \<open>Consistency and clean-up\<close>




definition busy_store :: redis_store where
  "busy_store = [(KMembers ''C'', RSet [''U'']), (KUserChannels ''U'', RSet [''C'']), (KUnique ''U'' ''S'', RText ''C'')]"

lemma busy_store_ok: "voice_ok busy_store"
  by (auto simp: voice_ok_def store_typed_def rset_def hm_wf_def busy_store_def)


text \<open>The clean-up after a lost connection forgets the server of a deleted channel. When the channel of the call
  is no longer stored, the keys of the user are looked for under the channel's identifier, while a server
  channel's call keeps them under the server's: the entry that says in which channel of the server the user
  is stays, although the user is in no call, and the next request sees the user as connected.\<close>

lemma disconnect_keeps_stale_entry:
  assumes "fault_free s" "voice_ok (store s)" "cleanup_user_voice_on_disconnect u s = (r, s')"
    and "\<forall>c\<in>rset (store s) (KUserChannels u). fetch_channel (w_db (pl_world s)) c = Err NotFound"
    and "map_of (store s) (KUnique u sid) = Some (RText c)" "sid \<notin> rset (store s) (KUserChannels u)"
  shows "fst (get_user_voice_channel_in_server u sid s') = Ok (Some c) \<and> rset (store s') (KUserChannels u) = {}"
proof -
  obtain cs where cs: "redis_smembers (KUserChannels u) (store s) = Ok cs" "set cs = rset (store s) (KUserChannels u)"
    using smembers_set_key [OF voice_okD(1) [OF assms(2)] set_keys(1)] by blast
  then have "disconnect_each u cs s = (r, s')"
    using assms(1,3)
    by (simp add: cleanup_user_voice_on_disconnect_def get_user_voice_channels_def io_then_def io_bind_def fault_free_ops
        del: redis_smembers.simps)
  from disconnect_each_effect [OF assms(1) voice_okD(1) [OF assms(2)] this, of sid] assms(4-6) cs(2)
  show ?thesis
    by (auto simp: get_user_voice_channel_in_server_def io_then_def io_bind_def fault_free_ops)
qed

lemma disconnect_keeps_stale_entry_example:
  "\<exists>r s'. cleanup_user_voice_on_disconnect ''U'' (stage busy_store) = (r, s')
     \<and> fst (get_user_voice_channel_in_server ''U'' ''S'' s') = Ok (Some ''C'')"
proof -
  obtain r s' where run: "cleanup_user_voice_on_disconnect ''U'' (stage busy_store) = (r, s')" by fastforce
  have "rset busy_store (KUserChannels ''U'') = {''C''}" "map_of busy_store (KUnique ''U'' ''S'') = Some (RText ''C'')"
    by (simp_all add: busy_store_def rset_def)
  moreover have "fetch_channel (w_db (pl_world (stage busy_store))) ''C'' = Err NotFound"
    by (simp add: stage_def fetch_channel_def empty_db_def ok_or_def)
  ultimately show ?thesis
    using disconnect_keeps_stale_entry [OF _ _ run, of "''S''" "''C''"] busy_store_ok run by auto
qed

text \<open>A bot in a call cannot join another one, although the comment in the code says bots can be in as many calls
  as they want: whether the request is refused depends only on whether the user is in any call.\<close>

lemma bots_join_one_call_only:
  assumes "fault_free s" "store_typed (store s)"
  shows "fst (raise_if_in_voice u c s) =
    (if rset (store s) (KUserChannels (user_id u)) = {} then Ok () else Err AlreadyConnected)"
proof -
  obtain xs where "redis_smembers (KUserChannels (user_id u)) (store s) = Ok xs" "set xs = rset (store s) (KUserChannels (user_id u))"
    using smembers_set_key [OF assms(2) set_keys(1)] by blast
  with assms(1) show ?thesis
    by (auto simp: raise_if_in_voice_def io_then_def io_bind_def io_return_def io_fail_def fault_free_ops
        simp del: redis_smembers.simps)
qed

lemma bots_join_one_call_only_example:
  "fst (raise_if_in_voice (default_user\<lparr>user_id := ''U'', user_bot := Some \<lparr>bot_info_owner = ''O''\<rparr>\<rparr>) ''D'' (stage busy_store)) = Err AlreadyConnected"
  using bots_join_one_call_only [of "stage busy_store" "default_user\<lparr>user_id := ''U'', user_bot := Some \<lparr>bot_info_owner = ''O''\<rparr>\<rparr>"] voice_okD(1) [OF busy_store_ok]
  by (simp add: default_user_def rset_def busy_store_def)

text \<open>A viewer cannot leave a stream through the API. Viewers have no voice state, and the request to leave is
  answered with \<open>NoEffect\<close> when there is none, before the branch for viewers is reached: after a viewer's
  webhook has put the user among the viewers, a request to leave changes nothing.\<close>

lemma viewers_cannot_leave:
  assumes "fault_free s" "store_typed (store s)" "fetch_channel (w_db (pl_world s)) c = Ok ch" "channel_id ch = c"
    and "map_of (store s) (KConnectionType (user_id u) c) = Some (RText ''viewer'')"
    and "map_of (store s) (KJoinedAt (user_id u) (voice_parent c (channel_server ch))) = None"
    and "participant_joined ch c (user_id u) now s = (r, s')"
  shows "r = Ok () \<and> user_id u \<in> rset (store s') (KViewers c) \<and> leave_call E u c s' = (Err NoEffect, s')"
proof -
  let ?p = "voice_parent c (channel_server ch)"
  obtain ok st where add: "redis_exec (RdSadd (KViewers c) (user_id u)) (store s) = (ok, st)" by fastforce
  note e = exec_sadd [OF assms(2) _ add, simplified]
  obtain xs where xs: "redis_smembers (KViewers c) st = Ok xs" using smembers_set_key [OF e(2) set_keys(4)] by blast
  have "participant_joined ch c (user_id u) now s = (Ok (), (with_store st s)\<lparr>pl_world := (pl_world s)\<lparr>w_published :=
      w_published (pl_world s) @ [(c, EvViewerCountUpdate c (word_of_nat (length xs)))]\<rparr>\<rparr>)"
    using assms(1,5) add e(1) xs
    by (simp add: participant_joined_def get_voice_connection_type_def create_viewer_state_def viewer_count_update_def
        get_viewer_count_def io_then_def io_bind_def io_return_def fault_free_ops on_world_def publish_def
        del: redis_exec.simps redis_smembers.simps)
  then have s': "r = Ok ()" "store s' = st" "fault_free s'" "w_db (pl_world s') = w_db (pl_world s)"
    using assms(1,7) by (auto simp: with_store_def)
  have typed: "\<And>k v. map_of st k = Some v \<Longrightarrow> well_kinded k v" using e(2) by (simp add: store_typed_def)
  have bools: "\<exists>x. redis_bool k st = Ok x" if "\<And>v. well_kinded k v = (case v of RBool _ \<Rightarrow> True | _ \<Rightarrow> False)" for k
    using typed [of k] that by (cases "map_of st k") (auto split: redis_value.splits)
  have "map_of st (KJoinedAt (user_id u) (voice_parent c (channel_server ch))) = None"
    using e(4) assms(6) by simp
  moreover obtain b1 b2 b3 b4 where "redis_bool (KIsPublishing (user_id u) ?p) st = Ok b1"
    "redis_bool (KIsReceiving (user_id u) ?p) st = Ok b2" "redis_bool (KScreensharing (user_id u) ?p) st = Ok b3"
    "redis_bool (KCamera (user_id u) ?p) st = Ok b4"
    using bools [of "KIsPublishing (user_id u) ?p"] bools [of "KIsReceiving (user_id u) ?p"]
      bools [of "KScreensharing (user_id u) ?p"] bools [of "KCamera (user_id u) ?p"]
    by (simp del: redis_bool.simps) blast
  ultimately have "stored_voice_state (user_id u) ?p st = Ok None"
    by (simp add: stored_voice_state_def del: redis_bool.simps)
  then have "leave_call E u c s' = (Err NoEffect, s')"
    using s' assms(3,4)
    by (simp add: leave_call_def io_bind_def io_then_def read_database_def get_voice_state_def fault_free_ops io_fail_def)
  with s' e(3) show ?thesis by simp
qed

lemma viewers_cannot_leave_example:
  "\<exists>r s'. participant_joined stage_channel ''G'' ''U'' 0 (stage [(KConnectionType ''U'' ''G'', RText ''viewer'')]) = (r, s')
     \<and> ''U'' \<in> rset (store s') (KViewers ''G'') \<and> leave_call stage_env example_user ''G'' s' = (Err NoEffect, s')"
proof -
  let ?s = "stage [(KConnectionType ''U'' ''G'', RText ''viewer'')]"
  obtain r s' where run: "participant_joined stage_channel ''G'' (user_id example_user) 0 ?s = (r, s')" by fastforce
  have "store_typed (store ?s)" "fetch_channel (w_db (pl_world ?s)) ''G'' = Ok stage_channel" "channel_id stage_channel = ''G''"
    "user_id example_user = ''U''"
    by (auto simp: store_typed_def hm_wf_def stage_def fetch_channel_def empty_db_def ok_or_def stage_channel_def
        example_user_def default_user_def)
  with viewers_cannot_leave [OF _ _ _ _ _ _ run, of stage_env] run show ?thesis by auto
qed

section \<open>Media follows permissions\<close>

lemma redis_int_Some: "redis_int k st = Ok (Some i) \<longleftrightarrow> map_of st k = Some (RInt i)"
  by (simp split: option.splits redis_value.splits)

lemma redis_bool_Some: "redis_bool k st = Ok (Some i) \<longleftrightarrow> map_of st k = Some (RBool i)"
  by (simp split: option.splits redis_value.splits)
lemma stored_voice_stateD:
  assumes "stored_voice_state u p st = Ok (Some v)"
  shows "map_of st (KJoinedAt u p) = Some (RInt (uvs_joined_at v)) \<and> timestamp_of_millis (uvs_joined_at v) = Ok (uvs_joined_at v)
     \<and> map_of st (KIsPublishing u p) = Some (RBool (uvs_is_publishing v))
     \<and> map_of st (KIsReceiving u p) = Some (RBool (uvs_is_receiving v))
     \<and> map_of st (KScreensharing u p) = Some (RBool (uvs_screensharing v))
     \<and> map_of st (KCamera u p) = Some (RBool (uvs_camera v)) \<and> uvs_id v = u"
proof -
  obtain j a b c d where r: "redis_int (KJoinedAt u p) st = Ok j" "redis_bool (KIsPublishing u p) st = Ok a"
    "redis_bool (KIsReceiving u p) st = Ok b" "redis_bool (KScreensharing u p) st = Ok c" "redis_bool (KCamera u p) st = Ok d"
    and w: "(case (j, a, b, c, d) of
         (Some joined_at, Some is_publishing, Some is_receiving, Some screensharing, Some camera) \<Rightarrow>
           res_bind (timestamp_of_millis joined_at) (\<lambda>joined_at.
             Ok (Some \<lparr>uvs_id = u, uvs_joined_at = joined_at, uvs_is_receiving = is_receiving,
               uvs_is_publishing = is_publishing, uvs_screensharing = screensharing, uvs_camera = camera\<rparr>))
       | _ \<Rightarrow> Ok None) = Ok (Some v)"
    using assms unfolding stored_voice_state_def res_bind_Ok by blast
  obtain j1 a1 b1 c1 d1 where "j = Some j1" "a = Some a1" "b = Some b1" "c = Some c1" "d = Some d1"
    using w by (auto split: option.splits)
  with r w show ?thesis
    by (auto simp: redis_int_Some redis_bool_Some res_bind_Ok timestamp_of_millis_def split: if_splits
        simp del: redis_int.simps redis_bool.simps)
qed

lemma stored_voice_stateI:
  assumes "map_of st (KJoinedAt u p) = Some (RInt (uvs_joined_at v))" "timestamp_of_millis (uvs_joined_at v) = Ok (uvs_joined_at v)"
     "map_of st (KIsPublishing u p) = Some (RBool (uvs_is_publishing v))"
     "map_of st (KIsReceiving u p) = Some (RBool (uvs_is_receiving v))"
     "map_of st (KScreensharing u p) = Some (RBool (uvs_screensharing v))"
     "map_of st (KCamera u p) = Some (RBool (uvs_camera v))" "uvs_id v = u"
  shows "stored_voice_state u p st = Ok (Some v)"
  using assms by (simp add: stored_voice_state_def)

lemma sets_succeed: "(\<And>c. c \<in> set cs \<Longrightarrow> \<exists>k v. c = RdSet k v) \<Longrightarrow> fst (redis_pipeline cs st) = Ok ()"
proof (induction cs arbitrary: st)
  case (Cons c cs)
  from Cons.prems [of c] obtain k v where "c = RdSet k v" by auto
  with Cons.IH [of "AList.update k v st"] Cons.prems show ?case by (auto split: prod.splits)
qed simp

lemma update_voice_state_effect:
  assumes "fault_free s" "stored_voice_state u (voice_parent c p) (store s) = Ok (Some v)"
  obtains st where "update_voice_state c p u partial s = (Ok (), with_store st s)"
    "stored_voice_state u (voice_parent c p) st = Ok (Some (v\<lparr>uvs_camera := over (puv_camera partial) (uvs_camera v),
       uvs_is_publishing := over (puv_is_publishing partial) (uvs_is_publishing v),
       uvs_is_receiving := over (puv_is_receiving partial) (uvs_is_receiving v),
       uvs_screensharing := over (puv_screensharing partial) (uvs_screensharing v)\<rparr>))"
proof -
  let ?q = "voice_parent c p"
  let ?cs = "set_if (KCamera u ?q) (puv_camera partial) @ set_if (KIsPublishing u ?q) (puv_is_publishing partial)
    @ set_if (KIsReceiving u ?q) (puv_is_receiving partial) @ set_if (KScreensharing u ?q) (puv_screensharing partial)"
  have "fst (redis_pipeline ?cs (store s)) = Ok ()"
    by (intro sets_succeed) (auto simp: set_if_def split: option.splits)
  then have "redis_pipeline ?cs (store s) = (Ok (), run_commands ?cs (store s))"
    by (simp only: prod_eq_iff snd_pipeline fst_conv snd_conv)
  with assms(1) have "update_voice_state c p u partial s = (Ok (), with_store (run_commands ?cs (store s)) s)"
    by (simp add: update_voice_state_def Let_def io_then_def io_bind_def fault_free_ops)
  moreover have "stored_voice_state u ?q (run_commands ?cs (store s)) = Ok (Some (v\<lparr>uvs_camera := over (puv_camera partial) (uvs_camera v),
       uvs_is_publishing := over (puv_is_publishing partial) (uvs_is_publishing v),
       uvs_is_receiving := over (puv_is_receiving partial) (uvs_is_receiving v),
       uvs_screensharing := over (puv_screensharing partial) (uvs_screensharing v)\<rparr>))"
    using stored_voice_stateD [OF assms(2)]
    by (intro stored_voice_stateI)
       (cases "puv_camera partial"; cases "puv_is_publishing partial"; cases "puv_is_receiving partial";
        cases "puv_screensharing partial"; simp add: set_if_def hm.get_insert)+
  ultimately show thesis by (rule that)
qed


definition camera_store :: redis_store where
  "camera_store = [(KJoinedAt ''U'' ''G'', RInt 0), (KIsPublishing ''U'' ''G'', RBool False), (KIsReceiving ''U'' ''G'', RBool True),
     (KScreensharing ''U'' ''G'', RBool False), (KCamera ''U'' ''G'', RBool True)]"


end
