(* ===== verification/Servers.thy ===== *)
theory Servers
  imports Messages Users Voice
begin

text \<open>
  Servers, roles, members and bans as the handlers change them
  (\<open>crates/core/database/src/models/{servers,server_members,server_bans}/model.rs\<close>) and the creation of
  server channels (\<open>models/channels/model.rs\<close>).

  A method that changes \<open>self\<close> returns the changed value. The identifiers the code draws are arguments.
  \<open>set_role_ordering\<close> asserts that the order has as many entries as there are roles only in debug
  builds; an identifier that is no role panics in every build.
\<close>

section \<open>Data\<close>

datatype legacy_server_channel_type = LegacyText | LegacyVoice

record data_create_server_channel =
  dcsc_channel_type :: legacy_server_channel_type
  dcsc_name :: string
  dcsc_description :: "string option"
  dcsc_nsfw :: "bool option"
  dcsc_voice :: "voice_information option"

record data_create_server =
  dcs_name :: string
  dcs_description :: "string option"
  dcs_nsfw :: "bool option"

section \<open>Servers and their channels\<close>

definition server_update ::
  "optional_structs \<Rightarrow> server \<Rightarrow> partial_server \<Rightarrow> fields_server list \<Rightarrow> server handler" where
  "server_update opt s partial remove =
     (let s' = apply_server opt partial (fold server_remove_field remove s)
      in io_then (on_db (update_server opt (server_id s') partial remove))
        (io_then (publish (server_id s') (EvServerUpdate (server_id s') partial remove)) (io_return s')))"

definition server_channel_of :: "string \<Rightarrow> server \<Rightarrow> data_create_server_channel \<Rightarrow> channel" where
  "server_channel_of ulid s data = TextChannel \<lparr>text_id = ulid, text_server = server_id s, text_name = dcsc_name data,
     text_description = dcsc_description data, text_icon = None, text_last_message_id = None,
     text_default_permissions = None, text_role_permissions = [], text_nsfw = over (dcsc_nsfw data) False,
     text_voice = (case dcsc_channel_type data of
         LegacyText \<Rightarrow> dcsc_voice data
       | LegacyVoice \<Rightarrow> Some (over (dcsc_voice data) default_voice_information)),
     text_encrypted = False\<rparr>"

text \<open>Returns the server together with the new channel.\<close>

definition create_server_channel :: "optional_structs \<Rightarrow> global_limits \<Rightarrow> string \<Rightarrow> server
    \<Rightarrow> data_create_server_channel \<Rightarrow> bool \<Rightarrow> (channel \<times> server) handler" where
  "create_server_channel opt lim ulid s data update =
     (if length (server_channels s) > lim_server_channels lim
      then io_fail (TooManyChannels (lim_server_channels lim))
      else let c = server_channel_of ulid s data in
        io_then (on_db (insert_channel c))
          (if update
           then io_bind (server_update opt s (empty_partial_server\<lparr>ps_channels := Some (server_channels s @ [ulid])\<rparr>) [])
             (\<lambda>s. io_then (publish (server_id s) (EvChannelCreate c)) (io_return (c, s)))
           else io_return (c, s)))"

definition new_server :: "string \<Rightarrow> data_create_server \<Rightarrow> user \<Rightarrow> server" where
  "new_server ulid data owner = \<lparr>server_id = ulid, server_owner = user_id owner, server_name = dcs_name data,
     server_description = dcs_description data, server_channels = [], server_categories = None,
     server_system_messages = None, server_roles = [],
     server_default_permissions = u64_as_i64 DEFAULT_PERMISSION_SERVER, server_icon = None, server_banner = None,
     server_flags = None, server_nsfw = over (dcs_nsfw data) False, server_analytics = False,
     server_discoverable = False\<rparr>"

definition server_create :: "optional_structs \<Rightarrow> global_limits \<Rightarrow> string \<Rightarrow> string \<Rightarrow> data_create_server
    \<Rightarrow> user \<Rightarrow> bool \<Rightarrow> (server \<times> channel list) handler" where
  "server_create opt lim ulid channel_ulid data owner create_default_channels =
     io_bind
       (if create_default_channels
        then io_bind (create_server_channel opt lim channel_ulid (new_server ulid data owner)
            \<lparr>dcsc_channel_type = LegacyText, dcsc_name = ''General'', dcsc_description = None, dcsc_nsfw = None,
             dcsc_voice = None\<rparr> False) (\<lambda>(c, _). io_return [c])
        else io_return []) (\<lambda>channels.
     let s = (new_server ulid data owner)\<lparr>server_channels := map channel_id channels\<rparr>
     in io_then (on_db (insert_server s)) (io_return (s, channels)))"

definition server_delete :: "server \<Rightarrow> unit handler" where
  "server_delete s = io_then (publish (server_id s) (EvServerDelete (server_id s))) (on_db (delete_server (server_id s)))"

section \<open>Roles\<close>

definition role_create :: "string \<Rightarrow> server \<Rightarrow> string \<Rightarrow> role handler" where
  "role_create ulid s name =
     (let r = \<lparr>role_id = ulid, role_name = name, role_permissions = default_override_field, role_colour = None,
        role_hoist = False, role_rank = usize_as_i64 (length (server_roles s))\<rparr>
      in io_then (on_db (insert_role (server_id s) r))
        (io_then (publish (server_id s) (EvServerRoleUpdate (server_id s) (role_id r) (role_into_optional r) []))
          (io_return r)))"

definition role_update ::
  "optional_structs \<Rightarrow> string \<Rightarrow> role \<Rightarrow> partial_role \<Rightarrow> fields_role list \<Rightarrow> role handler" where
  "role_update opt sid r partial remove =
     (let r' = apply_role opt partial (fold role_remove_field remove r)
      in io_then (on_db (update_role opt sid (role_id r') partial remove))
        (io_then (publish sid (EvServerRoleUpdate sid (role_id r') partial remove)) (io_return r')))"

definition role_delete :: "string \<Rightarrow> role \<Rightarrow> unit handler" where
  "role_delete sid r = io_then (publish sid (EvServerRoleDelete sid (role_id r))) (on_db (delete_role sid (role_id r)))"

definition server_set_role_permission ::
  "optional_structs \<Rightarrow> server \<Rightarrow> string \<Rightarrow> override_field \<Rightarrow> server handler" where
  "server_set_role_permission opt s rid permissions = (case map_of (server_roles s) rid of
     Some r \<Rightarrow> io_bind (role_update opt (server_id s) r (empty_partial_role\<lparr>pr_permissions := Some permissions\<rparr>) [])
       (\<lambda>r'. io_return (s\<lparr>server_roles := hm_adjust rid (\<lambda>_. r') (server_roles s)\<rparr>))
   | None \<Rightarrow> io_fail NotFound)"

fun assign_ranks :: "nat \<Rightarrow> string list \<Rightarrow> (string, role) hash_map \<Rightarrow> (string, role) hash_map result" where
  "assign_ranks rank [] roles = Ok roles"
| "assign_ranks rank (i # ids) roles =
     (if hm_contains roles i
      then assign_ranks (Suc rank) ids (hm_adjust i (\<lambda>r. r\<lparr>role_rank := usize_as_i64 rank\<rparr>) roles)
      else Panic)"

definition set_role_ordering :: "optional_structs \<Rightarrow> server \<Rightarrow> string list \<Rightarrow> server handler" where
  "set_role_ordering opt s new_order =
     io_bind (io_read (\<lambda>_. assign_ranks 0 new_order (server_roles s))) (\<lambda>roles.
     io_then (on_db (update_server opt (server_id s) (empty_partial_server\<lparr>ps_roles := Some roles\<rparr>) []))
     (io_then (publish (server_id s) (EvServerRoleRanksUpdate (server_id s) new_order))
       (io_return (s\<lparr>server_roles := roles\<rparr>))))"

section \<open>Members and bans\<close>

fun visible_channels :: "timestamp \<Rightarrow> db_permission_query \<Rightarrow> channel list \<Rightarrow> channel list result" where
  "visible_channels now q [] = Ok []"
| "visible_channels now q (c # cs) = (case calculate_channel_permissions (db_query now) (with_channel c q) of
     Some (p, _) \<Rightarrow> res_bind (visible_channels now q cs) (\<lambda>vs.
       Ok (if has_channel_permission p ViewChannel then c # vs else vs))
   | None \<Rightarrow> Panic)"

text \<open>The voice states of the channels are read for the event; reading drops entries that are out of date.\<close>

fun read_voice_states :: "channel list \<Rightarrow> unit voice" where
  "read_voice_states [] = io_return ()"
| "read_voice_states (c # cs) = io_then (io_discard (get_channel_voice_state c)) (read_voice_states cs)"

definition channels_of_new_member :: "timestamp \<Rightarrow> server \<Rightarrow> user \<Rightarrow> channel list option \<Rightarrow> channel list voice" where
  "channels_of_new_member now s u channels = (case channels of
     Some cs \<Rightarrow> io_return cs
   | None \<Rightarrow> io_bind (read_database (\<lambda>db. fetch_channels db (server_channels s))) (\<lambda>existing.
       io_read (\<lambda>pl. visible_channels now (with_server s (voice_query pl u)) existing)))"

definition member_create :: "timestamp \<Rightarrow> string \<Rightarrow> server \<Rightarrow> user \<Rightarrow> channel list option
    \<Rightarrow> (member \<times> channel list) voice" where
  "member_create now ulid s u channels pl =
     (if is_ok (fetch_ban (w_db (pl_world pl)) (server_id s) (user_id u)) then (Err Banned, pl)
      else if is_ok (fetch_member (w_db (pl_world pl)) (server_id s) (user_id u)) then (Err AlreadyInServer, pl)
      else let m = (default_member now)\<lparr>member_id := \<lparr>key_server = server_id s, key_user = user_id u\<rparr>\<rparr> in
        io_bind (on_world (on_db (insert_or_merge_member m))) (\<lambda>updated.
        let m = over updated m in
        io_bind (channels_of_new_member now s u channels) (\<lambda>channels.
        io_bind (read_database (\<lambda>db. fetch_emoji_by_parent_id db (server_id s))) (\<lambda>emojis.
        io_then (read_voice_states channels)
        (io_then (on_world (publish (server_id s) (EvServerMemberJoin (server_id s) (user_id u) m)))
        (io_then (on_world (publish_private (user_id u) (EvServerCreate (server_id s) s channels emojis)))
        (io_then (case Option.bind (server_system_messages s) smc_user_joined of
            Some c \<Rightarrow> io_discard (on_world (send_without_notifications (into_message ulid (SysUserJoined (user_id u)) c) False False))
          | None \<Rightarrow> io_return ())
          (io_return (m, channels)))))))) pl)"

definition member_update ::
  "optional_structs \<Rightarrow> member \<Rightarrow> partial_member \<Rightarrow> fields_member list \<Rightarrow> member handler" where
  "member_update opt m partial remove =
     (let m' = apply_member opt partial (fold member_remove_field remove m)
      in io_then (on_db (update_member opt (member_id m') partial remove))
        (io_then (publish (key_server (member_id m')) (EvServerMemberUpdate (member_id m') partial remove))
          (io_return m')))"

primrec removal_channel :: "removal_intention \<Rightarrow> system_message_channels \<Rightarrow> string option" where
  "removal_channel Leave c = smc_user_left c"
| "removal_channel Kick c = smc_user_kicked c"
| "removal_channel Ban c = smc_user_banned c"

primrec removal_message :: "removal_intention \<Rightarrow> string \<Rightarrow> system_message" where
  "removal_message Leave u = SysUserLeft u"
| "removal_message Kick u = SysUserKicked u"
| "removal_message Ban u = SysUserBanned u"

definition forget_joined_server :: "member_composite_key \<Rightarrow> unit handler" where
  "forget_joined_server k w = (case fetch_bot (w_db w) (key_user k) of
     Ok b \<Rightarrow> if bot_type b = BotAiCompanion \<and> bot_joined_server_id b = Some (key_server k)
       then io_discard (on_db (update_bot_joined_server (bot_id b) None)) w
       else (Ok (), w)
   | _ \<Rightarrow> (Ok (), w))"

definition member_remove ::
  "timestamp \<Rightarrow> string \<Rightarrow> member \<Rightarrow> server \<Rightarrow> removal_intention \<Rightarrow> bool \<Rightarrow> unit handler" where
  "member_remove now ulid m s intention silent =
     io_then (on_db (soft_delete_member now (member_id m)))
     (io_then (forget_joined_server (member_id m))
     (io_then (publish (key_server (member_id m)) (EvServerMemberLeave (key_server (member_id m)) (key_user (member_id m)) intention))
       (if silent then io_return ()
        else case Option.bind (server_system_messages s) (removal_channel intention) of
          Some c \<Rightarrow> io_discard (send_without_notifications
            (into_message ulid (removal_message intention (key_user (member_id m))) c) False False)
        | None \<Rightarrow> io_return ())))"

definition server_ban_create :: "server \<Rightarrow> string \<Rightarrow> string option \<Rightarrow> server_ban handler" where
  "server_ban_create s uid reason =
     (let ban = \<lparr>ban_id = \<lparr>key_server = server_id s, key_user = uid\<rparr>, ban_reason = reason\<rparr>
      in io_then (on_db (insert_ban ban)) (io_return ban))"

end
