(* ===== verification/Server_Routes.thy ===== *)
theory Server_Routes
  imports Servers
begin

text \<open>
  The routes that administer a server (\<open>crates/delta/src/routes/servers\<close>): settings, channels, roles,
  members and bans. The objects a request names are fetched first, the permissions of the requesting user
  are calculated, the rank of the user is compared with the rank of what is changed, then the handlers of
  \<open>Servers\<close> run and those in a call are told.

  Checking a request body is derived by the validator crate: \<open>validate\<close> gives the text of the first
  complaint. The order in which a set difference is iterated is unspecified; it decides which of two
  errors a refused request gets.
\<close>

section \<open>Requests\<close>

record data_create_role =
  dcr_name :: string
  dcr_rank :: "i64 option"

record data_edit_role =
  der_name :: "string option"
  der_colour :: "string option"
  der_hoist :: "bool option"
  der_rank :: "i64 option"
  der_remove :: "fields_role list"

record data_edit_server =
  des_name :: "string option"
  des_description :: "string option"
  des_icon :: "string option"
  des_banner :: "string option"
  des_categories :: "category list option"
  des_system_messages :: "system_message_channels option"
  des_flags :: "i32 option"
  des_discoverable :: "bool option"
  des_analytics :: "bool option"
  des_remove :: "fields_server list"

record data_member_edit =
  dme_nickname :: "string option"
  dme_avatar :: "string option"
  dme_roles :: "string list option"
  dme_timeout :: "timestamp option"
  dme_can_publish :: "bool option"
  dme_can_receive :: "bool option"
  dme_voice_channel :: "string option"
  dme_remove :: "fields_member list"

text \<open>What the routes read besides the stored data.\<close>

record server_env =
  sv_voice :: voice_env
  sv_structs :: optional_structs
  sv_limits :: global_limits

abbreviation sv_now :: "server_env \<Rightarrow> timestamp" where
  "sv_now E \<equiv> ve_now (sv_voice E)"

definition i64_min :: i64 where
  "i64_min = - (2 ^ 63)"

text \<open>A check that does not look at the state, and \<open>data.validate()\<close>.\<close>

abbreviation attempt :: "'a result \<Rightarrow> 'a voice" where
  "attempt r \<equiv> io_read (\<lambda>_. r)"

definition validated :: "string option \<Rightarrow> unit result" where
  "validated complaint = (case complaint of Some error \<Rightarrow> Err (FailedValidation error) | None \<Rightarrow> Ok ())"

definition server_query :: "user \<Rightarrow> server \<Rightarrow> platform \<Rightarrow> db_permission_query" where
  "server_query u s pl = with_server s (voice_query pl u)"

text \<open>\<open>calculate_server_permissions\<close>, giving the query as the calculation leaves it.\<close>

definition server_access ::
  "server_env \<Rightarrow> (platform \<Rightarrow> db_permission_query) \<Rightarrow> (permission_value \<times> db_permission_query) voice" where
  "server_access E query pl = (case calculate_server_permissions (db_query (sv_now E)) (query pl) of
     Some x \<Rightarrow> (Ok x, pl) | None \<Rightarrow> (Panic, pl))"

definition rank_of_member :: "db_permission_query \<Rightarrow> i64 result" where
  "rank_of_member q = res_bind (get_member_rank q) (\<lambda>rank. Ok (over rank i64_min))"

abbreviation needs :: "permission_value \<Rightarrow> channel_permission \<Rightarrow> unit voice" where
  "needs p x \<equiv> attempt (throw_if_lacking_channel_permission p x)"

fun sync_server_channels :: "server_env \<Rightarrow> server \<Rightarrow> string option \<Rightarrow> string list \<Rightarrow> unit voice" where
  "sync_server_channels E s role [] = io_return ()"
| "sync_server_channels E s role (c # cs) =
     io_bind (read_database (\<lambda>db. fetch_channel db c)) (\<lambda>channel.
     io_then (sync_voice_permissions (sv_voice E) channel (Some s) role) (sync_server_channels E s role cs))"

section \<open>Roles\<close>

definition roles_create :: "server_env \<Rightarrow> (data_create_role \<Rightarrow> string option) \<Rightarrow> string \<Rightarrow> user \<Rightarrow> string
    \<Rightarrow> data_create_role \<Rightarrow> role voice" where
  "roles_create E validate ulid u target data =
     io_then (attempt (validated (validate data)))
     (io_bind (read_database (\<lambda>db. fetch_server db target)) (\<lambda>s.
      io_bind (server_access E (server_query u s)) (\<lambda>(p, q).
      io_then (needs p ManageRole)
        (if length (server_roles s) \<ge> lim_server_roles (sv_limits E)
         then io_fail (TooManyRoles (lim_server_roles (sv_limits E)))
         else on_world (role_create ulid s (dcr_name data))))))"

definition roles_edit :: "server_env \<Rightarrow> (data_edit_role \<Rightarrow> string option) \<Rightarrow> user \<Rightarrow> string \<Rightarrow> string
    \<Rightarrow> data_edit_role \<Rightarrow> role voice" where
  "roles_edit E validate u target rid data =
     io_then (attempt (validated (validate data)))
     (io_bind (read_database (\<lambda>db. fetch_server db target)) (\<lambda>s.
      io_bind (server_access E (server_query u s)) (\<lambda>(p, q).
      io_then (needs p ManageRole)
      (io_bind (attempt (rank_of_member q)) (\<lambda>member_rank.
       case map_of (server_roles s) rid of
         None \<Rightarrow> io_fail NotFound
       | Some r \<Rightarrow>
           if role_rank r \<le> member_rank then io_fail NotElevated
           else let s = s\<lparr>server_roles := AList.delete rid (server_roles s)\<rparr>;
                    partial = empty_partial_role\<lparr>pr_name := der_name data, pr_colour := der_colour data,
                      pr_hoist := der_hoist data\<rparr> in
             io_bind (on_world (role_update (sv_structs E) (server_id s) r partial (der_remove data))) (\<lambda>r.
             io_then (sync_server_channels E s (Some rid) (server_channels s)) (io_return r)))))))"

definition roles_delete :: "server_env \<Rightarrow> user \<Rightarrow> string \<Rightarrow> string \<Rightarrow> unit voice" where
  "roles_delete E u target rid =
     io_bind (read_database (\<lambda>db. fetch_server db target)) (\<lambda>s.
     io_bind (server_access E (server_query u s)) (\<lambda>(p, q).
     io_then (needs p ManageRole)
     (io_bind (attempt (rank_of_member q)) (\<lambda>member_rank.
      io_bind (attempt (ok_or (map_of (server_roles s) rid) NotFound)) (\<lambda>r.
        let s = s\<lparr>server_roles := AList.delete rid (server_roles s)\<rparr> in
        if role_rank r \<le> member_rank then io_fail NotElevated
        else io_then (on_world (role_delete (server_id s) r))
          (sync_server_channels E s (Some rid) (server_channels s)))))))"

fun position :: "'a \<Rightarrow> 'a list \<Rightarrow> nat option" where
  "position x [] = None"
| "position x (y # ys) = (if x = y then Some 0 else map_option Suc (position x ys))"

text \<open>Whether a role the member may not touch would change its place.\<close>

definition moves_protected_role :: "server \<Rightarrow> i64 option \<Rightarrow> string list \<Rightarrow> bool" where
  "moves_protected_role s member_top_rank new_order \<longleftrightarrow> (\<exists>(i, r)\<in>set (server_roles s).
     (case member_top_rank of Some top_rank \<Rightarrow> role_rank r \<le> top_rank | None \<Rightarrow> True)
     \<and> position i (map fst (ordered_roles s)) \<noteq> position i new_order)"

definition edit_role_ranks :: "server_env \<Rightarrow> user \<Rightarrow> string \<Rightarrow> string list \<Rightarrow> server voice" where
  "edit_role_ranks E u target ranks =
     io_bind (read_database (\<lambda>db. fetch_server db target)) (\<lambda>s.
     io_bind (server_access E (server_query u s)) (\<lambda>(p, q).
     io_then (needs p ManageRole)
       (if length ranks \<noteq> length (server_roles s) \<or> \<not> (\<forall>(i, _)\<in>set (server_roles s). i \<in> set ranks)
        then io_fail InvalidOperation
        else io_then
          (if server_owner s \<noteq> user_id u
           then io_bind (attempt (get_member_rank q)) (\<lambda>top_rank.
             if moves_protected_role s top_rank ranks then io_fail NotElevated else io_return ())
           else io_return ())
          (io_bind (on_world (set_role_ordering (sv_structs E) s ranks)) (\<lambda>s.
           io_then (sync_server_channels E s None (server_channels s)) (io_return s))))))"

section \<open>Permissions\<close>

definition set_role_permission :: "server_env \<Rightarrow> user \<Rightarrow> string \<Rightarrow> string \<Rightarrow> override \<Rightarrow> server voice" where
  "set_role_permission E u target rid permissions =
     io_bind (read_database (\<lambda>db. fetch_server db target)) (\<lambda>s.
     io_bind (attempt (ok_or (map_of (server_roles s) rid) NotFound)) (\<lambda>r.
     io_bind (server_access E (server_query u s)) (\<lambda>(p, q).
     io_then (needs p ManagePermissions)
     (io_bind (attempt (rank_of_member q)) (\<lambda>member_rank.
       if role_rank r \<le> member_rank then io_fail NotElevated
       else io_then (attempt (throw_permission_override p (Some (field_to_override (role_permissions r))) permissions))
         (io_bind (on_world (server_set_role_permission (sv_structs E) s rid (override_to_field permissions))) (\<lambda>s.
          io_then (sync_server_channels E s (Some rid) (server_channels s)) (io_return s))))))))"

definition set_default_server_permissions :: "server_env \<Rightarrow> user \<Rightarrow> string \<Rightarrow> u64 \<Rightarrow> server voice" where
  "set_default_server_permissions E u target permissions =
     io_bind (read_database (\<lambda>db. fetch_server db target)) (\<lambda>s.
     io_bind (server_access E (server_query u s)) (\<lambda>(p, q).
     io_then (needs p ManagePermissions)
     (io_then (attempt (throw_permission_override p None \<lparr>allow = permissions, deny = 0\<rparr>))
     (io_bind (on_world (server_update (sv_structs E) s
         (empty_partial_server\<lparr>ps_default_permissions := Some (u64_as_i64 permissions)\<rparr>) [])) (\<lambda>s.
      io_then (sync_server_channels E s None (server_channels s)) (io_return s))))))"

section \<open>Bans and kicks\<close>

definition server_ref :: "db_permission_query \<Rightarrow> server result" where
  "server_ref q = (case q_server q of Some s \<Rightarrow> Ok s | None \<Rightarrow> Panic)"

text \<open>\<open>member.get_ranking(query.server_ref().unwrap()) <= query.get_member_rank().unwrap_or(i64::MIN)\<close>\<close>

definition outranked :: "member \<Rightarrow> db_permission_query \<Rightarrow> bool result" where
  "outranked m q = res_bind (server_ref q) (\<lambda>s. res_bind (rank_of_member q) (\<lambda>rank. Ok (get_ranking m s \<le> rank)))"

definition leave_server_call :: "server_env \<Rightarrow> string \<Rightarrow> string \<Rightarrow> unit voice" where
  "leave_server_call E uid sid =
     io_bind (get_user_voice_channel_in_server uid sid) (\<lambda>c. case c of
       Some c \<Rightarrow> remove_user_from_voice_channel (sv_voice E) c uid
     | None \<Rightarrow> io_return ())"

definition ban :: "server_env \<Rightarrow> (string option \<Rightarrow> string option) \<Rightarrow> string \<Rightarrow> user \<Rightarrow> string \<Rightarrow> string
    \<Rightarrow> string option \<Rightarrow> server_ban voice" where
  "ban E validate ulid u sid target reason =
     io_then (attempt (validated (validate reason)))
     (io_bind (read_database (\<lambda>db. fetch_server db sid)) (\<lambda>s.
      if target = user_id u then io_fail CannotRemoveYourself
      else if target = server_owner s then io_fail InvalidOperation
      else io_bind (server_access E (server_query u s)) (\<lambda>(p, q).
        io_then (needs p BanMembers)
        (io_then (\<lambda>pl. case fetch_member (w_db (pl_world pl)) (server_id s) target of
             Ok m \<Rightarrow> io_bind (attempt (outranked m q)) (\<lambda>no.
               if no then io_fail NotElevated
               else io_then (on_world (member_remove (sv_now E) ulid m s Ban False))
                 (leave_server_call E target (server_id s))) pl
           | _ \<Rightarrow> (Ok (), pl))
          (on_world (server_ban_create s target reason))))))"

definition unban :: "server_env \<Rightarrow> user \<Rightarrow> string \<Rightarrow> string \<Rightarrow> unit voice" where
  "unban E u sid target =
     io_bind (read_database (\<lambda>db. fetch_server db sid)) (\<lambda>s.
     io_bind (server_access E (server_query u s)) (\<lambda>(p, q).
     io_then (needs p BanMembers)
     (io_bind (read_database (\<lambda>db. fetch_ban db (server_id s) target)) (\<lambda>b.
       on_world (on_db (delete_ban (ban_id b)))))))"

text \<open>The call is looked for with \<open>target.id\<close>, the identifier in the path of the server.\<close>

definition kick :: "server_env \<Rightarrow> string \<Rightarrow> user \<Rightarrow> string \<Rightarrow> string \<Rightarrow> unit voice" where
  "kick E ulid u target member =
     io_bind (read_database (\<lambda>db. fetch_server db target)) (\<lambda>s.
     if member = user_id u then io_fail CannotRemoveYourself
     else if member = server_owner s then io_fail InvalidOperation
     else io_bind (server_access E (server_query u s)) (\<lambda>(p, q).
       io_then (needs p KickMembers)
       (io_bind (read_database (\<lambda>db. fetch_member db (server_id s) member)) (\<lambda>m.
        io_bind (attempt (outranked m q)) (\<lambda>no.
          if no then io_fail NotElevated
          else io_then (on_world (member_remove (sv_now E) ulid m s Kick False))
            (leave_server_call E target (server_id s)))))))"

section \<open>Editing a member\<close>

text \<open>The permissions an edit needs, in the order of the checks.\<close>

definition member_edit_allowed ::
  "bool \<Rightarrow> user \<Rightarrow> member \<Rightarrow> permission_value \<Rightarrow> permission_value \<Rightarrow> data_member_edit \<Rightarrow> unit result" where
  "member_edit_allowed voice_enabled u m p target_p data =
     (let removes = (\<lambda>f. f \<in> set (dme_remove data)); self = (user_id u = key_user (member_id m)) in
      res_bind (if dme_nickname data \<noteq> None \<or> removes MemberField_Nickname
        then throw_if_lacking_channel_permission p (if self then ChangeNickname else ManageNicknames) else Ok ()) (\<lambda>_.
      res_bind (if dme_avatar data \<noteq> None \<or> removes MemberField_Avatar
        then (if self then throw_if_lacking_channel_permission p ChangeAvatar else Err InvalidOperation) else Ok ()) (\<lambda>_.
      res_bind (if dme_roles data \<noteq> None \<or> removes MemberField_Roles
        then throw_if_lacking_channel_permission p AssignRoles else Ok ()) (\<lambda>_.
      res_bind (if dme_timeout data \<noteq> None \<or> removes MemberField_Timeout
        then if dme_timeout data \<noteq> None \<and> self then Err CannotTimeoutYourself
          else if dme_timeout data \<noteq> None \<and> has_channel_permission target_p TimeoutMembers then Err IsElevated
          else throw_if_lacking_channel_permission p TimeoutMembers
        else Ok ()) (\<lambda>_.
      res_bind (if dme_can_publish data \<noteq> None then throw_if_lacking_channel_permission p MuteMembers else Ok ()) (\<lambda>_.
      res_bind (if dme_can_receive data \<noteq> None then throw_if_lacking_channel_permission p DeafenMembers else Ok ()) (\<lambda>_.
      if dme_voice_channel data \<noteq> None \<and> removes MemberField_VoiceChannel then Err InvalidOperation
      else if dme_voice_channel data \<noteq> None \<or> removes MemberField_VoiceChannel
      then (if \<not> voice_enabled then Err LiveKitUnavailable
        else if \<not> self then throw_if_lacking_channel_permission p MoveMembers else Ok ())
      else Ok ())))))))"

definition new_voice_channel :: "server_env \<Rightarrow> server \<Rightarrow> db_permission_query \<Rightarrow> user \<Rightarrow> member \<Rightarrow> string option
    \<Rightarrow> channel option voice" where
  "new_voice_channel E s q target_user m c = (case c of
     None \<Rightarrow> io_return None
   | Some c \<Rightarrow>
       io_bind (read_database (\<lambda>db. case fetch_channel db c of Err _ \<Rightarrow> Err UnknownChannel | r \<Rightarrow> r)) (\<lambda>channel.
       if channel_server channel \<noteq> Some (key_server (member_id m)) then io_fail UnknownChannel
       else io_bind (calculated (sv_voice E) (\<lambda>_. with_channel channel q)) (\<lambda>p.
         io_then (needs p Connect)
         (io_bind (get_user_voice_channel_in_server (user_id target_user) (server_id s)) (\<lambda>current.
           if current = None then io_fail NotConnected else io_return (Some channel))))))"

text \<open>The roles that are added are taken out of the server value while their ranks are compared.\<close>

fun check_added_roles :: "i64 \<Rightarrow> string list \<Rightarrow> server \<Rightarrow> server result" where
  "check_added_roles our_ranking [] s = Ok s"
| "check_added_roles our_ranking (i # ids) s = (case map_of (server_roles s) i of
     Some r \<Rightarrow> if role_rank r \<le> our_ranking then Err NotElevated
       else check_added_roles our_ranking ids (s\<lparr>server_roles := AList.delete i (server_roles s)\<rparr>)
   | None \<Rightarrow> Err InvalidRole)"

definition added_roles :: "member \<Rightarrow> string list option \<Rightarrow> string list" where
  "added_roles m roles = (case roles of Some rs \<Rightarrow> remdups (filter (\<lambda>i. i \<notin> set (member_roles m)) rs) | None \<Rightarrow> [])"

definition unwrap_node :: "string \<Rightarrow> string voice" where
  "unwrap_node c = io_bind (get_channel_node c) (\<lambda>node. case node of Some n \<Rightarrow> io_return n | None \<Rightarrow> io_panic)"

definition move_to_channel :: "server_env \<Rightarrow> server \<Rightarrow> user \<Rightarrow> channel \<Rightarrow> unit voice" where
  "move_to_channel E s target_user new =
     io_bind (get_user_voice_channel_in_server (user_id target_user) (server_id s)) (\<lambda>current. case current of
       None \<Rightarrow> io_return ()
     | Some c \<Rightarrow>
         io_bind (unwrap_node c) (\<lambda>old_node.
         io_bind (io_bind (get_channel_node (channel_id new)) (\<lambda>node. case node of
             Some n \<Rightarrow> io_return n
           | None \<Rightarrow> io_then (set_channel_node (channel_id new) old_node) (io_return old_node))) (\<lambda>new_node.
         io_then (set_user_moved_from_voice c (channel_id new) (user_id target_user))
         (io_then (set_user_moved_to_voice (channel_id new) c (user_id target_user))
         (io_bind (calculated (sv_voice E) (\<lambda>pl. with_channel new (voice_query pl target_user))) (\<lambda>p.
          io_then (create_room (sv_voice E) new_node new)
          (io_bind (attempt (create_token (sv_voice E) new_node target_user p new)) (\<lambda>token.
           io_then (voice_remove_user (sv_voice E) old_node (user_id target_user) c)
             (on_world (publish_private (user_id target_user)
               (EvUserMoveVoiceChannel new_node c (channel_id new) token)))))))))))"

definition sync_edited_member :: "server_env \<Rightarrow> server \<Rightarrow> user \<Rightarrow> user \<Rightarrow> unit voice" where
  "sync_edited_member E s u target_user =
     io_bind (get_user_voice_channel_in_server (user_id target_user) (server_id s)) (\<lambda>c. case c of
       None \<Rightarrow> io_return ()
     | Some c \<Rightarrow> io_bind (unwrap_node c) (\<lambda>node.
         io_bind (read_database (\<lambda>db. fetch_channel db c)) (\<lambda>channel.
           sync_user_voice_permissions (sv_voice E) node u channel (Some s) None)))"

definition disconnect_edited_member :: "server_env \<Rightarrow> server \<Rightarrow> user \<Rightarrow> user \<Rightarrow> unit voice" where
  "disconnect_edited_member E s u target_user =
     io_bind (get_user_voice_channel_in_server (user_id target_user) (server_id s)) (\<lambda>c. case c of
       None \<Rightarrow> io_return ()
     | Some c \<Rightarrow> io_bind (unwrap_node c) (\<lambda>node. voice_remove_user (sv_voice E) node (user_id u) c))"

text \<open>What happens to the call of the edited member, after the edit is stored.\<close>

definition member_edit_voice :: "server_env \<Rightarrow> server \<Rightarrow> user \<Rightarrow> user \<Rightarrow> channel option \<Rightarrow> data_member_edit \<Rightarrow> unit voice" where
  "member_edit_voice E s u target_user new_channel data =
     io_then (case new_channel of
         Some new \<Rightarrow> move_to_channel E s target_user new
       | None \<Rightarrow>
           if dme_can_publish data \<noteq> None \<or> dme_can_receive data \<noteq> None
             \<or> MemberField_CanPublish \<in> set (dme_remove data) \<or> MemberField_CanReceive \<in> set (dme_remove data)
           then sync_edited_member E s u target_user else io_return ())
     (if MemberField_VoiceChannel \<in> set (dme_remove data) then disconnect_edited_member E s u target_user else io_return ())"

definition drop_old_file :: "bool \<Rightarrow> stored_file option \<Rightarrow> unit handler" where
  "drop_old_file removed old = (case old of
     Some f \<Rightarrow> if removed then on_db (mark_attachment_as_deleted (file_id f)) else io_return ()
   | None \<Rightarrow> io_return ())"

definition use_new_file :: "(string \<Rightarrow> stored_file handler) \<Rightarrow> string option \<Rightarrow> stored_file option handler" where
  "use_new_file use i = (case i of
     Some i \<Rightarrow> io_bind (use i) (\<lambda>f. io_return (Some f))
   | None \<Rightarrow> io_return None)"

definition store_member_edit :: "server_env \<Rightarrow> user \<Rightarrow> member \<Rightarrow> data_member_edit \<Rightarrow> member handler" where
  "store_member_edit E u m data =
     io_then (drop_old_file (MemberField_Avatar \<in> set (dme_remove data)) (member_avatar m))
     (io_bind (use_new_file (\<lambda>i. use_user_avatar i (user_id u) (user_id u)) (dme_avatar data)) (\<lambda>avatar.
        member_update (sv_structs E) m
          \<lparr>pm_id = None, pm_joined_at = None, pm_nickname = dme_nickname data, pm_avatar = avatar,
           pm_roles = dme_roles data, pm_timeout = dme_timeout data, pm_can_publish = dme_can_publish data,
           pm_can_receive = dme_can_receive data\<rparr> (dme_remove data)))"

definition member_edit :: "server_env \<Rightarrow> (data_member_edit \<Rightarrow> string option) \<Rightarrow> user \<Rightarrow> string \<Rightarrow> string
    \<Rightarrow> data_member_edit \<Rightarrow> member voice" where
  "member_edit E validate u sid member data =
     io_then (attempt (validated (validate data)))
     (io_bind (read_database (\<lambda>db. fetch_server db sid)) (\<lambda>s.
      io_bind (read_database (\<lambda>db. fetch_user db member)) (\<lambda>target_user.
      io_bind (read_database (\<lambda>db. fetch_member db (server_id s) member)) (\<lambda>m.
      io_bind (server_access E (server_query u s)) (\<lambda>(p, q).
      io_bind (server_access E (\<lambda>pl. with_member m (server_query target_user s pl))) (\<lambda>(target_p, _).
      io_then (attempt (member_edit_allowed (voice_is_enabled (sv_voice E)) u m p target_p data))
      (io_bind (new_voice_channel E s q target_user m (dme_voice_channel data)) (\<lambda>new_channel.
       io_bind (attempt (rank_of_member q)) (\<lambda>our_ranking.
       io_bind (if key_user (member_id m) \<noteq> user_id u then attempt (outranked m q) else io_return False) (\<lambda>no.
       if no then io_fail NotElevated
       else io_bind (attempt (check_added_roles our_ranking (added_roles m (dme_roles data)) s)) (\<lambda>s.
         io_bind (on_world (store_member_edit E u m data)) (\<lambda>m.
         io_then (member_edit_voice E s u target_user new_channel data) (io_return m)))))))))))))"

section \<open>Servers\<close>

definition edit_server_unchanged :: "data_edit_server \<Rightarrow> bool" where
  "edit_server_unchanged d \<longleftrightarrow> des_name d = None \<and> des_description d = None \<and> des_icon d = None \<and> des_banner d = None
     \<and> des_system_messages d = None \<and> des_categories d = None \<and> des_flags d = None \<and> des_analytics d = None
     \<and> des_discoverable d = None \<and> des_remove d = []"

definition edit_server_managed :: "data_edit_server \<Rightarrow> bool" where
  "edit_server_managed d \<longleftrightarrow> des_name d \<noteq> None \<or> des_description d \<noteq> None \<or> des_icon d \<noteq> None \<or> des_banner d \<noteq> None
     \<or> des_system_messages d \<noteq> None \<or> des_analytics d \<noteq> None \<or> des_remove d \<noteq> []"

definition edit_server_allowed :: "user \<Rightarrow> permission_value \<Rightarrow> data_edit_server \<Rightarrow> unit result" where
  "edit_server_allowed u p d =
     res_bind (if edit_server_managed d then throw_if_lacking_channel_permission p ManageServer else Ok ()) (\<lambda>_.
     if des_flags d \<noteq> None \<and> \<not> user_privileged u then Err NotPrivileged
     else if des_categories d \<noteq> None then throw_if_lacking_channel_permission p ManageChannel
     else Ok ())"

fun claim_channels :: "string list \<Rightarrow> string set \<Rightarrow> string set result" where
  "claim_channels [] taken = Ok taken"
| "claim_channels (c # cs) taken = (if c \<in> taken then Err InvalidOperation else claim_channels cs (insert c taken))"

fun checked_categories :: "server \<Rightarrow> category list \<Rightarrow> string set \<Rightarrow> category list result" where
  "checked_categories s [] taken = Ok []"
| "checked_categories s (c # cs) taken =
     res_bind (claim_channels (category_channels c) taken) (\<lambda>taken.
     res_bind (checked_categories s cs taken) (\<lambda>rest.
       Ok (c\<lparr>category_channels := filter (\<lambda>i. i \<in> set (server_channels s)) (category_channels c)\<rparr> # rest)))"

definition store_server_edit :: "server_env \<Rightarrow> user \<Rightarrow> server \<Rightarrow> data_edit_server \<Rightarrow> server handler" where
  "store_server_edit E u s d =
     io_then (drop_old_file (ServerField_Banner \<in> set (des_remove d)) (server_banner s))
     (io_then (drop_old_file (ServerField_Icon \<in> set (des_remove d)) (server_icon s))
     (io_then (case des_system_messages d of
          Some c \<Rightarrow> if into_channel_ids c \<subseteq> set (server_channels s) then io_return () else io_fail NotFound
        | None \<Rightarrow> io_return ())
     (io_bind (io_read (\<lambda>_. case des_categories d of
          Some cs \<Rightarrow> res_bind (checked_categories s cs {}) (\<lambda>cs. Ok (Some cs))
        | None \<Rightarrow> Ok None)) (\<lambda>categories.
      io_bind (use_new_file (\<lambda>i. use_server_icon i (server_id s) (user_id u)) (des_icon d)) (\<lambda>icon.
      io_bind (use_new_file (\<lambda>i. use_server_banner i (server_id s) (user_id u)) (des_banner d)) (\<lambda>banner.
        server_update (sv_structs E)
          (s\<lparr>server_icon := (if icon = None then server_icon s else icon),
             server_banner := (if banner = None then server_banner s else banner)\<rparr>)
          (empty_partial_server\<lparr>ps_name := des_name d, ps_description := des_description d, ps_categories := categories,
             ps_system_messages := des_system_messages d, ps_flags := des_flags d,
             ps_discoverable := des_discoverable d, ps_analytics := des_analytics d,
             ps_icon := icon, ps_banner := banner\<rparr>) (des_remove d)))))))"

definition server_edit :: "server_env \<Rightarrow> (data_edit_server \<Rightarrow> string option) \<Rightarrow> user \<Rightarrow> string
    \<Rightarrow> data_edit_server \<Rightarrow> server voice" where
  "server_edit E validate u target data =
     io_then (attempt (validated (validate data)))
     (io_bind (read_database (\<lambda>db. fetch_server db target)) (\<lambda>s.
      io_bind (server_access E (server_query u s)) (\<lambda>(p, q).
        if edit_server_unchanged data then io_return s
        else io_then (attempt (edit_server_allowed u p data)) (on_world (store_server_edit E u s data)))))"

definition channel_create :: "server_env \<Rightarrow> (data_create_server_channel \<Rightarrow> string option) \<Rightarrow> string \<Rightarrow> user \<Rightarrow> string
    \<Rightarrow> data_create_server_channel \<Rightarrow> channel voice" where
  "channel_create E validate ulid u sid data =
     io_then (attempt (validated (validate data)))
     (io_bind (read_database (\<lambda>db. fetch_server db sid)) (\<lambda>s.
      io_bind (server_access E (server_query u s)) (\<lambda>(p, q).
      io_then (needs p ManageChannel)
      (io_bind (on_world (create_server_channel (sv_structs E) (sv_limits E) ulid s data True)) (\<lambda>(c, _). io_return c)))))"

text \<open>The three identifiers are those of the server, of its first channel and of the message about the join.\<close>

definition create_server :: "server_env \<Rightarrow> limits_collection \<Rightarrow> (string \<Rightarrow> nat option)
    \<Rightarrow> (data_create_server \<Rightarrow> string option) \<Rightarrow> string \<times> string \<times> string \<Rightarrow> user \<Rightarrow> data_create_server
    \<Rightarrow> (server \<times> channel list) voice" where
  "create_server E cfg age validate ulids u data =
     (if user_bot u \<noteq> None then io_fail IsBot
      else io_then (attempt (validated (validate data)))
        (io_then (read_database (\<lambda>db. can_acquire_server cfg age (ve_unix_now (sv_voice E)) db u))
        (io_bind (on_world (server_create (sv_structs E) (sv_limits E) (fst ulids) (fst (snd ulids)) data u True)) (\<lambda>(s, cs).
         io_bind (member_create (sv_now E) (snd (snd ulids)) s u (Some cs)) (\<lambda>(_, cs). io_return (s, cs))))))"

fun delete_voice_channels :: "server_env \<Rightarrow> string \<Rightarrow> string list \<Rightarrow> unit voice" where
  "delete_voice_channels E sid [] = io_return ()"
| "delete_voice_channels E sid (c # cs) =
     io_then (delete_voice_channel (sv_voice E) c (Some sid)) (delete_voice_channels E sid cs)"

definition delete_or_leave_server :: "server_env \<Rightarrow> string \<Rightarrow> user \<Rightarrow> string \<Rightarrow> bool option \<Rightarrow> unit voice" where
  "delete_or_leave_server E ulid u target leave_silently =
     io_bind (read_database (\<lambda>db. fetch_server db target)) (\<lambda>s.
     io_bind (read_database (\<lambda>db. fetch_member db target (user_id u))) (\<lambda>m.
     if server_owner s = user_id u
     then io_then (delete_voice_channels E (server_id s) (server_channels s)) (on_world (server_delete s))
     else io_then (leave_server_call E (user_id u) (server_id s))
       (on_world (member_remove (sv_now E) ulid m s Leave (over leave_silently False)))))"

end
