(* ===== verification/Server_Laws.thy ===== *)
theory Server_Laws
  imports Server_Routes Steps
begin

unbundle bit_operations_syntax

text \<open>
  What the handlers and routes of servers do to the database. \<open>derives\<close> is the documented behaviour of the
  derived \<open>apply_options\<close>: a field that is present replaces the old value. \<open>guarded\<close> says that nothing at
  or above a rank has been touched: roles keep everything but the number of their rank, members keep
  their entry, the owner stays.
\<close>

section \<open>Derived updates\<close>

definition derived_server :: "partial_server \<Rightarrow> server \<Rightarrow> server" where
  "derived_server p s = \<lparr>server_id = over (ps_id p) (server_id s), server_owner = over (ps_owner p) (server_owner s),
     server_name = over (ps_name p) (server_name s), server_description = over_option (ps_description p) (server_description s),
     server_channels = over (ps_channels p) (server_channels s),
     server_categories = over_option (ps_categories p) (server_categories s),
     server_system_messages = over_option (ps_system_messages p) (server_system_messages s),
     server_roles = over (ps_roles p) (server_roles s),
     server_default_permissions = over (ps_default_permissions p) (server_default_permissions s),
     server_icon = over_option (ps_icon p) (server_icon s), server_banner = over_option (ps_banner p) (server_banner s),
     server_flags = over_option (ps_flags p) (server_flags s), server_nsfw = over (ps_nsfw p) (server_nsfw s),
     server_analytics = over (ps_analytics p) (server_analytics s),
     server_discoverable = over (ps_discoverable p) (server_discoverable s)\<rparr>"

definition derived_role :: "partial_role \<Rightarrow> role \<Rightarrow> role" where
  "derived_role p r = \<lparr>role_id = over (pr_id p) (role_id r), role_name = over (pr_name p) (role_name r),
     role_permissions = over (pr_permissions p) (role_permissions r), role_colour = over_option (pr_colour p) (role_colour r),
     role_hoist = over (pr_hoist p) (role_hoist r), role_rank = over (pr_rank p) (role_rank r)\<rparr>"

definition derived_member :: "partial_member \<Rightarrow> member \<Rightarrow> member" where
  "derived_member p m = \<lparr>member_id = over (pm_id p) (member_id m), member_joined_at = over (pm_joined_at p) (member_joined_at m),
     member_nickname = over_option (pm_nickname p) (member_nickname m),
     member_avatar = over_option (pm_avatar p) (member_avatar m), member_roles = over (pm_roles p) (member_roles m),
     member_timeout = over_option (pm_timeout p) (member_timeout m),
     member_can_publish = over (pm_can_publish p) (member_can_publish m),
     member_can_receive = over (pm_can_receive p) (member_can_receive m)\<rparr>"

definition derives :: "optional_structs \<Rightarrow> bool" where
  "derives opt \<longleftrightarrow> apply_server opt = derived_server \<and> apply_role opt = derived_role \<and> apply_member opt = derived_member"

lemma derivesD:
  assumes "derives opt"
  shows "apply_server opt = derived_server" "apply_role opt = derived_role" "apply_member opt = derived_member"
  using assms by (simp_all add: derives_def)

definition derived_structs :: optional_structs where
  "derived_structs = plain_structs\<lparr>apply_server := derived_server, apply_role := derived_role, apply_member := derived_member\<rparr>"

lemma derived_structs_derives: "derives derived_structs"
  by (simp add: derives_def derived_structs_def)

lemma remove_fields_keep_server [simp]:
  "server_id (fold server_remove_field fs s) = server_id s" "server_roles (fold server_remove_field fs s) = server_roles s"
  "server_owner (fold server_remove_field fs s) = server_owner s"
  "server_channels (fold server_remove_field fs s) = server_channels s"
proof (induction fs arbitrary: s)
  case (Cons f fs)
  { case 1 show ?case using Cons by (cases f) simp_all }
  { case 2 show ?case using Cons by (cases f) simp_all }
  { case 3 show ?case using Cons by (cases f) simp_all }
  { case 4 show ?case using Cons by (cases f) simp_all }
qed simp_all

lemma remove_fields_keep_role [simp]:
  "role_id (fold role_remove_field fs r) = role_id r" "role_permissions (fold role_remove_field fs r) = role_permissions r"
  "role_rank (fold role_remove_field fs r) = role_rank r"
proof (induction fs arbitrary: r)
  case (Cons f fs)
  { case 1 show ?case using Cons by (cases f) simp_all }
  { case 2 show ?case using Cons by (cases f) simp_all }
  { case 3 show ?case using Cons by (cases f) simp_all }
qed simp_all

lemma remove_fields_keep_member [simp]: "member_id (fold member_remove_field fs m) = member_id m"
proof (induction fs arbitrary: m)
  case (Cons f fs)
  then show ?case by (cases f) simp_all
qed simp

section \<open>Who acts\<close>

definition query_in :: "reference_db \<Rightarrow> user \<Rightarrow> server \<Rightarrow> db_permission_query" where
  "query_in db u s = with_server s (new_query (reference_database db) u)"

definition server_rights :: "server_env \<Rightarrow> reference_db \<Rightarrow> user \<Rightarrow> server \<Rightarrow> (permission_value \<times> db_permission_query) option" where
  "server_rights E db u s = calculate_server_permissions (db_query (sv_now E)) (query_in db u s)"

text \<open>The rank a member acts with.\<close>

definition acting_rank :: "reference_db \<Rightarrow> user \<Rightarrow> server \<Rightarrow> i64" where
  "acting_rank db u s = (case fetch_member db (server_id s) (user_id u) of Ok m \<Rightarrow> get_ranking m s | _ \<Rightarrow> i64_min)"

definition ordinary :: "user \<Rightarrow> server \<Rightarrow> bool" where
  "ordinary u s \<longleftrightarrow> \<not> user_privileged u \<and> server_owner s \<noteq> user_id u"

lemmas server_query_defs = calculate_server_permissions_def db_query_def query_or_def q_are_we_privileged_def
  q_are_we_server_owner_def q_are_we_a_member_def q_get_default_server_permissions_def
  q_get_our_server_role_overrides_def q_do_we_have_publish_overwrites_def q_do_we_have_receive_overwrites_def
  q_are_we_timed_out_def owns_server_def query_in_def with_server_def new_query_def reference_database_def

lemma server_rights_query:
  assumes "server_rights E db u s = Some (p, q)"
  shows "q_server q = Some s" "q_database q = reference_database db" "q_perspective q = u"
  using assms by (auto simp: server_rights_def server_query_defs Let_def fetch_member_def ok_or_def
      split: if_splits option.splits)

lemma server_rights_ordinary:
  assumes "server_rights E db u s = Some (p, q)" "ordinary u s"
  shows "(\<exists>m. fetch_member db (server_id s) (user_id u) = Ok m \<and> q_member q = Some m)
    \<or> (fetch_member db (server_id s) (user_id u) = Err NotFound \<and> p = 0)"
  using assms by (auto simp: server_rights_def ordinary_def server_query_defs Let_def fetch_member_def ok_or_def
      split: if_splits option.splits)

lemma channel_permission_nonzero: "channel_permission_value x \<noteq> 0"
  by (cases x) (simp_all add: channel_permission_value.simps)

lemma throws_Ok [simp]:
  "throw_if_lacking_channel_permission p x = Ok y \<longleftrightarrow> has_channel_permission p x"
  by (simp add: throw_if_lacking_channel_permission_def)

lemma no_permission: "\<not> has_channel_permission 0 x"
  using channel_permission_nonzero [of x] by (simp add: has_channel_permission_def pv_has_def)

lemma from_bind_access [db_steps]:
  assumes "I db" "\<And>x. server_rights E db u s = Some x \<Longrightarrow> from_db I db (k x) Q"
  shows "from_db I db (io_bind (server_access E (server_query u s)) k) Q"
  by (rule from_bind [where R = "\<lambda>x db'. db' = db \<and> server_rights E db u s = Some x"])
     (use assms in \<open>auto simp: from_db_def triple_def server_access_def server_rights_def server_query_def
        voice_query_def query_in_def split: option.splits\<close>)

lemma from_bind_access_member [db_steps]:
  assumes "I db" "\<And>x. from_db I db (k x) Q"
  shows "from_db I db (io_bind (server_access E (\<lambda>pl. with_member m (server_query u s pl))) k) Q"
  by (rule from_bind [where R = "\<lambda>x db'. db' = db"])
     (use assms in \<open>auto simp: from_db_def triple_def server_access_def split: option.splits\<close>)

lemma frame_sync_server [frame_rules]: "frame (sync_server_channels E s role cs)"
  by (induction cs) (simp_all add: frame_rules)

lemma frame_leave_server_call [frame_rules]: "frame (leave_server_call E u sid)"
  unfolding leave_server_call_def by (intro frame_rules)

lemma from_then_frame [db_steps]:
  "frame m \<Longrightarrow> I db \<Longrightarrow> from_db I db k Q \<Longrightarrow> from_db I db (io_then m k) Q"
  by (rule from_then [OF from_frame]) simp_all

section \<open>What a rank protects\<close>

definition roles_ok :: "server \<Rightarrow> bool" where
  "roles_ok s \<longleftrightarrow> hm_wf (server_roles s) \<and> (\<forall>i r. map_of (server_roles s) i = Some r \<longrightarrow> role_id r = i)"

definition same_role :: "role \<Rightarrow> role \<Rightarrow> bool" where
  "same_role r r' \<longleftrightarrow> r'\<lparr>role_rank := role_rank r\<rparr> = r"

abbreviation member_key_of :: "server \<Rightarrow> string \<Rightarrow> member_composite_key" where
  "member_key_of s v \<equiv> \<lparr>key_server = server_id s, key_user = v\<rparr>"

definition guarded :: "i64 \<Rightarrow> string \<Rightarrow> server \<Rightarrow> reference_db \<Rightarrow> reference_db \<Rightarrow> bool" where
  "guarded k uid s db db' \<longleftrightarrow>
     (\<exists>s'. map_of (db_servers db') (server_id s) = Some s' \<and> server_owner s' = server_owner s \<and> roles_ok s'
        \<and> (\<forall>i r. map_of (server_roles s) i = Some r \<longrightarrow> role_rank r \<le> k \<longrightarrow>
             (\<exists>r'. map_of (server_roles s') i = Some r' \<and> same_role r r')))
     \<and> (\<forall>v m. v \<noteq> uid \<longrightarrow> map_of (db_server_members db) (member_key_of s v) = Some m \<longrightarrow> get_ranking m s \<le> k \<longrightarrow>
          map_of (db_server_members db') (member_key_of s v) = Some m)"

definition stored_in :: "reference_db \<Rightarrow> server \<Rightarrow> bool" where
  "stored_in db s \<longleftrightarrow> map_of (db_servers db) (server_id s) = Some s \<and> roles_ok s"

lemma same_role_refl [simp]: "same_role r r"
  by (simp add: same_role_def)

lemma guarded_refl: "stored_in db s \<Longrightarrow> guarded k uid s db db"
  by (auto simp: guarded_def stored_in_def)

lemma guarded_aside:
  "guarded k uid s db d \<Longrightarrow> (db_servers d', db_server_members d') = (db_servers d, db_server_members d) \<Longrightarrow> guarded k uid s db d'"
  by (simp add: guarded_def)

lemma guarded_server:
  assumes "stored_in db s" "server_owner (f s) = server_owner s" "roles_ok (f s)"
    and "\<And>i r. map_of (server_roles s) i = Some r \<Longrightarrow> role_rank r \<le> k \<Longrightarrow>
      \<exists>r'. map_of (server_roles (f s)) i = Some r' \<and> same_role r r'"
  shows "guarded k uid s db (db\<lparr>db_servers := hm_adjust (server_id s) f (db_servers db)\<rparr>)"
  using assms by (simp add: guarded_def stored_in_def map_of_hm_adjust)

lemma guarded_same_roles:
  assumes "stored_in db s" "server_owner (f s) = server_owner s" "server_roles (f s) = server_roles s"
  shows "guarded k uid s db (db\<lparr>db_servers := hm_adjust (server_id s) f (db_servers db)\<rparr>)"
  using assms by (intro guarded_server) (auto simp: stored_in_def roles_ok_def)

lemma guarded_members:
  assumes "stored_in db s"
    and "\<And>v m. v \<noteq> uid \<Longrightarrow> map_of (db_server_members db) (member_key_of s v) = Some m \<Longrightarrow> get_ranking m s \<le> k \<Longrightarrow>
      map_of ms (member_key_of s v) = Some m"
  shows "guarded k uid s db (db\<lparr>db_server_members := ms\<rparr>)"
  using assms by (auto simp: guarded_def stored_in_def)

text \<open>Handlers that touch neither servers nor members.\<close>

abbreviation aside :: "'a handler \<Rightarrow> bool" where
  "aside \<equiv> unchanged (\<lambda>w. (db_servers (w_db w), db_server_members (w_db w)))"

lemma aside_on_db:
  "(\<And>db. (db_servers (snd (op db)), db_server_members (snd (op db))) = (db_servers db, db_server_members db)) \<Longrightarrow> aside (on_db op)"
  by (simp add: unchanged_def on_db_def split: prod.splits) (metis snd_conv)

lemma aside_ops [frame_rules]:
  "aside (on_db (insert_message m))" "aside (on_db (insert_ban b))" "aside (on_db (delete_ban ck))"
  "aside (on_db (insert_channel c))" "aside (on_db (mark_attachment_as_deleted i))"
  "aside (on_db (find_and_use_attachment i tag used uploader))" "aside (on_db (update_bot_joined_server i j))"
  "aside (publish t e)" "aside (publish_private t e)" "aside (queue_task t2)"
  by (intro aside_on_db unchanged_publish [where f = "\<lambda>db. (db_servers db, db_server_members db)"];
      simp add: insert_message_def insert_ban_def delete_ban_def insert_channel_def mark_attachment_as_deleted_def
        find_and_use_attachment_def update_bot_joined_server_def Let_def split: option.splits)+

lemma aside_handlers [frame_rules]:
  "aside (send_without_notifications m is_dm e)" "aside (forget_joined_server j)" "aside (server_ban_create s v reason)"
  "aside (drop_old_file b f)" "aside (use_file tag kind i parent uploader)"
  unfolding send_without_notifications_def server_ban_create_def drop_old_file_def use_file_def
proof -
  show "aside (forget_joined_server j)"
    using aside_ops(7) unfolding unchanged_def
    by (auto simp: forget_joined_server_def io_discard_def split: res.splits prod.splits) (metis prod.inject snd_conv)+
qed (intro frame_rules)+

lemma aside_use_new_file [frame_rules]: "(\<And>i. aside (use i)) \<Longrightarrow> aside (use_new_file use x)"
  unfolding use_new_file_def by (intro frame_rules)

lemma handled_aside: "aside m \<Longrightarrow> guarded k uid s db d \<Longrightarrow> handled (guarded k uid s db) d m (\<lambda>_. guarded k uid s db)"
  by (erule handled_unchanged) (rule guarded_aside)

definition same_admin :: "reference_db \<Rightarrow> reference_db \<Rightarrow> bool" where
  "same_admin db d \<longleftrightarrow> (db_servers d, db_server_members d) = (db_servers db, db_server_members db)"

lemma same_admin_refl [simp]: "same_admin db db"
  by (simp add: same_admin_def)

lemma handled_same_admin:
  assumes "aside m" "same_admin db d" "stored_in db s"
  shows "handled (guarded k uid s db) d m (\<lambda>_. same_admin db)"
  unfolding handled_def triple_def
  using assms(2)
  by (auto simp: same_admin_def dest!: unchangedD [OF assms(1)] intro!: guarded_aside [OF guarded_refl [OF assms(3)]]
      split: res.splits)

section \<open>Handlers\<close>

lemma handled_server_update:
  assumes "derives opt" "ps_id p = None" "I db"
    and "hm_contains (db_servers db) (server_id s) \<Longrightarrow> Q (derived_server p (fold server_remove_field fs s))
      (db\<lparr>db_servers := hm_adjust (server_id s) (\<lambda>s. derived_server p (fold server_remove_field fs s)) (db_servers db)\<rparr>)"
  shows "handled I db (server_update opt s p fs) Q"
  using assms unfolding server_update_def Let_def
  by (intro handled_then_db) (auto simp: derivesD update_server_def derived_server_def [of p "fold _ _ _"]
      intro!: handled_publish handled_returns)

lemma handled_role_update:
  assumes "derives opt" "pr_id p = None" "I db"
    and "\<And>s. map_of (db_servers db) sid = Some s \<Longrightarrow> hm_contains (server_roles s) (role_id r) \<Longrightarrow>
      Q (derived_role p (fold role_remove_field fs r)) (db\<lparr>db_servers := hm_adjust sid (\<lambda>s. s\<lparr>server_roles :=
        hm_adjust (role_id r) (\<lambda>r. derived_role p (fold role_remove_field fs r)) (server_roles s)\<rparr>) (db_servers db)\<rparr>)"
  shows "handled I db (role_update opt sid r p fs) Q"
  using assms unfolding role_update_def Let_def
  by (intro handled_then_db) (auto simp: derivesD update_role_def derived_role_def [of p "fold _ _ _"]
      intro!: handled_publish handled_returns split: option.splits)

text \<open>Roles after a change of one of them, or of their ranks.\<close>

lemma roles_ok_update:
  assumes "roles_ok s"
  shows "roles_ok (s\<lparr>server_roles := AList.update (role_id r) r (server_roles s)\<rparr>)"
    "roles_ok (s\<lparr>server_roles := AList.delete i (server_roles s)\<rparr>)"
    "(\<And>r. role_id r = i \<Longrightarrow> role_id (f r) = i) \<Longrightarrow> roles_ok (s\<lparr>server_roles := hm_adjust i f (server_roles s)\<rparr>)"
  using assms by (auto simp: roles_ok_def hm.get_simps intro!: hm.wf_intros)

lemma same_role_trans: "same_role a b \<Longrightarrow> same_role b c \<Longrightarrow> same_role a c"
  by (cases a; cases b; cases c) (simp add: same_role_def)

lemma same_role_rank: "same_role r (r\<lparr>role_rank := n\<rparr>)"
  by (simp add: same_role_def)

lemma assign_ranks_keys: "assign_ranks n ids roles = Ok roles' \<Longrightarrow> map fst roles' = map fst roles"
  by (induction n ids roles rule: assign_ranks.induct) (auto split: if_splits)

lemma assign_ranks_same:
  "assign_ranks n ids roles = Ok roles' \<Longrightarrow> map_of roles i = Some r \<Longrightarrow> \<exists>r'. map_of roles' i = Some r' \<and> same_role r r'"
proof (induction n ids roles arbitrary: r rule: assign_ranks.induct)
  case (2 n j ids roles)
  let ?roles = "hm_adjust j (\<lambda>r. r\<lparr>role_rank := usize_as_i64 n\<rparr>) roles"
  obtain r1 where r1: "map_of ?roles i = Some r1" "same_role r r1"
    using 2(3) by (cases "i = j") (simp_all add: map_of_hm_adjust same_role_rank)
  have "hm_contains roles j" "assign_ranks (Suc n) ids ?roles = Ok roles'"
    using 2(2) by (simp_all split: if_splits)
  from 2(1) [OF this r1(1)] r1(2) show ?case by (blast intro: same_role_trans)
qed simp

lemma assign_ranks_origin:
  assumes "assign_ranks n ids roles = Ok roles'" "map_of roles' i = Some r'"
  shows "\<exists>r. map_of roles i = Some r \<and> same_role r r'"
proof -
  have "map_of roles i \<noteq> None"
    using assms assign_ranks_keys [OF assms(1)] by (metis map_of_eq_None_iff option.distinct(1) list.set_map)
  then obtain r where r: "map_of roles i = Some r" by blast
  with assign_ranks_same [OF assms(1) this] assms(2) show ?thesis by auto
qed

lemma same_role_id: "same_role r r' \<Longrightarrow> role_id r' = role_id r"
  by (cases r; cases r') (simp add: same_role_def)

lemma roles_ok_assign:
  assumes "roles_ok s" "assign_ranks n ids (server_roles s) = Ok roles"
  shows "roles_ok (s\<lparr>server_roles := roles\<rparr>)"
proof -
  have "role_id r = i" if "map_of roles i = Some r" for i r
    using assign_ranks_origin [OF assms(2) that] assms(1) same_role_id by (auto simp: roles_ok_def)
  then show ?thesis using assms(1) assign_ranks_keys [OF assms(2)] by (simp add: roles_ok_def hm_wf_def)
qed

lemma handled_set_role_ordering:
  assumes "derives opt" "I db"
    and "\<And>roles. assign_ranks 0 order (server_roles s) = Ok roles \<Longrightarrow> hm_contains (db_servers db) (server_id s) \<Longrightarrow>
      Q (s\<lparr>server_roles := roles\<rparr>) (db\<lparr>db_servers :=
        hm_adjust (server_id s) (derived_server (empty_partial_server\<lparr>ps_roles := Some roles\<rparr>)) (db_servers db)\<rparr>)"
  shows "handled I db (set_role_ordering opt s order) Q"
  using assms unfolding set_role_ordering_def
  by (intro handled_bind_attempt handled_then_db)
     (auto simp: derivesD update_server_def intro!: handled_publish handled_returns)

lemma handled_role_create:
  assumes "I db" "\<And>r. role_id r = ulid \<Longrightarrow> role_permissions r = default_override_field \<Longrightarrow> hm_contains (db_servers db) (server_id s) \<Longrightarrow>
      Q r (db\<lparr>db_servers := hm_adjust (server_id s) (\<lambda>s. s\<lparr>server_roles := AList.update ulid r (server_roles s)\<rparr>) (db_servers db)\<rparr>)"
  shows "handled I db (role_create ulid s name) Q"
  using assms unfolding role_create_def Let_def
  by (intro handled_then_db) (auto simp: insert_role_def intro!: handled_publish handled_returns)

lemma handled_role_delete:
  assumes "I db" "Q () (db\<lparr>db_servers := hm_adjust sid (\<lambda>s. s\<lparr>server_roles := AList.delete (role_id r) (server_roles s)\<rparr>) (db_servers db)\<rparr>)"
  shows "handled I db (role_delete sid r) Q"
  using assms unfolding role_delete_def
  by (intro handled_publish handled_on_db) (auto simp: delete_role_def split: option.splits)

lemma handled_set_role_permission:
  assumes "derives opt" "I db" "roles_ok s"
    and "\<And>r s'. map_of (server_roles s) rid = Some r \<Longrightarrow> map_of (db_servers db) (server_id s) = Some s' \<Longrightarrow>
      Q (s\<lparr>server_roles := hm_adjust rid (\<lambda>_. r\<lparr>role_permissions := p\<rparr>) (server_roles s)\<rparr>)
        (db\<lparr>db_servers := hm_adjust (server_id s) (\<lambda>s. s\<lparr>server_roles :=
          hm_adjust rid (\<lambda>r. r\<lparr>role_permissions := p\<rparr>) (server_roles s)\<rparr>) (db_servers db)\<rparr>)"
  shows "handled I db (server_set_role_permission opt s rid p) Q"
proof (cases "map_of (server_roles s) rid")
  case None
  then show ?thesis using assms(2) by (simp add: server_set_role_permission_def handled_returns)
next
  case (Some r)
  then have "role_id r = rid" using assms(3) by (simp add: roles_ok_def)
  have derived: "derived_role (empty_partial_role\<lparr>pr_permissions := Some p\<rparr>) = role_permissions_update (\<lambda>_. p)"
    "pr_id (empty_partial_role\<lparr>pr_permissions := Some p\<rparr>) = None"
    by (simp_all add: fun_eq_iff derived_role_def empty_partial_role_def)
  show ?thesis unfolding server_set_role_permission_def Some option.case
  proof (rule handled_bind)
    show "handled I db (role_update opt (server_id s) r (empty_partial_role\<lparr>pr_permissions := Some p\<rparr>) [])
      (\<lambda>r' db'. Q (s\<lparr>server_roles := hm_adjust rid (\<lambda>_. r') (server_roles s)\<rparr>) db')"
      using assms(1,2,4) Some \<open>role_id r = rid\<close>
      by (intro handled_role_update) (simp_all add: derived)
  qed (rule handled_returns)
qed

lemma handled_member_update:
  assumes "derives opt" "pm_id p = None" "I db"
    and "hm_contains (db_server_members db) (member_id m) \<Longrightarrow> Q (derived_member p (fold member_remove_field fs m))
      (db\<lparr>db_server_members := hm_adjust (member_id m) (\<lambda>m. derived_member p (fold member_remove_field fs m)) (db_server_members db)\<rparr>)"
  shows "handled I db (member_update opt m p fs) Q"
  using assms unfolding member_update_def Let_def
  by (intro handled_then_db) (auto simp: derivesD update_member_def derived_member_def [of p "fold _ _ _"]
      intro!: handled_publish handled_returns)

lemma guarded_member_remove:
  assumes "stored_in db s" "member_id m = member_key_of s v" "map_of (db_server_members db) (member_id m) = Some m"
    and "k < get_ranking m s"
  shows "handled (guarded k uid s db) db (member_remove now ulid m s why silent) (\<lambda>_. guarded k uid s db)"
proof -
  let ?G = "guarded k uid s db"
  have "?G (db\<lparr>db_server_members := AList.delete (member_id m) (db_server_members db)\<rparr>)"
    using assms by (intro guarded_members) (auto simp: hm.get_remove)
  moreover have "?G db" using assms(1) by (rule guarded_refl)
  ultimately have "handled ?G db (on_db (soft_delete_member now (member_id m))) (\<lambda>_. ?G)"
    by (intro handled_on_db) (simp add: soft_delete_member_def split: option.splits)
  then show ?thesis
    unfolding member_remove_def
    by (rule handled_then) (intro handled_aside frame_rules)
qed

section \<open>Routes\<close>

text \<open>An ordinary member acts on a stored server.\<close>

definition acts_on :: "server_env \<Rightarrow> reference_db \<Rightarrow> user \<Rightarrow> string \<Rightarrow> server \<Rightarrow> bool" where
  "acts_on E db u target s \<longleftrightarrow> derives (sv_structs E) \<and> fetch_server db target = Ok s \<and> stored_in db s \<and> ordinary u s
     \<and> is_ok (fetch_member db (server_id s) (user_id u)) \<and> (\<forall>i m. map_of (db_server_members db) i = Some m \<longrightarrow> member_id m = i)"

lemma acts_onD:
  assumes "acts_on E db u target s"
  shows "derives (sv_structs E)" "fetch_server db target = Ok x \<longleftrightarrow> x = s" "stored_in db s" "ordinary u s" "roles_ok s"
    "map_of (db_servers db) (server_id s) = Some s"
    "fetch_member db (server_id s) v = Ok m \<Longrightarrow> map_of (db_server_members db) (member_id m) = Some m \<and> member_id m = member_key_of s v"
  using assms by (auto simp: acts_on_def stored_in_def fetch_member_def)

lemma acting_rank_used:
  assumes "server_rights E db u s = Some (p, q)" "acts_on E db u target s"
  shows "get_member_rank q = Ok (Some (acting_rank db u s))" "rank_of_member q = Ok (acting_rank db u s)"
    "outranked m q = Ok (get_ranking m s \<le> acting_rank db u s)"
proof -
  obtain me where me: "fetch_member db (server_id s) (user_id u) = Ok me" "q_member q = Some me"
    using server_rights_ordinary [OF assms(1) acts_onD(4) [OF assms(2)]] assms(2) by (auto simp: acts_on_def)
  note q = server_rights_query(1) [OF assms(1)]
  show rank: "get_member_rank q = Ok (Some (acting_rank db u s))"
    using me q by (simp add: get_member_rank_def acting_rank_def)
  then show "rank_of_member q = Ok (acting_rank db u s)" by (simp add: rank_of_member_def)
  then show "outranked m q = Ok (get_ranking m s \<le> acting_rank db u s)" using q by (simp add: outranked_def server_ref_def)
qed

abbreviation kept_by :: "reference_db \<Rightarrow> user \<Rightarrow> server \<Rightarrow> reference_db \<Rightarrow> bool" where
  "kept_by db u s \<equiv> guarded (acting_rank db u s) (user_id u) s db"

lemma kept_by_refl: "acts_on E db u target s \<Longrightarrow> kept_by db u s db"
  by (simp add: acts_onD(3) guarded_refl)

lemma from_bind_server:
  "acts_on E db u target s \<Longrightarrow> I db \<Longrightarrow> from_db I db (k s) Q \<Longrightarrow>
    from_db I db (io_bind (read_database (\<lambda>db. fetch_server db target)) k) Q"
  by (rule from_bind_read) (auto simp: acts_onD)

lemma from_keeps: "frame m \<Longrightarrow> I db \<Longrightarrow> from_db I db m (\<lambda>_. I)"
  by (auto simp: from_db_def triple_def dest: unchangedD split: res.splits)

lemma from_world_then: "handled I db w (\<lambda>_. I) \<Longrightarrow> frame m \<Longrightarrow> from_db I db (io_then (on_world w) m) (\<lambda>_. I)"
  by (rule from_then [OF from_world], assumption) (rule from_keeps)

lemma from_cong: "from_db I db m' Q \<Longrightarrow> (\<And>pl. db_of pl = db \<Longrightarrow> m pl = m' pl) \<Longrightarrow> from_db I db m Q"
  unfolding from_db_def triple_def by metis

lemmas check_steps = from_then_attempt from_bind_access from_prod from_if from_fails from_bind_attempt from_option
lemmas route_steps = check_steps from_bind [OF from_world] from_then_frame from_returns

lemma guarded_role:
  assumes "stored_in db s" "map_of (server_roles s) i = Some r" "k < role_rank r"
  shows "(\<And>r. role_id r = i \<Longrightarrow> role_id (f r) = i) \<Longrightarrow>
      guarded k uid s db (db\<lparr>db_servers := hm_adjust (server_id s) (\<lambda>s. s\<lparr>server_roles := hm_adjust i f (server_roles s)\<rparr>) (db_servers db)\<rparr>)"
    "guarded k uid s db (db\<lparr>db_servers := hm_adjust (server_id s) (\<lambda>s. s\<lparr>server_roles := AList.delete i (server_roles s)\<rparr>) (db_servers db)\<rparr>)"
  using assms roles_ok_update(2,3) [of s i] by (auto intro!: guarded_server simp: stored_in_def hm.get_simps)

lemma roles_create_guarded:
  assumes "acts_on E db u target s" "map_of (server_roles s) ulid = None"
  shows "from_db (kept_by db u s) db (roles_create E V ulid u target data) (\<lambda>_. kept_by db u s)"
proof -
  note refl = kept_by_refl [OF assms(1)]
  have "kept_by db u s (db\<lparr>db_servers := hm_adjust (server_id s)
      (\<lambda>s. s\<lparr>server_roles := AList.update ulid r (server_roles s)\<rparr>) (db_servers db)\<rparr>)" if "role_id r = ulid" for r :: role
    using that assms(2) roles_ok_update(1) [OF acts_onD(5) [OF assms(1)], of r]
    by (intro guarded_server acts_onD(3) [OF assms(1)]) (auto simp: hm.get_simps)
  then show ?thesis
    unfolding roles_create_def
    by (intro from_bind_server [OF assms(1)] route_steps from_world handled_role_create refl)
qed

lemma roles_edit_guarded:
  assumes "acts_on E db u target s"
  shows "from_db (kept_by db u s) db (roles_edit E V u target rid data) (\<lambda>_. kept_by db u s)"
proof -
  note refl = kept_by_refl [OF assms]
  have "handled (kept_by db u s) db (role_update (sv_structs E) (server_id s) r
      (empty_partial_role\<lparr>pr_name := n, pr_colour := c, pr_hoist := h\<rparr>) fs) (\<lambda>_. kept_by db u s)"
    if "map_of (server_roles s) rid = Some r" "acting_rank db u s < role_rank r" for r n c h fs
  proof -
    have "role_id r = rid" using that acts_onD(5) [OF assms] by (simp add: roles_ok_def)
    then show ?thesis
      using refl guarded_role(1) [OF acts_onD(3) [OF assms] that]
      by (intro handled_role_update acts_onD(1) [OF assms]) (simp_all add: empty_partial_role_def derived_role_def)
  qed
  then show ?thesis
    unfolding roles_edit_def Let_def
    by (intro from_bind_server [OF assms] route_steps frame_rules refl)
       (auto dest: acting_rank_used(2) [OF _ assms])
qed

lemma roles_delete_guarded:
  assumes "acts_on E db u target s"
  shows "from_db (kept_by db u s) db (roles_delete E u target rid) (\<lambda>_. kept_by db u s)"
proof -
  note refl = kept_by_refl [OF assms]
  have "handled (kept_by db u s) db (role_delete (server_id s) r) (\<lambda>_. kept_by db u s)"
    if "map_of (server_roles s) rid = Some r" "acting_rank db u s < role_rank r" for r
  proof -
    have "role_id r = rid" using that acts_onD(5) [OF assms] by (simp add: roles_ok_def)
    then show ?thesis
      using refl guarded_role(2) [OF acts_onD(3) [OF assms] that] by (intro handled_role_delete) simp_all
  qed
  then show ?thesis
    unfolding roles_delete_def Let_def
    by (intro from_bind_server [OF assms] check_steps from_world_then frame_rules refl)
       (auto dest: acting_rank_used(2) [OF _ assms])
qed

lemma edit_role_ranks_guarded:
  assumes "acts_on E db u target s"
  shows "from_db (kept_by db u s) db (edit_role_ranks E u target ranks) (\<lambda>_. kept_by db u s)"
proof -
  note refl = kept_by_refl [OF assms]
  have "kept_by db u s (db\<lparr>db_servers := hm_adjust (server_id s)
      (derived_server (empty_partial_server\<lparr>ps_roles := Some roles\<rparr>)) (db_servers db)\<rparr>)"
    if "assign_ranks 0 ranks (server_roles s) = Ok roles" for roles
    using that roles_ok_assign [OF acts_onD(5) [OF assms] that] assign_ranks_same [OF that]
    by (intro guarded_server acts_onD(3) [OF assms])
       (auto simp: derived_server_def empty_partial_server_def roles_ok_def)
  then have "handled (kept_by db u s) db (set_role_ordering (sv_structs E) s ranks) (\<lambda>_. kept_by db u s)"
    by (intro handled_set_role_ordering acts_onD(1) [OF assms] refl)
  then show ?thesis
    unfolding edit_role_ranks_def
    by (intro from_bind_server [OF assms] route_steps frame_rules refl) auto
qed

lemma set_role_permission_guarded:
  assumes "acts_on E db u target s"
  shows "from_db (kept_by db u s) db (set_role_permission E u target rid p) (\<lambda>_. kept_by db u s)"
proof -
  note refl = kept_by_refl [OF assms]
  have "handled (kept_by db u s) db (server_set_role_permission (sv_structs E) s rid f) (\<lambda>_. kept_by db u s)"
    if "map_of (server_roles s) rid = Some r" "acting_rank db u s < role_rank r" for r f
    using guarded_role(1) [OF acts_onD(3) [OF assms] that]
    by (intro handled_set_role_permission acts_onD(1,5) [OF assms] refl) simp
  then show ?thesis
    unfolding set_role_permission_def
    by (intro from_bind_server [OF assms] route_steps frame_rules refl)
       (auto dest: acting_rank_used(2) [OF _ assms])
qed

lemma server_update_guarded:
  assumes "acts_on E db u target s" "server_id s2 = server_id s" "ps_id p = None" "ps_owner p = None" "ps_roles p = None"
    and "same_admin db d"
  shows "handled (kept_by db u s) d (server_update (sv_structs E) s2 p fs) (\<lambda>_. kept_by db u s)"
proof (rule handled_server_update [OF acts_onD(1) [OF assms(1)] assms(3)])
  let ?f = "\<lambda>s. derived_server p (fold server_remove_field fs s)"
  show "kept_by db u s d"
    using assms(6) by (intro guarded_aside [OF kept_by_refl [OF assms(1)]]) (simp add: same_admin_def)
  have "kept_by db u s (db\<lparr>db_servers := hm_adjust (server_id s) ?f (db_servers db)\<rparr>)"
    using assms(4,5) by (intro guarded_same_roles acts_onD(3) [OF assms(1)]) (simp_all add: derived_server_def)
  then show "kept_by db u s (d\<lparr>db_servers := hm_adjust (server_id s2) ?f (db_servers d)\<rparr>)"
    by (rule guarded_aside) (use assms(2,6) in \<open>simp add: same_admin_def\<close>)
qed

lemma set_default_guarded:
  assumes "acts_on E db u target s"
  shows "from_db (kept_by db u s) db (set_default_server_permissions E u target p) (\<lambda>_. kept_by db u s)"
proof -
  have "handled (kept_by db u s) db (server_update (sv_structs E) s
      (empty_partial_server\<lparr>ps_default_permissions := Some x\<rparr>) []) (\<lambda>_. kept_by db u s)" for x
    by (rule server_update_guarded [OF assms]) (simp_all add: empty_partial_server_def)
  then show ?thesis
    unfolding set_default_server_permissions_def
    by (intro from_bind_server [OF assms] route_steps frame_rules kept_by_refl [OF assms])
qed

lemma ban_guarded:
  assumes "acts_on E db u target s"
  shows "from_db (kept_by db u s) db (ban E V ulid u target v reason) (\<lambda>_. kept_by db u s)"
proof -
  let ?G = "kept_by db u s"
  note refl = kept_by_refl [OF assms]
  have idle: "from_db ?G db (io_return ()) (\<lambda>_. ?G)" using refl by (rule from_returns)
  have removed: "from_db ?G db (\<lambda>pl. case fetch_member (w_db (pl_world pl)) (server_id s) v of
      Ok m \<Rightarrow> io_bind (attempt (outranked m q)) (\<lambda>no.
        if no then io_fail NotElevated
        else io_then (on_world (member_remove (sv_now E) ulid m s Ban False)) (leave_server_call E v (server_id s))) pl
      | _ \<Rightarrow> (Ok (), pl)) (\<lambda>_. ?G)" (is "from_db _ _ ?m _")
    if rights: "server_rights E db u s = Some (p, q)" "has_channel_permission p BanMembers" for p q
  proof (cases "fetch_member db (server_id s) v")
    case (Ok m)
    note m = acts_onD(7) [OF assms Ok]
    have "from_db ?G db (io_bind (attempt (outranked m q)) (\<lambda>no.
        if no then io_fail NotElevated
        else io_then (on_world (member_remove (sv_now E) ulid m s Ban False)) (leave_server_call E v (server_id s)))) (\<lambda>_. ?G)"
      using acting_rank_used(3) [OF rights(1) assms] m
      by (intro check_steps from_world_then frame_rules refl guarded_member_remove [OF acts_onD(3) [OF assms]]) auto
    then show ?thesis by (rule from_cong) (simp add: Ok)
  qed (rule from_cong [OF idle]; simp add: io_return_def)+
  show ?thesis
    unfolding ban_def
    by (intro from_then_attempt from_bind_server [OF assms] from_if from_fails from_bind_access from_prod refl
        from_then [OF removed] from_world handled_aside frame_rules) auto
qed

lemma unban_guarded:
  assumes "acts_on E db u target s"
  shows "from_db (kept_by db u s) db (unban E u target v) (\<lambda>_. kept_by db u s)"
  unfolding unban_def
  by (intro from_bind_server [OF assms] check_steps from_bind_read from_world handled_aside frame_rules kept_by_refl [OF assms])

lemma kick_guarded:
  assumes "acts_on E db u target s"
  shows "from_db (kept_by db u s) db (kick E ulid u target v) (\<lambda>_. kept_by db u s)"
proof -
  note refl = kept_by_refl [OF assms]
  have "handled (kept_by db u s) db (member_remove (sv_now E) ulid m s Kick False) (\<lambda>_. kept_by db u s)"
    if "server_rights E db u s = Some (p, q)" "has_channel_permission p KickMembers"
      "fetch_member db (server_id s) v = Ok m" "outranked m q = Ok False" for p q m
    using acting_rank_used(3) [OF that(1) assms, of m] that(4) acts_onD(7) [OF assms that(3)]
    by (intro guarded_member_remove [OF acts_onD(3) [OF assms]]) auto
  then show ?thesis
    unfolding kick_def
    by (intro from_bind_server [OF assms] check_steps from_bind_read from_world_then frame_rules refl) auto
qed

lemma handled_member_edit:
  assumes "acts_on E db u target s" "fetch_member db (server_id s) v = Ok m"
    and "v = user_id u \<or> acting_rank db u s < get_ranking m s"
  shows "handled (kept_by db u s) db (store_member_edit E u m data) (\<lambda>_. kept_by db u s)"
proof -
  let ?G = "kept_by db u s"
  note m = acts_onD(7) [OF assms(1,2)]
  note aside = handled_same_admin [OF _ _ acts_onD(3) [OF assms(1)]]
  have stored: "?G (d\<lparr>db_server_members := hm_adjust (member_id m) f (db_server_members d)\<rparr>)" if "same_admin db d" for d f
  proof -
    have "?G (db\<lparr>db_server_members := hm_adjust (member_id m) f (db_server_members db)\<rparr>)"
      using m assms(3) by (intro guarded_members acts_onD(3) [OF assms(1)]) (auto simp: map_of_hm_adjust)
    then show ?thesis by (rule guarded_aside) (use that in \<open>simp add: same_admin_def\<close>)
  qed
  have update: "handled ?G d (member_update (sv_structs E) m
      \<lparr>pm_id = None, pm_joined_at = None, pm_nickname = dme_nickname data, pm_avatar = avatar,
       pm_roles = dme_roles data, pm_timeout = dme_timeout data, pm_can_publish = dme_can_publish data,
       pm_can_receive = dme_can_receive data\<rparr> (dme_remove data)) (\<lambda>_. ?G)" if "same_admin db d" for d avatar
    using that stored [OF that] guarded_aside [OF kept_by_refl [OF assms(1)], of d]
    by (intro handled_member_update acts_onD(1) [OF assms(1)]) (simp_all add: same_admin_def)
  show ?thesis
    unfolding store_member_edit_def use_user_avatar_def
    by (rule handled_then [OF aside], intro frame_rules, simp, rule handled_bind [OF aside], intro frame_rules, assumption)
       (rule update)
qed

lemma frame_member_edit [frame_rules]:
  "frame (new_voice_channel E s q target m c)" "frame (member_edit_voice E s u target new data)"
  unfolding new_voice_channel_def member_edit_voice_def move_to_channel_def sync_edited_member_def
    disconnect_edited_member_def unwrap_node_def
  by (intro frame_rules)+

lemma attempt_if: "(if b then attempt r else io_return x) = attempt (if b then r else Ok x)"
  by (simp add: io_read_def io_return_def)

lemma from_bind_frame: "frame m \<Longrightarrow> I db \<Longrightarrow> (\<And>x. from_db I db (k x) Q) \<Longrightarrow> from_db I db (io_bind m k) Q"
  by (rule from_bind [OF from_frame]) simp_all

lemma member_edit_guarded:
  assumes "acts_on E db u target s"
  shows "from_db (kept_by db u s) db (member_edit E V u target v data) (\<lambda>_. kept_by db u s)"
proof -
  note refl = kept_by_refl [OF assms]
  have stored: "from_db (kept_by db u s) db (io_bind (on_world (store_member_edit E u m data)) (\<lambda>m.
      io_then (member_edit_voice E s1 u tu new data) (io_return m))) (\<lambda>_. kept_by db u s)"
    if "fetch_member db (server_id s) v = Ok m" "server_rights E db u s = Some (p, q)"
      "(if key_user (member_id m) \<noteq> user_id u then outranked m q else Ok False) = Ok False" for m s1 tu new p q
  proof -
    have "v = user_id u \<or> acting_rank db u s < get_ranking m s"
      using that(3) acting_rank_used(3) [OF that(2) assms, of m] acts_onD(7) [OF assms that(1)] by (auto split: if_splits)
    then show ?thesis
      by (intro from_bind [OF from_world [OF handled_member_edit [OF assms that(1)]]] from_then_frame from_returns frame_rules)
  qed
  show ?thesis
    unfolding member_edit_def attempt_if
    by (intro from_then_attempt from_bind_server [OF assms] from_bind_read from_bind_access from_bind_access_member
        from_prod from_bind_attempt from_if from_fails from_bind_frame [OF frame_member_edit(1)] refl)
       (auto intro: stored)
qed

lemma handled_server_edit:
  assumes "acts_on E db u target s"
  shows "handled (kept_by db u s) db (store_server_edit E u s data) (\<lambda>_. kept_by db u s)"
proof -
  note aside = handled_same_admin [OF _ _ acts_onD(3) [OF assms]]
  show ?thesis
    unfolding store_server_edit_def use_server_icon_def use_server_banner_def
    by (rule handled_then [OF aside], intro frame_rules, simp, rule handled_then [OF aside], intro frame_rules, assumption,
        rule handled_then [OF aside], intro frame_rules, assumption, rule handled_bind [OF aside], intro frame_rules, assumption,
        rule handled_bind [OF aside], intro frame_rules, assumption, rule handled_bind [OF aside], intro frame_rules, assumption)
       (rule server_update_guarded [OF assms], simp_all add: empty_partial_server_def)
qed

lemma server_edit_guarded:
  assumes "acts_on E db u target s"
  shows "from_db (kept_by db u s) db (server_edit E V u target data) (\<lambda>_. kept_by db u s)"
  unfolding server_edit_def
  by (intro from_then_attempt from_bind_server [OF assms] from_bind_access from_prod from_if from_returns
      from_world [OF handled_server_edit [OF assms]] kept_by_refl [OF assms])

lemma channel_create_guarded:
  assumes "acts_on E db u target s"
  shows "from_db (kept_by db u s) db (channel_create E V ulid u target data) (\<lambda>_. kept_by db u s)"
proof -
  let ?G = "kept_by db u s"
  note refl = kept_by_refl [OF assms]
  have update: "handled ?G d (io_bind (server_update (sv_structs E) s (empty_partial_server\<lparr>ps_channels := Some cs\<rparr>) [])
      (\<lambda>s. io_then (publish (server_id s) e) (io_return (c, s)))) (\<lambda>_. ?G)" if "same_admin db d" for d cs e and c :: channel
    using that
    by (intro handled_bind [OF server_update_guarded [OF assms]] handled_publish handled_returns)
       (simp_all add: empty_partial_server_def)
  have "handled ?G db (create_server_channel (sv_structs E) (sv_limits E) ulid s data True) (\<lambda>_. ?G)"
    unfolding create_server_channel_def Let_def
    by (simp add: handled_returns refl,
        intro impI handled_then [OF handled_same_admin [OF _ same_admin_refl acts_onD(3) [OF assms]]] frame_rules update)
  then show ?thesis
    unfolding channel_create_def
    by (intro from_then_attempt from_bind_server [OF assms] from_bind_access from_prod from_bind [OF from_world]
        from_returns refl) auto
qed

end
