(* ===== verification/Server_Properties.thy ===== *)
theory Server_Properties
  imports Server_Laws Voice_Laws "HOL-Library.Multiset"
begin

text \<open>
  What the administration of servers guarantees: ranks protect, permissions are only passed on, bans keep
  out, the order of roles is what was asked for; and where the routes do less than they say.
\<close>

section \<open>Requests\<close>

datatype (plugins only: ) admin_request =
    CreateRole string data_create_role
  | EditRole string data_edit_role
  | DeleteRole string
  | EditRoleRanks "string list"
  | SetRolePermission string override
  | SetDefaultPermission u64
  | BanUser string string "string option"
  | UnbanUser string
  | KickMember string string
  | EditMember string data_member_edit
  | EditServer data_edit_server
  | CreateChannel string data_create_server_channel

record server_validators =
  va_create_role :: "data_create_role \<Rightarrow> string option"
  va_edit_role :: "data_edit_role \<Rightarrow> string option"
  va_ban :: "string option \<Rightarrow> string option"
  va_edit_member :: "data_member_edit \<Rightarrow> string option"
  va_edit_server :: "data_edit_server \<Rightarrow> string option"
  va_create_channel :: "data_create_server_channel \<Rightarrow> string option"

fun administer :: "server_env \<Rightarrow> server_validators \<Rightarrow> user \<Rightarrow> string \<Rightarrow> admin_request \<Rightarrow> unit voice" where
  "administer E V u sid (CreateRole ulid d) = void (roles_create E (va_create_role V) ulid u sid d)"
| "administer E V u sid (EditRole rid d) = void (roles_edit E (va_edit_role V) u sid rid d)"
| "administer E V u sid (DeleteRole rid) = roles_delete E u sid rid"
| "administer E V u sid (EditRoleRanks ranks) = void (edit_role_ranks E u sid ranks)"
| "administer E V u sid (SetRolePermission rid p) = void (set_role_permission E u sid rid p)"
| "administer E V u sid (SetDefaultPermission p) = void (set_default_server_permissions E u sid p)"
| "administer E V u sid (BanUser ulid v reason) = void (ban E (va_ban V) ulid u sid v reason)"
| "administer E V u sid (UnbanUser v) = unban E u sid v"
| "administer E V u sid (KickMember ulid v) = kick E ulid u sid v"
| "administer E V u sid (EditMember v d) = void (member_edit E (va_edit_member V) u sid v d)"
| "administer E V u sid (EditServer d) = void (server_edit E (va_edit_server V) u sid d)"
| "administer E V u sid (CreateChannel ulid d) = void (channel_create E (va_create_channel V) ulid u sid d)"

text \<open>The identifier drawn for a new role is not in use.\<close>

fun fresh_for :: "server \<Rightarrow> admin_request \<Rightarrow> bool" where
  "fresh_for s (CreateRole ulid d) = (map_of (server_roles s) ulid = None)"
| "fresh_for s r = True"

lemma administer_guarded:
  assumes "acts_on E db u sid s" "fresh_for s req"
  shows "from_db (kept_by db u s) db (administer E V u sid req) (\<lambda>_. kept_by db u s)"
  using assms
  by (cases req)
     (auto intro!: from_void roles_create_guarded roles_edit_guarded roles_delete_guarded edit_role_ranks_guarded
        set_role_permission_guarded set_default_guarded ban_guarded unban_guarded kick_guarded member_edit_guarded
        server_edit_guarded channel_create_guarded)


section \<open>The order of roles\<close>

lemma assign_ranks_other: "assign_ranks n ids roles = Ok roles' \<Longrightarrow> i \<notin> set ids \<Longrightarrow> map_of roles' i = map_of roles i"
  by (induction n ids roles rule: assign_ranks.induct) (auto simp: map_of_hm_adjust split: if_splits)

lemma assign_ranks_rank:
  "assign_ranks n ids roles = Ok roles' \<Longrightarrow> distinct ids \<Longrightarrow> j < length ids \<Longrightarrow>
    \<exists>r. map_of roles' (ids ! j) = Some r \<and> role_rank r = usize_as_i64 (n + j)"
proof (induction n ids roles arbitrary: j rule: assign_ranks.induct)
  case (2 n i ids roles)
  let ?roles = "hm_adjust i (\<lambda>r. r\<lparr>role_rank := usize_as_i64 n\<rparr>) roles"
  from 2(2) have rest: "hm_contains roles i" "assign_ranks (Suc n) ids ?roles = Ok roles'" by (simp_all split: if_splits)
  show ?case
  proof (cases j)
    case 0
    then show ?thesis using rest assign_ranks_other [OF rest(2)] 2(3)
      by (auto simp: map_of_hm_adjust hm_contains_def)
  next
    case (Suc j')
    then show ?thesis using 2(1) [OF rest, of j'] 2(3,4) by simp
  qed
qed simp

lemma permuted_keys:
  assumes "length ids = length keys" "set keys \<subseteq> set ids" "distinct keys"
  shows "distinct ids" "set ids = set keys"
proof -
  have "card (set keys) = length ids" using assms by (simp add: distinct_card)
  moreover have "card (set ids) \<le> length ids" by (rule card_length)
  ultimately show "set ids = set keys"
    using card_mono [OF _ assms(2)] card_subset_eq [of "set ids" "set keys"] assms(2) by simp
  with \<open>card (set keys) = length ids\<close> show "distinct ids" by (simp add: card_distinct)
qed

lemma assigned_order:
  assumes "assign_ranks 0 ids (server_roles s) = Ok roles" "roles_ok s" "length ids = length (server_roles s)"
    and "\<forall>(i, _)\<in>set (server_roles s). i \<in> set ids" "length ids < 2 ^ 63"
  shows "map fst (ordered_roles (s\<lparr>server_roles := roles\<rparr>)) = ids"
proof -
  let ?f = "\<lambda>x :: string \<times> role. role_rank (snd x)"
  let ?ys = "map (\<lambda>i. (i, the (map_of roles i))) ids"
  have keys: "distinct (map fst (server_roles s))" "map fst roles = map fst (server_roles s)"
    using assms(2) assign_ranks_keys [OF assms(1)] by (simp_all add: roles_ok_def hm_wf_def)
  then have d: "distinct (map fst roles)" by simp
  have sub: "set (map fst (server_roles s)) \<subseteq> set ids" using assms(4) by auto
  have perm: "distinct ids" "set ids = set (map fst roles)"
    using permuted_keys [OF _ sub keys(1)] assms(3) keys(2) by simp_all
  have rank: "role_rank (the (map_of roles (ids ! j))) = int j" if "j < length ids" for j
    using assign_ranks_rank [OF assms(1) perm(1) that] usize_as_i64_small [of j] that assms(5) by auto
  have ranks: "map ?f ?ys = map int [0..<length ids]" by (rule nth_equalityI) (simp_all add: rank)
  have "set ?ys = set roles"
  proof -
    have found: "the (map_of roles (fst x)) = snd x" if "x \<in> set roles" for x
      using map_of_is_SomeI [OF d, of "fst x" "snd x"] that by simp
    have "set ?ys = (\<lambda>i. (i, the (map_of roles i))) ` fst ` set roles" using perm(2) by simp
    also have "\<dots> = (\<lambda>x. x) ` set roles" unfolding image_image by (rule image_cong) (simp_all add: found)
    finally show ?thesis by simp
  qed
  moreover have "distinct ?ys" using perm(1) by (simp add: distinct_map inj_on_def)
  moreover have "distinct roles" using d by (simp only: distinct_map)
  ultimately have "mset roles = mset ?ys" by (metis set_eq_iff_mset_eq_distinct)
  moreover have "inj_on ?f (set roles)"
  proof -
    have "distinct (map ?f ?ys)" unfolding ranks by (simp add: distinct_map)
    then have "inj_on ?f (set ?ys)" by (rule distinct_map [THEN iffD1, THEN conjunct2])
    then show ?thesis using \<open>set ?ys = set roles\<close> by simp
  qed
  moreover have "sorted (map int [0..<n])" for n by (induction n) (simp_all add: sorted_append)
  then have "sorted (map ?f ?ys)" unfolding ranks .
  ultimately have "sort_key ?f roles = ?ys" by (rule sort_key_inj_key_eq)
  then show ?thesis by (simp add: ordered_roles_def case_prod_unfold comp_def)
qed

lemma from_bind_stored:
  "fetch_server db sid = Ok s \<Longrightarrow> from_db I db (k s) Q \<Longrightarrow>
    from_db I db (io_bind (read_database (\<lambda>db. fetch_server db sid)) k) Q"
  by (rule from_cong, assumption) (simp add: io_bind_def read_database_def)

lemma edit_role_ranks_result:
  assumes "derives (sv_structs E)" "fetch_server db sid = Ok s" "server_id s = sid"
  shows "from_db (\<lambda>_. True) db (edit_role_ranks E u sid ranks) (\<lambda>s' db'. \<exists>roles p q.
    assign_ranks 0 ranks (server_roles s) = Ok roles \<and> s' = s\<lparr>server_roles := roles\<rparr> \<and> map_of (db_servers db') sid = Some s'
    \<and> length ranks = length (server_roles s) \<and> (\<forall>(i, _)\<in>set (server_roles s). i \<in> set ranks)
    \<and> server_rights E db u s = Some (p, q) \<and> has_channel_permission p ManageRole
    \<and> (server_owner s \<noteq> user_id u \<longrightarrow> (\<exists>top. get_member_rank q = Ok top \<and> \<not> moves_protected_role s top ranks)))"
proof -
  have stored: "map_of (db_servers db) sid = Some s" using assms(2) by (simp add: fetch_server_def)
  have derived: "derived_server (empty_partial_server\<lparr>ps_roles := Some roles\<rparr>) s = s\<lparr>server_roles := roles\<rparr>" for roles
    by (cases s) (simp add: derived_server_def empty_partial_server_def)
  have ordering: "handled (\<lambda>_. True) db (set_role_ordering (sv_structs E) s ranks)
      (\<lambda>s' db'. \<exists>roles. assign_ranks 0 ranks (server_roles s) = Ok roles \<and> s' = s\<lparr>server_roles := roles\<rparr>
        \<and> map_of (db_servers db') sid = Some s')"
    using stored assms(3) by (intro handled_set_role_ordering assms(1)) (auto simp: map_of_hm_adjust derived)
  have guard: "from_db (\<lambda>_. True) db
      (if server_owner s \<noteq> user_id u
       then io_bind (attempt (get_member_rank q)) (\<lambda>top. if moves_protected_role s top ranks then io_fail NotElevated else io_return ())
       else io_return ())
      (\<lambda>_ db'. db' = db \<and> (server_owner s \<noteq> user_id u \<longrightarrow> (\<exists>top. get_member_rank q = Ok top \<and> \<not> moves_protected_role s top ranks)))" for q
    by (intro from_if from_bind_attempt from_fails from_returns) auto
  show ?thesis
    unfolding edit_role_ranks_def
    by (intro from_bind_stored [OF assms(2)] from_bind_access from_prod from_then_attempt from_if from_fails
        from_then [OF guard] from_bind [OF from_world] from_then_frame frame_rules from_returns)
       (auto intro: ordering)
qed

lemma same_role_renumbered: "same_role r r' \<Longrightarrow> r' = r\<lparr>role_rank := role_rank r'\<rparr>"
  by (cases r; cases r') (simp add: same_role_def)

text \<open>C10: the new order of the roles is the one that was asked for. When a request to reorder succeeds, the roles sorted
  by rank are exactly the list of the request, the stored server is the answered one and differs from the old one
  only in ranks; and if the request comes from an ordinary member, every role at or above the member's rank
  has kept its place in the order.\<close>

theorem role_order_is_the_requested:
  assumes "derives (sv_structs E)" "db_wf (db_of pl)" "fetch_server (db_of pl) sid = Ok s" "roles_ok s"
    and "length (server_roles s) < 2 ^ 63" "edit_role_ranks E u sid ranks pl = (Ok s', pl')"
  shows "fetch_server (db_of pl') sid = Ok s' \<and> map fst (ordered_roles s') = ranks
    \<and> (\<forall>i r. map_of (server_roles s) i = Some r \<longrightarrow> (\<exists>n. map_of (server_roles s') i = Some (r\<lparr>role_rank := n\<rparr>)))
    \<and> (ordinary u s \<longrightarrow> (\<exists>me. fetch_member (db_of pl) sid (user_id u) = Ok me \<and>
         (\<forall>i r. map_of (server_roles s) i = Some r \<longrightarrow> role_rank r \<le> get_ranking me s \<longrightarrow>
            position i (map fst (ordered_roles s')) = position i (map fst (ordered_roles s)))))"
proof -
  have sid: "server_id s = sid" using assms(2,3) by (auto simp: db_wf_def table_ok_def fetch_server_def)
  from from_dbD [OF edit_role_ranks_result [OF assms(1,3) sid] assms(6)] obtain roles p q where
    roles: "assign_ranks 0 ranks (server_roles s) = Ok roles" "s' = s\<lparr>server_roles := roles\<rparr>"
      "map_of (db_servers (db_of pl')) sid = Some s'"
    and all: "length ranks = length (server_roles s)" "\<forall>(i, _)\<in>set (server_roles s). i \<in> set ranks"
    and rights: "server_rights E (db_of pl) u s = Some (p, q)" "has_channel_permission p ManageRole"
    and stay: "server_owner s \<noteq> user_id u \<Longrightarrow> \<exists>top. get_member_rank q = Ok top \<and> \<not> moves_protected_role s top ranks"
    by auto
  have order: "map fst (ordered_roles s') = ranks"
    using assigned_order [OF roles(1) assms(4) all] assms(5) all(1) roles(2) by simp
  have same: "\<exists>n. map_of (server_roles s') i = Some (r\<lparr>role_rank := n\<rparr>)" if "map_of (server_roles s) i = Some r" for i r
    using assign_ranks_same [OF roles(1) that] roles(2) same_role_renumbered by fastforce
  have "\<exists>me. fetch_member (db_of pl) sid (user_id u) = Ok me \<and>
      (\<forall>i r. map_of (server_roles s) i = Some r \<longrightarrow> role_rank r \<le> get_ranking me s \<longrightarrow>
         position i (map fst (ordered_roles s')) = position i (map fst (ordered_roles s)))" if ordinary: "ordinary u s"
  proof -
    obtain me where me: "fetch_member (db_of pl) sid (user_id u) = Ok me" "q_member q = Some me"
      using server_rights_ordinary [OF rights(1) ordinary] rights(2) no_permission sid by blast
    then have "get_member_rank q = Ok (Some (get_ranking me s))"
      using server_rights_query(1) [OF rights(1)] by (simp add: get_member_rank_def)
    then have "\<not> moves_protected_role s (Some (get_ranking me s)) ranks"
      using stay ordinary by (auto simp: ordinary_def)
    then show ?thesis using me(1) order by (force simp: moves_protected_role_def dest: map_of_SomeD)
  qed
  with roles(3) order same show ?thesis by (simp add: fetch_server_def)
qed

section \<open>Passing on permissions\<close>

text \<open>What an override newly decides in favour of its holder: bits it starts to allow or stops to deny.\<close>

definition newly_granted :: "override \<Rightarrow> override \<Rightarrow> nat \<Rightarrow> bool" where
  "newly_granted old new b \<longleftrightarrow> (bit (allow new) b \<and> \<not> bit (allow old) b) \<or> (bit (deny old) b \<and> \<not> bit (deny new) b)"

lemma rights_at:
  "calculate_server_permissions (db_query (sv_now E)) (server_query u s pl) = server_rights E (db_of pl) u s"
  by (simp add: server_rights_def server_query_def voice_query_def query_in_def)

lemma override_accepted:
  assumes "throw_permission_override p (Some old) new = Ok ()" "newly_granted old new b"
  shows "bit p b"
  using assms by (auto simp: throw_permission_override_def newly_granted_def pv_has_iff bit_facts bit_u64_and_not
      and.commute [of "NOT _"] split: if_splits)

lemma default_accepted:
  assumes "throw_permission_override p None \<lparr>allow = w, deny = 0\<rparr> = Ok ()" "bit w b"
  shows "bit p b"
  using assms by (auto simp: throw_permission_override_def pv_has_iff bit_facts split: if_splits)

definition role_granted :: "server_env \<Rightarrow> reference_db \<Rightarrow> user \<Rightarrow> server \<Rightarrow> string \<Rightarrow> override \<Rightarrow> server \<Rightarrow> reference_db \<Rightarrow> bool" where
  "role_granted E db u s rid new s' db' \<longleftrightarrow> (\<exists>r p q.
     map_of (server_roles s) rid = Some r \<and> server_rights E db u s = Some (p, q) \<and> has_channel_permission p ManagePermissions
     \<and> throw_permission_override p (Some (field_to_override (role_permissions r))) new = Ok ()
     \<and> s' = s\<lparr>server_roles := hm_adjust rid (\<lambda>_. r\<lparr>role_permissions := override_to_field new\<rparr>) (server_roles s)\<rparr>
     \<and> map_of (db_servers db') (server_id s) = Some s')"

lemma set_role_permission_result:
  assumes "derives (sv_structs E)" "fetch_server db sid = Ok s" "server_id s = sid" "roles_ok s"
  shows "from_db (\<lambda>db'. db' = db \<or> (\<exists>s'. role_granted E db u s rid new s' db')) db (set_role_permission E u sid rid new)
    (role_granted E db u s rid new)"
proof -
  have stored: "map_of (db_servers db) sid = Some s" using assms(2) by (simp add: fetch_server_def)
  have same: "hm_adjust rid (\<lambda>r. r\<lparr>role_permissions := f\<rparr>) (server_roles s) = hm_adjust rid (\<lambda>_. r\<lparr>role_permissions := f\<rparr>) (server_roles s)"
    if "map_of (server_roles s) rid = Some r" for r f
  proof -
    have "x = r" if "(rid, x) \<in> set (server_roles s)" for x
      using map_of_is_SomeI [OF _ that] \<open>map_of (server_roles s) rid = Some r\<close> assms(4) by (simp add: roles_ok_def hm_wf_def)
    then show ?thesis by (auto simp: hm_adjust_def)
  qed
  have written: "handled (\<lambda>db'. db' = db \<or> C db') db (server_set_role_permission (sv_structs E) s rid f)
      (\<lambda>s' db'. s' = s\<lparr>server_roles := hm_adjust rid (\<lambda>_. r\<lparr>role_permissions := f\<rparr>) (server_roles s)\<rparr>
        \<and> map_of (db_servers db') sid = Some s')" if "map_of (server_roles s) rid = Some r" for r f C
    using that stored assms(3)
    by (intro handled_set_role_permission assms(1,4)) (auto simp: map_of_hm_adjust same [OF that])
  show ?thesis
    unfolding set_role_permission_def
    by (intro from_bind_stored [OF assms(2)] from_bind_attempt from_bind_access from_prod from_then_attempt from_if from_fails
        from_bind [OF from_world [OF written]] from_then_frame frame_rules from_returns)
       (auto simp: role_granted_def assms(3))
qed

text \<open>C11: permissions are only passed on. However a request to set the permissions of a role ends, nothing else of the
  server's roles changes, and a permission that the role starts to grant or stops to deny is one that the
  calculation gives to the requesting user, who also may manage permissions; a request that succeeds has
  stored exactly the permissions of the request.\<close>

theorem role_permissions_only_passed_on:
  assumes "derives (sv_structs E)" "db_wf (db_of pl)" "fetch_server (db_of pl) sid = Ok s" "roles_ok s"
    and "set_role_permission E u sid rid new pl = (result, pl')"
  shows "\<exists>s'. fetch_server (db_of pl') sid = Ok s'
    \<and> (\<forall>i. i \<noteq> rid \<longrightarrow> map_of (server_roles s') i = map_of (server_roles s) i)
    \<and> (\<forall>r r' b. map_of (server_roles s) rid = Some r \<longrightarrow> map_of (server_roles s') rid = Some r' \<longrightarrow>
         newly_granted (field_to_override (role_permissions r)) (field_to_override (role_permissions r')) b \<longrightarrow>
         (\<exists>p q. calculate_server_permissions (db_query (sv_now E)) (server_query u s pl) = Some (p, q)
            \<and> has_channel_permission p ManagePermissions \<and> bit p b))
    \<and> (\<forall>x. result = Ok x \<longrightarrow> (\<exists>r. map_of (server_roles s') rid = Some r \<and> role_permissions r = override_to_field new))"
proof -
  let ?db = "db_of pl" and ?db' = "db_of pl'"
  have sid: "server_id s = sid" using assms(2,3) by (auto simp: db_wf_def table_ok_def fetch_server_def)
  note outcome = from_dbD [OF set_role_permission_result [OF assms(1,3) sid assms(4)] assms(5)]
  show ?thesis
  proof (cases "\<exists>s'. role_granted E ?db u s rid new s' ?db'")
    case True
    then obtain s' r p q where r: "map_of (server_roles s) rid = Some r" "server_rights E ?db u s = Some (p, q)"
        "has_channel_permission p ManagePermissions"
        "throw_permission_override p (Some (field_to_override (role_permissions r))) new = Ok ()"
      and s': "s' = s\<lparr>server_roles := hm_adjust rid (\<lambda>_. r\<lparr>role_permissions := override_to_field new\<rparr>) (server_roles s)\<rparr>"
        "map_of (db_servers ?db') sid = Some s'"
      unfolding role_granted_def sid by blast
    then have "map_of (server_roles s') rid = Some (r\<lparr>role_permissions := override_to_field new\<rparr>)"
      by (simp add: map_of_hm_adjust)
    moreover have "bit p b" if "newly_granted (field_to_override (role_permissions r)) new b" for b
      using override_accepted [OF r(4) that] .
    ultimately show ?thesis
      using r s' by (auto simp: rights_at fetch_server_def map_of_hm_adjust override_field_round_trip [THEN conjunct1])
  next
    case False
    with outcome have "?db' = ?db" "\<And>x. result \<noteq> Ok x" by (auto split: res.splits)
    then show ?thesis using assms(3) by (auto simp: newly_granted_def)
  qed
qed

section \<open>Bans\<close>

lemma handled_frame:
  assumes "unchanged (\<lambda>w. f (w_db w)) m" "P (f db)"
  shows "handled (\<lambda>_. True) db m (\<lambda>_ db'. P (f db'))"
  using assms(2) unfolding handled_def triple_def
  by (auto dest!: unchangedD [OF assms(1)] split: res.splits)

lemma member_remove_result:
  "handled (\<lambda>_. True) db (member_remove now ulid m s why silent) (\<lambda>_ db'. map_of (db_server_members db') (member_id m) = None)"
proof -
  have "unchanged (\<lambda>w. db_server_members (w_db w)) h" if "aside h" for h :: "unit handler"
    using that by (simp add: unchanged_def)
  then have rest: "aside h \<Longrightarrow> map_of (db_server_members d) (member_id m) = None \<Longrightarrow>
      handled (\<lambda>_. True) d h (\<lambda>_ db'. map_of (db_server_members db') (member_id m) = None)" for d and h :: "unit handler"
    by (rule handled_frame [where f = db_server_members and P = "\<lambda>t. map_of t (member_id m) = None"])
  show ?thesis
    unfolding member_remove_def
    by (rule handled_then [where R = "\<lambda>d. map_of (db_server_members d) (member_id m) = None"],
        rule handled_on_db, simp add: soft_delete_member_def hm.get_remove split: option.splits)
       (intro rest frame_rules)
qed

lemma from_world_then_frame:
  "handled (\<lambda>_. True) db w (\<lambda>_. R) \<Longrightarrow> frame m \<Longrightarrow> from_db (\<lambda>_. True) db (io_then (on_world w) m) (\<lambda>_. R)"
  by (rule from_then [OF from_world], assumption)
     (auto simp: from_db_def triple_def dest: unchangedD split: res.splits)

lemma ban_result:
  assumes "fetch_server db sid = Ok s" "server_id s = sid"
    and keyed: "\<And>i m. map_of (db_server_members db) i = Some m \<Longrightarrow> member_id m = i"
  shows "from_db (\<lambda>_. True) db (ban E V ulid u sid v reason) (\<lambda>b db'. v \<noteq> user_id u \<and> v \<noteq> server_owner s
    \<and> fetch_ban db' sid v = Ok b \<and> fetch_member db' sid v = Err NotFound)"
proof -
  let ?gone = "\<lambda>db. map_of (db_server_members db) \<lparr>key_server = sid, key_user = v\<rparr> = None"
  have removed: "from_db (\<lambda>_. True) db (\<lambda>pl. case fetch_member (w_db (pl_world pl)) (server_id s) v of
      Ok m \<Rightarrow> io_bind (attempt (outranked m q)) (\<lambda>no.
        if no then io_fail NotElevated
        else io_then (on_world (member_remove (sv_now E) ulid m s Ban False)) (leave_server_call E v (server_id s))) pl
      | _ \<Rightarrow> (Ok (), pl)) (\<lambda>_. ?gone)" for q
  proof (cases "fetch_member db (server_id s) v")
    case (Ok m)
    then have "member_id m = \<lparr>key_server = sid, key_user = v\<rparr>" using keyed assms(2) by (simp add: fetch_member_def)
    then have "from_db (\<lambda>_. True) db (io_bind (attempt (outranked m q)) (\<lambda>no.
        if no then io_fail NotElevated
        else io_then (on_world (member_remove (sv_now E) ulid m s Ban False)) (leave_server_call E v (server_id s)))) (\<lambda>_. ?gone)"
      using member_remove_result [of db "sv_now E" ulid m s Ban False]
      by (intro from_bind_attempt from_if from_fails from_world_then_frame frame_rules) auto
    then show ?thesis by (rule from_cong) (simp add: Ok)
  qed (auto simp: from_db_def triple_def fetch_member_def ok_or_def assms(2) split: option.splits)
  have banned: "handled (\<lambda>_. True) d (server_ban_create s v reason)
      (\<lambda>b db'. fetch_ban db' sid v = Ok b \<and> fetch_member db' sid v = Err NotFound)" if "?gone d" for d
    using that assms(2) unfolding server_ban_create_def Let_def
    by (intro handled_then_db)
       (auto simp: insert_ban_def fetch_ban_def fetch_member_def ok_or_def hm.get_insert intro!: handled_returns)
  show ?thesis
    unfolding ban_def
    by (intro from_then_attempt from_bind_stored [OF assms(1)] from_if from_fails from_bind_access from_prod TrueI
        from_then [OF removed] from_world) (auto intro: banned)
qed

text \<open>C12: a ban keeps out. When a ban succeeds the banned user is neither the requesting user nor the owner, is no
  longer a member, the ban is stored, and every attempt to join the server again is refused without any
  effect for as long as the ban is there.\<close>

theorem bans_keep_out:
  assumes "db_wf (db_of pl)" "fetch_server (db_of pl) sid = Ok s" "ban E V ulid u sid v reason pl = (Ok b, pl')"
  shows "v \<noteq> user_id u \<and> v \<noteq> server_owner s \<and> fetch_member (db_of pl') sid v = Err NotFound
    \<and> fetch_ban (db_of pl') sid v = Ok b
    \<and> (\<forall>now i w cs pl''. user_id w = v \<longrightarrow> fetch_ban (db_of pl'') sid v = Ok b \<longrightarrow>
         member_create now i s w cs pl'' = (Err Banned, pl''))"
proof -
  have sid: "server_id s = sid" "\<And>i m. map_of (db_server_members (db_of pl)) i = Some m \<Longrightarrow> member_id m = i"
    using assms(1,2) by (auto simp: db_wf_def table_ok_def fetch_server_def)
  from from_dbD [OF ban_result [OF assms(2) sid] assms(3)] show ?thesis
    by (simp add: member_create_def sid)
qed

section \<open>Rights that are not checked\<close>

lemma server_rights_total: "\<exists>x. server_rights E db u s = Some x"
  by (simp add: server_rights_def server_query_defs Let_def fetch_member_def ok_or_def split: option.splits)

lemma member_rights_total:
  "\<exists>x. calculate_server_permissions (db_query now) (with_member m (query_in db u s)) = Some x"
  by (simp add: server_query_defs with_member_def Let_def split: option.splits)

lemma server_access_known:
  "server_rights E (db_of pl) u s = Some x \<Longrightarrow> server_access E (server_query u s) pl = (Ok x, pl)"
  by (simp add: server_access_def rights_at)

lemma outsider_rank:
  assumes "server_rights E db u s = Some (p, q)" "ordinary u s" "fetch_member db (server_id s) (user_id u) = Err NotFound"
  shows "rank_of_member q = Ok i64_min" "outranked m q = Ok (get_ranking m s \<le> i64_min)"
proof -
  have "q_member q = None"
    using assms by (auto simp: server_rights_def ordinary_def server_query_defs Let_def fetch_member_def ok_or_def
        split: if_splits option.splits)
  then show "rank_of_member q = Ok i64_min" by (simp add: rank_of_member_def get_member_rank_def)
  then show "outranked m q = Ok (get_ranking m s \<le> i64_min)"
    using server_rights_query(1) [OF assms(1)] by (simp add: outranked_def server_ref_def)
qed

definition lift_mute :: data_member_edit where
  "lift_mute = \<lparr>dme_nickname = None, dme_avatar = None, dme_roles = None, dme_timeout = None, dme_can_publish = None,
     dme_can_receive = None, dme_voice_channel = None, dme_remove = [MemberField_CanPublish]\<rparr>"

text \<open>C38: a mute does not hold. Taking somebody's right to publish back needs a permission only when it is set, not when
  the field is removed, which restores the right: even a user who is not a member of the server can lift
  the mute of any of its members, since an outsider's rank is above all others.\<close>

theorem anyone_lifts_mutes:
  assumes "derives (sv_structs E)" "db_wf (db_of pl)" "fetch_server (db_of pl) sid = Ok s"
    and "fetch_user (db_of pl) v = Ok tu" "fetch_member (db_of pl) sid v = Ok m" "i64_min < get_ranking m s"
    and "ordinary u s" "fetch_member (db_of pl) sid (user_id u) = Err NotFound" "V lift_mute = None"
    and "member_edit E V u sid v lift_mute pl = (result, pl')"
  shows "fetch_member (db_of pl') sid v = Ok (m\<lparr>member_can_publish := True\<rparr>)"
proof -
  have sid: "server_id s = sid" "\<And>i m. map_of (db_server_members (db_of pl)) i = Some m \<Longrightarrow> member_id m = i"
    using assms(2,3) by (auto simp: db_wf_def table_ok_def fetch_server_def)
  then have m: "member_id m = \<lparr>key_server = sid, key_user = v\<rparr>" "map_of (db_server_members (db_of pl)) (member_id m) = Some m"
    using assms(5) by (auto simp: fetch_member_def)
  obtain p q where rights: "server_rights E (db_of pl) u s = Some (p, q)" using server_rights_total by fastforce
  obtain x where target: "server_access E (\<lambda>pl. with_member m (server_query tu s pl)) pl = (Ok x, pl)"
    using member_rights_total [of "sv_now E" m "db_of pl" tu s]
    by (auto simp: server_access_def server_query_def voice_query_def query_in_def)
  note rank = outsider_rank [OF rights assms(7) assms(8) [folded sid(1)]]
  have "member_edit E V u sid v lift_mute pl = io_bind (on_world (store_member_edit E u m lift_mute)) (\<lambda>m.
      io_then (member_edit_voice E s u tu None lift_mute) (io_return m)) pl"
    using assms(3-6,9) target rank sid(1) m(1)
    by (simp add: member_edit_def io_then_def io_bind_def read_database_def io_read_def io_return_def io_fail_def
        validated_def server_access_known [OF rights] member_edit_allowed_def new_voice_channel_def lift_mute_def
        added_roles_def Let_def split: prod.splits)
  moreover have "\<exists>w. store_member_edit E u m lift_mute (pl_world pl) = (Ok (m\<lparr>member_can_publish := True\<rparr>), w)
      \<and> map_of (db_server_members (w_db w)) (member_id m) = Some (m\<lparr>member_can_publish := True\<rparr>)"
    using m(2) assms(1)
    by (cases m) (auto simp: store_member_edit_def drop_old_file_def use_new_file_def member_update_def Let_def lift_mute_def
        outcome_simps derivesD derived_member_def update_member_def hm_contains_def map_of_hm_adjust split: option.splits)
  ultimately obtain w m' where run: "io_then (member_edit_voice E s u tu None lift_mute) (io_return m') (pl\<lparr>pl_world := w\<rparr>) = (result, pl')"
    and w: "map_of (db_server_members (w_db w)) (member_id m) = Some (m\<lparr>member_can_publish := True\<rparr>)"
    using assms(10) by (auto simp: io_bind_def on_world_def)
  have "frame (io_then (member_edit_voice E s u tu None lift_mute) (io_return m'))" by (intro frame_rules)
  from unchangedD [OF this run] w m(1) show ?thesis by (simp add: fetch_member_def)
qed

text \<open>C39: anyone can list a server publicly. Whether a server is discoverable is not among the fields that need the permission
  to manage the server, although the comment in the code says it has been checked: a request that changes only this
  field succeeds for every user, also for one who is not a member.\<close>

theorem anyone_sets_discoverable:
  assumes "derives (sv_structs E)" "db_wf (db_of pl)" "fetch_server (db_of pl) sid = Ok s"
    and data: "des_discoverable d = Some b" "des_name d = None" "des_description d = None" "des_icon d = None" "des_banner d = None"
      "des_categories d = None" "des_system_messages d = None" "des_flags d = None" "des_analytics d = None" "des_remove d = []"
    and "V d = None"
  shows "\<exists>pl'. server_edit E V u sid d pl = (Ok (s\<lparr>server_discoverable := b\<rparr>), pl')
    \<and> fetch_server (db_of pl') sid = Ok (s\<lparr>server_discoverable := b\<rparr>)"
proof -
  have sid: "server_id s = sid" using assms(2,3) by (auto simp: db_wf_def table_ok_def fetch_server_def)
  obtain p q where rights: "server_rights E (db_of pl) u s = Some (p, q)" using server_rights_total by fastforce
  have "server_edit E V u sid d pl = on_world (store_server_edit E u s d) pl"
    using assms(3,14) data
    by (simp add: server_edit_def io_then_def io_bind_def read_database_def io_read_def validated_def
        server_access_known [OF rights] edit_server_unchanged_def edit_server_managed_def edit_server_allowed_def)
  moreover have "\<exists>w. store_server_edit E u s d (pl_world pl) = (Ok (s\<lparr>server_discoverable := b\<rparr>), w)
      \<and> map_of (db_servers (w_db w)) sid = Some (s\<lparr>server_discoverable := b\<rparr>)"
    using assms(1,3) data sid
    by (cases s) (auto simp: store_server_edit_def drop_old_file_def use_new_file_def server_update_def Let_def outcome_simps
        derivesD derived_server_def empty_partial_server_def update_server_def fetch_server_def hm_contains_def
        map_of_hm_adjust split: option.splits)
  ultimately show ?thesis by (auto simp: on_world_def fetch_server_def)
qed

text \<open>A kick does not end the call. The member leaves the server, but the call to leave is looked for under the
  identifier of the server instead of the member: with no such entry in Redis the store stays exactly as it was, and
  whoever was a member of a call still is.\<close>

lemma kicked_members_stay_in_calls:
  assumes "db_wf (db_of pl)" "fault_free pl" "map_of (store pl) (KUnique sid (server_id s)) = None"
    and "fetch_server (db_of pl) sid = Ok s" "kick E ulid u sid v pl = (Ok (), pl')"
  shows "fetch_member (db_of pl') sid v = Err NotFound \<and> store pl' = store pl"
proof -
  have sid: "server_id s = sid" "\<And>i m. map_of (db_server_members (db_of pl)) i = Some m \<Longrightarrow> member_id m = i"
    using assms(1,4) by (auto simp: db_wf_def table_ok_def fetch_server_def)
  from assms(4,5) obtain m pl1 where m: "fetch_member (db_of pl) (server_id s) v = Ok m"
    and removed: "on_world (member_remove (sv_now E) ulid m s Kick False) pl = (Ok (), pl1)"
    and left: "leave_server_call E sid (server_id s) pl1 = (Ok (), pl')"
    unfolding kick_def
    by (auto simp: io_bind_def io_then_def io_read_def io_fail_def read_database_def server_access_def
        split: res.splits prod.splits if_splits option.splits)
  have pl1: "pl_redis pl1 = pl_redis pl"
    using removed by (auto simp: on_world_def split: prod.splits)
  then have "pl' = pl1"
    using left assms(2,3) sid by (simp add: leave_server_call_def get_user_voice_channel_in_server_def io_then_def io_bind_def
        fault_free_ops io_return_def)
  moreover have "map_of (db_server_members (db_of pl1)) (member_id m) = None"
    using from_dbD [OF from_world [OF member_remove_result] removed] by simp
  moreover have "member_id m = member_key_of s v" using m sid(2) by (simp add: fetch_member_def)
  ultimately show ?thesis using pl1 sid(1) by (simp add: fetch_member_def ok_or_def)
qed

section \<open>Channels of a server\<close>

lemma create_server_channel_result:
  assumes "derives opt" "map_of (db_servers db) (server_id s) = Some s"
  shows "handled (\<lambda>_. True) db (create_server_channel opt lim ulid s data True) (\<lambda>(c, s') db'.
    length (server_channels s) \<le> lim_server_channels lim \<and> c = server_channel_of ulid s data
    \<and> s' = s\<lparr>server_channels := server_channels s @ [ulid]\<rparr>
    \<and> map_of (db_servers db') (server_id s) = Some s' \<and> map_of (db_channels db') ulid = Some c \<and> map_of (db_channels db) ulid = None)"
proof (cases "length (server_channels s) > lim_server_channels lim")
  case True
  then show ?thesis by (simp add: create_server_channel_def handled_returns)
next
  case False
  let ?c = "server_channel_of ulid s data"
  have derived: "derived_server (empty_partial_server\<lparr>ps_channels := Some cs\<rparr>) s = s\<lparr>server_channels := cs\<rparr>" for cs
    by (cases s) (simp add: derived_server_def empty_partial_server_def)
  have id: "channel_id ?c = ulid" "ps_id (empty_partial_server\<lparr>ps_channels := x\<rparr>) = None" for x
    by (simp_all add: server_channel_of_def empty_partial_server_def)
  let ?Q = "\<lambda>(c, s') db'. c = ?c \<and> s' = s\<lparr>server_channels := server_channels s @ [ulid]\<rparr>
    \<and> map_of (db_servers db') (server_id s) = Some s' \<and> map_of (db_channels db') ulid = Some c"
  have update: "handled (\<lambda>_. True) d (io_bind (server_update opt s (empty_partial_server\<lparr>ps_channels := Some (server_channels s @ [ulid])\<rparr>) [])
      (\<lambda>s. io_then (publish (server_id s) (EvChannelCreate ?c)) (io_return (?c, s)))) ?Q"
    if "db_servers d = db_servers db" "map_of (db_channels d) ulid = Some ?c" for d
    by (rule handled_bind [OF handled_server_update [OF assms(1), where Q = "\<lambda>s' db'. ?Q (?c, s') db'"]])
       (use assms(2) that in \<open>auto simp: id derived map_of_hm_adjust intro!: handled_publish handled_returns\<close>)
  show ?thesis
  proof (cases "map_of (db_channels db) ulid")
    case None
    with False assms(2) id(1) show ?thesis
      unfolding create_server_channel_def
      by (auto simp: Let_def insert_channel_def hm_contains_def hm.get_insert
          intro!: handled_then_db update)
  next
    case (Some c)
    with False id(1) show ?thesis
      unfolding create_server_channel_def
      by (auto simp: Let_def insert_channel_def hm_contains_def intro!: handled_then_db)
  qed
qed

text \<open>A request to create a channel that succeeds appends the new channel to the server's list, stores both,
  and never overwrites a channel; the number of channels stays within one more than the configured limit, which is
  compared with the number before the channel is added.\<close>

lemma created_channels_are_bounded:
  assumes "derives (sv_structs E)" "db_wf (db_of pl)" "fetch_server (db_of pl) sid = Ok s"
    and "channel_create E V ulid u sid data pl = (Ok c, pl')"
  shows "fetch_channel (db_of pl') ulid = Ok c \<and> channel_server c = Some sid \<and> fetch_channel (db_of pl) ulid = Err NotFound
    \<and> (\<exists>s'. fetch_server (db_of pl') sid = Ok s' \<and> server_channels s' = server_channels s @ [ulid]
         \<and> length (server_channels s') \<le> lim_server_channels (sv_limits E) + 1)"
proof -
  have sid: "server_id s = sid" using assms(2,3) by (auto simp: db_wf_def table_ok_def fetch_server_def)
  then have stored: "map_of (db_servers (db_of pl)) (server_id s) = Some s" using assms(3) by (simp add: fetch_server_def)
  let ?Q = "\<lambda>c db'. length (server_channels s) \<le> lim_server_channels (sv_limits E) \<and> c = server_channel_of ulid s data
    \<and> map_of (db_servers db') sid = Some (s\<lparr>server_channels := server_channels s @ [ulid]\<rparr>)
    \<and> map_of (db_channels db') ulid = Some c \<and> map_of (db_channels (db_of pl)) ulid = None"
  have "from_db (\<lambda>_. True) (db_of pl) (channel_create E V ulid u sid data) ?Q"
    unfolding channel_create_def
    by (intro from_then_attempt from_bind_stored [OF assms(3)] from_bind_access from_prod TrueI
        from_bind [OF from_world [OF create_server_channel_result [OF assms(1) stored]]] from_returns)
       (auto simp: sid)
  from from_dbD [OF this assms(4)] sid show ?thesis
    by (auto simp: fetch_channel_def fetch_server_def ok_or_def server_channel_of_def channel_server_def)
qed

section \<open>An example\<close>

text \<open>A server with three roles: its administrators, its moderators, who may do everything, and a role below them.
  \<open>U\<close> is a moderator, \<open>X\<close> an administrator, \<open>V\<close> a muted member without roles.\<close>

definition club_role :: "string \<Rightarrow> i64 \<Rightarrow> i64 \<Rightarrow> role" where
  "club_role i rank granted = \<lparr>role_id = i, role_name = i, role_permissions = \<lparr>ov_a = granted, ov_d = 0\<rparr>, role_colour = None,
     role_hoist = False, role_rank = rank\<rparr>"

definition club :: server where
  "club = \<lparr>server_id = ''S'', server_owner = ''O'', server_name = ''s'', server_description = None, server_channels = [],
     server_categories = None, server_system_messages = None,
     server_roles = [(''A'', club_role ''A'' 0 0), (''M'', club_role ''M'' 1 (2 ^ 36 - 1)), (''L'', club_role ''L'' 2 0)],
     server_default_permissions = 0, server_icon = None, server_banner = None, server_flags = None, server_nsfw = False,
     server_analytics = False, server_discoverable = False\<rparr>"

definition club_member :: "string \<Rightarrow> string list \<Rightarrow> member" where
  "club_member i roles = (default_member 0)\<lparr>member_id := \<lparr>key_server = ''S'', key_user = i\<rparr>, member_roles := roles,
     member_can_publish := (i \<noteq> ''V'')\<rparr>"

definition club_user :: "string \<Rightarrow> user" where
  "club_user i = default_user\<lparr>user_id := i\<rparr>"

definition club_platform :: platform where
  "club_platform = \<lparr>pl_world = \<lparr>w_db = empty_db\<lparr>db_servers := [(''S'', club)], db_users := [(''V'', club_user ''V'')],
       db_server_members := map (\<lambda>(i, rs). (\<lparr>key_server = ''S'', key_user = i\<rparr>, club_member i rs))
         [(''U'', [''M'']), (''X'', [''A'']), (''V'', [])]\<rparr>,
       w_published = [], w_broker = [], w_tasks = []\<rparr>,
     pl_redis = \<lparr>rd_store = [], rd_faults = []\<rparr>, pl_livekit = []\<rparr>"

definition club_env :: server_env where
  "club_env = \<lparr>sv_voice = \<lparr>ve_nodes = [], ve_hosts = [], ve_answers = (\<lambda>_. True), ve_participants = (\<lambda>_ _. 0),
       ve_jwt = (\<lambda>_. None), ve_limits = (\<lambda>_. Panic), ve_now = 0, ve_unix_now = 0\<rparr>,
     sv_structs = derived_structs,
     sv_limits = \<lparr>lim_group_size = 100, lim_message_embeds = 5, lim_message_replies = 5, lim_message_reactions = 20,
       lim_server_emoji = 100, lim_server_roles = 200, lim_server_channels = 0, lim_new_user_hours = 72,
       lim_body_limit_size = 20000000\<rparr>\<rparr>"

lemmas club_defs = club_role_def club_def club_member_def default_member_def club_user_def default_user_def
  club_platform_def empty_db_def club_env_def

lemma club_stored:
  "derives (sv_structs club_env)" "fetch_server (db_of club_platform) ''S'' = Ok club" "fault_free club_platform"
  "store club_platform = []" "server_id club = ''S''" "server_owner club = ''O''" "server_channels club = []"
  "fetch_member (db_of club_platform) ''S'' ''U'' = Ok (club_member ''U'' [''M''])"
  "fetch_member (db_of club_platform) ''S'' ''X'' = Ok (club_member ''X'' [''A''])"
  "fetch_member (db_of club_platform) ''S'' ''V'' = Ok (club_member ''V'' [])"
  "fetch_member (db_of club_platform) ''S'' ''W'' = Err NotFound"
  "fetch_user (db_of club_platform) ''V'' = Ok (club_user ''V'')"
  "\<not> user_privileged (club_user i)" "user_id (club_user i) = i"
  by (simp_all add: club_defs derived_structs_derives fetch_server_def fetch_member_def fetch_user_def ok_or_def)

lemma club_ok: "db_wf (db_of club_platform)" "roles_ok club"
  by (auto simp: db_wf_def table_ok_def hm_wf_def roles_ok_def club_defs split: if_splits)

lemma club_rankings:
  "get_ranking (club_member ''U'' [''M'']) club = 1" "get_ranking (club_member ''X'' [''A'']) club = 0"
  "get_ranking (club_member ''V'' []) club = i64_max"
  by (simp_all add: get_ranking_def i64_max_def club_defs)

definition accept_all :: server_validators where
  "accept_all = \<lparr>va_create_role = (\<lambda>_. None), va_edit_role = (\<lambda>_. None), va_ban = (\<lambda>_. None), va_edit_member = (\<lambda>_. None),
     va_edit_server = (\<lambda>_. None), va_create_channel = (\<lambda>_. None)\<rparr>"

lemma club_member_simps [simp]:
  "member_roles (club_member i rs) = rs" "member_can_publish (club_member i rs) \<longleftrightarrow> i \<noteq> ''V''" "member_can_receive (club_member i rs)"
  "member_timeout (club_member i rs) = None" "member_id (club_member i rs) = \<lparr>key_server = ''S'', key_user = i\<rparr>"
  "i64_as_u64 (server_default_permissions club) = 0" "server_system_messages club = None"
  by (simp_all add: club_defs i64_as_u64_def)


theorem role_permissions_only_passed_on_witness:
  "\<exists>result pl' s'. set_role_permission club_env (club_user ''U'') ''S'' ''L'' \<lparr>allow = 1, deny = 0\<rparr> club_platform = (result, pl')
    \<and> fetch_server (db_of pl') ''S'' = Ok s' \<and> map_of (server_roles s') ''A'' = Some (club_role ''A'' 0 0)"
proof -
  obtain result pl' where run:
    "set_role_permission club_env (club_user ''U'') ''S'' ''L'' \<lparr>allow = 1, deny = 0\<rparr> club_platform = (result, pl')" by fastforce
  have "map_of (server_roles club) ''A'' = Some (club_role ''A'' 0 0)" by (simp add: club_def)
  with role_permissions_only_passed_on [OF club_stored(1) club_ok(1) club_stored(2) club_ok(2) run] run show ?thesis by auto
qed

lemma club_now [simp]: "sv_now club_env = 0"
  by (simp add: club_env_def)

text \<open>The calculated rights of the moderator and of the owner.\<close>

lemma club_rights:
  "server_rights club_env (db_of club_platform) (club_user ''U'') club
     = Some (68719476735, (query_in (db_of club_platform) (club_user ''U'') club)\<lparr>q_member := Some (club_member ''U'' [''M''])\<rparr>)"
  "server_rights club_env (db_of club_platform) (club_user ''O'') club
     = Some (channel_permission_value GrantAllSafe, query_in (db_of club_platform) (club_user ''O'') club)"
proof -
  have overrides: "server_role_overrides club [''M''] = [\<lparr>allow = 68719476735, deny = 0\<rparr>]"
    by (simp add: server_role_overrides_def sorted_overrides_def sort_desc_def field_to_override_def i64_as_u64_def club_defs)
  show "server_rights club_env (db_of club_platform) (club_user ''U'') club
     = Some (68719476735, (query_in (db_of club_platform) (club_user ''U'') club)\<lparr>q_member := Some (club_member ''U'' [''M''])\<rparr>)"
    using club_stored
    by (simp add: server_rights_def server_query_defs Let_def roles_of_def overrides default_server_permissions_def
        apply_all_def pv_apply_def pv_allow_def pv_revoke_def in_timeout_def)
  show "server_rights club_env (db_of club_platform) (club_user ''O'') club
     = Some (channel_permission_value GrantAllSafe, query_in (db_of club_platform) (club_user ''O'') club)"
    using club_stored by (simp add: server_rights_def server_query_defs Let_def)
qed

lemmas run_route = io_then_def io_bind_def io_read_def io_return_def io_fail_def read_database_def validated_def

lemma club_powers [simp]:
  "has_channel_permission 68719476735 BanMembers" "has_channel_permission 68719476735 KickMembers"
  "has_channel_permission 68719476735 ManageChannel" "has_channel_permission (channel_permission_value GrantAllSafe) ManageRole"
  by (simp_all add: has_channel_permission_def pv_has_def channel_permission_value.simps)

lemma club_outranks:
  "outranked (club_member ''V'' []) ((query_in (db_of club_platform) (club_user ''U'') club)\<lparr>q_member := Some (club_member ''U'' [''M''])\<rparr>)
     = Ok False"
  using club_rankings by (simp add: outranked_def server_ref_def rank_of_member_def get_member_rank_def query_in_def with_server_def
      i64_max_def)

lemma throw_has [simp]: "has_channel_permission p x \<Longrightarrow> throw_if_lacking_channel_permission p x = Ok ()"
  by simp

lemma club_roles:
  "map fst (server_roles club) = [''A'', ''M'', ''L'']" "length (server_roles club) = 3"
  "\<exists>roles. assign_ranks 0 [''M'', ''L'', ''A''] (server_roles club) = Ok roles"
  by (simp_all add: club_def hm_contains_def hm_adjust_def)

lemma idle_call: "fault_free pl \<Longrightarrow> store pl = [] \<Longrightarrow> leave_server_call E v sid pl = (Ok (), pl)"
  by (simp add: leave_server_call_def get_user_voice_channel_in_server_def io_then_def io_bind_def fault_free_ops io_return_def)

lemma club_removes:
  "\<exists>pl'. on_world (member_remove 0 i (club_member ''V'' []) club k False) club_platform = (Ok (), pl')
     \<and> fault_free pl' \<and> store pl' = [] \<and> db_server_bans (db_of pl') = []"
  by (simp add: member_remove_def run_route on_world_def on_db_def publish_def soft_delete_member_def in_timeout_def
      forget_joined_server_def fetch_bot_def ok_or_def club_platform_def empty_db_def)

theorem role_order_is_the_requested_witness:
  "\<exists>s' pl'. edit_role_ranks club_env (club_user ''O'') ''S'' [''M'', ''L'', ''A''] club_platform = (Ok s', pl')
    \<and> map fst (ordered_roles s') = [''M'', ''L'', ''A'']"
proof -
  obtain roles where roles: "assign_ranks 0 [''M'', ''L'', ''A''] (server_roles club) = Ok roles" using club_roles(3) by blast
  have "hm_contains (db_servers (db_of club_platform)) ''S''" by (simp add: club_platform_def hm_contains_def)
  moreover have "\<forall>(i, r)\<in>set (server_roles club). i \<in> {''M'', ''L'', ''A''}" by (simp add: club_def)
  ultimately have "\<exists>s' pl'. edit_role_ranks club_env (club_user ''O'') ''S'' [''M'', ''L'', ''A''] club_platform = (Ok s', pl')"
    using club_stored(2,5,6,7,14) club_roles(2) roles club_powers(4)
    by (simp add: edit_role_ranks_def sync_server_channels.simps run_route server_access_known [OF club_rights(2)] set_role_ordering_def on_world_def on_db_def
        update_server_def publish_def del: assign_ranks.simps)
  then show ?thesis
    using role_order_is_the_requested [OF club_stored(1) club_ok(1) club_stored(2) club_ok(2)] club_roles(2) by fastforce
qed

theorem bans_keep_out_witness:
  "\<exists>b pl'. ban club_env (\<lambda>_. None) ''I'' (club_user ''U'') ''S'' ''V'' None club_platform = (Ok b, pl')
    \<and> member_create 0 ''J'' club (club_user ''V'') None pl' = (Err Banned, pl')"
proof -
  obtain pl1 where pl1: "on_world (member_remove 0 ''I'' (club_member ''V'' []) club Ban False) club_platform = (Ok (), pl1)"
    "fault_free pl1" "store pl1 = []" "db_server_bans (db_of pl1) = []" using club_removes by blast
  have banned: "\<exists>b pl'. on_world (server_ban_create club ''V'' None) pl1 = (Ok b, pl')"
    using pl1(4) by (simp add: server_ban_create_def run_route insert_ban_def on_world_def on_db_def hm_contains_def Let_def)
  have "\<exists>b pl'. ban club_env (\<lambda>_. None) ''I'' (club_user ''U'') ''S'' ''V'' None club_platform = (Ok b, pl')"
    using club_stored(2,5,6,10,14) club_outranks pl1 banned
    by (simp add: ban_def run_route server_access_known [OF club_rights(1)] club_now idle_call)
  then obtain b pl' where run: "ban club_env (\<lambda>_. None) ''I'' (club_user ''U'') ''S'' ''V'' None club_platform = (Ok b, pl')"
    by blast
  from bans_keep_out [OF club_ok(1) club_stored(2) this] club_stored(14)
  have "member_create 0 ''J'' club (club_user ''V'') None pl' = (Err Banned, pl')" by blast
  with run show ?thesis by blast
qed

theorem anyone_lifts_mutes_witness:
  "\<exists>result pl'. member_edit club_env (\<lambda>_. None) (club_user ''W'') ''S'' ''V'' lift_mute club_platform = (result, pl')
    \<and> fetch_member (db_of pl') ''S'' ''V'' = Ok ((club_member ''V'' [])\<lparr>member_can_publish := True\<rparr>)"
proof -
  obtain result pl' where run: "member_edit club_env (\<lambda>_. None) (club_user ''W'') ''S'' ''V'' lift_mute club_platform = (result, pl')"
    by fastforce
  have "i64_min < get_ranking (club_member ''V'' []) club" "ordinary (club_user ''W'') club"
    using club_stored by (simp_all add: club_rankings i64_min_def i64_max_def ordinary_def)
  from anyone_lifts_mutes [OF club_stored(1) club_ok(1) club_stored(2,12,10) this _ _ run] club_stored run show ?thesis by simp
qed

theorem anyone_sets_discoverable_witness:
  "\<exists>pl'. server_edit club_env (\<lambda>_. None) (club_user ''W'') ''S'' \<lparr>des_name = None, des_description = None, des_icon = None,
       des_banner = None, des_categories = None, des_system_messages = None, des_flags = None, des_discoverable = Some True,
       des_analytics = None, des_remove = []\<rparr> club_platform = (Ok (club\<lparr>server_discoverable := True\<rparr>), pl')"
  using anyone_sets_discoverable [OF club_stored(1) club_ok(1) club_stored(2), of "\<lparr>des_name = None, des_description = None,
      des_icon = None, des_banner = None, des_categories = None, des_system_messages = None, des_flags = None,
      des_discoverable = Some True, des_analytics = None, des_remove = []\<rparr>" True "\<lambda>_. None" "club_user ''W''"] by auto

lemma kicked_members_stay_in_calls_example:
  "\<exists>pl'. kick club_env ''I'' (club_user ''U'') ''S'' ''V'' club_platform = (Ok (), pl') \<and> store pl' = store club_platform"
proof -
  obtain pl1 where pl1: "on_world (member_remove 0 ''I'' (club_member ''V'' []) club Kick False) club_platform = (Ok (), pl1)"
    "fault_free pl1" "store pl1 = []" using club_removes by blast
  then have run: "kick club_env ''I'' (club_user ''U'') ''S'' ''V'' club_platform = (Ok (), pl1)"
    using club_stored(2,5,6,10,14) club_outranks
    by (simp add: kick_def run_route server_access_known [OF club_rights(1)] club_now idle_call)
  with kicked_members_stay_in_calls [OF club_ok(1) club_stored(3) _ club_stored(2) run] club_stored(4) show ?thesis by simp
qed

lemma created_channels_are_bounded_example:
  "\<exists>c pl' s'. channel_create club_env (\<lambda>_. None) ''C'' (club_user ''U'') ''S'' \<lparr>dcsc_channel_type = LegacyText, dcsc_name = ''c'',
       dcsc_description = None, dcsc_nsfw = None, dcsc_voice = None\<rparr> club_platform = (Ok c, pl')
     \<and> fetch_server (db_of pl') ''S'' = Ok s' \<and> server_channels s' = [''C''] \<and> lim_server_channels (sv_limits club_env) = 0"
proof -
  let ?data = "\<lparr>dcsc_channel_type = LegacyText, dcsc_name = ''c'', dcsc_description = None, dcsc_nsfw = None, dcsc_voice = None\<rparr>"
  let ?channels = "empty_partial_server\<lparr>ps_channels := Some [''C'']\<rparr>"
  have "server_id (apply_server (sv_structs club_env) ?channels club) = ''S''" "lim_server_channels (sv_limits club_env) = 0"
    using club_stored(1) by (simp_all add: club_env_def derived_structs_def derived_server_def empty_partial_server_def club_stored(5))
  moreover have "hm_contains (db_servers (db_of club_platform)) ''S''" "db_channels (db_of club_platform) = []"
    by (simp_all add: club_platform_def hm_contains_def empty_db_def)
  ultimately have "\<exists>c pl'. channel_create club_env (\<lambda>_. None) ''C'' (club_user ''U'') ''S'' ?data club_platform = (Ok c, pl')"
    using club_stored(2,5,7) club_powers(3)
    by (simp add: channel_create_def run_route server_access_known [OF club_rights(1)] create_server_channel_def on_world_def
        on_db_def insert_channel_def hm_contains_def server_update_def update_server_def publish_def Let_def)
  then obtain c pl' where run: "channel_create club_env (\<lambda>_. None) ''C'' (club_user ''U'') ''S'' ?data club_platform = (Ok c, pl')"
    by blast
  from created_channels_are_bounded [OF club_stored(1) club_ok(1) club_stored(2) run] club_stored(7)
  have "\<exists>s'. fetch_server (db_of pl') ''S'' = Ok s' \<and> server_channels s' = [''C'']" by auto
  with run show ?thesis by (simp add: club_env_def)
qed

end
