(* ===== verification/Channel_Drivers.thy ===== *)
theory Channel_Drivers
  imports World
begin

text \<open>
  The trait \<open>AbstractChannels\<close> (\<open>crates/core/database/src/models/channels/ops\<close>) as a record of the
  operations the handlers of channels call, and its two implementations: the reference driver and the driver
  for MongoDB.

  The collections of MongoDB hold the same values as the tables of the reference driver, so both work on one
  record of tables; the collections of invites and webhooks have no table and are left out. The operators
  mean what the manual of the server says: \<open>update_one\<close> with a filter on \<open>_id\<close> changes at most that
  document and succeeds when there is none; \<open>$push\<close> appends, \<open>$pull\<close> removes every equal element; \<open>$set\<close>
  and \<open>$unset\<close> of the same path is refused; a field that the kind of channel does not have is not read
  back.
\<close>

record channel_driver =
  cd_insert :: "channel \<Rightarrow> unit db_op"
  cd_find_direct_message_channel :: "reference_db \<Rightarrow> string \<Rightarrow> string \<Rightarrow> channel result"
  cd_add_user_to_group :: "string \<Rightarrow> string \<Rightarrow> unit db_op"
  cd_set_channel_role_permission :: "string \<Rightarrow> string \<Rightarrow> override_field \<Rightarrow> unit db_op"
  cd_update :: "string \<Rightarrow> partial_channel \<Rightarrow> fields_channel list \<Rightarrow> unit db_op"
  cd_remove_user_from_group :: "string \<Rightarrow> string \<Rightarrow> unit db_op"
  cd_delete :: "channel \<Rightarrow> unit db_op"

definition reference_channels :: channel_driver where
  "reference_channels = \<lparr>cd_insert = insert_channel, cd_find_direct_message_channel = find_direct_message_channel,
     cd_add_user_to_group = db_add_user_to_group, cd_set_channel_role_permission = set_channel_role_permission,
     cd_update = update_channel, cd_remove_user_from_group = db_remove_user_from_group, cd_delete = delete_channel\<rparr>"

section \<open>MongoDB\<close>

definition mongo_insert_channel :: "channel \<Rightarrow> unit db_op" where
  "mongo_insert_channel c db =
     (if hm_contains (db_channels db) (channel_id c) then (Err (DatabaseError ''insert_one'' ''channels''), db)
      else (Ok (), db\<lparr>db_channels := AList.update (channel_id c) c (db_channels db)\<rparr>))"

definition between_users :: "string \<Rightarrow> string \<Rightarrow> channel \<Rightarrow> bool" where
  "between_users a b c =
     (if a = b then (case c of SavedMessages s \<Rightarrow> saved_user s = a | _ \<Rightarrow> False)
      else (case c of DirectMessage d \<Rightarrow> {a, b} \<subseteq> set (dm_recipients d) | _ \<Rightarrow> False))"

definition mongo_find_direct_message_channel :: "reference_db \<Rightarrow> string \<Rightarrow> string \<Rightarrow> channel result" where
  "mongo_find_direct_message_channel db a b = ok_or (List.find (between_users a b) (hm_values (db_channels db))) NotFound"

definition with_recipients :: "(string list \<Rightarrow> string list) \<Rightarrow> channel \<Rightarrow> channel" where
  "with_recipients f c = (case c of
     DirectMessage d \<Rightarrow> DirectMessage (d\<lparr>dm_recipients := f (dm_recipients d)\<rparr>)
   | Group g \<Rightarrow> Group (g\<lparr>group_recipients := f (group_recipients g)\<rparr>)
   | _ \<Rightarrow> c)"

definition mongo_add_user_to_group :: "string \<Rightarrow> string \<Rightarrow> unit db_op" where
  "mongo_add_user_to_group cid uid db =
     (Ok (), db\<lparr>db_channels := hm_adjust cid (with_recipients (\<lambda>us. us @ [uid])) (db_channels db)\<rparr>)"

definition mongo_set_channel_role_permission :: "string \<Rightarrow> string \<Rightarrow> override_field \<Rightarrow> unit db_op" where
  "mongo_set_channel_role_permission cid rid permissions db =
     (Ok (), db\<lparr>db_channels := hm_adjust cid (\<lambda>c. case c of
          TextChannel t \<Rightarrow> TextChannel (t\<lparr>text_role_permissions := AList.update rid permissions (text_role_permissions t)\<rparr>)
        | _ \<Rightarrow> c) (db_channels db)\<rparr>)"

primrec sets_field :: "partial_channel \<Rightarrow> fields_channel \<Rightarrow> bool" where
  "sets_field p ChannelField_Description = (pc_description p \<noteq> None)"
| "sets_field p ChannelField_Icon = (pc_icon p \<noteq> None)"
| "sets_field p ChannelField_DefaultPermissions = (pc_default_permissions p \<noteq> None)"
| "sets_field p ChannelField_Voice = (pc_voice p \<noteq> None)"

definition mongo_update_channel :: "string \<Rightarrow> partial_channel \<Rightarrow> fields_channel list \<Rightarrow> unit db_op" where
  "mongo_update_channel i partial remove db =
     (if list_ex (sets_field partial) remove then (Err (DatabaseError ''update_one_by_id'' ''channels''), db)
      else (Ok (), db\<lparr>db_channels :=
        hm_adjust i (\<lambda>c. channel_remove_fields remove (channel_apply_options c partial)) (db_channels db)\<rparr>))"

definition mongo_remove_user_from_group :: "string \<Rightarrow> string \<Rightarrow> unit db_op" where
  "mongo_remove_user_from_group cid uid db =
     (Ok (), db\<lparr>db_channels := hm_adjust cid (with_recipients (removeAll uid)) (db_channels db)\<rparr>)"

text \<open>Deleting a channel takes its unread markers, its messages and the references of its server with it and marks
  the files that belong to it. The files of the messages are looked for under \<open>message_id\<close>.\<close>

definition delete_files :: "(stored_file \<Rightarrow> bool) \<Rightarrow> reference_db \<Rightarrow> reference_db" where
  "delete_files P db = db\<lparr>db_files := map (\<lambda>(i, f). (i, if P f then f\<lparr>file_deleted := Some True\<rparr> else f)) (db_files db)\<rparr>"

definition delete_bulk_messages :: "(message \<Rightarrow> bool) \<Rightarrow> reference_db \<Rightarrow> reference_db" where
  "delete_bulk_messages P db =
     (let ids = [msg_id m. m \<leftarrow> hm_values (db_messages db), P m \<and> msg_attachments m \<noteq> None];
          db = delete_files (\<lambda>f. \<exists>i\<in>set ids. file_message_id f = Some i) db
      in db\<lparr>db_messages := hm_retain (\<lambda>_ m. \<not> P m) (db_messages db)\<rparr>)"

definition unless_channel :: "string \<Rightarrow> string option \<Rightarrow> string option" where
  "unless_channel i x = (if x = Some i then None else x)"

definition forget_channel :: "string \<Rightarrow> server \<Rightarrow> server" where
  "forget_channel i s = s\<lparr>server_channels := removeAll i (server_channels s),
     server_system_messages := map_option (\<lambda>m. \<lparr>smc_user_joined = unless_channel i (smc_user_joined m),
       smc_user_left = unless_channel i (smc_user_left m), smc_user_kicked = unless_channel i (smc_user_kicked m),
       smc_user_banned = unless_channel i (smc_user_banned m)\<rparr>) (server_system_messages s)\<rparr>"

definition delete_channel_document :: "string \<Rightarrow> unit db_op" where
  "delete_channel_document i db =
     (let db = delete_files (\<lambda>f. case file_used_for f of Some x \<Rightarrow> used_id x = i | None \<Rightarrow> False) db
      in (Ok (), db\<lparr>db_channels := AList.delete i (db_channels db)\<rparr>))"

definition mongo_delete_channel :: "channel \<Rightarrow> unit db_op" where
  "mongo_delete_channel c db =
     (let i = channel_id c;
          db = db\<lparr>db_channel_unreads := hm_retain (\<lambda>k _. ckey_channel k \<noteq> i) (db_channel_unreads db)\<rparr>;
          db = delete_bulk_messages (\<lambda>m. msg_channel m = i) db
      in case c of
           TextChannel t \<Rightarrow> (case fetch_server db (text_server t) of
               Ok s \<Rightarrow> delete_channel_document i (db\<lparr>db_servers := hm_adjust (server_id s) (forget_channel i) (db_servers db)\<rparr>)
             | Err e \<Rightarrow> (Err e, db)
             | Panic \<Rightarrow> (Panic, db))
         | _ \<Rightarrow> delete_channel_document i db)"

definition mongodb_channels :: channel_driver where
  "mongodb_channels = \<lparr>cd_insert = mongo_insert_channel,
     cd_find_direct_message_channel = mongo_find_direct_message_channel,
     cd_add_user_to_group = mongo_add_user_to_group,
     cd_set_channel_role_permission = mongo_set_channel_role_permission, cd_update = mongo_update_channel,
     cd_remove_user_from_group = mongo_remove_user_from_group, cd_delete = mongo_delete_channel\<rparr>"

end
