(* ===== verification/Channels.thy ===== *)
theory Channels
  imports Servers Channel_Drivers
begin

text \<open>
  The handlers of \<open>crates/core/database/src/models/channels/model.rs\<close> for groups, direct messages and
  channels in general, over either driver. Identifiers that a handler draws are arguments. A set in a request is
  a list whose order stands for the order in which it is iterated.
\<close>

record data_create_group =
  dcg_name :: string
  dcg_description :: "string option"
  dcg_icon :: "string option"
  dcg_users :: "string list"
  dcg_nsfw :: "bool option"

section \<open>Creation\<close>

definition created_recipients :: "data_create_group \<Rightarrow> string \<Rightarrow> string list" where
  "created_recipients data owner = remdups (dcg_users data @ [owner])"

definition created_group :: "string \<Rightarrow> data_create_group \<Rightarrow> string \<Rightarrow> stored_file option \<Rightarrow> channel" where
  "created_group ulid data owner icon = Group \<lparr>group_id = ulid, group_name = dcg_name data, group_owner = owner,
     group_description = dcg_description data, group_recipients = created_recipients data owner, group_icon = icon,
     group_last_message_id = None, group_permissions = None, group_moderators = [],
     group_nsfw = over (dcg_nsfw data) False, group_encrypted = False\<rparr>"

definition create_group :: "channel_driver \<Rightarrow> global_limits \<Rightarrow> string \<Rightarrow> data_create_group \<Rightarrow> string \<Rightarrow> channel handler" where
  "create_group D lim ulid data owner =
     (if length (created_recipients data owner) > lim_group_size lim then io_fail (GroupTooLarge (lim_group_size lim))
      else io_bind (case dcg_icon data of
          Some i \<Rightarrow> io_bind (use_channel_icon i ulid owner) (\<lambda>f. io_return (Some f))
        | None \<Rightarrow> io_return None) (\<lambda>icon.
      let c = created_group ulid data owner icon in
        io_then (on_db (cd_insert D c))
        (io_then (publish_all (map (\<lambda>r. (r @ ''!'', EvChannelCreate c)) (created_recipients data owner)))
          (io_return c))))"

definition created_dm :: "string \<Rightarrow> user \<Rightarrow> user \<Rightarrow> channel" where
  "created_dm ulid a b =
     (if user_id a = user_id b then SavedMessages \<lparr>saved_id = ulid, saved_user = user_id a\<rparr>
      else DirectMessage \<lparr>dm_id = ulid, dm_active = True, dm_recipients = [user_id a, user_id b], dm_last_message_id = None\<rparr>)"

definition create_dm :: "channel_driver \<Rightarrow> string \<Rightarrow> user \<Rightarrow> user \<Rightarrow> channel handler" where
  "create_dm D ulid a b w =
     (case cd_find_direct_message_channel D (w_db w) (user_id a) (user_id b) of
        Ok c \<Rightarrow> (Ok c, w)
      | _ \<Rightarrow> let c = created_dm ulid a b in
          io_then (on_db (cd_insert D c))
          (io_then (if is_direct_dm c
             then io_then (publish_private (user_id a) (EvChannelCreate c)) (publish_private (user_id b) (EvChannelCreate c))
             else io_return ())
            (io_return c)) w)"

section \<open>Changes\<close>

definition channel_set_role_permission :: "channel_driver \<Rightarrow> channel \<Rightarrow> string \<Rightarrow> override_field \<Rightarrow> channel handler" where
  "channel_set_role_permission D c rid permissions =
     (case c of
        TextChannel t \<Rightarrow>
          let roles = AList.update rid permissions (text_role_permissions t) in
          io_then (on_db (cd_set_channel_role_permission D (text_id t) rid permissions))
          (io_then (publish (text_server t)
             (EvChannelUpdate (text_id t) (empty_partial_channel\<lparr>pc_role_permissions := Some roles\<rparr>) []))
            (io_return (TextChannel (t\<lparr>text_role_permissions := roles\<rparr>))))
      | _ \<Rightarrow> io_fail InvalidOperation)"

definition channel_update ::
  "channel_driver \<Rightarrow> channel \<Rightarrow> partial_channel \<Rightarrow> fields_channel list \<Rightarrow> channel handler" where
  "channel_update D c partial remove =
     (let c' = channel_apply_options (channel_remove_fields remove c) partial; i = channel_id c'
      in io_then (on_db (cd_update D i partial remove))
        (io_then (publish (case c' of TextChannel t \<Rightarrow> text_server t | _ \<Rightarrow> i) (EvChannelUpdate i partial remove))
          (io_return c')))"

definition channel_ack :: "channel \<Rightarrow> string \<Rightarrow> string \<Rightarrow> unit handler" where
  "channel_ack c uid mid =
     io_then (publish_private uid (EvChannelAck (channel_id c) uid mid)) (queue_task (QueueAckMessage (channel_id c) uid mid))"

definition channel_delete :: "channel_driver \<Rightarrow> channel \<Rightarrow> unit handler" where
  "channel_delete D c = io_then (publish (channel_id c) (EvChannelDelete (channel_id c))) (on_db (cd_delete D c))"

section \<open>Members of groups\<close>

definition add_user_to_group ::
  "channel_driver \<Rightarrow> global_limits \<Rightarrow> string \<Rightarrow> channel \<Rightarrow> user \<Rightarrow> string \<Rightarrow> channel handler" where
  "add_user_to_group D lim ulid c u by_id =
     (case c of
        Group g \<Rightarrow>
          if user_id u \<in> set (group_recipients g) then io_fail AlreadyInGroup
          else if length (group_recipients g) \<ge> lim_group_size lim then io_fail (GroupTooLarge (lim_group_size lim))
          else let c' = Group (g\<lparr>group_recipients := group_recipients g @ [user_id u]\<rparr>) in
            io_then (on_db (cd_add_user_to_group D (group_id g) (user_id u)))
            (io_then (publish (group_id g) (EvChannelGroupJoin (group_id g) (user_id u)))
            (io_then (io_discard (send (into_message ulid (SysUserAdded (user_id u) by_id) (group_id g)) c'))
            (io_then (publish_private (user_id u) (EvChannelCreate c')) (io_return c'))))
      | _ \<Rightarrow> io_fail InvalidOperation)"

text \<open>The ownership passes to another recipient first; the last one to leave deletes the group.\<close>

definition hand_over_group :: "channel_driver \<Rightarrow> string \<Rightarrow> group_channel \<Rightarrow> string \<Rightarrow> unit handler" where
  "hand_over_group D ulid g new_owner =
     io_then (on_db (cd_update D (group_id g) (empty_partial_channel\<lparr>pc_owner := Some new_owner\<rparr>) []))
       (io_discard (send (into_message ulid (SysChannelOwnershipChanged (group_owner g) new_owner) (group_id g)) (Group g)))"

definition leave_group ::
  "channel_driver \<Rightarrow> string \<Rightarrow> group_channel \<Rightarrow> string \<Rightarrow> string option \<Rightarrow> bool \<Rightarrow> unit handler" where
  "leave_group D ulid g uid by_id silent =
     io_then (if uid \<in> set (group_moderators g)
        then on_db (cd_update D (group_id g)
          (empty_partial_channel\<lparr>pc_moderators := Some (filter (\<lambda>m. m \<noteq> uid) (group_moderators g))\<rparr>) [])
        else io_return ())
     (io_then (on_db (cd_remove_user_from_group D (group_id g) uid))
     (io_then (publish (group_id g) (EvChannelGroupLeave (group_id g) uid))
       (if silent then io_return ()
        else io_discard (send (into_message ulid
          (case by_id of Some by_id \<Rightarrow> SysUserRemove uid by_id | None \<Rightarrow> SysUserLeft uid) (group_id g)) (Group g)))))"

definition remove_user_from_group ::
  "channel_driver \<Rightarrow> string \<times> string \<Rightarrow> channel \<Rightarrow> user \<Rightarrow> string option \<Rightarrow> bool \<Rightarrow> unit handler" where
  "remove_user_from_group D ulids c u by_id silent =
     (case c of
        Group g \<Rightarrow>
          if user_id u = group_owner g
          then (case List.find (\<lambda>x. x \<noteq> user_id u) (group_recipients g) of
              Some new_owner \<Rightarrow> io_then (hand_over_group D (fst ulids) g new_owner)
                (leave_group D (snd ulids) g (user_id u) by_id silent)
            | None \<Rightarrow> channel_delete D c)
          else leave_group D (snd ulids) g (user_id u) by_id silent
      | _ \<Rightarrow> io_fail InvalidOperation)"

end
