(* ===== verification/Channel_Routes.thy ===== *)
theory Channel_Routes
  imports Channels Server_Routes
begin

text \<open>
  The routes of \<open>crates/delta/src/routes/channels\<close> that change a channel, and \<open>open_dm\<close> of the routes of
  users: groups and their members, direct messages, settings, permissions and removal.
\<close>

section \<open>Requests\<close>

record data_edit_channel =
  dec_name :: "string option"
  dec_description :: "string option"
  dec_owner :: "string option"
  dec_icon :: "string option"
  dec_nsfw :: "bool option"
  dec_archived :: "bool option"
  dec_voice :: "voice_information option"
  dec_add_moderators :: "string list option"
  dec_remove_moderators :: "string list option"
  dec_remove :: "fields_channel list"

datatype data_default_channel_permissions =
    DefaultValue u64
  | DefaultField override

definition channel_query :: "user \<Rightarrow> channel \<Rightarrow> platform \<Rightarrow> db_permission_query" where
  "channel_query u c pl = with_channel c (voice_query pl u)"

text \<open>\<open>calculate_channel_permissions\<close>, giving the query as the calculation leaves it.\<close>

definition channel_access ::
  "server_env \<Rightarrow> (platform \<Rightarrow> db_permission_query) \<Rightarrow> (permission_value \<times> db_permission_query) voice" where
  "channel_access E query pl = (case calculate_channel_permissions (db_query (sv_now E)) (query pl) of
     Some x \<Rightarrow> (Ok x, pl) | None \<Rightarrow> (Panic, pl))"

section \<open>Groups\<close>

definition create_group_route :: "server_env \<Rightarrow> channel_driver \<Rightarrow> (data_create_group \<Rightarrow> string option) \<Rightarrow> string
    \<Rightarrow> user \<Rightarrow> data_create_group \<Rightarrow> channel voice" where
  "create_group_route E D validate ulid u data =
     (if user_bot u \<noteq> None then io_fail IsBot
      else io_then (attempt (validated (validate data)))
        (if \<exists>t\<in>set (dcg_users data). relationship_with u t \<notin> {Rel_Friend, Rel_User} then io_fail NotFriends
         else on_world (create_group D (sv_limits E) ulid data (user_id u))))"

definition add_member :: "server_env \<Rightarrow> channel_driver \<Rightarrow> string \<Rightarrow> user \<Rightarrow> string \<Rightarrow> string \<Rightarrow> unit voice" where
  "add_member E D ulid u gid mid =
     (if user_bot u \<noteq> None then io_fail IsBot
      else io_bind (read_database (\<lambda>db. fetch_channel db gid)) (\<lambda>c.
        io_bind (channel_access E (channel_query u c)) (\<lambda>(p, q).
        io_then (needs p InviteOthers)
          (case c of
             Group g \<Rightarrow> io_bind (read_database (\<lambda>db. fetch_user db mid)) (\<lambda>m.
               if \<not> is_friends_with u (user_id m) then io_fail NotFriends
               else io_then (on_world (add_user_to_group D (sv_limits E) ulid c m (user_id u))) (io_return ()))
           | _ \<Rightarrow> io_fail InvalidOperation))))"

text \<open>\<open>remove_user_from_voice_channel\<close> for those who are in the call of the group.\<close>

definition leave_group_call :: "server_env \<Rightarrow> string \<Rightarrow> string \<Rightarrow> unit voice" where
  "leave_group_call E uid cid = io_bind (is_in_voice_channel uid cid) (\<lambda>yes.
     if yes then remove_user_from_voice_channel (sv_voice E) cid uid else io_return ())"

definition may_remove_member :: "user \<Rightarrow> group_channel \<Rightarrow> user \<Rightarrow> unit result" where
  "may_remove_member u g m =
     (let is_owner = (user_id u = group_owner g); is_moderator = (user_id u \<in> set (group_moderators g)) in
      if user_id u = user_id m then Err CannotRemoveYourself
      else if user_id m \<notin> set (group_recipients g) then Err NotInGroup
      else if is_moderator \<and> \<not> is_owner \<and> (user_id m = group_owner g \<or> user_id m \<in> set (group_moderators g))
      then Err (MissingPermission ''ManageChannel'')
      else Ok ())"

definition remove_member ::
  "server_env \<Rightarrow> channel_driver \<Rightarrow> string \<times> string \<Rightarrow> user \<Rightarrow> string \<Rightarrow> string \<Rightarrow> unit voice" where
  "remove_member E D ulids u target member =
     (if user_bot u \<noteq> None then io_fail IsBot
      else io_bind (read_database (\<lambda>db. fetch_channel db target)) (\<lambda>c.
        case c of
          Group g \<Rightarrow>
            if user_id u \<noteq> group_owner g \<and> user_id u \<notin> set (group_moderators g)
            then io_fail (MissingPermission ''ManageChannel'')
            else io_bind (read_database (\<lambda>db. fetch_user db member)) (\<lambda>m.
              io_then (attempt (may_remove_member u g m))
              (io_then (on_world (remove_user_from_group D ulids c m (Some (user_id u)) False))
                (leave_group_call E member (channel_id c))))
        | _ \<Rightarrow> io_fail InvalidOperation))"

section \<open>Direct messages and reading\<close>

definition user_access :: "server_env \<Rightarrow> (platform \<Rightarrow> db_permission_query) \<Rightarrow> permission_value voice" where
  "user_access E query pl = (case calculate_user_permissions (db_query (sv_now E)) (query pl) of
     Some (p, q) \<Rightarrow> (Ok p, pl) | None \<Rightarrow> (Panic, pl))"

definition open_dm :: "server_env \<Rightarrow> channel_driver \<Rightarrow> string \<Rightarrow> user \<Rightarrow> string \<Rightarrow> channel voice" where
  "open_dm E D ulid u target =
     io_bind (read_database (\<lambda>db. fetch_user db target)) (\<lambda>t.
     io_bind (user_access E (\<lambda>pl. with_user t (voice_query pl u))) (\<lambda>p.
     io_then (attempt (throw_if_lacking_user_permission p UserSendMessage))
       (on_world (create_dm D ulid u t))))"

definition ack :: "server_env \<Rightarrow> user \<Rightarrow> string \<Rightarrow> string \<Rightarrow> unit voice" where
  "ack E u target message =
     (if user_bot u \<noteq> None then io_fail IsBot
      else io_bind (read_database (\<lambda>db. fetch_channel db target)) (\<lambda>c.
        io_bind (channel_access E (channel_query u c)) (\<lambda>(p, q).
        io_then (needs p ViewChannel) (on_world (channel_ack c (user_id u) message)))))"

section \<open>Permissions\<close>

text \<open>The new value is compared with the permissions of the role on the server.\<close>

definition set_role_permissions :: "server_env \<Rightarrow> channel_driver \<Rightarrow> user \<Rightarrow> string \<Rightarrow> string \<Rightarrow> override \<Rightarrow> channel voice" where
  "set_role_permissions E D u target rid permissions =
     io_bind (read_database (\<lambda>db. fetch_channel db target)) (\<lambda>c.
     io_bind (channel_access E (channel_query u c)) (\<lambda>(p, q).
     io_then (needs p ManagePermissions)
       (case q_server q of
          None \<Rightarrow> io_fail InvalidOperation
        | Some s \<Rightarrow> (case map_of (server_roles s) rid of
            None \<Rightarrow> io_fail NotFound
          | Some r \<Rightarrow> io_bind (attempt (rank_of_member q)) (\<lambda>member_rank.
              if role_rank r \<le> member_rank then io_fail NotElevated
              else io_then (attempt (throw_permission_override p (Some (field_to_override (role_permissions r))) permissions))
                (io_bind (on_world (channel_set_role_permission D c rid (override_to_field permissions))) (\<lambda>c.
                 io_then (sync_voice_permissions (sv_voice E) c (Some s) (Some rid)) (io_return c))))))))"

definition default_permissions_update ::
  "permission_value \<Rightarrow> channel \<Rightarrow> data_default_channel_permissions \<Rightarrow> partial_channel result" where
  "default_permissions_update p c data =
     (case c of
        Group g \<Rightarrow> (case data of
            DefaultValue v \<Rightarrow> Ok (empty_partial_channel\<lparr>pc_permissions := Some (u64_as_i64 v)\<rparr>)
          | DefaultField field \<Rightarrow> Err InvalidOperation)
      | TextChannel t \<Rightarrow> (case data of
            DefaultField field \<Rightarrow>
              res_bind (throw_permission_override p (map_option field_to_override (text_default_permissions t)) field) (\<lambda>_.
                Ok (empty_partial_channel\<lparr>pc_default_permissions := Some (override_to_field field)\<rparr>))
          | DefaultValue v \<Rightarrow> Err InvalidOperation)
      | _ \<Rightarrow> Err InvalidOperation)"

definition set_default_channel_permissions ::
  "server_env \<Rightarrow> channel_driver \<Rightarrow> user \<Rightarrow> string \<Rightarrow> data_default_channel_permissions \<Rightarrow> channel voice" where
  "set_default_channel_permissions E D u target data =
     io_bind (read_database (\<lambda>db. fetch_channel db target)) (\<lambda>c.
     io_bind (channel_access E (channel_query u c)) (\<lambda>(p, q).
     io_then (needs p ManagePermissions)
     (io_bind (attempt (default_permissions_update p c data)) (\<lambda>partial.
      io_bind (on_world (channel_update D c partial [])) (\<lambda>c.
      io_bind (case channel_server c of
          Some sid \<Rightarrow> io_bind (read_database (\<lambda>db. fetch_server db sid)) (\<lambda>s. io_return (Some s))
        | None \<Rightarrow> io_return None) (\<lambda>s.
      io_then (sync_voice_permissions (sv_voice E) c s None) (io_return c)))))))"

section \<open>Removal\<close>

definition channel_delete_route ::
  "server_env \<Rightarrow> channel_driver \<Rightarrow> string \<times> string \<Rightarrow> user \<Rightarrow> string \<Rightarrow> bool option \<Rightarrow> unit voice" where
  "channel_delete_route E D ulids u target leave_silently =
     io_bind (read_database (\<lambda>db. fetch_channel db target)) (\<lambda>c.
     io_bind (channel_access E (channel_query u c)) (\<lambda>(p, q).
     io_then (needs p ViewChannel)
       (case c of
          SavedMessages _ \<Rightarrow> io_fail NoEffect
        | DirectMessage _ \<Rightarrow> io_then (on_world (channel_update D c (empty_partial_channel\<lparr>pc_active := Some False\<rparr>) [])) (io_return ())
        | Group _ \<Rightarrow> io_then (on_world (remove_user_from_group D ulids c u None (over leave_silently False)))
            (leave_group_call E (user_id u) (channel_id c))
        | TextChannel _ \<Rightarrow> io_then (needs p ManageChannel)
            (io_then (on_world (channel_delete D c))
              (delete_voice_channel (sv_voice E) (channel_id c) (channel_server c))))))"

section \<open>Editing a channel\<close>

definition group_editor :: "user \<Rightarrow> channel \<Rightarrow> bool" where
  "group_editor u c = (case c of Group g \<Rightarrow> user_id u = group_owner g \<or> user_id u \<in> set (group_moderators g) | _ \<Rightarrow> False)"

definition changes_moderators :: "data_edit_channel \<Rightarrow> bool" where
  "changes_moderators d \<longleftrightarrow> dec_add_moderators d \<noteq> None \<or> dec_remove_moderators d \<noteq> None"

definition edit_channel_unchanged :: "data_edit_channel \<Rightarrow> bool" where
  "edit_channel_unchanged d \<longleftrightarrow> dec_name d = None \<and> dec_description d = None \<and> dec_icon d = None \<and> dec_nsfw d = None
     \<and> dec_owner d = None \<and> dec_voice d = None \<and> \<not> changes_moderators d \<and> dec_remove d = []"

text \<open>The new owner is announced at once; the owner the following checks look at is the new one.\<close>

definition transfer_group :: "string \<Rightarrow> user \<Rightarrow> string option \<Rightarrow> channel \<Rightarrow> channel handler" where
  "transfer_group ulid u new_owner c =
     (case new_owner of
        None \<Rightarrow> io_return c
      | Some v \<Rightarrow> (case c of
          Group g \<Rightarrow>
            if group_owner g \<noteq> user_id u then io_fail NotOwner
            else if v \<notin> set (group_recipients g) then io_fail NotInGroup
            else let c' = Group (g\<lparr>group_owner := v\<rparr>) in
              io_then (io_discard (send (into_message ulid (SysChannelOwnershipChanged (group_owner g) v) (group_id g)) c'))
                (io_return c')
        | _ \<Rightarrow> io_fail InvalidOperation))"

fun add_moderators :: "group_channel \<Rightarrow> string list \<Rightarrow> string list \<Rightarrow> string list result" where
  "add_moderators g [] ms = Ok ms"
| "add_moderators g (x # xs) ms =
     (if x \<notin> set (group_recipients g) then Err NotInGroup
      else if x = group_owner g \<or> x \<in> set ms then add_moderators g xs ms
      else add_moderators g xs (ms @ [x]))"

definition edit_moderators :: "user \<Rightarrow> data_edit_channel \<Rightarrow> channel \<Rightarrow> channel result" where
  "edit_moderators u d c =
     (if \<not> changes_moderators d then Ok c
      else (case c of
          Group g \<Rightarrow>
            if group_owner g \<noteq> user_id u then Err NotOwner
            else res_bind (add_moderators g (over (dec_add_moderators d) []) (group_moderators g)) (\<lambda>ms.
              Ok (Group (g\<lparr>group_moderators := filter (\<lambda>m. m \<notin> set (over (dec_remove_moderators d) [])) ms\<rparr>)))
        | _ \<Rightarrow> Err InvalidOperation))"

definition moderators_of :: "channel \<Rightarrow> string list option" where
  "moderators_of c = (case c of Group g \<Rightarrow> Some (group_moderators g) | _ \<Rightarrow> None)"

definition old_icon :: "channel \<Rightarrow> stored_file option" where
  "old_icon c = (case c of Group g \<Rightarrow> group_icon g | TextChannel t \<Rightarrow> text_icon t | _ \<Rightarrow> None)"

fun announce :: "channel \<Rightarrow> (string \<times> system_message option) list \<Rightarrow> unit handler" where
  "announce c [] = io_return ()"
| "announce c ((ulid, None) # ms) = announce c ms"
| "announce c ((ulid, Some m) # ms) = io_then (io_discard (send (into_message ulid m (channel_id c)) c)) (announce c ms)"

definition announce_changes :: "string \<times> string \<times> string \<Rightarrow> user \<Rightarrow> channel \<Rightarrow> partial_channel \<Rightarrow> unit handler" where
  "announce_changes ulids u c partial = (case ulids of (i, j, k) \<Rightarrow>
     announce c
       [(i, map_option (\<lambda>name. SysChannelRenamed name (user_id u)) (pc_name partial)),
        (j, map_option (\<lambda>_. SysChannelDescriptionChanged (user_id u)) (pc_description partial)),
        (k, map_option (\<lambda>_. SysChannelIconChanged (user_id u)) (pc_icon partial))])"

text \<open>The bitrate of a voice channel is bounded by the tier of the owner of its server.\<close>

definition check_bitrate :: "server_env \<Rightarrow> (u32 \<Rightarrow> u32 \<Rightarrow> string) \<Rightarrow> text_channel \<Rightarrow> voice_information \<Rightarrow> unit voice" where
  "check_bitrate E excess t info =
     (case voice_bitrate info of
        None \<Rightarrow> io_return ()
      | Some b \<Rightarrow>
          if b < 32000 then io_fail (FailedValidation ''Bitrate must be at least 32000 bps (32 kbps)'')
          else io_bind (read_database (\<lambda>db. fetch_server db (text_server t))) (\<lambda>s.
            io_bind (read_database (\<lambda>db. fetch_user db (server_owner s))) (\<lambda>owner.
            io_bind (attempt (ve_limits (sv_voice E) owner)) (\<lambda>lim.
              if b > lim_max_voice_bitrate lim
              then io_fail (BitrateExceedsTier (lim_max_voice_bitrate lim) (excess b (lim_max_voice_bitrate lim)))
              else io_return ()))))"

definition edit_fields :: "user \<Rightarrow> data_edit_channel \<Rightarrow> channel \<Rightarrow> partial_channel \<Rightarrow> partial_channel handler" where
  "edit_fields u d c partial =
     io_then (drop_old_file (ChannelField_Icon \<in> set (dec_remove d)) (old_icon c))
     (io_bind (use_new_file (\<lambda>i. use_channel_icon i (channel_id c) (user_id u)) (dec_icon d)) (\<lambda>icon.
      io_return (partial\<lparr>pc_icon := icon, pc_name := dec_name d, pc_description := dec_description d, pc_nsfw := dec_nsfw d\<rparr>)))"

text \<open>The channel in memory has the fields taken out and the new values put in before the system messages are sent,
  and once more by \<open>update\<close>.\<close>

definition edited_group :: "data_edit_channel \<Rightarrow> channel \<Rightarrow> partial_channel \<Rightarrow> channel" where
  "edited_group d c partial = channel_apply_options
     (channel_remove_fields (filter (\<lambda>f. f \<in> {ChannelField_Description, ChannelField_Icon}) (dec_remove d)) c)
     (empty_partial_channel\<lparr>pc_icon := pc_icon partial, pc_name := pc_name partial,
        pc_description := pc_description partial, pc_nsfw := pc_nsfw partial\<rparr>)"

definition edited_text_channel :: "data_edit_channel \<Rightarrow> channel \<Rightarrow> partial_channel \<Rightarrow> channel" where
  "edited_text_channel d c partial = channel_apply_options
     (channel_remove_fields (filter (\<lambda>f. f \<noteq> ChannelField_DefaultPermissions) (dec_remove d)) c)
     (empty_partial_channel\<lparr>pc_icon := pc_icon partial, pc_name := pc_name partial,
        pc_description := pc_description partial, pc_nsfw := pc_nsfw partial, pc_voice := pc_voice partial\<rparr>)"

definition edit_kind :: "server_env \<Rightarrow> (u32 \<Rightarrow> u32 \<Rightarrow> string) \<Rightarrow> string \<times> string \<times> string \<Rightarrow> user \<Rightarrow> data_edit_channel
    \<Rightarrow> channel \<Rightarrow> partial_channel \<Rightarrow> (channel \<times> partial_channel) voice" where
  "edit_kind E excess ulids u d c partial =
     (case c of
        Group g \<Rightarrow>
          io_bind (on_world (edit_fields u d c partial)) (\<lambda>partial.
          let c' = edited_group d c partial in
          io_then (on_world (announce_changes ulids u c' partial)) (io_return (c', partial)))
      | TextChannel t \<Rightarrow>
          io_bind (on_world (edit_fields u d c partial)) (\<lambda>partial.
          io_then (case dec_voice d of Some info \<Rightarrow> check_bitrate E excess t info | None \<Rightarrow> io_return ())
            (let partial = partial\<lparr>pc_voice := dec_voice d\<rparr> in io_return (edited_text_channel d c partial, partial)))
      | _ \<Rightarrow> io_fail InvalidOperation)"

definition channel_edit :: "server_env \<Rightarrow> channel_driver \<Rightarrow> (data_edit_channel \<Rightarrow> string option) \<Rightarrow> (u32 \<Rightarrow> u32 \<Rightarrow> string)
    \<Rightarrow> string \<times> string \<times> string \<times> string \<Rightarrow> user \<Rightarrow> string \<Rightarrow> data_edit_channel \<Rightarrow> channel voice" where
  "channel_edit E D validate excess ulids u target d =
     io_then (attempt (validated (validate d)))
     (io_bind (read_database (\<lambda>db. fetch_channel db target)) (\<lambda>c.
      io_then (if group_editor u c then io_return ()
        else io_bind (channel_access E (channel_query u c)) (\<lambda>(p, q). needs p ManageChannel))
        (if edit_channel_unchanged d then io_return c
         else io_bind (on_world (transfer_group (fst ulids) u (dec_owner d) c)) (\<lambda>c.
           io_bind (attempt (edit_moderators u d c)) (\<lambda>c.
           io_bind (edit_kind E excess (snd ulids) u d c
               (empty_partial_channel\<lparr>pc_owner := dec_owner d,
                  pc_moderators := (if changes_moderators d then moderators_of c else None)\<rparr>)) (\<lambda>(c, partial).
           io_bind (on_world (channel_update D c partial (dec_remove d))) (\<lambda>c.
           io_then (if channel_voice c = None then delete_voice_channel (sv_voice E) (channel_id c) (channel_server c)
               else io_return ())
             (io_return c))))))))"

end
