(* ===== verification/Channel_Laws.thy ===== *)
theory Channel_Laws
  imports Channel_Routes Server_Laws
begin

text \<open>
  What a request may do to the channels, as a specification on one channel before and after
  (\<open>permitted\<close>), and the proof that every route does no more. The drivers enter through the locale
  \<open>channel_store\<close>, which both satisfy: what an operation makes of the stored channels.
\<close>

section \<open>Stored channels\<close>

abbreviation channels :: "reference_db \<Rightarrow> (string \<rightharpoonup> channel)" where
  "channels db \<equiv> map_of (db_channels db)"

definition adjusted :: "string \<Rightarrow> (channel \<Rightarrow> channel) \<Rightarrow> (string \<rightharpoonup> channel) \<Rightarrow> (string \<rightharpoonup> channel)" where
  "adjusted i f M = M(i := map_option f (M i))"

lemma channels_adjust: "map_of (hm_adjust i f m) = adjusted i f (map_of m)"
  by (rule ext) (simp add: adjusted_def map_of_hm_adjust)

abbreviation updated :: "partial_channel \<Rightarrow> fields_channel list \<Rightarrow> channel \<Rightarrow> channel" where
  "updated partial remove c \<equiv> channel_remove_fields remove (channel_apply_options c partial)"

definition with_role_permissions ::
  "((string, override_field) hash_map \<Rightarrow> (string, override_field) hash_map) \<Rightarrow> channel \<Rightarrow> channel" where
  "with_role_permissions f c = (case c of
     TextChannel t \<Rightarrow> TextChannel (t\<lparr>text_role_permissions := f (text_role_permissions t)\<rparr>) | _ \<Rightarrow> c)"

section \<open>The drivers\<close>

definition outcome :: "'a result \<times> reference_db \<Rightarrow> ((string \<rightharpoonup> channel) \<Rightarrow> bool) \<Rightarrow> ((string \<rightharpoonup> channel) \<Rightarrow> bool) \<Rightarrow> bool" where
  "outcome x Q I = (case x of (Ok _, db) \<Rightarrow> Q (channels db) | (_, db) \<Rightarrow> I (channels db))"

lemma outcome_mono: "outcome x Q I \<Longrightarrow> (\<And>M. Q M \<Longrightarrow> Q' M) \<Longrightarrow> (\<And>M. I M \<Longrightarrow> I' M) \<Longrightarrow> outcome x Q' I'"
  by (auto simp: outcome_def split: prod.splits res.splits)

locale channel_store =
  fixes D :: channel_driver
  assumes insert_effect: "outcome (cd_insert D c db) (\<lambda>M. channels db (channel_id c) = None \<and> M = (channels db)(channel_id c \<mapsto> c))
      (\<lambda>M. M = channels db)"
    and add_effect: "outcome (cd_add_user_to_group D i v db)
      (\<lambda>M. M = adjusted i (with_recipients (\<lambda>us. us @ [v])) (channels db)) (\<lambda>M. M = channels db)"
    and remove_effect: "outcome (cd_remove_user_from_group D i v db)
      (\<lambda>M. M = channels db \<or> M = adjusted i (with_recipients (removeAll v)) (channels db)) (\<lambda>M. M = channels db)"
    and update_effect: "outcome (cd_update D i partial remove db)
      (\<lambda>M. M = adjusted i (updated partial remove) (channels db)) (\<lambda>M. M = channels db)"
    and role_effect: "outcome (cd_set_channel_role_permission D i rid p db)
      (\<lambda>M. \<exists>f. (\<forall>rs. map_of (f rs) = (map_of rs)(rid \<mapsto> p)) \<and> M = adjusted i (with_role_permissions f) (channels db))
      (\<lambda>M. M = channels db)"
    and delete_effect: "outcome (cd_delete D c db) (\<lambda>M. M = (channels db)(channel_id c := None)) (\<lambda>M. M = channels db)"

lemma adjust_same: "adjusted i (\<lambda>c. c) M = M"
  by (rule ext) (simp add: adjusted_def option.map_ident)

lemma with_recipients_group: "M i = Some (Group g) \<Longrightarrow>
    adjusted i (with_recipients f) M = M(i \<mapsto> Group (g\<lparr>group_recipients := f (group_recipients g)\<rparr>))"
  by (simp add: adjusted_def with_recipients_def)

interpretation reference: channel_store reference_channels
proof
  fix c db i v rid partial remove and p :: override_field
  show "outcome (cd_insert reference_channels c db) (\<lambda>M. channels db (channel_id c) = None \<and> M = (channels db)(channel_id c \<mapsto> c))
      (\<lambda>M. M = channels db)"
    by (auto simp: reference_channels_def insert_channel_def outcome_def hm_contains_def hm.get_insert)
  show "outcome (cd_add_user_to_group reference_channels i v db)
      (\<lambda>M. M = adjusted i (with_recipients (\<lambda>us. us @ [v])) (channels db)) (\<lambda>M. M = channels db)"
    by (auto simp: reference_channels_def db_add_user_to_group_def outcome_def channels_adjust adjusted_def with_recipients_def
        split: option.splits channel.splits)
  show "outcome (cd_remove_user_from_group reference_channels i v db)
      (\<lambda>M. M = channels db \<or> M = adjusted i (with_recipients (removeAll v)) (channels db)) (\<lambda>M. M = channels db)"
    by (auto simp: reference_channels_def db_remove_user_from_group_def outcome_def split: option.splits res.splits)
  show "outcome (cd_update reference_channels i partial remove db)
      (\<lambda>M. M = adjusted i (updated partial remove) (channels db)) (\<lambda>M. M = channels db)"
    by (simp add: reference_channels_def update_channel_def outcome_def channels_adjust)
  show "outcome (cd_set_channel_role_permission reference_channels i rid p db)
      (\<lambda>M. \<exists>f. (\<forall>rs. map_of (f rs) = (map_of rs)(rid \<mapsto> p)) \<and> M = adjusted i (with_role_permissions f) (channels db))
      (\<lambda>M. M = channels db)"
  proof (cases "channels db i")
    case (Some c)
    show ?thesis
    proof (cases c)
      case (TextChannel t)
      have "map_of (AList.update rid p (AList.delete rid rs)) = (map_of rs)(rid \<mapsto> p)" for rs :: "(string, override_field) hash_map"
        by (auto simp: hm.get_insert hm.get_remove)
      with TextChannel Some show ?thesis
        by (auto simp: reference_channels_def set_channel_role_permission_def outcome_def channels_adjust adjusted_def
            with_role_permissions_def intro!: exI [of _ "\<lambda>rs. AList.update rid p (AList.delete rid rs)"])
    qed (use Some in \<open>simp_all add: reference_channels_def set_channel_role_permission_def outcome_def\<close>)
  qed (simp add: reference_channels_def set_channel_role_permission_def outcome_def)
  show "outcome (cd_delete reference_channels c db) (\<lambda>M. M = (channels db)(channel_id c := None)) (\<lambda>M. M = channels db)"
    by (auto simp: reference_channels_def delete_channel_def outcome_def hm.get_remove)
qed

lemma channels_delete_files [simp]: "db_channels (delete_files P db) = db_channels db"
  by (simp add: delete_files_def)

lemma channels_delete_messages [simp]: "db_channels (delete_bulk_messages P db) = db_channels db"
  by (simp add: delete_bulk_messages_def Let_def)

interpretation mongodb: channel_store mongodb_channels
proof
  fix c db i v rid partial remove and p :: override_field
  show "outcome (cd_insert mongodb_channels c db) (\<lambda>M. channels db (channel_id c) = None \<and> M = (channels db)(channel_id c \<mapsto> c))
      (\<lambda>M. M = channels db)"
    by (auto simp: mongodb_channels_def mongo_insert_channel_def outcome_def hm_contains_def hm.get_insert)
  show "outcome (cd_add_user_to_group mongodb_channels i v db)
      (\<lambda>M. M = adjusted i (with_recipients (\<lambda>us. us @ [v])) (channels db)) (\<lambda>M. M = channels db)"
    by (simp add: mongodb_channels_def mongo_add_user_to_group_def outcome_def channels_adjust)
  show "outcome (cd_remove_user_from_group mongodb_channels i v db)
      (\<lambda>M. M = channels db \<or> M = adjusted i (with_recipients (removeAll v)) (channels db)) (\<lambda>M. M = channels db)"
    by (simp add: mongodb_channels_def mongo_remove_user_from_group_def outcome_def channels_adjust)
  show "outcome (cd_update mongodb_channels i partial remove db)
      (\<lambda>M. M = adjusted i (updated partial remove) (channels db)) (\<lambda>M. M = channels db)"
    by (simp add: mongodb_channels_def mongo_update_channel_def outcome_def channels_adjust)
  have "map_of (AList.update rid p rs) = (map_of rs)(rid \<mapsto> p)" for rs :: "(string, override_field) hash_map"
    by (auto simp: hm.get_insert)
  then show "outcome (cd_set_channel_role_permission mongodb_channels i rid p db)
      (\<lambda>M. \<exists>f. (\<forall>rs. map_of (f rs) = (map_of rs)(rid \<mapsto> p)) \<and> M = adjusted i (with_role_permissions f) (channels db))
      (\<lambda>M. M = channels db)"
    by (auto simp: mongodb_channels_def mongo_set_channel_role_permission_def outcome_def channels_adjust
        with_role_permissions_def [abs_def] intro!: exI [of _ "AList.update rid p"])
  show "outcome (cd_delete mongodb_channels c db) (\<lambda>M. M = (channels db)(channel_id c := None)) (\<lambda>M. M = channels db)"
    by (auto simp: mongodb_channels_def mongo_delete_channel_def delete_channel_document_def outcome_def hm.get_remove Let_def
        split: channel.splits res.splits)
qed

section \<open>Handlers\<close>

abbreviation channels_in :: "world \<Rightarrow> (string \<rightharpoonup> channel)" where
  "channels_in w \<equiv> channels (w_db w)"

abbreviation quiet :: "'a handler \<Rightarrow> bool" where
  "quiet \<equiv> unchanged channels_in"

lemma quiet_on_db: "(\<And>db. db_channels (snd (op db)) = db_channels db) \<Longrightarrow> quiet (on_db op)"
  by (simp add: unchanged_def on_db_def split: prod.splits) (metis snd_conv)

lemma quiet_ops [frame_rules]:
  "quiet (on_db (insert_message m))" "quiet (on_db (mark_attachment_as_deleted i))"
  "quiet (on_db (find_and_use_attachment i tag used uploader))"
  "quiet (publish t e)" "quiet (publish_private t e)" "quiet (queue_task t2)"
  by (intro quiet_on_db unchanged_publish [where f = channels];
      simp add: insert_message_def mark_attachment_as_deleted_def find_and_use_attachment_def Let_def split: option.splits)+

lemma quiet_publish_all [frame_rules]: "quiet (publish_all es)"
  by (induction es rule: publish_all.induct) (simp_all add: frame_rules)

lemma quiet_handlers [frame_rules]:
  "quiet (send_without_notifications m is_dm e)" "quiet (send m c)" "quiet (drop_old_file b f)"
  "quiet (use_file tag kind i parent uploader)" "quiet (use_channel_icon i parent uploader)"
  unfolding send_def send_without_notifications_def drop_old_file_def use_file_def use_channel_icon_def by (intro frame_rules)+

lemma quiet_use_new_file [frame_rules]: "(\<And>i. quiet (use i)) \<Longrightarrow> quiet (use_new_file use x)"
  unfolding use_new_file_def by (intro frame_rules)

definition runs :: "((string \<rightharpoonup> channel) \<Rightarrow> bool) \<Rightarrow> (string \<rightharpoonup> channel) \<Rightarrow> 'a handler \<Rightarrow> ('a \<Rightarrow> (string \<rightharpoonup> channel) \<Rightarrow> bool) \<Rightarrow> bool" where
  "runs I M m Q \<longleftrightarrow> triple channels_in I (\<lambda>M'. M' = M) m Q"

lemma runs_bind: "runs I M m R \<Longrightarrow> (\<And>x M'. R x M' \<Longrightarrow> runs I M' (k x) Q) \<Longrightarrow> runs I M (io_bind m k) Q"
  unfolding runs_def by (rule triple_bind, assumption) (auto simp: triple_def)

lemma runs_then: "runs I M m (\<lambda>_. R) \<Longrightarrow> (\<And>M'. R M' \<Longrightarrow> runs I M' k Q) \<Longrightarrow> runs I M (io_then m k) Q"
  unfolding io_then_def by (rule runs_bind)

lemma runs_op: "(\<And>db. channels db = M \<Longrightarrow> outcome (op db) Q I) \<Longrightarrow> runs I M (on_db op) (\<lambda>_. Q)"
  unfolding runs_def triple_def
proof (intro allI impI)
  fix w r w'
  assume op: "\<And>db. channels db = M \<Longrightarrow> outcome (op db) Q I" and run: "on_db op w = (r, w')" and "channels_in w = M"
  then have "outcome (op (w_db w)) Q I" by blast
  with run show "case r of Ok x \<Rightarrow> Q (channels_in w') | _ \<Rightarrow> I (channels_in w')"
    by (cases "op (w_db w)") (auto simp: on_db_def outcome_def split: res.splits)
qed

lemma runs_quiet: "quiet m \<Longrightarrow> I M \<Longrightarrow> runs I M m (\<lambda>_ M'. M' = M)"
  unfolding runs_def triple_def by (auto dest: unchangedD split: res.splits)

lemma runs_quiet_then: "quiet m \<Longrightarrow> I M \<Longrightarrow> runs I M k Q \<Longrightarrow> runs I M (io_then m k) Q"
  by (rule runs_then [OF runs_quiet]) auto

lemma runs_quiet_bind: "quiet m \<Longrightarrow> I M \<Longrightarrow> (\<And>x. runs I M (k x) Q) \<Longrightarrow> runs I M (io_bind m k) Q"
  by (rule runs_bind [OF runs_quiet]) auto

lemma runs_quietly: "quiet m \<Longrightarrow> I M \<Longrightarrow> runs I M m (\<lambda>_. I)"
  unfolding runs_def triple_def by (auto dest: unchangedD split: res.splits)

lemma runs_returns: "Q x M \<Longrightarrow> runs I M (io_return x) Q" "I M \<Longrightarrow> runs I M (io_fail e) Q"
  by (simp_all add: runs_def triple_def io_return_def io_fail_def)

lemma runs_conseq: "runs I M m R \<Longrightarrow> (\<And>x M'. R x M' \<Longrightarrow> Q x M') \<Longrightarrow> runs I M m Q"
  unfolding runs_def by (erule triple_conseq) auto

lemma from_runs:
  "runs I (channels db) m Q \<Longrightarrow> from_db (\<lambda>db'. I (channels db')) db (on_world m) (\<lambda>x db'. Q x (channels db'))"
  by (auto simp: runs_def from_db_def triple_def on_world_def split: prod.splits)

text \<open>What is left of a group while and after somebody leaves it.\<close>

definition left_group :: "group_channel \<Rightarrow> string \<Rightarrow> group_channel \<Rightarrow> bool" where
  "left_group g v g' \<longleftrightarrow>
     g'\<lparr>group_owner := group_owner g, group_moderators := group_moderators g, group_recipients := group_recipients g\<rparr> = g
     \<and> (group_owner g' = group_owner g \<or> v = group_owner g \<and> group_owner g' \<noteq> v \<and> group_owner g' \<in> set (group_recipients g))
     \<and> (group_moderators g' = group_moderators g \<or> group_moderators g' = filter (\<lambda>m. m \<noteq> v) (group_moderators g))
     \<and> (group_recipients g' = group_recipients g
        \<or> group_recipients g' = removeAll v (group_recipients g) \<and> group_owner g' \<noteq> v \<and> v \<notin> set (group_moderators g'))"

lemma group_fields [simp]:
  "g\<lparr>group_owner := group_owner g, group_moderators := group_moderators g, group_recipients := group_recipients g\<rparr> = g"
  "g\<lparr>group_moderators := group_moderators g\<rparr> = g"
  by simp_all

lemma updated_group:
  "updated (empty_partial_channel\<lparr>pc_owner := Some v\<rparr>) [] (Group g) = Group (g\<lparr>group_owner := v\<rparr>)"
  "updated (empty_partial_channel\<lparr>pc_moderators := Some ms\<rparr>) [] (Group g) = Group (g\<lparr>group_moderators := ms\<rparr>)"
  by (cases g; simp add: channel_remove_fields_def empty_partial_channel_def over_option_def over_def)+

context channel_store
begin

lemma runs_insert: "I M \<Longrightarrow> (M (channel_id c) = None \<Longrightarrow> Q (M(channel_id c \<mapsto> c))) \<Longrightarrow> runs I M (on_db (cd_insert D c)) (\<lambda>_. Q)"
  by (rule runs_op, rule outcome_mono [OF insert_effect]) auto

lemma runs_add: "I M \<Longrightarrow> Q (adjusted i (with_recipients (\<lambda>us. us @ [v])) M) \<Longrightarrow> runs I M (on_db (cd_add_user_to_group D i v)) (\<lambda>_. Q)"
  by (rule runs_op, rule outcome_mono [OF add_effect]) auto

lemma runs_remove: "I M \<Longrightarrow> Q M \<Longrightarrow> Q (adjusted i (with_recipients (removeAll v)) M)
    \<Longrightarrow> runs I M (on_db (cd_remove_user_from_group D i v)) (\<lambda>_. Q)"
  by (rule runs_op, rule outcome_mono [OF remove_effect]) auto

lemma runs_update: "I M \<Longrightarrow> Q (adjusted i (updated partial remove) M) \<Longrightarrow> runs I M (on_db (cd_update D i partial remove)) (\<lambda>_. Q)"
  by (rule runs_op, rule outcome_mono [OF update_effect]) auto

lemma runs_role:
  assumes "I M" "\<And>f. \<forall>rs. map_of (f rs) = (map_of rs)(rid \<mapsto> p) \<Longrightarrow> Q (adjusted i (with_role_permissions f) M)"
  shows "runs I M (on_db (cd_set_channel_role_permission D i rid p)) (\<lambda>_. Q)"
  by (rule runs_op, rule outcome_mono [OF role_effect]) (use assms in auto)

lemma runs_delete: "I M \<Longrightarrow> Q (M(channel_id c := None)) \<Longrightarrow> runs I M (on_db (cd_delete D c)) (\<lambda>_. Q)"
  by (rule runs_op, rule outcome_mono [OF delete_effect]) auto

lemmas quiet_runs = runs_quiet_then runs_quietly

lemma create_group_runs:
  assumes "I M" "\<And>icon. length (created_recipients data owner) \<le> lim_group_size lim \<Longrightarrow> M ulid = None \<Longrightarrow>
    I (M(ulid \<mapsto> created_group ulid data owner icon))"
  shows "runs I M (create_group D lim ulid data owner) (\<lambda>_. I)"
proof (cases "length (created_recipients data owner) > lim_group_size lim")
  case True
  with assms(1) show ?thesis by (simp add: create_group_def runs_returns)
next
  case False
  have "runs I M (io_then (on_db (cd_insert D (created_group ulid data owner icon)))
      (io_then (publish_all es) (io_return (created_group ulid data owner icon)))) (\<lambda>_. I)" for icon es
    by (rule runs_then [OF runs_insert [where Q = I]])
       (use assms False in \<open>auto simp: created_group_def intro!: quiet_runs runs_returns frame_rules\<close>)
  with False assms(1) show ?thesis
    unfolding create_group_def Let_def by (auto intro!: runs_quiet_bind frame_rules)
qed

lemma channel_update_runs:
  assumes "I M" "I (adjusted (channel_id c) (updated partial remove) M)"
  shows "runs I M (channel_update D c partial remove) (\<lambda>_. I)"
  unfolding channel_update_def Let_def
  by (rule runs_then [OF runs_update [where Q = I]]) (use assms in \<open>auto intro!: quiet_runs runs_returns frame_rules\<close>)

lemma set_role_permission_runs:
  assumes "I M" "\<And>t f. c = TextChannel t \<Longrightarrow> \<forall>rs. map_of (f rs) = (map_of rs)(rid \<mapsto> p) \<Longrightarrow>
    I (adjusted (text_id t) (with_role_permissions f) M)"
  shows "runs I M (channel_set_role_permission D c rid p) (\<lambda>_. I)"
proof (cases c)
  case (TextChannel t)
  show ?thesis
    unfolding channel_set_role_permission_def Let_def TextChannel channel.case
    by (rule runs_then [OF runs_role [where Q = I]])
       (use assms(1) assms(2) [OF TextChannel] in \<open>auto intro!: quiet_runs runs_returns frame_rules\<close>)
qed (use assms(1) in \<open>simp_all add: channel_set_role_permission_def runs_returns\<close>)

lemma channel_delete_runs: "I M \<Longrightarrow> I (M(channel_id c := None)) \<Longrightarrow> runs I M (channel_delete D c) (\<lambda>_. I)"
  unfolding channel_delete_def by (rule runs_quiet_then [OF quiet_ops(4)]) (auto intro: runs_delete)

lemma add_user_runs:
  assumes "I M" "\<And>g. c = Group g \<Longrightarrow> user_id u \<notin> set (group_recipients g) \<Longrightarrow> length (group_recipients g) < lim_group_size lim \<Longrightarrow>
    I (adjusted (group_id g) (with_recipients (\<lambda>us. us @ [user_id u])) M)"
  shows "runs I M (add_user_to_group D lim ulid c u by_id) (\<lambda>_. I)"
proof (cases c)
  case (Group g)
  have "runs I M (io_then (on_db (cd_add_user_to_group D (group_id g) (user_id u))) k) (\<lambda>_. I)"
    if "quiet k" "user_id u \<notin> set (group_recipients g)" "length (group_recipients g) < lim_group_size lim" for k :: "channel handler"
    by (rule runs_then [OF runs_add [where Q = I]]) (use assms that Group in \<open>auto intro: runs_quietly\<close>)
  then show ?thesis
    unfolding add_user_to_group_def Let_def Group channel.case
    by (simp add: runs_returns assms(1) frame_rules)
qed (use assms(1) in \<open>simp_all add: add_user_to_group_def runs_returns\<close>)

lemma leave_group_runs:
  assumes "M (group_id g) = Some (Group h)" "I M"
    and ms: "ms = (if v \<in> set (group_moderators g) then filter (\<lambda>m. m \<noteq> v) (group_moderators g) else group_moderators h)"
    and "I (M(group_id g \<mapsto> Group (h\<lparr>group_moderators := ms\<rparr>)))"
    and "I (M(group_id g \<mapsto> Group (h\<lparr>group_moderators := ms, group_recipients := removeAll v (group_recipients h)\<rparr>)))"
  shows "runs I M (leave_group D ulid g v by_id silent) (\<lambda>_. I)"
proof -
  let ?M = "M(group_id g \<mapsto> Group (h\<lparr>group_moderators := ms\<rparr>))"
  have first: "runs I M (if v \<in> set (group_moderators g)
      then on_db (cd_update D (group_id g) (empty_partial_channel\<lparr>pc_moderators := Some (filter (\<lambda>m. m \<noteq> v) (group_moderators g))\<rparr>) [])
      else io_return ()) (\<lambda>_ M'. M' = ?M)"
    using assms(1,2) ms
    by (auto intro!: runs_returns runs_update simp: adjusted_def updated_group fun_upd_idem simp del: channel_apply_options.simps)
  have second: "runs I ?M (on_db (cd_remove_user_from_group D (group_id g) v)) (\<lambda>_. I)"
    by (rule runs_remove) (use assms in \<open>auto simp: adjusted_def with_recipients_def\<close>)
  have "quiet (io_then (publish (group_id g) (EvChannelGroupLeave (group_id g) v)) (if silent then io_return () else io_discard (send x y)))"
    for x y by (intro frame_rules)
  then show ?thesis
    unfolding leave_group_def
    by (intro runs_then [OF first]) (auto intro!: runs_then [OF second] runs_quietly)
qed

lemma remove_user_runs:
  assumes "I M" "M (channel_id c) = Some c"
    and left: "\<And>g g'. c = Group g \<Longrightarrow> left_group g (user_id u) g' \<Longrightarrow> I (M(channel_id c \<mapsto> Group g'))"
    and gone: "\<And>g. c = Group g \<Longrightarrow> user_id u = group_owner g \<Longrightarrow> set (group_recipients g) \<subseteq> {user_id u} \<Longrightarrow> I (M(channel_id c := None))"
  shows "runs I M (remove_user_from_group D ulids c u by_id silent) (\<lambda>_. I)"
proof (cases c)
  case (Group g)
  let ?v = "user_id u"
  have leave: "runs I M' (leave_group D ulid g ?v by_id silent) (\<lambda>_. I)"
    if "M' = M(group_id g \<mapsto> Group (g\<lparr>group_owner := owner\<rparr>))" "owner \<noteq> ?v"
      "owner = group_owner g \<or> ?v = group_owner g \<and> owner \<in> set (group_recipients g)" for M' ulid owner
    using that left [OF Group] Group by (intro leave_group_runs [where h = "g\<lparr>group_owner := owner\<rparr>", OF _ _ refl]) (auto simp: left_group_def)
  show ?thesis
  proof (cases "?v = group_owner g")
    case False
    with leave [of M "group_owner g" "snd ulids"] assms(2) Group show ?thesis
      by (simp add: remove_user_from_group_def fun_upd_idem)
  next
    case True
    show ?thesis
    proof (cases "List.find (\<lambda>x. x \<noteq> ?v) (group_recipients g)")
      case None
      then have "set (group_recipients g) \<subseteq> {?v}" by (auto simp: find_None_iff)
      with True gone [OF Group] assms(1) have "runs I M (channel_delete D c) (\<lambda>_. I)" by (intro channel_delete_runs) auto
      with True None Group show ?thesis by (simp add: remove_user_from_group_def)
    next
      case (Some n)
      then have n: "n \<noteq> ?v" "n \<in> set (group_recipients g)" by (auto simp: find_Some_iff)
      let ?M = "M(group_id g \<mapsto> Group (g\<lparr>group_owner := n\<rparr>))"
      have "runs I M (on_db (cd_update D (group_id g) (empty_partial_channel\<lparr>pc_owner := Some n\<rparr>) [])) (\<lambda>_ M'. M' = ?M)"
        by (rule runs_update) (use assms(1,2) Group in \<open>simp_all add: adjusted_def updated_group del: channel_apply_options.simps\<close>)
      moreover have "I ?M" using left [OF Group] n True Group by (auto simp: left_group_def)
      ultimately have "runs I M (hand_over_group D (fst ulids) g n) (\<lambda>_ M'. M' = ?M)"
        unfolding hand_over_group_def by (elim runs_then) (auto intro!: runs_quiet frame_rules)
      from runs_then [OF this leave] n True Some Group show ?thesis
        by (simp add: remove_user_from_group_def)
    qed
  qed
qed (use assms(1) in \<open>simp_all add: remove_user_from_group_def runs_returns\<close>)

end

section \<open>What a request may do to a channel\<close>

datatype channel_request =
    CreateGroup string data_create_group
  | OpenDm string string
  | AddMember string string string
  | RemoveMember "string \<times> string" string string
  | CloseChannel "string \<times> string" string "bool option"
  | EditChannel "string \<times> string \<times> string \<times> string" string data_edit_channel
  | SetRolePermissions string string override
  | SetDefaultPermissions string data_default_channel_permissions
  | AckMessage string string

record channel_validators =
  vc_create :: "data_create_group \<Rightarrow> string option"
  vc_edit :: "data_edit_channel \<Rightarrow> string option"
  vc_excess :: "u32 \<Rightarrow> u32 \<Rightarrow> string"

fun serve_channel :: "server_env \<Rightarrow> channel_driver \<Rightarrow> channel_validators \<Rightarrow> user \<Rightarrow> channel_request \<Rightarrow> unit voice" where
  "serve_channel E D V u (CreateGroup ulid data) = void (create_group_route E D (vc_create V) ulid u data)"
| "serve_channel E D V u (OpenDm ulid target) = void (open_dm E D ulid u target)"
| "serve_channel E D V u (AddMember ulid gid mid) = add_member E D ulid u gid mid"
| "serve_channel E D V u (RemoveMember ulids target member) = remove_member E D ulids u target member"
| "serve_channel E D V u (CloseChannel ulids target silently) = channel_delete_route E D ulids u target silently"
| "serve_channel E D V u (EditChannel ulids target d) = void (channel_edit E D (vc_edit V) (vc_excess V) ulids u target d)"
| "serve_channel E D V u (SetRolePermissions target rid p) = void (set_role_permissions E D u target rid p)"
| "serve_channel E D V u (SetDefaultPermissions target d) = void (set_default_channel_permissions E D u target d)"
| "serve_channel E D V u (AckMessage target message) = ack E u target message"

definition channel_rights :: "server_env \<Rightarrow> reference_db \<Rightarrow> user \<Rightarrow> channel \<Rightarrow> (permission_value \<times> db_permission_query) option" where
  "channel_rights E db u c = calculate_channel_permissions (db_query (sv_now E)) (with_channel c (new_query (reference_database db) u))"

definition may :: "server_env \<Rightarrow> reference_db \<Rightarrow> user \<Rightarrow> channel \<Rightarrow> channel_permission \<Rightarrow> bool" where
  "may E db u c x \<longleftrightarrow> (\<exists>p q. channel_rights E db u c = Some (p, q) \<and> has_channel_permission p x)"

definition regrouped :: "user \<Rightarrow> group_channel \<Rightarrow> group_channel \<Rightarrow> bool" where
  "regrouped u g g' \<longleftrightarrow> group_id g' = group_id g \<and> group_recipients g' = group_recipients g
     \<and> group_permissions g' = group_permissions g \<and> group_encrypted g' = group_encrypted g
     \<and> (group_owner g' = group_owner g \<or> user_id u = group_owner g \<and> group_owner g' \<in> set (group_recipients g))
     \<and> (group_moderators g' = group_moderators g
        \<or> user_id u = group_owner g \<and> set (group_moderators g') \<subseteq> set (group_moderators g) \<union> set (group_recipients g))"

definition rearranged :: "fields_channel list \<Rightarrow> text_channel \<Rightarrow> text_channel \<Rightarrow> bool" where
  "rearranged remove t t' \<longleftrightarrow> text_id t' = text_id t \<and> text_server t' = text_server t
     \<and> text_role_permissions t' = text_role_permissions t \<and> text_encrypted t' = text_encrypted t
     \<and> (text_default_permissions t' = text_default_permissions t
        \<or> ChannelField_DefaultPermissions \<in> set remove \<and> text_default_permissions t' = None)"

text \<open>The channel with identifier \<open>i\<close> before and after a request, where it differs.\<close>

fun permitted :: "server_env \<Rightarrow> reference_db \<Rightarrow> user \<Rightarrow> channel_request \<Rightarrow> string \<Rightarrow> channel option \<Rightarrow> channel option \<Rightarrow> bool" where
  "permitted E db u (CreateGroup ulid data) i old new \<longleftrightarrow> i = ulid \<and> old = None
     \<and> (\<exists>icon. new = Some (created_group ulid data (user_id u) icon))
     \<and> length (created_recipients data (user_id u)) \<le> lim_group_size (sv_limits E)
     \<and> (\<forall>v\<in>set (dcg_users data). is_friends_with u v)"
| "permitted E db u (OpenDm ulid target) i old new \<longleftrightarrow> i = ulid \<and> old = None
     \<and> (\<exists>v. fetch_user db target = Ok v \<and> new = Some (created_dm ulid u v))"
| "permitted E db u (AddMember ulid gid mid) i old new \<longleftrightarrow> i = gid
     \<and> (\<exists>g v. old = Some (Group g) \<and> fetch_user db mid = Ok v \<and> user_id v \<notin> set (group_recipients g)
        \<and> length (group_recipients g) < lim_group_size (sv_limits E) \<and> is_friends_with u (user_id v)
        \<and> may E db u (Group g) InviteOthers
        \<and> new = Some (Group (g\<lparr>group_recipients := group_recipients g @ [user_id v]\<rparr>)))"
| "permitted E db u (RemoveMember ulids target member) i old new \<longleftrightarrow> i = target
     \<and> (\<exists>g g' v. old = Some (Group g) \<and> fetch_user db member = Ok v \<and> user_id v \<notin> {user_id u, group_owner g}
        \<and> (user_id u = group_owner g \<or> user_id u \<in> set (group_moderators g) \<and> user_id v \<notin> set (group_moderators g))
        \<and> new = Some (Group g') \<and> left_group g (user_id v) g')"
| "permitted E db u (CloseChannel ulids target silently) i old new \<longleftrightarrow> i = target
     \<and> (\<exists>c. old = Some c \<and> may E db u c ViewChannel \<and> (case c of
          SavedMessages _ \<Rightarrow> False
        | DirectMessage d \<Rightarrow> new = Some (DirectMessage (d\<lparr>dm_active := False\<rparr>))
        | Group g \<Rightarrow> (\<exists>g'. new = Some (Group g') \<and> left_group g (user_id u) g')
            \<or> new = None \<and> user_id u = group_owner g \<and> set (group_recipients g) \<subseteq> {user_id u}
        | TextChannel _ \<Rightarrow> new = None \<and> may E db u c ManageChannel))"
| "permitted E db u (EditChannel ulids target d) i old new \<longleftrightarrow> i = target
     \<and> (\<exists>c. old = Some c \<and> (group_editor u c \<or> may E db u c ManageChannel) \<and> (case c of
          Group g \<Rightarrow> (\<exists>g'. new = Some (Group g') \<and> regrouped u g g')
        | TextChannel t \<Rightarrow> (\<exists>t'. new = Some (TextChannel t') \<and> rearranged (dec_remove d) t t')
        | _ \<Rightarrow> False))"
| "permitted E db u (SetRolePermissions target rid p) i old new \<longleftrightarrow> i = target
     \<and> (\<exists>t rs. old = Some (TextChannel t) \<and> may E db u (TextChannel t) ManagePermissions
        \<and> map_of rs = (map_of (text_role_permissions t))(rid \<mapsto> override_to_field p)
        \<and> new = Some (TextChannel (t\<lparr>text_role_permissions := rs\<rparr>)))"
| "permitted E db u (SetDefaultPermissions target d) i old new \<longleftrightarrow> i = target
     \<and> (\<exists>c. old = Some c \<and> may E db u c ManagePermissions \<and> (case c of
          Group g \<Rightarrow> (\<exists>v. d = DefaultValue v \<and> new = Some (Group (g\<lparr>group_permissions := Some (u64_as_i64 v)\<rparr>)))
        | TextChannel t \<Rightarrow> (\<exists>f. d = DefaultField f \<and> new = Some (TextChannel (t\<lparr>text_default_permissions := Some (override_to_field f)\<rparr>)))
        | _ \<Rightarrow> False))"
| "permitted E db u (AckMessage target message) i old new \<longleftrightarrow> False"

definition allowed :: "server_env \<Rightarrow> reference_db \<Rightarrow> user \<Rightarrow> channel_request \<Rightarrow> (string \<rightharpoonup> channel) \<Rightarrow> bool" where
  "allowed E db u req M \<longleftrightarrow> (\<forall>i. M i = channels db i \<or> permitted E db u req i (channels db i) (M i))"

lemma allowed_refl [simp]: "allowed E db u req (channels db)"
  by (simp add: allowed_def)

lemma allowed_change: "permitted E db u req i (channels db i) x \<Longrightarrow> allowed E db u req ((channels db)(i := x))"
  by (simp add: allowed_def)

abbreviation within_bounds :: "server_env \<Rightarrow> reference_db \<Rightarrow> user \<Rightarrow> channel_request \<Rightarrow> 'a voice \<Rightarrow> bool" where
  "within_bounds E db u req m \<equiv>
     from_db (\<lambda>db'. allowed E db u req (channels db')) db m (\<lambda>_ db'. allowed E db u req (channels db'))"

section \<open>Routes\<close>

lemma from_bind_channel_access [db_steps]:
  assumes "I db" "\<And>p q. channel_rights E db u c = Some (p, q) \<Longrightarrow> from_db I db (k (p, q)) Q"
  shows "from_db I db (io_bind (channel_access E (channel_query u c)) k) Q"
  by (rule from_bind [where R = "\<lambda>x db'. db' = db \<and> channel_rights E db u c = Some x"])
     (use assms in \<open>auto simp: from_db_def triple_def channel_access_def channel_rights_def channel_query_def
        voice_query_def split: option.splits\<close>)

lemma from_channel [db_steps]:
  assumes "\<And>s. c = SavedMessages s \<Longrightarrow> from_db I db (m s) Q" "\<And>d. c = DirectMessage d \<Longrightarrow> from_db I db (m2 d) Q"
    "\<And>g. c = Group g \<Longrightarrow> from_db I db (m3 g) Q" "\<And>t. c = TextChannel t \<Longrightarrow> from_db I db (m4 t) Q"
  shows "from_db I db (case c of SavedMessages s \<Rightarrow> m s | DirectMessage d \<Rightarrow> m2 d | Group g \<Rightarrow> m3 g | TextChannel t \<Rightarrow> m4 t) Q"
  using assms by (cases c) simp_all

lemma from_stays: "frame m \<Longrightarrow> I db \<Longrightarrow> Q db \<Longrightarrow> from_db I db m (\<lambda>_. Q)"
  by (auto simp: from_db_def triple_def dest: unchangedD split: res.splits)

lemma from_framed: "frame m \<Longrightarrow> I db \<Longrightarrow> from_db I db m (\<lambda>_. I)"
  by (auto simp: from_db_def triple_def dest: unchangedD split: res.splits)

lemma from_mono:
  assumes "from_db I db m (\<lambda>_. I)" "\<And>d. I d \<Longrightarrow> J d"
  shows "from_db J db m (\<lambda>_. J)"
  unfolding from_db_def triple_def
proof (intro allI impI)
  fix s r s'
  assume "m s = (r, s')" "db_of s = db"
  with from_dbD [of I s m] assms(1) have "case r of Ok _ \<Rightarrow> I (db_of s') | _ \<Rightarrow> I (db_of s')" by blast
  with assms(2) show "case r of Ok x \<Rightarrow> J (db_of s') | _ \<Rightarrow> J (db_of s')" by (cases r) auto
qed

lemma bounds_runs:
  "runs (allowed E db u req) (channels d) m (\<lambda>_. allowed E db u req) \<Longrightarrow>
    from_db (\<lambda>db'. allowed E db u req (channels db')) d (on_world m) (\<lambda>_ db'. allowed E db u req (channels db'))"
  by (rule from_runs)

lemma handled_runs:
  "runs I (channels db) m (\<lambda>_. I) \<Longrightarrow> handled (\<lambda>db'. I (channels db')) db m (\<lambda>_ db'. I (channels db'))"
  by (simp add: runs_def handled_def triple_def)

lemma handled_cong: "handled I db m' Q \<Longrightarrow> (\<And>w. w_db w = db \<Longrightarrow> m w = m' w) \<Longrightarrow> handled I db m Q"
  unfolding handled_def triple_def by metis

lemma from_bind_framed: "frame m \<Longrightarrow> I db \<Longrightarrow> (\<And>x. from_db I db (k x) Q) \<Longrightarrow> from_db I db (io_bind m k) Q"
  by (rule from_bind [OF from_frame]) auto

lemma frame_access [frame_rules]: "frame (user_access E query)" "frame (channel_access E query)"
  by (auto simp: unchanged_def user_access_def channel_access_def split: option.splits)

lemma frame_leave_group_call [frame_rules]: "frame (leave_group_call E v cid)"
  unfolding leave_group_call_def is_in_voice_channel_def redis_step_defs by (intro frame_rules)

lemma fetched_channel: "fetch_channel db i = Ok c \<longleftrightarrow> channels db i = Some c"
  by (simp add: fetch_channel_def)

lemma may_lacking: "throw_if_lacking_channel_permission p x = Ok y \<Longrightarrow> channel_rights E db u c = Some (p, q) \<Longrightarrow> may E db u c x"
  unfolding may_def by (metis throws_Ok)

definition keyed :: "reference_db \<Rightarrow> bool" where
  "keyed db \<longleftrightarrow> (\<forall>i c. channels db i = Some c \<longrightarrow> channel_id c = i)"

lemma fetched:
  assumes "keyed db" "fetch_channel db i = Ok c"
  shows "channels db i = Some c" "channel_id c = i"
  using assms by (auto simp: keyed_def fetched_channel)

lemma stored_group: "keyed db \<Longrightarrow> fetch_channel db i = Ok (Group g) \<Longrightarrow> channels db (group_id g) = Some (Group g)"
  using fetched [of db i "Group g"] by auto

lemma allowed_adjusted:
  "keyed db \<Longrightarrow> fetch_channel db i = Ok c \<Longrightarrow> permitted E db u req i (Some c) (Some (f c)) \<Longrightarrow>
    allowed E db u req (adjusted (channel_id c) f (channels db))"
  using allowed_change [of E db u req i "Some (f c)"] by (simp add: adjusted_def fetched)

lemma allowed_stored:
  "keyed db \<Longrightarrow> fetch_channel db i = Ok c \<Longrightarrow> permitted E db u req i (Some c) x \<Longrightarrow>
    allowed E db u req ((channels db)(channel_id c := x))"
  using allowed_change [of E db u req i x] by (simp add: fetched)

lemmas route_checks = from_if from_fails from_bind_read from_bind_channel_access from_then_attempt from_bind_attempt from_channel
  from_prod from_returns

text \<open>A direct message is opened only when none is found.\<close>

definition opened :: "channel_driver \<Rightarrow> reference_db \<Rightarrow> user \<Rightarrow> string \<Rightarrow> string \<Rightarrow> (string \<rightharpoonup> channel) \<Rightarrow> bool" where
  "opened D db u ulid target M \<longleftrightarrow> M = channels db \<or> (\<exists>v. fetch_user db target = Ok v \<and> channels db ulid = None
     \<and> (\<forall>c. cd_find_direct_message_channel D db (user_id u) (user_id v) \<noteq> Ok c)
     \<and> M = (channels db)(ulid \<mapsto> created_dm ulid u v))"

context channel_store
begin

lemma create_group_bounds: "within_bounds E db u (CreateGroup ulid data) (create_group_route E D V ulid u data)"
  unfolding create_group_route_def
  by (intro route_checks bounds_runs create_group_runs allowed_refl allowed_change)
     (auto simp: is_friends_with_def)

lemma add_member_bounds:
  assumes "keyed db"
  shows "within_bounds E db u (AddMember ulid gid mid) (add_member E D ulid u gid mid)"
proof -
  have "allowed E db u (AddMember ulid gid mid) (adjusted (group_id g) (with_recipients (\<lambda>us. us @ [user_id v])) (channels db))"
    if "fetch_channel db gid = Ok (Group g)" "channel_rights E db u (Group g) = Some (p, q)" "has_channel_permission p InviteOthers"
      "fetch_user db mid = Ok v" "is_friends_with u (user_id v)" "user_id v \<notin> set (group_recipients g)"
      "length (group_recipients g) < lim_group_size (sv_limits E)" for g p q v
    using that assms by (intro allowed_adjusted [of db gid "Group g", unfolded channel_id.simps]) (auto simp: with_recipients_def may_def)
  then show ?thesis
    unfolding add_member_def
    by (intro route_checks allowed_refl from_then [OF bounds_runs] add_user_runs) auto
qed

lemma remove_member_bounds:
  assumes "keyed db"
  shows "within_bounds E db u (RemoveMember ulids target member) (remove_member E D ulids u target member)"
proof -
  have "allowed E db u (RemoveMember ulids target member) ((channels db)(group_id g \<mapsto> Group g'))"
    if "fetch_channel db target = Ok (Group g)" "user_id u = group_owner g \<or> user_id u \<in> set (group_moderators g)"
      "fetch_user db member = Ok v" "may_remove_member u g v = Ok ()" "left_group g (user_id v) g'" for g g' v
    using that by (intro allowed_stored [OF assms that(1), unfolded channel_id.simps])
      (auto simp: may_remove_member_def Let_def split: if_splits)
  moreover have "user_id v \<noteq> group_owner g"
    if "user_id u = group_owner g \<or> user_id u \<in> set (group_moderators g)" "may_remove_member u g v = Ok ()" for g v
    using that by (auto simp: may_remove_member_def Let_def split: if_splits)
  ultimately show ?thesis
    unfolding remove_member_def
    by (intro route_checks allowed_refl from_then [OF bounds_runs] remove_user_runs from_framed [OF frame_leave_group_call])
       (auto dest: stored_group [OF assms])
qed

lemma open_dm_opens:
  "from_db (\<lambda>d. opened D db u ulid target (channels d)) db (open_dm E D ulid u target) (\<lambda>_ d. opened D db u ulid target (channels d))"
proof -
  let ?I = "opened D db u ulid target"
  have "handled (\<lambda>db'. ?I (channels db')) db (create_dm D ulid u v) (\<lambda>_ db'. ?I (channels db'))"
    if v: "fetch_user db target = Ok v" for v
  proof (cases "\<exists>c. cd_find_direct_message_channel D db (user_id u) (user_id v) = Ok c")
    case True
    then obtain c where c: "cd_find_direct_message_channel D db (user_id u) (user_id v) = Ok c" by blast
    show ?thesis by (rule handled_cong [OF handled_returns(1) [of _ c]]) (simp_all add: create_dm_def io_return_def c opened_def)
  next
    case False
    have "channel_id (created_dm ulid u v) = ulid" by (simp add: created_dm_def)
    with v False have new: "runs ?I (channels db) (io_then (on_db (cd_insert D (created_dm ulid u v))) k) (\<lambda>_. ?I)" if "quiet k" for k :: "channel handler"
      by (intro runs_then [OF runs_insert [where Q = ?I]]) (use \<open>quiet k\<close> in \<open>auto intro: runs_quietly simp: opened_def\<close>)
    have "handled (\<lambda>db'. ?I (channels db')) db (io_then (on_db (cd_insert D (created_dm ulid u v)))
        (io_then (if is_direct_dm (created_dm ulid u v)
           then io_then (publish_private (user_id u) (EvChannelCreate (created_dm ulid u v)))
             (publish_private (user_id v) (EvChannelCreate (created_dm ulid u v)))
           else io_return ())
          (io_return (created_dm ulid u v)))) (\<lambda>_ db'. ?I (channels db'))"
      by (intro handled_runs new frame_rules)
    then show ?thesis
      by (rule handled_cong) (use False in \<open>auto simp: create_dm_def Let_def split: res.splits\<close>)
  qed
  then show ?thesis
    unfolding open_dm_def
    by (intro from_bind_read from_bind_framed from_then_attempt from_world frame_rules) (simp_all add: opened_def)
qed

lemma open_dm_bounds: "within_bounds E db u (OpenDm ulid target) (open_dm E D ulid u target)"
proof -
  have "allowed E db u (OpenDm ulid target) M" if "opened D db u ulid target M" for M
    using that by (auto simp: opened_def intro!: allowed_change)
  with open_dm_opens show ?thesis by (rule from_mono)
qed

lemma close_bounds:
  assumes "keyed db"
  shows "within_bounds E db u (CloseChannel ulids target silently) (channel_delete_route E D ulids u target silently)"
proof -
  let ?I = "allowed E db u (CloseChannel ulids target silently)"
  have group: "?I ((channels db)(group_id g \<mapsto> Group g'))"
    if "fetch_channel db target = Ok (Group g)" "may E db u (Group g) ViewChannel" "left_group g (user_id u) g'" for g g'
    using that by (intro allowed_stored [OF assms that(1), unfolded channel_id.simps]) auto
  have last: "?I ((channels db)(group_id g := None))"
    if "fetch_channel db target = Ok (Group g)" "may E db u (Group g) ViewChannel" "user_id u = group_owner g"
      "set (group_recipients g) \<subseteq> {group_owner g}" for g
    using that by (intro allowed_stored [OF assms that(1), unfolded channel_id.simps]) auto
  have dm: "?I (adjusted (dm_id d) (updated (empty_partial_channel\<lparr>pc_active := Some False\<rparr>) []) (channels db))"
    if "fetch_channel db target = Ok (DirectMessage d)" "may E db u (DirectMessage d) ViewChannel" for d
    using that by (intro allowed_adjusted [OF assms that(1), unfolded channel_id.simps]) (simp add: channel_remove_fields_def)
  have deleted: "?I ((channels db)(text_id t := None))"
    if "fetch_channel db target = Ok (TextChannel t)" "may E db u (TextChannel t) ViewChannel" "may E db u (TextChannel t) ManageChannel" for t
    using that by (intro allowed_stored [OF assms that(1), unfolded channel_id.simps]) auto
  show ?thesis
    unfolding channel_delete_route_def
    by (intro route_checks allowed_refl from_then [OF bounds_runs] remove_user_runs channel_update_runs channel_delete_runs
        from_framed [OF frame_leave_group_call] from_framed [OF frame_voice(12)])
       (auto simp: may_def simp del: channel_apply_options.simps intro: group last dm deleted dest: stored_group [OF assms])
qed

lemma set_role_bounds:
  assumes "keyed db"
  shows "within_bounds E db u (SetRolePermissions target rid p) (set_role_permissions E D u target rid p)"
proof -
  have "allowed E db u (SetRolePermissions target rid p) (adjusted (text_id t) (with_role_permissions f) (channels db))"
    if "fetch_channel db target = Ok (TextChannel t)" "may E db u (TextChannel t) ManagePermissions"
      "\<forall>rs. map_of (f rs) = (map_of rs)(rid \<mapsto> override_to_field p)" for t f
    using that by (intro allowed_adjusted [OF assms that(1), unfolded channel_id.simps]) (auto simp: with_role_permissions_def)
  then show ?thesis
    unfolding set_role_permissions_def
    by (intro route_checks from_option allowed_refl from_bind [OF bounds_runs] set_role_permission_runs from_then_frame frame_sync)
       (auto simp: may_def)
qed

lemma set_default_bounds:
  assumes "keyed db"
  shows "within_bounds E db u (SetDefaultPermissions target d) (set_default_channel_permissions E D u target d)"
proof -
  have "allowed E db u (SetDefaultPermissions target d) (adjusted (channel_id c) (updated partial []) (channels db))"
    if "fetch_channel db target = Ok c" "may E db u c ManagePermissions" "default_permissions_update p c d = Ok partial" for c p partial
    using that
    by (intro allowed_adjusted [OF assms that(1)])
       (auto simp: default_permissions_update_def channel_remove_fields_def empty_partial_channel_def res_bind_Ok
         split: channel.splits data_default_channel_permissions.splits)
  moreover have "frame (io_bind (case channel_server c of
      Some sid \<Rightarrow> io_bind (read_database (\<lambda>db. fetch_server db sid)) (\<lambda>s. io_return (Some s)) | None \<Rightarrow> io_return None) (\<lambda>s.
      io_then (sync_voice_permissions (sv_voice E) c s None) (io_return c)))" for c
    by (intro frame_rules)
  ultimately show ?thesis
    unfolding set_default_channel_permissions_def
    by (intro route_checks allowed_refl from_bind [OF bounds_runs] channel_update_runs from_framed) (auto simp: may_def)
qed

lemma ack_bounds: "within_bounds E db u (AckMessage target message) (ack E u target message)"
  unfolding ack_def channel_ack_def
  by (intro route_checks allowed_refl bounds_runs runs_quietly frame_rules)

end

section \<open>Editing\<close>

lemma removed_fields_group:
  "\<exists>g'. channel_remove_fields fs (Group g) = Group g' \<and> group_id g' = group_id g \<and> group_recipients g' = group_recipients g
    \<and> group_permissions g' = group_permissions g \<and> group_encrypted g' = group_encrypted g
    \<and> group_owner g' = group_owner g \<and> group_moderators g' = group_moderators g"
proof (induction fs arbitrary: g)
  case (Cons f fs)
  show ?case
    using Cons.IH [of "g\<lparr>group_description := None\<rparr>"] Cons.IH [of "g\<lparr>group_icon := None\<rparr>"] Cons.IH [of g]
    by (cases f) (simp_all add: channel_remove_fields_def)
qed (simp add: channel_remove_fields_def)

lemma removed_fields_text:
  "\<exists>t'. channel_remove_fields fs (TextChannel t) = TextChannel t' \<and> rearranged fs t t'"
proof (induction fs arbitrary: t)
  case (Cons f fs)
  show ?case
    using Cons.IH [of "t\<lparr>text_description := None\<rparr>"] Cons.IH [of "t\<lparr>text_icon := None\<rparr>"]
      Cons.IH [of "t\<lparr>text_default_permissions := None\<rparr>"] Cons.IH [of "t\<lparr>text_voice := None\<rparr>"]
    by (cases f) (auto simp: channel_remove_fields_def rearranged_def)
qed (simp add: channel_remove_fields_def rearranged_def)

definition cosmetic :: "partial_channel \<Rightarrow> bool" where
  "cosmetic p \<longleftrightarrow> pc_permissions p = None \<and> pc_encrypted p = None \<and> pc_role_permissions p = None \<and> pc_default_permissions p = None"

lemma updated_group_fields:
  assumes "cosmetic p"
  obtains g' where "updated p fs (Group g) = Group g'" "group_id g' = group_id g" "group_recipients g' = group_recipients g"
    "group_permissions g' = group_permissions g" "group_encrypted g' = group_encrypted g"
    "group_owner g' = over (pc_owner p) (group_owner g)" "group_moderators g' = over (pc_moderators p) (group_moderators g)"
proof -
  obtain h where h: "channel_apply_options (Group g) p = Group h" "group_id h = group_id g" "group_recipients h = group_recipients g"
    "group_permissions h = group_permissions g" "group_encrypted h = group_encrypted g"
    "group_owner h = over (pc_owner p) (group_owner g)" "group_moderators h = over (pc_moderators p) (group_moderators g)"
    using assms by (simp add: cosmetic_def)
  show thesis using removed_fields_group [of fs h] h that by auto
qed

lemma updated_text_fields:
  assumes "cosmetic p"
  shows "\<exists>t'. updated p fs (TextChannel t) = TextChannel t' \<and> rearranged fs t t'"
proof -
  obtain h where h: "channel_apply_options (TextChannel t) p = TextChannel h" "text_id h = text_id t" "text_server h = text_server t"
    "text_role_permissions h = text_role_permissions t" "text_encrypted h = text_encrypted t"
    "text_default_permissions h = text_default_permissions t"
    using assms by (simp add: cosmetic_def)
  show ?thesis using removed_fields_text [of fs h] h by (auto simp: rearranged_def)
qed

lemma edit_fields_runs:
  assumes "I M"
  shows "runs I M (edit_fields u d c p) (\<lambda>p' M'. M' = M \<and> pc_owner p' = pc_owner p \<and> pc_moderators p' = pc_moderators p
    \<and> cosmetic p' = cosmetic p)"
  unfolding edit_fields_def
  by (rule runs_quiet_then, intro frame_rules, rule assms, rule runs_quiet_bind, intro frame_rules, rule assms)
     (simp add: runs_returns cosmetic_def)

lemma transfer_runs:
  assumes "I M"
  shows "runs I M (transfer_group ulid u new_owner c) (\<lambda>c' M'. M' = M \<and> (case new_owner of
      None \<Rightarrow> c' = c
    | Some v \<Rightarrow> (\<exists>g. c = Group g \<and> group_owner g = user_id u \<and> v \<in> set (group_recipients g) \<and> c' = Group (g\<lparr>group_owner := v\<rparr>))))"
  unfolding transfer_group_def Let_def
  by (cases new_owner; cases c)
     (use assms in \<open>auto intro!: runs_returns runs_quiet_then frame_rules\<close>)

lemma edit_moderators_result:
  assumes "edit_moderators u d c = Ok c'"
  shows "channel_id c' = channel_id c \<and> (changes_moderators d \<longrightarrow> (\<exists>g g'. c = Group g \<and> c' = Group g' \<and> group_owner g = user_id u
    \<and> moderators_of c' = Some (group_moderators g')
    \<and> set (group_moderators g') \<subseteq> set (group_moderators g) \<union> set (group_recipients g))) \<and> (\<not> changes_moderators d \<longrightarrow> c' = c)"
proof -
  have added: "add_moderators g xs ms = Ok ms' \<Longrightarrow> set ms' \<subseteq> set ms \<union> set (group_recipients g)" for g xs ms ms'
    by (induction g xs ms rule: add_moderators.induct) (auto split: if_splits)
  show ?thesis
    using assms
    by (auto simp: edit_moderators_def moderators_of_def res_bind_Ok split: if_splits channel.splits dest!: added)
qed

lemma frame_check_bitrate [frame_rules]: "frame (check_bitrate E excess t info)"
  unfolding check_bitrate_def by (intro frame_rules)

lemma quiet_announce [frame_rules]: "quiet (announce c ms)"
  by (induction c ms rule: announce.induct) (simp_all add: frame_rules)

lemma from_bind_runs:
  assumes "runs I (channels d) m R" "\<And>x d'. R x (channels d') \<Longrightarrow> from_db (\<lambda>d. I (channels d)) d' (k x) Q"
  shows "from_db (\<lambda>d. I (channels d)) d (io_bind (on_world m) k) Q"
  by (rule from_bind [OF from_runs [OF assms(1)]]) (rule assms(2))

lemma edit_kind_result:
  assumes "I M" "channels d = M"
  shows "from_db (\<lambda>d. I (channels d)) d (edit_kind E excess ulids u data c p) (\<lambda>(c', p') d'. channels d' = M
    \<and> channel_id c' = channel_id c \<and> pc_owner p' = pc_owner p \<and> pc_moderators p' = pc_moderators p \<and> cosmetic p' = cosmetic p
    \<and> ((\<exists>g. c = Group g) \<or> (\<exists>t. c = TextChannel t)))" (is "from_db _ _ _ ?Q")
proof -
  let ?R = "\<lambda>p' M'. M' = M \<and> pc_owner p' = pc_owner p \<and> pc_moderators p' = pc_moderators p \<and> cosmetic p' = cosmetic p"
  have fields: "runs I (channels d) (edit_fields u data c p) ?R" using edit_fields_runs assms by auto
  have "quiet (announce_changes ulids u x y)" for x y
    unfolding announce_changes_def by (cases ulids) (simp add: frame_rules)
  then have group: "from_db (\<lambda>d. I (channels d)) d' (io_then (on_world (announce_changes ulids u (edited_group data c p') p'))
      (io_return (edited_group data c p', p'))) ?Q" if "?R p' (channels d')" "c = Group g" for p' d' g
    using that assms(1) by (intro from_then [OF from_runs [OF runs_quiet]] from_returns) (auto simp: edited_group_def)
  have other: "from_db (\<lambda>d. I (channels d)) d' (io_then (case dec_voice data of Some info \<Rightarrow> check_bitrate E excess t info | None \<Rightarrow> io_return ())
      (io_return (edited_text_channel data c (p'\<lparr>pc_voice := dec_voice data\<rparr>), p'\<lparr>pc_voice := dec_voice data\<rparr>))) ?Q"
    if "?R p' (channels d')" "c = TextChannel t" for p' d' t
    using that assms(1) by (intro from_then [OF from_frame] frame_rules from_returns) (auto simp: edited_text_channel_def cosmetic_def)
  show ?thesis
    unfolding edit_kind_def Let_def
    by (intro from_channel from_fails from_bind_runs [OF fields] group other) (use assms in auto)
qed

context channel_store
begin

lemma edit_bounds:
  assumes "keyed db"
  shows "within_bounds E db u (EditChannel ulids target d) (channel_edit E D V excess ulids u target d)"
proof -
  let ?I = "allowed E db u (EditChannel ulids target d)"
  have change: "?I (adjusted (channel_id c3) (updated p (dec_remove d)) (channels db))"
    if c: "fetch_channel db target = Ok c" "group_editor u c \<or> may E db u c ManageChannel" "cosmetic p"
      and owner: "case dec_owner d of None \<Rightarrow> c1 = c
        | Some v \<Rightarrow> (\<exists>g. c = Group g \<and> group_owner g = user_id u \<and> v \<in> set (group_recipients g) \<and> c1 = Group (g\<lparr>group_owner := v\<rparr>))"
      and mods: "edit_moderators u d c1 = Ok c2" "(\<exists>g. c2 = Group g) \<or> (\<exists>t. c2 = TextChannel t)"
      and p: "pc_owner p = dec_owner d" "pc_moderators p = (if changes_moderators d then moderators_of c2 else None)" "channel_id c3 = channel_id c2" for c c1 c2 c3 p
  proof -
    have id: "channel_id c3 = channel_id c"
      using owner p(3) edit_moderators_result [OF mods(1)] by (auto split: option.splits)
    have kinds: "(\<exists>g. c = Group g) \<or> (\<exists>t. c = TextChannel t)"
      using owner mods edit_moderators_result [OF mods(1)] by (cases c) (auto split: option.splits if_splits)
    have "permitted E db u (EditChannel ulids target d) target (Some c) (Some (updated p (dec_remove d) c))"
    proof (cases c)
      case (Group g)
      obtain g' where g': "updated p (dec_remove d) (Group g) = Group g'" "group_id g' = group_id g"
        "group_recipients g' = group_recipients g" "group_permissions g' = group_permissions g" "group_encrypted g' = group_encrypted g"
        "group_owner g' = over (pc_owner p) (group_owner g)" "group_moderators g' = over (pc_moderators p) (group_moderators g)"
        using updated_group_fields [OF c(3)] by metis
      have "regrouped u g g'"
        using g' p owner edit_moderators_result [OF mods(1)] Group
        by (auto simp: regrouped_def split: option.splits if_splits)
      with c(2) Group g'(1) show ?thesis by (simp del: channel_apply_options.simps)
    qed (use updated_text_fields [OF c(3), of "dec_remove d"] kinds c(2) in \<open>auto simp del: channel_apply_options.simps\<close>)
    then show ?thesis unfolding id by (rule allowed_adjusted [OF assms c(1)])
  qed
  have store: "from_db (\<lambda>d. ?I (channels d)) d1 (io_bind (on_world (channel_update D c p (dec_remove d))) (\<lambda>c.
      io_then (if channel_voice c = None then delete_voice_channel (sv_voice E) (channel_id c) (channel_server c) else io_return ())
        (io_return c))) (\<lambda>_ d. ?I (channels d))"
    if "channels d1 = channels db" "?I (adjusted (channel_id c) (updated p (dec_remove d)) (channels db))" for d1 c p
    using that by (intro from_bind [OF bounds_runs] channel_update_runs from_then_frame frame_rules from_returns) auto
  have check: "from_db (\<lambda>d. ?I (channels d)) db (if group_editor u c then io_return ()
      else io_bind (channel_access E (channel_query u c)) (\<lambda>(p, q). needs p ManageChannel))
      (\<lambda>_ d. d = db \<and> (group_editor u c \<or> may E db u c ManageChannel))" for c
    by (intro from_if from_returns from_bind_channel_access)
       (auto simp: may_def from_db_def triple_def io_read_def split: res.splits)
  have kind: "from_db (\<lambda>d. ?I (channels d)) d1 (io_bind (edit_kind E excess (snd ulids) u d c2 (empty_partial_channel\<lparr>pc_owner := dec_owner d,
        pc_moderators := (if changes_moderators d then moderators_of c2 else None)\<rparr>)) (\<lambda>(c, partial).
      io_bind (on_world (channel_update D c partial (dec_remove d))) (\<lambda>c.
      io_then (if channel_voice c = None then delete_voice_channel (sv_voice E) (channel_id c) (channel_server c) else io_return ())
        (io_return c)))) (\<lambda>_ d. ?I (channels d))"
    if "channels d1 = channels db" "fetch_channel db target = Ok c" "group_editor u c \<or> may E db u c ManageChannel"
      "case dec_owner d of None \<Rightarrow> c1 = c
        | Some v \<Rightarrow> (\<exists>g. c = Group g \<and> group_owner g = user_id u \<and> v \<in> set (group_recipients g) \<and> c1 = Group (g\<lparr>group_owner := v\<rparr>))"
      "edit_moderators u d c1 = Ok c2" for d1 c c1 c2
    by (rule from_bind [OF edit_kind_result [where I = ?I, OF allowed_refl that(1)]])
       (use that in \<open>auto intro!: store change [OF that(2,3) _ that(4,5)] simp: cosmetic_def empty_partial_channel_def\<close>)
  show ?thesis
    unfolding channel_edit_def
    by (intro from_then_attempt allowed_refl from_bind_read from_then [OF check] from_if from_returns
        from_bind_runs [OF transfer_runs] from_bind_attempt kind)
       (auto split del: if_split)
qed

lemma serve_bounds:
  assumes "keyed db"
  shows "within_bounds E db u req (serve_channel E D V u req)"
  by (cases req; simp only: serve_channel.simps;
      intro from_void create_group_bounds open_dm_bounds add_member_bounds [OF assms] remove_member_bounds [OF assms]
        close_bounds [OF assms] edit_bounds [OF assms] set_role_bounds [OF assms] set_default_bounds [OF assms] ack_bounds)

end

section \<open>A driver that finds direct messages and removes members\<close>

locale direct_message_store = channel_store +
  assumes find_none: "(\<And>c. cd_find_direct_message_channel D db a b \<noteq> Ok c) \<Longrightarrow> channels db i = Some c \<Longrightarrow> \<not> between_users a b c"
    and find_some: "cd_find_direct_message_channel D db a b = Ok c \<Longrightarrow> between_users a b c"
    and removes: "outcome (cd_remove_user_from_group D i v db)
      (\<lambda>M. M = adjusted i (with_recipients (removeAll v)) (channels db)) (\<lambda>M. True)"
begin

lemma leave_group_done:
  assumes "M (group_id g) = Some (Group h)"
    and ms: "ms = (if v \<in> set (group_moderators g) then filter (\<lambda>m. m \<noteq> v) (group_moderators g) else group_moderators h)"
  shows "runs (\<lambda>_. True) M (leave_group D ulid g v by_id silent)
    (\<lambda>_ M'. M' = M(group_id g \<mapsto> Group (h\<lparr>group_moderators := ms, group_recipients := removeAll v (group_recipients h)\<rparr>)))"
proof -
  have first: "runs (\<lambda>_. True) M (if v \<in> set (group_moderators g)
      then on_db (cd_update D (group_id g) (empty_partial_channel\<lparr>pc_moderators := Some (filter (\<lambda>m. m \<noteq> v) (group_moderators g))\<rparr>) [])
      else io_return ()) (\<lambda>_ M'. M' = M(group_id g \<mapsto> Group (h\<lparr>group_moderators := ms\<rparr>)))"
    using assms
    by (auto intro!: runs_returns runs_update simp: adjusted_def updated_group fun_upd_idem simp del: channel_apply_options.simps)
  have second: "runs (\<lambda>_. True) M' (on_db (cd_remove_user_from_group D i v))
      (\<lambda>_ M''. M'' = adjusted i (with_recipients (removeAll v)) M')" for M' i
    by (rule runs_op, rule outcome_mono [OF removes]) auto
  have quiet: "quiet (io_then (publish (group_id g) (EvChannelGroupLeave (group_id g) v)) (if silent then io_return () else io_discard (send x y)))"
    for x y by (intro frame_rules)
  show ?thesis
    unfolding leave_group_def
    by (rule runs_then [OF first], rule runs_then [OF second], rule runs_conseq [OF runs_quiet [OF quiet]])
       (simp_all add: adjusted_def with_recipients_def)
qed

lemma remove_user_done:
  assumes "M (group_id g) = Some (Group g)"
  shows "runs (\<lambda>_. True) M (remove_user_from_group D ulids (Group g) u by_id silent) (\<lambda>_ M'. case M' (group_id g) of
      None \<Rightarrow> user_id u = group_owner g \<and> set (group_recipients g) \<subseteq> {user_id u}
    | Some c \<Rightarrow> (\<exists>g'. c = Group g' \<and> group_recipients g' = removeAll (user_id u) (group_recipients g)
        \<and> group_owner g' \<noteq> user_id u \<and> user_id u \<notin> set (group_moderators g')))" (is "runs _ _ _ (\<lambda>_. ?Q)")
proof -
  have leave: "runs (\<lambda>_. True) M' (leave_group D ulid g (user_id u) by_id silent) (\<lambda>_. ?Q)"
    if "M' = M(group_id g \<mapsto> Group (g\<lparr>group_owner := owner\<rparr>))" "owner \<noteq> user_id u" for M' ulid owner
    by (rule runs_conseq [OF leave_group_done [where h = "g\<lparr>group_owner := owner\<rparr>", OF _ refl]]) (use that in auto)
  show ?thesis
  proof (cases "user_id u = group_owner g")
    case False
    with leave [of M "group_owner g" "snd ulids"] assms show ?thesis by (simp add: remove_user_from_group_def fun_upd_idem)
  next
    case True
    show ?thesis
    proof (cases "List.find (\<lambda>x. x \<noteq> user_id u) (group_recipients g)")
      case None
      then have "set (group_recipients g) \<subseteq> {user_id u}" by (auto simp: find_None_iff)
      with True have "runs (\<lambda>_. True) M (channel_delete D (Group g)) (\<lambda>_. ?Q)"
        unfolding channel_delete_def by (intro runs_quiet_then [OF quiet_ops(4)] runs_delete) auto
      with True None show ?thesis by (simp add: remove_user_from_group_def)
    next
      case (Some n)
      let ?M = "M(group_id g \<mapsto> Group (g\<lparr>group_owner := n\<rparr>))"
      have "runs (\<lambda>_. True) M (hand_over_group D (fst ulids) g n) (\<lambda>_ M'. M' = ?M)"
        unfolding hand_over_group_def
        by (rule runs_then [OF runs_update [where Q = "\<lambda>M'. M' = ?M"]])
           (use assms in \<open>auto simp: adjusted_def updated_group simp del: channel_apply_options.simps intro!: runs_quiet frame_rules\<close>)
      moreover have n: "n \<noteq> user_id u" using Some by (auto simp: find_Some_iff)
      ultimately show ?thesis
        using runs_then [OF _ leave [where owner = n and ulid = "snd ulids"]] Some True by (simp add: remove_user_from_group_def)
    qed
  qed
qed

end

interpretation mongodb_users: direct_message_store mongodb_channels
proof
  fix db a b i v and c :: channel
  show "\<not> between_users a b c" if "\<And>c. cd_find_direct_message_channel mongodb_channels db a b \<noteq> Ok c" "channels db i = Some c"
    using that map_of_SomeD [OF that(2)]
    by (cases "List.find (between_users a b) (hm_values (db_channels db))")
       (auto simp: mongodb_channels_def mongo_find_direct_message_channel_def ok_or_def find_None_iff hm_values_def)
  show "between_users a b c" if "cd_find_direct_message_channel mongodb_channels db a b = Ok c"
    using that by (auto simp: mongodb_channels_def mongo_find_direct_message_channel_def find_Some_iff)
  show "outcome (cd_remove_user_from_group mongodb_channels i v db)
      (\<lambda>M. M = adjusted i (with_recipients (removeAll v)) (channels db)) (\<lambda>M. True)"
    by (simp add: mongodb_channels_def mongo_remove_user_from_group_def outcome_def channels_adjust)
qed

end
