(* ===== verification/Channel_Properties.thy ===== *)
theory Channel_Properties
  imports Channel_Laws
begin

text \<open>
  Properties of the requests on channels: they do what the specification permits and nothing else, groups stay
  well formed, direct messages are unique, whoever leaves a group is out of it, and two requests do more than they
  should.
\<close>

section \<open>Requests and their specification\<close>

lemma driver_bounds:
  assumes "D = reference_channels \<or> D = mongodb_channels" "keyed db"
  shows "within_bounds E db u req (serve_channel E D V u req)"
  using assms(1)
proof
  assume "D = reference_channels"
  then show ?thesis by (simp only: reference.serve_bounds [OF assms(2)])
next
  assume "D = mongodb_channels"
  then show ?thesis by (simp only: mongodb.serve_bounds [OF assms(2)])
qed

text \<open>C13: every request on channels refines the specification, with either driver and whatever its outcome: a channel
  is left as it was or changed as \<open>permitted\<close> says. A group gains a member only by a friend of
  the new member who may invite, and while there is room; it loses one only by their own request or by the owner or
  a moderator, who cannot remove the owner, moderators nor themselves; only the owner hands the group over or names
  moderators; channels of servers are changed and removed only with the permission to manage them.\<close>

theorem channel_requests_refine_spec:
  assumes "D = reference_channels \<or> D = mongodb_channels" "db_wf (db_of pl)" "serve_channel E D V u req pl = (result, pl')"
  shows "channels (db_of pl') i = channels (db_of pl) i
    \<or> permitted E (db_of pl) u req i (channels (db_of pl) i) (channels (db_of pl') i)"
proof -
  have "keyed (db_of pl)" using assms(2) by (auto simp: keyed_def db_wf_def table_ok_def)
  from from_dbD [OF driver_bounds [OF assms(1) this] assms(3)] show ?thesis by (auto simp: allowed_def split: res.splits)
qed

section \<open>Groups\<close>

text \<open>Platforms reached from one without channels by requests of any users, with one limit of the size of groups.\<close>

inductive reachable_channels :: "usize \<Rightarrow> channel_driver \<Rightarrow> platform \<Rightarrow> bool" for n D where
  no_channels: "db_channels (db_of pl) = [] \<Longrightarrow> reachable_channels n D pl"
| request: "reachable_channels n D pl \<Longrightarrow> lim_group_size (sv_limits E) = n \<Longrightarrow> serve_channel E D V u req pl = (result, pl')
    \<Longrightarrow> reachable_channels n D pl'"

definition group_ok :: "usize \<Rightarrow> group_channel \<Rightarrow> bool" where
  "group_ok n g \<longleftrightarrow> distinct (group_recipients g) \<and> length (group_recipients g) \<le> n
     \<and> group_owner g \<in> set (group_recipients g) \<and> set (group_moderators g) \<subseteq> set (group_recipients g)"

definition channel_ok :: "usize \<Rightarrow> string \<Rightarrow> channel \<Rightarrow> bool" where
  "channel_ok n i c \<longleftrightarrow> channel_id c = i \<and> (case c of
     Group g \<Rightarrow> group_ok n g
   | DirectMessage d \<Rightarrow> distinct (dm_recipients d) \<and> length (dm_recipients d) = 2
   | _ \<Rightarrow> True)"

lemma left_group_ok:
  assumes "group_ok n g" "left_group g v g'"
  shows "group_ok n g'" "group_id g' = group_id g"
proof -
  note ok = assms(1) [unfolded group_ok_def] and left = assms(2) [unfolded left_group_def]
  have "length (removeAll v xs) \<le> length xs" for xs :: "string list" by (simp add: length_removeAll_less_eq)
  then have "length (group_recipients g') \<le> length (group_recipients g)" "distinct (group_recipients g')"
    using ok left by (auto simp: distinct_removeAll)
  moreover have "group_owner g' \<in> set (group_recipients g')" using ok left by auto
  moreover have "set (group_moderators g') \<subseteq> set (group_recipients g')" using ok left by auto
  ultimately show "group_ok n g'" using ok by (auto simp: group_ok_def)
  have "group_id (g'\<lparr>group_owner := x, group_moderators := y, group_recipients := z\<rparr>) = group_id g'" for x y z by simp
  then show "group_id g' = group_id g" using left by metis
qed

lemma regrouped_ok: "group_ok n g \<Longrightarrow> regrouped u g g' \<Longrightarrow> group_ok n g' \<and> group_id g' = group_id g"
  unfolding group_ok_def regrouped_def by (elim conjE disjE) (simp_all, blast+)

lemma permitted_ok:
  assumes "permitted E db u req i old new" "lim_group_size (sv_limits E) = n" "\<And>c. old = Some c \<Longrightarrow> channel_ok n i c" "new = Some c'"
  shows "channel_ok n i c'"
proof (cases req)
  case (CreateGroup ulid data)
  then show ?thesis
    using assms by (auto simp: channel_ok_def created_group_def created_recipients_def group_ok_def)
next
  case (OpenDm ulid target)
  then show ?thesis using assms by (auto simp: channel_ok_def created_dm_def split: if_splits)
next
  case (AddMember ulid gid mid)
  then show ?thesis using assms by (auto simp: channel_ok_def group_ok_def)
next
  case (RemoveMember ulids target member)
  with assms obtain g g' v where "old = Some (Group g)" "c' = Group g'" "left_group g v g'" by auto
  then show ?thesis using assms(3) [of "Group g"] left_group_ok by (auto simp: channel_ok_def)
next
  case (CloseChannel ulids target silently)
  with assms(1) obtain c where c: "old = Some c" by auto
  show ?thesis using CloseChannel assms(1,4) assms(3) [OF c] left_group_ok c by (cases c) (auto simp: channel_ok_def)
next
  case (EditChannel ulids target d)
  with assms(1) obtain c where c: "old = Some c" by auto
  show ?thesis
    using EditChannel assms(1,4) assms(3) [OF c] c regrouped_ok by (cases c) (auto simp: channel_ok_def rearranged_def)
next
  case (SetDefaultPermissions target d)
  with assms(1) obtain c where c: "old = Some c" by auto
  show ?thesis
    using SetDefaultPermissions assms(1,4) assms(3) [OF c] c by (cases c) (auto simp: channel_ok_def group_ok_def)
qed (use assms in \<open>auto simp: channel_ok_def\<close>)

lemma reachable_channels_ok:
  assumes "reachable_channels n D pl" "D = reference_channels \<or> D = mongodb_channels" "channels (db_of pl) i = Some c"
  shows "channel_ok n i c"
  using assms(1,3)
proof (induction arbitrary: i c rule: reachable_channels.induct)
  case (request pl E V u req result pl')
  have "keyed (db_of pl)" using request.IH by (auto simp: keyed_def channel_ok_def)
  from from_dbD [OF driver_bounds [OF assms(2) this] request.hyps(3)]
  have "allowed E (db_of pl) u req (channels (db_of pl'))" by (simp split: res.splits)
  then show ?case using request.IH request.prems request.hyps(2) permitted_ok [of E "db_of pl" u req i] unfolding allowed_def by metis
qed simp

text \<open>C14: groups stay well formed. On every platform reached by requests of any users, each stored group has distinct
  recipients, no more than the configured size, its owner among them, and only recipients as
  moderators; each direct message has two distinct recipients.\<close>

theorem groups_stay_well_formed:
  assumes "reachable_channels n D pl" "D = reference_channels \<or> D = mongodb_channels"
  shows "(fetch_channel (db_of pl) i = Ok (Group g) \<longrightarrow> group_id g = i \<and> distinct (group_recipients g) \<and> length (group_recipients g) \<le> n
      \<and> group_owner g \<in> set (group_recipients g) \<and> set (group_moderators g) \<subseteq> set (group_recipients g))
    \<and> (fetch_channel (db_of pl) i = Ok (DirectMessage d) \<longrightarrow> dm_id d = i \<and> distinct (dm_recipients d) \<and> length (dm_recipients d) = 2)"
  using reachable_channels_ok [OF assms, of i "Group g"] reachable_channels_ok [OF assms, of i "DirectMessage d"]
  by (auto simp: fetched_channel channel_ok_def group_ok_def)

section \<open>Leaving\<close>


section \<open>Direct messages\<close>

definition unique_between :: "(string \<rightharpoonup> channel) \<Rightarrow> bool" where
  "unique_between M \<longleftrightarrow> (\<forall>a b i j c c'. M i = Some c \<longrightarrow> M j = Some c' \<longrightarrow> between_users a b c \<longrightarrow> between_users a b c' \<longrightarrow> i = j)"

lemma between_sym: "between_users a b c \<longleftrightarrow> between_users b a c"
  by (cases c) (auto simp: between_users_def)

lemma between_created: "between_users a b (created_dm ulid u v) \<Longrightarrow> {a, b} = {user_id u, user_id v}"
  by (auto simp: between_users_def created_dm_def split: if_splits)

lemma permitted_between:
  assumes "permitted E db u req i old (Some c')" "between_users a b c'" "\<forall>ulid target. req \<noteq> OpenDm ulid target"
  shows "\<exists>c. old = Some c \<and> between_users a b c"
proof (cases req)
  case (CloseChannel ulids target silently)
  with assms(1) obtain c where c: "old = Some c" by auto
  show ?thesis using CloseChannel assms(1,2) c by (cases c) (auto simp: between_users_def split: if_splits)
next
  case (EditChannel ulids target d)
  with assms(1) obtain c where c: "old = Some c" by auto
  show ?thesis using EditChannel assms(1,2) c by (cases c) (auto simp: between_users_def split: if_splits)
next
  case (SetDefaultPermissions target d)
  with assms(1) obtain c where c: "old = Some c" by auto
  show ?thesis using SetDefaultPermissions assms(1,2) c by (cases c) (auto simp: between_users_def split: if_splits)
qed (use assms in \<open>auto simp: between_users_def created_group_def split: if_splits\<close>)

lemma unique_opened:
  assumes "unique_between (channels db)" "opened mongodb_channels db u ulid target M"
  shows "unique_between M"
  using assms(2) unfolding opened_def
proof (elim disjE exE conjE)
  fix v
  assume none: "\<forall>c. cd_find_direct_message_channel mongodb_channels db (user_id u) (user_id v) \<noteq> Ok c"
    and M: "M = (channels db)(ulid \<mapsto> created_dm ulid u v)"
  have "\<not> between_users a b c" if "between_users a b (created_dm ulid u v)" "channels db i = Some c" for a b i c
    using between_created [OF that(1)] mongodb_users.find_none [of db _ _ i c] none that(2) between_sym [of a b c]
    by (auto simp: doubleton_eq_iff)
  with assms(1) M show ?thesis unfolding unique_between_def by (auto split: if_splits)
qed (use assms(1) in simp)

lemma reachable_unique:
  assumes "reachable_channels n mongodb_channels pl"
  shows "unique_between (channels (db_of pl))"
  using assms
proof (induction rule: reachable_channels.induct)
  case (no_channels pl)
  then show ?case by (simp add: unique_between_def)
next
  case (request pl E V u req result pl')
  have keyed: "keyed (db_of pl)" using reachable_channels_ok [OF request.hyps(1)] by (auto simp: keyed_def channel_ok_def)
  show ?case
  proof (cases "\<exists>ulid target. req = OpenDm ulid target")
    case True
    then obtain ulid target where req: "req = OpenDm ulid target" by blast
    have "from_db (\<lambda>d. opened mongodb_channels (db_of pl) u ulid target (channels d)) (db_of pl)
        (serve_channel E mongodb_channels V u req) (\<lambda>_ d. opened mongodb_channels (db_of pl) u ulid target (channels d))"
      unfolding req serve_channel.simps by (rule from_void [OF mongodb.open_dm_opens])
    from from_dbD [OF this request.hyps(3)] have "opened mongodb_channels (db_of pl) u ulid target (channels (db_of pl'))"
      by (simp split: res.splits)
    with request.IH show ?thesis by (rule unique_opened)
  next
    case False
    from from_dbD [OF mongodb.serve_bounds [OF keyed] request.hyps(3)]
    have "allowed E (db_of pl) u req (channels (db_of pl'))" by (simp split: res.splits)
    then have "\<exists>c. channels (db_of pl) i = Some c \<and> between_users a b c"
      if "channels (db_of pl') i = Some c'" "between_users a b c'" for i c' a b
      using that permitted_between [of E "db_of pl" u req i _ c' a b] False unfolding allowed_def by metis
    with request.IH show ?thesis unfolding unique_between_def by metis
  qed
qed


section \<open>More than the requests should do\<close>

abbreviation no_channel_edit :: data_edit_channel where
  "no_channel_edit \<equiv> \<lparr>dec_name = None, dec_description = None, dec_owner = None, dec_icon = None, dec_nsfw = None,
     dec_archived = None, dec_voice = None, dec_add_moderators = None, dec_remove_moderators = None, dec_remove = []\<rparr>"

abbreviation reset_default :: data_edit_channel where
  "reset_default \<equiv> no_channel_edit\<lparr>dec_remove := [ChannelField_DefaultPermissions]\<rparr>"

lemmas run_channel_route = io_then_def io_bind_def io_return_def io_fail_def io_discard_def read_database_def validated_def
  io_read_def Let_def

lemma on_world_return [simp]: "on_world (\<lambda>s. (Ok x, s)) = (\<lambda>s. (Ok x, s))"
  by (auto simp: on_world_def)

text \<open>C40: whoever may manage a channel of a server takes the default permissions off it by an edit that removes the field,
  without the right to manage permissions that setting them asks for; what the channel denied to
  everybody is then no longer denied.\<close>

theorem managers_reset_default_permissions:
  assumes "fetch_channel (db_of pl) i = Ok (TextChannel t)" "text_id t = i" "validate reset_default = None"
    and "may E (db_of pl) u (TextChannel t) ManageChannel"
    and "channel_edit E mongodb_channels validate excess ulids u i reset_default pl = (result, pl')"
  shows "fetch_channel (db_of pl') i = Ok (TextChannel (t\<lparr>text_default_permissions := None\<rparr>))"
proof -
  let ?rest = "\<lambda>c. io_then (if channel_voice c = None then delete_voice_channel (sv_voice E) (channel_id c) (channel_server c) else io_return ())
    (io_return c)"
  obtain p q where pq: "channel_rights E (db_of pl) u (TextChannel t) = Some (p, q)" "has_channel_permission p ManageChannel"
    using assms(4) by (auto simp: may_def)
  then have access: "channel_access E (channel_query u (TextChannel t)) pl = (Ok (p, q), pl)"
    by (simp add: channel_access_def channel_rights_def channel_query_def voice_query_def)
  obtain c w where run: "on_world (channel_update mongodb_channels (TextChannel t) empty_partial_channel [ChannelField_DefaultPermissions]) pl
      = (Ok c, w)" "fetch_channel (db_of w) i = Ok (TextChannel (t\<lparr>text_default_permissions := None\<rparr>))"
    using assms(1,2)
    by (auto simp: channel_update_def run_channel_route on_world_def on_db_def mongodb_channels_def mongo_update_channel_def
        empty_partial_channel_def map_of_hm_adjust publish_def channel_remove_fields_def fetch_channel_def ok_or_def split: option.splits)
  have none: "empty_partial_channel\<lparr>pc_owner := None, pc_moderators := None\<rparr> = empty_partial_channel"
    by (simp add: empty_partial_channel_def)
  have kind: "edit_kind E excess (snd ulids) u reset_default (TextChannel t) empty_partial_channel pl = (Ok (TextChannel t, empty_partial_channel), pl)"
    by (cases "old_icon (TextChannel t)") (simp_all add: edit_kind_def edit_fields_def drop_old_file_def use_new_file_def edited_text_channel_def run_channel_route
        on_world_def empty_partial_channel_def channel_remove_fields_def over_def over_option_def)
  have "channel_edit E mongodb_channels validate excess ulids u i reset_default pl = ?rest c w"
    using assms(1,3) access run(1) kind pq(2)
    by (simp add: channel_edit_def run_channel_route group_editor_def edit_channel_unchanged_def changes_moderators_def
        transfer_group_def edit_moderators_def none throw_if_lacking_channel_permission_def)
  moreover have "frame (?rest c)" by (intro frame_rules)
  ultimately have "db_of pl' = db_of w" using assms(5) by (auto dest: unchangedD)
  with run(2) show ?thesis by simp
qed

text \<open>An owner who hands the group over and names moderators in one request is refused, since the check of the
  moderators already looks at the new owner; the handover has been announced in the group and is not stored.\<close>

lemma refused_handover_is_announced:
  assumes "fetch_channel (db_of pl) i = Ok (Group g)" "validate d = None" "group_owner g = user_id u"
    and "dec_owner d = Some v" "v \<in> set (group_recipients g)" "v \<noteq> user_id u" "changes_moderators d"
    and "send (into_message (fst ulids) (SysChannelOwnershipChanged (user_id u) v) (group_id g)) (Group (g\<lparr>group_owner := v\<rparr>)) (pl_world pl) = (Ok (), w)"
  shows "channel_edit E D validate excess ulids u i d pl = (Err NotOwner, pl\<lparr>pl_world := w\<rparr>) \<and> channels (w_db w) = channels (db_of pl)"
proof
  show "channel_edit E D validate excess ulids u i d pl = (Err NotOwner, pl\<lparr>pl_world := w\<rparr>)"
    using assms
    by (simp add: channel_edit_def run_channel_route group_editor_def edit_channel_unchanged_def transfer_group_def
        edit_moderators_def on_world_def)
  have "quiet (send m c)" for m c by (intro frame_rules)
  from unchangedD [OF this assms(8)] show "channels (w_db w) = channels (db_of pl)" by simp
qed

section \<open>Examples\<close>

text \<open>Two friends without channels, a group of them, and a server whose members may see and manage its channels.\<close>

definition party_user :: "string \<Rightarrow> string \<Rightarrow> user" where
  "party_user i friend = default_user\<lparr>user_id := i, user_relations := Some [\<lparr>rel_id = friend, rel_status = Rel_Friend\<rparr>]\<rparr>"

definition party_data :: data_create_group where
  "party_data = \<lparr>dcg_name = ''n'', dcg_description = None, dcg_icon = None, dcg_users = [''V''], dcg_nsfw = None\<rparr>"

definition party_server :: server where
  "party_server = \<lparr>server_id = ''S'', server_owner = ''O'', server_name = ''s'', server_description = None, server_channels = [''C''],
     server_categories = None, server_system_messages = None, server_roles = [], server_default_permissions = 1048577,
     server_icon = None, server_banner = None, server_flags = None, server_nsfw = False, server_analytics = False,
     server_discoverable = False\<rparr>"

definition party_text :: text_channel where
  "party_text = \<lparr>text_id = ''C'', text_server = ''S'', text_name = ''c'', text_description = None, text_icon = None,
     text_last_message_id = None, text_default_permissions = Some \<lparr>ov_a = 0, ov_d = 4194304\<rparr>, text_role_permissions = [],
     text_nsfw = False, text_voice = None, text_encrypted = False\<rparr>"

definition party_group :: group_channel where
  "party_group = \<lparr>group_id = ''G'', group_name = ''n'', group_owner = ''U'', group_description = None,
     group_recipients = [''V'', ''U''], group_icon = None, group_last_message_id = None, group_permissions = None,
     group_moderators = [], group_nsfw = False, group_encrypted = False\<rparr>"

definition party_platform :: "(string, channel) hash_map \<Rightarrow> platform" where
  "party_platform cs = \<lparr>pl_world = \<lparr>w_db = empty_db\<lparr>db_channels := cs, db_servers := [(''S'', party_server)],
       db_users := [(''U'', party_user ''U'' ''V''), (''V'', party_user ''V'' ''U'')],
       db_server_members := [(\<lparr>key_server = ''S'', key_user = ''U''\<rparr>,
         (default_member 0)\<lparr>member_id := \<lparr>key_server = ''S'', key_user = ''U''\<rparr>\<rparr>)]\<rparr>,
       w_published = [], w_broker = [], w_tasks = []\<rparr>,
     pl_redis = \<lparr>rd_store = [], rd_faults = []\<rparr>, pl_livekit = []\<rparr>"

definition party_env :: server_env where
  "party_env = \<lparr>sv_voice = \<lparr>ve_nodes = [], ve_hosts = [], ve_answers = (\<lambda>_. True), ve_participants = (\<lambda>_ _. 0),
       ve_jwt = (\<lambda>_. None), ve_limits = (\<lambda>_. Panic), ve_now = 0, ve_unix_now = 0\<rparr>,
     sv_structs = derived_structs,
     sv_limits = \<lparr>lim_group_size = 2, lim_message_embeds = 5, lim_message_replies = 5, lim_message_reactions = 20,
       lim_server_emoji = 100, lim_server_roles = 200, lim_server_channels = 200, lim_new_user_hours = 72,
       lim_body_limit_size = 20000000\<rparr>\<rparr>"

definition party_validators :: channel_validators where
  "party_validators = \<lparr>vc_create = (\<lambda>_. None), vc_edit = (\<lambda>_. None), vc_excess = (\<lambda>_ _. ''excess'')\<rparr>"

lemmas party_defs = party_user_def party_data_def party_server_def party_text_def party_group_def party_platform_def
  party_env_def party_validators_def empty_db_def default_user_def default_member_def

lemma party_creates:
  "\<exists>pl'. serve_channel party_env mongodb_channels party_validators (party_user ''U'' ''V'') (CreateGroup ''G'' party_data) (party_platform [])
     = (Ok (), pl') \<and> channels (db_of pl') ''G'' = Some (Group party_group)"
  by (simp add: void_def create_group_route_def run_channel_route relationship_with_def create_group_def created_recipients_def
      created_group_def on_world_def on_db_def mongodb_channels_def mongo_insert_channel_def hm_contains_def publish_def over_def
      party_defs)

lemma party_opens:
  "\<exists>pl' c. open_dm party_env mongodb_channels ''D'' (party_user ''U'' ''V'') ''U'' (party_platform []) = (Ok c, pl')
     \<and> channels (db_of pl') ''D'' = Some (SavedMessages \<lparr>saved_id = ''D'', saved_user = ''U''\<rparr>)"
  by (simp add: open_dm_def run_channel_route user_access_def fetch_user_def ok_or_def calculate_user_permissions_def
      db_query_def query_ops voice_query_def with_user_def new_query_def users_same_def throw_if_lacking_user_permission_def
      has_user_permission_def pv_has_def create_dm_def created_dm_def mongo_find_direct_message_channel_def
      hm_values_def on_world_def on_db_def mongodb_channels_def mongo_insert_channel_def hm_contains_def publish_def is_direct_dm_def party_defs)

theorem channel_requests_refine_spec_witness:
  "\<exists>pl'. serve_channel party_env mongodb_channels party_validators (party_user ''U'' ''V'') (CreateGroup ''G'' party_data) (party_platform [])
     = (Ok (), pl') \<and> channels (db_of pl') ''G'' = Some (Group party_group) \<and> is_friends_with (party_user ''U'' ''V'') ''V''"
proof -
  have wf: "db_wf (db_of (party_platform []))" by (auto simp: db_wf_def table_ok_def hm_wf_def party_defs)
  have none: "channels (db_of (party_platform [])) ''G'' = None" by (simp add: party_platform_def empty_db_def)
  obtain pl' where run: "serve_channel party_env mongodb_channels party_validators (party_user ''U'' ''V'') (CreateGroup ''G'' party_data)
      (party_platform []) = (Ok (), pl')" "channels (db_of pl') ''G'' = Some (Group party_group)"
    using party_creates by blast
  with channel_requests_refine_spec [OF disjI2 [OF refl] wf run(1), of "''G''"] none have "is_friends_with (party_user ''U'' ''V'') ''V''"
    by (simp add: party_data_def)
  with run show ?thesis by blast
qed

theorem groups_stay_well_formed_witness:
  "\<exists>pl'. reachable_channels 2 mongodb_channels pl' \<and> fetch_channel (db_of pl') ''G'' = Ok (Group party_group)
     \<and> length (group_recipients party_group) \<le> 2 \<and> group_owner party_group \<in> set (group_recipients party_group)"
proof -
  obtain pl' where run: "serve_channel party_env mongodb_channels party_validators (party_user ''U'' ''V'') (CreateGroup ''G'' party_data)
      (party_platform []) = (Ok (), pl')" "channels (db_of pl') ''G'' = Some (Group party_group)"
    using party_creates by blast
  have "reachable_channels 2 mongodb_channels (party_platform [])" by (rule no_channels) (simp add: party_platform_def empty_db_def)
  then have reach: "reachable_channels 2 mongodb_channels pl'" by (rule request [OF _ _ run(1)]) (simp add: party_env_def)
  have "fetch_channel (db_of pl') ''G'' = Ok (Group party_group)" using run(2) by (simp add: fetched_channel)
  with groups_stay_well_formed [OF reach disjI2 [OF refl], of "''G''" party_group] reach show ?thesis by blast
qed



lemma party_rights:
  "\<exists>q. channel_rights party_env (db_of (party_platform cs)) (party_user ''U'' ''V'') (TextChannel party_text) = Some (1048577, q)"
  by (simp add: channel_rights_def calculate_channel_permissions_def server_query_defs query_ops with_channel_def kind_of_channel_def
      q_set_server_from_channel_def fetch_server_def fetch_member_def ok_or_def server_role_overrides_def sorted_overrides_def sort_desc_def
      default_channel_override_def field_to_override_def i64_as_u64_def default_server_permissions_def roles_of_def
      q_get_our_channel_role_overrides_def selected_channel_overrides_def channel_role_overrides_def apply_all_def pv_apply_def pv_allow_def
      pv_revoke_def in_timeout_def has_channel_permission_def pv_has_def channel_permission_value.simps Let_def map_filter_simps party_defs)

theorem managers_reset_default_permissions_witness:
  "\<exists>result pl'. channel_edit party_env mongodb_channels (\<lambda>_. None) (\<lambda>_ _. ''excess'') (''I'', ''J'', ''K'', ''L'') (party_user ''U'' ''V'') ''C''
      reset_default (party_platform [(''C'', TextChannel party_text)]) = (result, pl')
    \<and> \<not> may party_env (db_of (party_platform [(''C'', TextChannel party_text)])) (party_user ''U'' ''V'') (TextChannel party_text) ManagePermissions
    \<and> fetch_channel (db_of pl') ''C'' = Ok (TextChannel (party_text\<lparr>text_default_permissions := None\<rparr>))"
proof -
  let ?pl = "party_platform [(''C'', TextChannel party_text)]"
  obtain result pl' where run: "channel_edit party_env mongodb_channels (\<lambda>_. None) (\<lambda>_ _. ''excess'') (''I'', ''J'', ''K'', ''L'')
      (party_user ''U'' ''V'') ''C'' reset_default ?pl = (result, pl')" by fastforce
  have facts: "fetch_channel (db_of ?pl) ''C'' = Ok (TextChannel party_text)" "text_id party_text = ''C''"
    by (simp_all add: fetch_channel_def ok_or_def party_defs)
  have rights: "may party_env (db_of ?pl) (party_user ''U'' ''V'') (TextChannel party_text) ManageChannel"
    "\<not> may party_env (db_of ?pl) (party_user ''U'' ''V'') (TextChannel party_text) ManagePermissions"
    using party_rights [of "[(''C'', TextChannel party_text)]"] by (auto simp: may_def has_channel_permission_def pv_has_def channel_permission_value.simps)
  from managers_reset_default_permissions [OF facts _ rights(1) run] rights(2) run show ?thesis by simp
qed

lemma refused_handover_is_announced_example:
  "\<exists>w. channel_edit party_env mongodb_channels (\<lambda>_. None) (\<lambda>_ _. ''excess'') (''I'', ''J'', ''K'', ''L'') (party_user ''U'' ''V'') ''G''
      (no_channel_edit\<lparr>dec_owner := Some ''V'', dec_add_moderators := Some [''U'']\<rparr>) (party_platform [(''G'', Group party_group)])
      = (Err NotOwner, (party_platform [(''G'', Group party_group)])\<lparr>pl_world := w\<rparr>)
    \<and> map_of (db_messages (w_db w)) ''I'' = Some (into_message ''I'' (SysChannelOwnershipChanged ''U'' ''V'') ''G'')"
proof -
  let ?pl = "party_platform [(''G'', Group party_group)]"
  obtain w where w: "send (into_message ''I'' (SysChannelOwnershipChanged ''U'' ''V'') ''G'') (Group (party_group\<lparr>group_owner := ''V''\<rparr>)) (pl_world ?pl)
      = (Ok (), w)" "map_of (db_messages (w_db w)) ''I'' = Some (into_message ''I'' (SysChannelOwnershipChanged ''U'' ''V'') ''G'')"
    by (simp add: send_def send_without_notifications_def run_channel_route on_db_def publish_def queue_task_def insert_message_def
        hm_contains_def into_message_def default_message_def has_suppressed_notifications_def contains_mass_push_mention_def
        is_direct_dm_def party_defs)
  have facts: "fetch_channel (db_of ?pl) ''G'' = Ok (Group party_group)" "group_owner party_group = ''U''" "group_id party_group = ''G''"
    "''V'' \<in> set (group_recipients party_group)" "user_id (party_user ''U'' ''V'') = ''U''"
    by (simp_all add: fetch_channel_def ok_or_def party_defs)
  let ?d = "no_channel_edit\<lparr>dec_owner := Some ''V'', dec_add_moderators := Some [''U'']\<rparr>"
  have "changes_moderators ?d" by (simp add: changes_moderators_def)
  with refused_handover_is_announced [OF facts(1), of "\<lambda>_. None" ?d "party_user ''U'' ''V''" "''V''" "(''I'', ''J'', ''K'', ''L'')" w] facts w
  show ?thesis by auto
qed

end
