(* ===== verification/Spec2Isabelle.thy ===== *)
theory Spec2Isabelle
  imports Result_Errors Bulk_Permissions Relationship_Properties Usernames Beacon_Properties Ratelimits
    Message_Properties Coalesced Voice_Properties Server_Properties Channel_Properties
begin

text \<open>
  A verification library for the Company backend: a chat platform in Rust with a REST API
  (\<open>crates/delta\<close>), a database layer that also holds the behaviour of users, servers, channels and
  messages (\<open>crates/core/database\<close>), small core crates (permissions, result, parser, coalesced,
  ratelimits, config), services and daemons, and a separate signalling server
  (\<open>company-beacon-signal\<close>).

  \<^bold>\<open>How the parts interact.\<close> A route of \<open>delta\<close> fetches the objects a request names, calculates the
  permissions of the requesting user (\<open>calculate_*_permissions\<close> over a \<open>DatabasePermissionQuery\<close>),
  refuses or calls a method of the database crate; the method writes through the \<open>Abstract*\<close> traits
  and publishes events. Rate limits and idempotency keys guard the routes; the mention parser and
  the bulk permission query decide who is notified about a message.

  \<^bold>\<open>Conventions.\<close> Paths below are relative to \<open>src/\<close>; \<open>database/\<close> stands for
  \<open>crates/core/database/src/\<close>.
  \<^item> A method that returns \<open>Result\<close> gives \<open>Ok\<close>, \<open>Err\<close> or \<open>Panic\<close>; a method that writes is a state
    transformer that keeps the state reached before an error (\<open>Prelude\<close>).
  \<^item> \<open>u64\<close> and \<open>u32\<close> are words, \<open>i64\<close> is an integer with the casts written out, lengths are naturals.
  \<^item> A \<open>HashMap\<close> is an association list whose order stands for the unspecified iteration order.
  \<^item> Clocks, drawn identifiers, the case folding of Unicode, generated code (the lexer of the parser,
    the derived \<open>apply_options\<close> and validators) and third-party libraries are arguments of the
    definitions; a property names what it needs of them as a hypothesis, and its witness gives an
    instance.

  \<^bold>\<open>Theories.\<close>
  \<^item> \<open>Prelude\<close>: integers, outcomes, state transformers, hash maps (locale \<open>keyed_map\<close>), sorting.
  \<^item> \<open>Result_Errors\<close>: \<open>crates/core/result\<close>, the error types and the HTTP status tables of both web
    frameworks, which agree.
  \<^item> \<open>Permissions\<close>, \<open>Permission_Calc\<close>: \<open>crates/core/permissions\<close>, the permission bits, overrides and
    the three calculations over an abstract query (locale \<open>permission_provider\<close>).
  \<^item> \<open>User_Models\<close>, \<open>Server_Models\<close>, \<open>Message_Models\<close>: the stored data of
    \<open>database/models/*/model.rs\<close> with the methods that read or edit one value.
  \<^item> \<open>Reference_Db\<close>, \<open>Reference_Db_Laws\<close>: the in-memory driver (\<open>database/drivers/reference.rs\<close> and
    \<open>database/models/*/ops/reference.rs\<close>), one record of tables and one function per operation; the
    tables stay keyed by the identifiers of their entries, insertion and lookup fit together, and three
    operations do not do what their documentation says.
  \<^item> \<open>Permission_Query\<close>: \<open>database/util/permissions.rs\<close>, interpreted as a provider; gives the
    permissions on servers, server channels and direct messages bit by bit and the safety results.
  \<^item> \<open>Bulk_Permissions\<close>: \<open>database/util/bulk_permissions.rs\<close>; its visibility answers equal those of the
    single calculation, its permission values do not for members in time out.
  \<^item> \<open>World\<close>: database, published events, broker, queued tasks and configured limits.
  \<^item> \<open>Users\<close>, \<open>Relationships\<close>, \<open>Relationship_Properties\<close>, \<open>Usernames\<close>, \<open>Example_Users\<close>:
    \<open>database/models/users/model.rs\<close> and the routes under \<open>crates/delta/src/routes/users\<close>; the
    handlers refine a specification on pairs of statuses, blocks persist, friendship needs consent,
    the number of outgoing requests is bounded, name and discriminator identify a user.
  \<^item> \<open>Message_Parser\<close>, \<open>Idempotency\<close>, \<open>Files\<close>, \<open>Messages\<close>, \<open>Message_Properties\<close>: \<open>crates/core/parser\<close>,
    \<open>database/util/idempotency.rs\<close>, \<open>database/models/{files,emojis,messages}/model.rs\<close> and the route
    \<open>message_send\<close>.
  \<^item> \<open>Voice\<close>, \<open>Voice_Calls\<close>, \<open>Voice_Laws\<close>, \<open>Voice_Properties\<close>: \<open>database/voice\<close>, the routes
    \<open>voice_join\<close> and \<open>voice_leave\<close> and the webhooks of \<open>crates/daemons/voice-ingress\<close>, over a Redis store
    whose commands may fail and a log of the requests to the media server. What every operation keeps
    of the store is proved once in the locales \<open>store_invariant\<close>, \<open>shrinking_invariant\<close> and
    \<open>membership_invariant\<close>; the two records of who is in a call agree, and joining needs the
    permission and room.
  \<^item> \<open>Steps\<close>: what a state transformer keeps of a view of the state, and its symbolic execution from one
    database, shared by the proofs about calls, servers and channels.
  \<^item> \<open>Servers\<close>, \<open>Server_Routes\<close>, \<open>Server_Laws\<close>, \<open>Server_Properties\<close>: the handlers of
    \<open>database/models/{servers,server_members,server_bans}/model.rs\<close> and the routes under
    \<open>crates/delta/src/routes/servers\<close> that change something. A member acts on no role and no member at
    or above the own rank, permissions are only passed on by those who have them, a ban keeps out;
    three rights are not checked.
  \<^item> \<open>Channel_Drivers\<close>, \<open>Channels\<close>, \<open>Channel_Routes\<close>, \<open>Channel_Laws\<close>, \<open>Channel_Properties\<close>: the trait
    \<open>AbstractChannels\<close> as a record with the reference and the MongoDB driver as instances, the handlers of
    \<open>database/models/channels/model.rs\<close> and the routes under \<open>crates/delta/src/routes/channels\<close> and
    \<open>users/open_dm.rs\<close> that change channels. The locale \<open>channel_store\<close> states what both drivers do to the
    stored channels, \<open>direct_message_store\<close> what only MongoDB does. The requests refine a specification,
    groups stay well formed, direct messages are unique, leaving takes effect; one right is not
    checked and one refused handover is announced.
  \<^item> \<open>Coalesced\<close>: \<open>crates/core/coalesced\<close>, concurrent calls as a step relation.
  \<^item> \<open>Ratelimits\<close>: \<open>crates/core/ratelimits\<close> and the resolvers of the three services that use it.
  \<^item> \<open>Beacon_Signal\<close>, \<open>Beacon_Properties\<close>: \<open>company-beacon-signal\<close>, its registry, sessions, limiter
    and connections as a step relation.

  \<^bold>\<open>Bounds and fuel.\<close> The mention parser and the search for a free discriminator are total functions
  with termination proofs or finite search spaces; nothing runs on fuel. Sequences of requests and
  interleavings have any length.

  \<^bold>\<open>Not modelled.\<close> The MongoDB driver except for channels and the migrations (queries for an external server), the AMQP broker,
  the push, file, embed and GIF services (external protocols), the conversions to the API models
  (copies of fields), deserialisation and the web framework glue.
\<close>

end
